(* ===== verification/Prelude.thy ===== *)
theory Prelude
  imports Main "HOL-Library.AList"
begin

section \<open>Prelude: the JavaScript values and containers the components share\<close>

text \<open>
  What every component of the model uses of the language and its standard library:
  strings (\<open>trim\<close>, \<open>toLowerCase\<close>, \<open>includes\<close>, \<open>startsWith\<close>, \<open>split\<close>, \<open>slice\<close>),
  numbers as \<open>JSON.parse\<close> delivers them with \<open>String(n)\<close>, JSON values, truthiness,
  and \<open>Map\<close>.

  A JavaScript string is a sequence of 16-bit code units; the model's \<open>string\<close> holds code
  units below 256, on which the operations here are the ECMAScript ones (lower case
  and white space include the Latin-1 range).

  A JavaScript \<open>Map\<close> is an association list in insertion order: \<open>set\<close> overwrites the
  entry of an existing key in place and appends a new one (\<open>AList.update\<close>), \<open>delete\<close>
  removes the entry (\<open>AList.delete\<close>), \<open>get\<close> is \<open>map_of\<close>.
\<close>

subsection \<open>Collections of facts\<close>

named_theorems js_string_simps \<open>unfolding the string operations on concrete strings\<close>
named_theorems js_map_simps \<open>get after set and delete on a Map\<close>

subsection \<open>Strings\<close>

definition js_space :: "char \<Rightarrow> bool" where
  "js_space c = ((of_char c :: nat) \<in> set [9, 10, 11, 12, 13, 32, 160])"

definition js_trimStart :: "string \<Rightarrow> string" where
  "js_trimStart s = dropWhile js_space s"

definition js_trim :: "string \<Rightarrow> string" where
  "js_trim s = rev (js_trimStart (rev (js_trimStart s)))"

definition js_lower_char :: "char \<Rightarrow> char" where
  "js_lower_char c =
     (let n = (of_char c :: nat)
      in if 65 \<le> n \<and> n \<le> 90 \<or> 192 \<le> n \<and> n \<le> 222 \<and> n \<noteq> 215 then char_of (n + 32) else c)"

definition js_toLowerCase :: "string \<Rightarrow> string" where
  "js_toLowerCase s = map js_lower_char s"

definition js_startsWith :: "string \<Rightarrow> string \<Rightarrow> bool" where
  "js_startsWith s p = (take (length p) s = p)"

fun js_includes :: "string \<Rightarrow> string \<Rightarrow> bool" where
  "js_includes [] p = (p = [])"
| "js_includes (c # s) p = (js_startsWith (c # s) p \<or> js_includes s p)"

fun js_split :: "char \<Rightarrow> string \<Rightarrow> string list" where
  "js_split sep [] = [[]]"
| "js_split sep (c # s) =
     (if c = sep then [] # js_split sep s
      else (case js_split sep s of [] \<Rightarrow> [[c]] | w # ws \<Rightarrow> (c # w) # ws))"

lemma js_trim_idem [simp]: "js_trim (js_trim s) = js_trim s"
proof -
  have drop: "dropWhile P (dropWhile P xs) = dropWhile P xs" for P and xs :: string
    by (induction xs) auto
  have last: "dropWhile P xs = [] \<or> \<not> P (hd (dropWhile P xs))" for P and xs :: string
    by (induction xs) auto
  show ?thesis
  proof (cases "js_trim s")
    case Nil
    show ?thesis unfolding Nil by (simp add: js_trim_def js_trimStart_def)
  next
    case (Cons c cs)
    let ?a = "dropWhile js_space s"
    have trim: "js_trim s = rev (dropWhile js_space (rev ?a))" by (simp add: js_trim_def js_trimStart_def)
    obtain zs where zs: "rev ?a = zs @ dropWhile js_space (rev ?a)"
      by (metis takeWhile_dropWhile_id)
    then have "?a = js_trim s @ rev zs" by (metis rev_append rev_rev_ident trim)
    then have "hd ?a = c" using Cons by simp
    moreover have "?a \<noteq> []"
    proof
      assume "?a = []"
      then have "js_trim s = []" by (simp only: trim) simp
      then show False using Cons by simp
    qed
    ultimately have "\<not> js_space c" using last [of js_space s] by auto
    then have "dropWhile js_space (js_trim s) = js_trim s" using Cons by simp
    then show ?thesis by (simp add: js_trim_def js_trimStart_def drop)
  qed
qed

text \<open>\<open>js_slice n s\<close> is \<open>s.slice(0, n)\<close>.\<close>

definition js_slice :: "nat \<Rightarrow> string \<Rightarrow> string" where
  "js_slice n s = take n s"

fun js_join :: "string \<Rightarrow> string list \<Rightarrow> string" where
  "js_join sep [] = []"
| "js_join sep [w] = w"
| "js_join sep (w # ws) = w @ sep @ js_join sep ws"

text \<open>\<open>undefined\<close>, \<open>null\<close> and the empty string are falsy.\<close>

definition truthy_str :: "string option \<Rightarrow> bool" where
  "truthy_str v = (case v of None \<Rightarrow> False | Some s \<Rightarrow> s \<noteq> [])"

definition nullish :: "'a option \<Rightarrow> 'a \<Rightarrow> 'a" where
  "nullish v d = (case v of None \<Rightarrow> d | Some x \<Rightarrow> x)"

lemmas js_defs [js_string_simps] =
  js_space_def js_trimStart_def js_trim_def js_lower_char_def js_toLowerCase_def
  js_startsWith_def js_slice_def

lemma nullish_simps [simp]: "nullish None d = d" "nullish (Some x) d = x"
  by (simp_all add: nullish_def)

lemma truthy_str_simps [simp]: "\<not> truthy_str None" "truthy_str (Some s) = (s \<noteq> [])"
  by (simp_all add: truthy_str_def)

lemma truthy_strE [elim]:
  assumes "truthy_str v" obtains s where "v = Some s" "s \<noteq> []"
  using assms by (cases v) auto

lemma js_startsWith_iff: "js_startsWith s p \<longleftrightarrow> (\<exists>u. s = p @ u)"
  unfolding js_startsWith_def by (metis append_eq_conv_conj append_take_drop_id)

lemma js_includes_iff: "js_includes s p \<longleftrightarrow> (\<exists>u v. s = u @ p @ v)"
proof (induction s p rule: js_includes.induct)
  case (1 p)
  then show ?case by simp
next
  case (2 c s p)
  have "js_includes (c # s) p \<longleftrightarrow> (\<exists>v. c # s = p @ v) \<or> (\<exists>u v. s = u @ p @ v)"
    by (simp add: js_startsWith_iff 2)
  also have "\<dots> \<longleftrightarrow> (\<exists>u v. c # s = u @ p @ v)"
    by (metis append_Cons append_Nil neq_Nil_conv list.inject)
  finally show ?case .
qed

lemma js_includes_append [intro]: "js_includes (u @ p @ v) p"
  by (auto simp: js_includes_iff)

lemma js_split_not_Nil [simp]: "js_split sep s \<noteq> []"
  by (induction s) (auto split: list.splits)

lemma js_join_split: "js_join [sep] (js_split sep s) = s"
proof (induction s)
  case Nil
  then show ?case by simp
next
  case (Cons c s)
  obtain w ws where w: "js_split sep s = w # ws" by (cases "js_split sep s") auto
  then show ?case using Cons by (cases ws) auto
qed

lemma js_split_no_sep: "w \<in> set (js_split sep s) \<Longrightarrow> sep \<notin> set w"
  by (induction s arbitrary: w) (auto split: list.splits if_splits)

lemma js_trim_Nil_iff: "js_trim s = [] \<longleftrightarrow> (\<forall>c\<in>set s. js_space c)"
proof -
  have "js_trim s = [] \<longleftrightarrow> (\<forall>c\<in>set (dropWhile js_space s). js_space c)"
    by (simp add: js_trim_def js_trimStart_def dropWhile_eq_Nil_conv)
  also have "\<dots> \<longleftrightarrow> dropWhile js_space s = []"
    by (metis dropWhile_eq_Nil_conv hd_dropWhile list.set_sel(1) set_dropWhileD empty_iff list.set(1))
  finally show ?thesis by (simp add: dropWhile_eq_Nil_conv)
qed

lemma js_lower_char_idem [simp]: "js_lower_char (js_lower_char c) = js_lower_char c"
proof -
  define n where "n = (of_char c :: nat)"
  have n: "n < 256" by (simp add: n_def)
  have c: "c = char_of n" by (simp add: n_def)
  have of: "of_char (char_of (n + 32) :: char) = n + 32" if "n + 32 < 256"
    using that by (simp add: of_char_of)
  show ?thesis
    unfolding js_lower_char_def Let_def n_def [symmetric]
    by (auto simp: n_def [symmetric] of)
qed

lemma js_toLowerCase_idem [simp]: "js_toLowerCase (js_toLowerCase s) = js_toLowerCase s"
  by (simp add: js_toLowerCase_def)

lemma length_js_toLowerCase [simp]: "length (js_toLowerCase s) = length s"
  by (simp add: js_toLowerCase_def)

subsection \<open>Numbers\<close>

text \<open>
  A finite number is held by the decimal that identifies it, \<open>Finite m e\<close> for \<open>m * 10 ^ e\<close>:
  the digits and the exponent from which ECMAScript's \<open>Number::toString\<close> builds the
  text. \<open>JSON.parse\<close> also yields the infinities (\<open>1e999\<close>); \<open>NaN\<close> arises from arithmetic
  and from \<open>parseInt\<close>.
\<close>

datatype js_number = Finite int int | PosInf | NegInf | NaN

abbreviation js_int :: "int \<Rightarrow> js_number" where
  "js_int n \<equiv> Finite n 0"

fun isFinite :: "js_number \<Rightarrow> bool" where
  "isFinite (Finite m e) = True"
| "isFinite n = False"

fun js_is_zero :: "js_number \<Rightarrow> bool" where
  "js_is_zero (Finite m e) = (m = 0)"
| "js_is_zero n = False"

definition digit_char :: "nat \<Rightarrow> char" where
  "digit_char d = char_of (48 + d)"

fun show_nat :: "nat \<Rightarrow> string" where
  "show_nat n = (if n < 10 then [digit_char n] else show_nat (n div 10) @ [digit_char (n mod 10)])"

declare show_nat.simps [simp del]

lemma show_nat_digit: "n < 10 \<Longrightarrow> show_nat n = [digit_char n]"
  by (subst show_nat.simps) simp

lemma show_nat_digits: "10 \<le> n \<Longrightarrow> show_nat n = show_nat (n div 10) @ [digit_char (n mod 10)]"
  by (subst show_nat.simps) simp

lemma digit_char_table:
  "digit_char 0 = CHR ''0''" "digit_char (Suc 0) = CHR ''1''" "digit_char 2 = CHR ''2''" "digit_char 3 = CHR ''3''"
  "digit_char 4 = CHR ''4''" "digit_char 5 = CHR ''5''" "digit_char 6 = CHR ''6''" "digit_char 7 = CHR ''7''"
  "digit_char 8 = CHR ''8''" "digit_char 9 = CHR ''9''"
  by (simp_all add: digit_char_def) code_simp+

lemmas show_nat_eval = show_nat_digit show_nat_digits digit_char_table

definition show_int :: "int \<Rightarrow> string" where
  "show_int i = (if i < 0 then ''-'' @ show_nat (nat (- i)) else show_nat (nat i))"

text \<open>
  \<open>Number::toString\<close> (ECMA-262): \<open>k\<close> digits with the decimal point after the first \<open>n\<close>;
  plain notation when \<open>- 6 < n\<close> and \<open>n \<le> 21\<close>, scientific notation otherwise.
\<close>

definition digits_to_string :: "string \<Rightarrow> int \<Rightarrow> string" where
  "digits_to_string ds e =
     (let k = int (length ds); n = k + e
      in if k \<le> n \<and> n \<le> 21 then ds @ replicate (nat (n - k)) CHR ''0''
         else if 0 < n \<and> n \<le> 21 then take (nat n) ds @ ''.'' @ drop (nat n) ds
         else if - 6 < n \<and> n \<le> 0 then ''0.'' @ replicate (nat (- n)) CHR ''0'' @ ds
         else (let ex = (if n - 1 < 0 then show_int (n - 1) else ''+'' @ show_int (n - 1))
               in if k = 1 then ds @ ''e'' @ ex else take 1 ds @ ''.'' @ drop 1 ds @ ''e'' @ ex))"

fun number_to_string :: "js_number \<Rightarrow> string" where
  "number_to_string (Finite m e) =
     (if m = 0 then ''0''
      else if m < 0 then ''-'' @ digits_to_string (show_nat (nat (- m))) e
      else digits_to_string (show_nat (nat m)) e)"
| "number_to_string PosInf = ''Infinity''"
| "number_to_string NegInf = ''-Infinity''"
| "number_to_string NaN = ''NaN''"

lemma show_nat_not_Nil [simp]: "show_nat n \<noteq> []"
  by (subst show_nat.simps) auto

lemma show_int_not_Nil [simp]: "show_int i \<noteq> []"
  by (simp add: show_int_def)

lemma digits_to_string_not_Nil: "ds \<noteq> [] \<Longrightarrow> digits_to_string ds e \<noteq> []"
  by (auto simp: digits_to_string_def Let_def)

lemma number_to_string_not_Nil [simp]: "number_to_string n \<noteq> []"
  by (cases n) (auto simp: digits_to_string_not_Nil)

subsection \<open>JSON values\<close>

datatype json =
    JNull
  | JBool bool
  | JNum js_number
  | JStr string
  | JArr "json list"
  | JObj "(string \<times> json) list"

text \<open>\<open>v.k\<close> of an object: \<open>None\<close> is \<open>undefined\<close>. \<open>JSON.parse\<close> keeps one entry per key.\<close>

fun field :: "json \<Rightarrow> string \<Rightarrow> json option" where
  "field (JObj fs) k = map_of fs k"
| "field v k = None"

fun json_truthy :: "json option \<Rightarrow> bool" where
  "json_truthy None = False"
| "json_truthy (Some JNull) = False"
| "json_truthy (Some (JBool b)) = b"
| "json_truthy (Some (JNum n)) = (\<not> js_is_zero n \<and> n \<noteq> NaN)"
| "json_truthy (Some (JStr s)) = (s \<noteq> [])"
| "json_truthy (Some (JArr xs)) = True"
| "json_truthy (Some (JObj fs)) = True"

text \<open>\<open>v ?? d\<close>: both \<open>undefined\<close> and \<open>null\<close> select the default.\<close>

fun json_nullish :: "json option \<Rightarrow> json \<Rightarrow> json" where
  "json_nullish None d = d"
| "json_nullish (Some JNull) d = d"
| "json_nullish (Some v) d = v"

fun as_string :: "json option \<Rightarrow> string option" where
  "as_string (Some (JStr s)) = Some s"
| "as_string v = None"

lemma as_string_Some [simp]: "as_string v = Some s \<longleftrightarrow> v = Some (JStr s)"
  by (cases v rule: as_string.cases) auto

fun_cases json_truthy_NoneE [elim!]: "json_truthy None"

subsection \<open>Maps in insertion order\<close>

type_synonym ('k, 'v) js_map = "('k \<times> 'v) list"

abbreviation map_get :: "('k, 'v) js_map \<Rightarrow> 'k \<Rightarrow> 'v option" where
  "map_get m k \<equiv> map_of m k"

abbreviation map_set :: "'k \<Rightarrow> 'v \<Rightarrow> ('k, 'v) js_map \<Rightarrow> ('k, 'v) js_map" where
  "map_set k v m \<equiv> AList.update k v m"

abbreviation map_delete :: "'k \<Rightarrow> ('k, 'v) js_map \<Rightarrow> ('k, 'v) js_map" where
  "map_delete k m \<equiv> AList.delete k m"

definition unique_keys :: "('k, 'v) js_map \<Rightarrow> bool" where
  "unique_keys m = distinct (map fst m)"

lemma map_get_set [js_map_simps]:
  "map_get (map_set k v m) k' = (if k' = k then Some v else map_get m k')"
  by (simp add: update_conv')

lemma map_get_delete [js_map_simps]:
  "map_get (map_delete k m) k' = (if k' = k then None else map_get m k')"
  by (simp add: delete_conv')

lemma unique_keys_Nil [simp]: "unique_keys []"
  by (simp add: unique_keys_def)

lemma unique_keys_set [simp, intro]: "unique_keys m \<Longrightarrow> unique_keys (map_set k v m)"
  by (simp add: unique_keys_def distinct_update)

lemma unique_keys_delete [simp, intro]: "unique_keys m \<Longrightarrow> unique_keys (map_delete k m)"
  by (simp add: unique_keys_def distinct_delete)

lemma unique_keys_filter [simp, intro]: "unique_keys m \<Longrightarrow> unique_keys (filter P m)"
  by (simp add: unique_keys_def distinct_map_filter)

lemma map_get_mem: "unique_keys m \<Longrightarrow> map_get m k = Some v \<longleftrightarrow> (k, v) \<in> set m"
  by (simp add: unique_keys_def)

lemma set_map_delete [js_map_simps]: "set (map_delete k m) = {e \<in> set m. fst e \<noteq> k}"
  by (auto simp: AList.delete_eq)

lemma map_set_fresh: "map_get m k = None \<Longrightarrow> map_set k v m = m @ [(k, v)]"
  by (induction m) (auto split: if_splits)

lemma set_map_set:
  "unique_keys m \<Longrightarrow> set (map_set k v m) = insert (k, v) {e \<in> set m. fst e \<noteq> k}"
  by (induction m) (force simp: unique_keys_def)+

lemma length_map_delete_present:
  "unique_keys m \<Longrightarrow> map_get m k = Some v \<Longrightarrow> Suc (length (map_delete k m)) = length m"
proof (induction m)
  case Nil
  then show ?case by simp
next
  case (Cons p m)
  show ?case
  proof (cases "fst p = k")
    case True
    then have "k \<notin> fst ` set m" using Cons.prems by (auto simp: unique_keys_def)
    then have "map_delete k m = m" by (simp add: delete_idem)
    then show ?thesis using True by simp
  next
    case False
    then show ?thesis using Cons by (auto simp: unique_keys_def)
  qed
qed

subsection \<open>Counting\<close>

text \<open>How many entries of a list satisfy a predicate; used for exactly-once arguments.\<close>

definition count_if :: "('a \<Rightarrow> bool) \<Rightarrow> 'a list \<Rightarrow> nat" where
  "count_if P xs = length (filter P xs)"

lemma count_if_simps [simp]:
  "count_if P [] = 0"
  "count_if P (x # xs) = (if P x then Suc (count_if P xs) else count_if P xs)"
  "count_if P (xs @ ys) = count_if P xs + count_if P ys"
  by (simp_all add: count_if_def)

lemma count_if_zero_iff: "count_if P xs = 0 \<longleftrightarrow> (\<forall>x\<in>set xs. \<not> P x)"
  by (simp add: count_if_def filter_empty_conv)

lemma count_if_pos_iff: "0 < count_if P xs \<longleftrightarrow> (\<exists>x\<in>set xs. P x)"
  using count_if_zero_iff [of P xs] by auto

lemma count_if_delete:
  "unique_keys m \<Longrightarrow> map_get m k = Some v \<Longrightarrow>
     count_if P m = count_if P (map_delete k m) + (if P (k, v) then 1 else 0)"
proof (induction m)
  case Nil
  then show ?case by simp
next
  case (Cons p m)
  show ?case
  proof (cases "fst p = k")
    case True
    then have "k \<notin> fst ` set m" using Cons.prems by (auto simp: unique_keys_def)
    then have "map_delete k m = m" by (simp add: delete_idem)
    then show ?thesis using True Cons.prems by (cases p) auto
  next
    case False
    then show ?thesis using Cons by (auto simp: unique_keys_def)
  qed
qed

lemma count_if_set_fresh:
  "map_get m k = None \<Longrightarrow> count_if P (map_set k v m) = count_if P m + (if P (k, v) then 1 else 0)"
  by (simp add: map_set_fresh)

lemma count_if_partition: "count_if P xs = count_if P (filter Q xs) + count_if P (filter (\<lambda>x. \<not> Q x) xs)"
  by (induction xs) auto

end
