(* ===== verification/Protocol.thy ===== *)
theory Protocol
  imports Prelude
begin

section \<open>The agent protocol: message types, payload shapes and the envelope guard\<close>

text \<open>
  \<open>packages/protocol/src\<close>. Message type constants are the wire strings; payload types are
  records with the source's fields (an optional field is an \<open>option\<close>); the envelope
  guards of \<open>envelope.ts\<close> run on any JSON value, since they are what stands between the
  agent's bytes and the typed handlers.
\<close>

subsection \<open>Message types\<close>

definition AGENT_REGISTER :: string where "AGENT_REGISTER = ''agent.register''"
definition AGENT_REGISTERED :: string where "AGENT_REGISTERED = ''agent.registered''"
definition AGENT_HEARTBEAT :: string where "AGENT_HEARTBEAT = ''agent.heartbeat''"
definition CONTAINER_LIST :: string where "CONTAINER_LIST = ''container.list''"
definition CONTAINER_LISTED :: string where "CONTAINER_LISTED = ''container.listed''"
definition CONTAINER_INSPECT :: string where "CONTAINER_INSPECT = ''container.inspect''"
definition CONTAINER_INSPECTED :: string where "CONTAINER_INSPECTED = ''container.inspected''"
definition CONTAINER_START :: string where "CONTAINER_START = ''container.start''"
definition CONTAINER_STOP :: string where "CONTAINER_STOP = ''container.stop''"
definition CONTAINER_RESTART :: string where "CONTAINER_RESTART = ''container.restart''"
definition CONTAINER_RESULT :: string where "CONTAINER_RESULT = ''container.result''"
definition CONTAINER_REMOVE :: string where "CONTAINER_REMOVE = ''container.remove''"
definition CONTAINER_PAUSE :: string where "CONTAINER_PAUSE = ''container.pause''"
definition CONTAINER_UNPAUSE :: string where "CONTAINER_UNPAUSE = ''container.unpause''"
definition LOGS_SUBSCRIBE :: string where "LOGS_SUBSCRIBE = ''logs.subscribe''"
definition LOGS_UNSUBSCRIBE :: string where "LOGS_UNSUBSCRIBE = ''logs.unsubscribe''"
definition LOGS_CHUNK :: string where "LOGS_CHUNK = ''logs.chunk''"
definition METRICS_HOST :: string where "METRICS_HOST = ''metrics.host''"

lemmas message_type_defs =
  AGENT_REGISTER_def AGENT_REGISTERED_def AGENT_HEARTBEAT_def CONTAINER_LIST_def
  CONTAINER_LISTED_def CONTAINER_INSPECT_def CONTAINER_INSPECTED_def CONTAINER_START_def
  CONTAINER_STOP_def CONTAINER_RESTART_def CONTAINER_RESULT_def CONTAINER_REMOVE_def
  CONTAINER_PAUSE_def CONTAINER_UNPAUSE_def LOGS_SUBSCRIBE_def LOGS_UNSUBSCRIBE_def
  LOGS_CHUNK_def METRICS_HOST_def

subsection \<open>Agents\<close>

datatype AgentStatus = ONLINE | OFFLINE | UNKNOWN

fun AgentStatus_string :: "AgentStatus \<Rightarrow> string" where
  "AgentStatus_string ONLINE = ''ONLINE''"
| "AgentStatus_string OFFLINE = ''OFFLINE''"
| "AgentStatus_string UNKNOWN = ''UNKNOWN''"

record AgentRegisterPayload =
  reg_uuid :: string
  reg_hostname :: string
  reg_os :: string
  reg_architecture :: string
  reg_version :: string

record AgentRegisteredPayload =
  rgd_id :: string
  rgd_uuid :: string
  rgd_status :: string
  rgd_message :: string

definition AgentRegisteredPayload_json :: "AgentRegisteredPayload \<Rightarrow> json" where
  "AgentRegisteredPayload_json p =
     JObj [(''id'', JStr (rgd_id p)), (''uuid'', JStr (rgd_uuid p)),
           (''status'', JStr (rgd_status p)), (''message'', JStr (rgd_message p))]"

subsection \<open>Containers\<close>

record ContainerPort =
  port_private :: js_number
  port_public :: string
  port_protocol :: string
  port_ip :: "string option"

record ContainerSummary =
  c_id :: string
  c_name :: string
  c_image :: string
  c_status :: string
  c_state :: string
  c_ports :: "ContainerPort list"
  c_created :: js_number

datatype ContainerAction = Start | Stop | Restart | Remove | Pause | Unpause

fun action_name :: "ContainerAction \<Rightarrow> string" where
  "action_name Start = ''start''"
| "action_name Stop = ''stop''"
| "action_name Restart = ''restart''"
| "action_name Remove = ''remove''"
| "action_name Pause = ''pause''"
| "action_name Unpause = ''unpause''"

text \<open>
  The two answers an agent sends to a command. The gateway copies most fields of the
  payload unread, so those stay JSON (\<open>undefined\<close> is \<open>None\<close>).
\<close>

record ContainerResultPayload =
  res_requestId :: string
  res_action :: "json option"
  res_containerId :: "json option"
  res_ok :: bool
  res_message :: json
  res_error :: json

record ContainerInspectedPayload =
  ins_requestId :: string
  ins_container :: json
  ins_ok :: bool
  ins_error :: json

text \<open>The wire shape of a summary: an undefined \<open>ip\<close> is left out of the object.\<close>

definition ContainerPort_json :: "ContainerPort \<Rightarrow> json" where
  "ContainerPort_json p =
     JObj ([(''private'', JNum (port_private p)), (''public'', JStr (port_public p)),
            (''protocol'', JStr (port_protocol p))]
           @ (case port_ip p of None \<Rightarrow> [] | Some ip \<Rightarrow> [(''ip'', JStr ip)]))"

definition ContainerSummary_json :: "ContainerSummary \<Rightarrow> json" where
  "ContainerSummary_json c =
     JObj [(''id'', JStr (c_id c)), (''name'', JStr (c_name c)), (''image'', JStr (c_image c)),
           (''status'', JStr (c_status c)), (''state'', JStr (c_state c)),
           (''ports'', JArr (map ContainerPort_json (c_ports c))),
           (''created'', JNum (c_created c))]"

definition ContainerListedPayload_json :: "ContainerSummary list \<Rightarrow> json" where
  "ContainerListedPayload_json cs = JObj [(''containers'', JArr (map ContainerSummary_json cs))]"

subsection \<open>Logs and metrics\<close>

record LogsChunkPayload =
  chunk_requestId :: string
  chunk_containerId :: "json option"
  chunk_entries :: "json list"

text \<open>
  A host sample as the gateway forwards it: \<open>cpu\<close> and \<open>memory\<close> are read by nobody on the
  server, \<open>collectedAt\<close> only by the metrics service.
\<close>

record HostMetricsPayload =
  hm_collectedAt :: "json option"
  hm_cpu :: json
  hm_memory :: json

subsection \<open>Envelopes\<close>

record MessageEnvelope =
  env_type :: string
  env_payload :: json

definition isJsonObject :: "json option \<Rightarrow> bool" where
  "isJsonObject v = (case v of Some (JObj fs) \<Rightarrow> True | _ \<Rightarrow> False)"

definition isMessageEnvelope :: "json \<Rightarrow> bool" where
  "isMessageEnvelope v =
     (if \<not> isJsonObject (Some v) then False
      else (case field v ''type'' of Some (JStr t) \<Rightarrow> True | _ \<Rightarrow> False)
           \<and> isJsonObject (field v ''payload''))"

definition createEnvelope :: "string \<Rightarrow> json \<Rightarrow> MessageEnvelope" where
  "createEnvelope t p = \<lparr>env_type = t, env_payload = p\<rparr>"

definition MessageEnvelope_json :: "MessageEnvelope \<Rightarrow> json" where
  "MessageEnvelope_json e = JObj [(''type'', JStr (env_type e)), (''payload'', env_payload e)]"

lemma isJsonObject_iff: "isJsonObject v \<longleftrightarrow> (\<exists>fs. v = Some (JObj fs))"
  by (auto simp: isJsonObject_def split: option.splits json.splits)

lemma isMessageEnvelope_iff:
  "isMessageEnvelope v \<longleftrightarrow>
     (\<exists>fs t ps. v = JObj fs \<and> map_of fs ''type'' = Some (JStr t) \<and> map_of fs ''payload'' = Some (JObj ps))"
proof (cases v)
  case (JObj fs)
  then show ?thesis
    by (auto simp: isMessageEnvelope_def isJsonObject_iff split: option.splits json.splits)
qed (auto simp: isMessageEnvelope_def isJsonObject_iff)

text \<open>What the server sends passes the guard both sides apply to what they receive.\<close>

lemma createEnvelope_guard:
  "isMessageEnvelope (MessageEnvelope_json (createEnvelope t (JObj fs)))"
  by (auto simp: isMessageEnvelope_iff MessageEnvelope_json_def createEnvelope_def)

end
