(* ===== verification/ListedParser.thy ===== *)
theory ListedParser
  imports Protocol
begin

section \<open>Validation of \<open>container.listed\<close> payloads\<close>

text \<open>
  \<open>apps/server/src/agents/container-listed.parser.ts\<close>: the one place where the server
  checks the agent's bytes field by field. The parser is total on JSON; \<open>None\<close> is the
  source's \<open>null\<close>.
\<close>

definition isRecord :: "json option \<Rightarrow> bool" where
  "isRecord v = (case v of Some (JObj fs) \<Rightarrow> True | _ \<Rightarrow> False)"

definition isString :: "json option \<Rightarrow> bool" where
  "isString v = (case v of Some (JStr s) \<Rightarrow> True | _ \<Rightarrow> False)"

definition isFiniteNumber :: "json option \<Rightarrow> bool" where
  "isFiniteNumber v = (case v of Some (JNum n) \<Rightarrow> isFinite n | _ \<Rightarrow> False)"

text \<open>Reading a field the guards have already typed.\<close>

fun the_str :: "json option \<Rightarrow> string" where
  "the_str (Some (JStr s)) = s"
| "the_str v = []"

fun the_num :: "json option \<Rightarrow> js_number" where
  "the_num (Some (JNum n)) = n"
| "the_num v = NaN"

definition optional_ip :: "json option \<Rightarrow> string option" where
  "optional_ip v = (if isString v \<and> the_str v \<noteq> [] then Some (the_str v) else None)"

definition parseContainerPort :: "json \<Rightarrow> ContainerPort option" where
  "parseContainerPort v =
     (if \<not> isRecord (Some v) then None
      else if isFiniteNumber (field v ''private'') \<and> isString (field v ''public'')
              \<and> isString (field v ''protocol'')
      then Some \<lparr>port_private = the_num (field v ''private''),
                 port_public = the_str (field v ''public''),
                 port_protocol = the_str (field v ''protocol''),
                 port_ip = optional_ip (field v ''ip'')\<rparr>
      else if isFiniteNumber (field v ''PrivatePort'') \<and> isString (field v ''Type'')
      then (let publicPort = field v ''PublicPort''
            in Some \<lparr>port_private = the_num (field v ''PrivatePort''),
                     port_public =
                       (if isFiniteNumber publicPort \<and> \<not> js_is_zero (the_num publicPort)
                        then number_to_string (the_num publicPort)
                        else if isString publicPort then the_str publicPort
                        else []),
                     port_protocol = the_str (field v ''Type''),
                     port_ip = optional_ip (field v ''IP'')\<rparr>)
      else None)"

text \<open>The loop over \<open>ports\<close>: entries that cannot be read are skipped.\<close>

fun parsePorts :: "json list \<Rightarrow> ContainerPort list" where
  "parsePorts [] = []"
| "parsePorts (e # es) =
     (case parseContainerPort e of None \<Rightarrow> parsePorts es | Some p \<Rightarrow> p # parsePorts es)"

definition parseContainerSummary :: "json \<Rightarrow> ContainerSummary option" where
  "parseContainerSummary v =
     (if \<not> isRecord (Some v) then None
      else
        (let id = field v ''id''; name = field v ''name''; image = field v ''image'';
             status = field v ''status''; state = field v ''state'';
             created = field v ''created''; ports = field v ''ports''
         in if \<not> isString id \<or> the_str id = [] \<or> \<not> isString name \<or> \<not> isString image
               \<or> \<not> isString status \<or> \<not> isString state \<or> \<not> isFiniteNumber created
            then None
            else Some \<lparr>c_id = the_str id, c_name = the_str name, c_image = the_str image,
                       c_status = the_str status, c_state = the_str state,
                       c_ports = (case ports of Some (JArr es) \<Rightarrow> parsePorts es | _ \<Rightarrow> []),
                       c_created = the_num created\<rparr>))"

record ParsedContainerListed =
  pl_containers :: "ContainerSummary list"
  pl_dropped :: nat

text \<open>The loop over \<open>containers\<close>, with its two accumulators.\<close>

fun parseContainers :: "json list \<Rightarrow> ContainerSummary list \<Rightarrow> nat \<Rightarrow> ParsedContainerListed" where
  "parseContainers [] containers dropped = \<lparr>pl_containers = containers, pl_dropped = dropped\<rparr>"
| "parseContainers (e # es) containers dropped =
     (case parseContainerSummary e of
        Some c \<Rightarrow> parseContainers es (containers @ [c]) dropped
      | None \<Rightarrow> parseContainers es containers (dropped + 1))"

definition parseContainerListedPayload :: "json \<Rightarrow> ParsedContainerListed" where
  "parseContainerListedPayload payload =
     (if \<not> isRecord (Some payload) then \<lparr>pl_containers = [], pl_dropped = 0\<rparr>
      else (case field payload ''containers'' of
              Some (JArr es) \<Rightarrow> parseContainers es [] 0
            | _ \<Rightarrow> \<lparr>pl_containers = [], pl_dropped = 0\<rparr>))"

subsection \<open>The loops in closed form\<close>

lemma isString_iff: "isString v \<longleftrightarrow> (\<exists>s. v = Some (JStr s))"
  by (auto simp: isString_def split: option.splits json.splits)

lemma isFiniteNumber_iff: "isFiniteNumber v \<longleftrightarrow> (\<exists>n. v = Some (JNum n) \<and> isFinite n)"
  by (auto simp: isFiniteNumber_def split: option.splits json.splits)

lemma isRecord_iff: "isRecord v \<longleftrightarrow> (\<exists>fs. v = Some (JObj fs))"
  by (auto simp: isRecord_def split: option.splits json.splits)

lemmas guard_iffs = isString_iff isFiniteNumber_iff isRecord_iff

lemma parsePorts_eq: "parsePorts es = List.map_filter parseContainerPort es"
  by (induction es) (auto simp: List.map_filter_def split: option.splits)

lemma parseContainers_eq:
  "parseContainers es cs d =
     \<lparr>pl_containers = cs @ List.map_filter parseContainerSummary es,
      pl_dropped = d + length (filter (\<lambda>e. parseContainerSummary e = None) es)\<rparr>"
  by (induction es arbitrary: cs d) (auto simp: List.map_filter_def split: option.splits)

lemma parseContainerListedPayload_array:
  assumes "map_of fs ''containers'' = Some (JArr es)"
  shows "parseContainerListedPayload (JObj fs) =
     \<lparr>pl_containers = List.map_filter parseContainerSummary es,
      pl_dropped = length (filter (\<lambda>e. parseContainerSummary e = None) es)\<rparr>"
  using assms by (simp add: parseContainerListedPayload_def isRecord_iff parseContainers_eq)

subsection \<open>What a parsed value satisfies\<close>

text \<open>The shape \<open>ContainerSummary\<close> promises to everything served from the inventory.\<close>

definition valid_port :: "ContainerPort \<Rightarrow> bool" where
  "valid_port p \<longleftrightarrow> isFinite (port_private p) \<and> port_ip p \<noteq> Some []"

definition valid_summary :: "ContainerSummary \<Rightarrow> bool" where
  "valid_summary c \<longleftrightarrow> c_id c \<noteq> [] \<and> isFinite (c_created c) \<and> (\<forall>p\<in>set (c_ports c). valid_port p)"

lemma optional_ip_not_empty: "optional_ip v \<noteq> Some []"
  by (auto simp: optional_ip_def)

lemma parseContainerPort_valid:
  assumes "parseContainerPort v = Some p"
  shows "valid_port p"
  using assms
  by (auto simp: parseContainerPort_def valid_port_def guard_iffs optional_ip_not_empty Let_def
      split: if_splits)

lemma parsePorts_valid: "p \<in> set (parsePorts es) \<Longrightarrow> valid_port p"
  by (induction es) (auto dest: parseContainerPort_valid split: option.splits)

lemma parseContainerSummary_valid:
  assumes "parseContainerSummary v = Some c"
  shows "valid_summary c"
  using assms
  by (auto simp: parseContainerSummary_def valid_summary_def guard_iffs Let_def parsePorts_valid
      split: if_splits option.splits json.splits)

lemma parseContainers_valid:
  assumes "\<forall>c\<in>set cs. valid_summary c" and "c \<in> set (pl_containers (parseContainers es cs d))"
  shows "valid_summary c"
  using assms by (auto simp: parseContainers_eq List.map_filter_def dest: parseContainerSummary_valid)

lemma parsed_valid [simp]: "\<forall>c\<in>set (pl_containers (parseContainerListedPayload payload)). valid_summary c"
  by (auto simp: parseContainerListedPayload_def split: option.splits json.splits
      intro: parseContainers_valid [of "[]"])

subsection \<open>Round trip\<close>

lemma parse_port_json: "valid_port p \<Longrightarrow> parseContainerPort (ContainerPort_json p) = Some p"
  by (cases p)
    (auto simp: parseContainerPort_def ContainerPort_json_def guard_iffs valid_port_def
      optional_ip_def split: option.splits)

lemma parsePorts_json: "\<forall>p\<in>set ps. valid_port p \<Longrightarrow> parsePorts (map ContainerPort_json ps) = ps"
  by (induction ps) (auto simp: parse_port_json)

lemma parse_summary_json: "valid_summary c \<Longrightarrow> parseContainerSummary (ContainerSummary_json c) = Some c"
  by (cases c)
    (auto simp: parseContainerSummary_def ContainerSummary_json_def guard_iffs valid_summary_def
      parsePorts_json Let_def)

lemma parseContainers_json:
  "\<forall>c\<in>set cs. valid_summary c \<Longrightarrow>
     parseContainers (map ContainerSummary_json cs) acc d = \<lparr>pl_containers = acc @ cs, pl_dropped = d\<rparr>"
  by (induction cs arbitrary: acc) (auto simp: parse_summary_json)

subsection \<open>Properties of the parser\<close>

text \<open>
  Parsing a container report keeps, in order, exactly the entries that parse on their own and
  counts the others: every summary in the result has the promised shape, none is made up,
  and one malformed entry costs only itself.
\<close>

theorem report_parser_filters:
  assumes "field payload ''containers'' = Some (JArr es)"
  shows "(\<forall>c\<in>set (pl_containers (parseContainerListedPayload payload)). valid_summary c) \<and>
         pl_containers (parseContainerListedPayload payload) = List.map_filter parseContainerSummary es \<and>
         length (pl_containers (parseContainerListedPayload payload))
           + pl_dropped (parseContainerListedPayload payload) = length es"
proof -
  obtain fs where payload: "payload = JObj fs" using assms by (cases payload) auto
  have parsed: "parseContainerListedPayload payload =
     \<lparr>pl_containers = List.map_filter parseContainerSummary es,
      pl_dropped = length (filter (\<lambda>e. parseContainerSummary e = None) es)\<rparr>"
    using parseContainerListedPayload_array [of fs es] assms by (simp add: payload)
  have "length (List.map_filter parseContainerSummary es)
          + length (filter (\<lambda>e. parseContainerSummary e = None) es) = length es"
    by (induction es) (auto simp: List.map_filter_def)
  moreover have "valid_summary c" if "c \<in> set (List.map_filter parseContainerSummary es)" for c
    using that by (auto simp: List.map_filter_def dest: parseContainerSummary_valid)
  ultimately show ?thesis by (simp add: parsed)
qed

theorem report_parser_filters_witness:
  "pl_dropped (parseContainerListedPayload (JObj [(''containers'', JArr [JNull])])) = 1"
  using report_parser_filters [of "JObj [(''containers'', JArr [JNull])]" "[JNull]"]
  by (auto simp: List.map_filter_def parseContainerSummary_def isRecord_def)

text \<open>
  C35. What an agent encodes is what the server stores: any list of well-formed summaries, written
  as a \<open>container.listed\<close> payload, is parsed back to itself and nothing is dropped.
\<close>

theorem report_parser_roundtrip:
  assumes "\<forall>c\<in>set cs. valid_summary c"
  shows "parseContainerListedPayload (ContainerListedPayload_json cs) = \<lparr>pl_containers = cs, pl_dropped = 0\<rparr>"
  using parseContainers_json [OF assms, of "[]" 0]
  by (simp add: parseContainerListedPayload_def ContainerListedPayload_json_def isRecord_def)

definition demo_summary :: ContainerSummary where
  "demo_summary = \<lparr>c_id = ''c1'', c_name = ''web'', c_image = ''nginx'', c_status = ''Up'', c_state = ''running'',
     c_ports = [\<lparr>port_private = js_int 80, port_public = ''8080'', port_protocol = ''tcp'', port_ip = None\<rparr>],
     c_created = js_int 5\<rparr>"

theorem report_parser_roundtrip_witness:
  "parseContainerListedPayload (ContainerListedPayload_json [demo_summary]) = \<lparr>pl_containers = [demo_summary], pl_dropped = 0\<rparr>"
  by (rule report_parser_roundtrip) (simp add: demo_summary_def valid_summary_def valid_port_def)

end
