(* ===== verification/HostDirectory.thy ===== *)
theory HostDirectory
  imports Protocol
begin

section \<open>The contract of a per-host cache\<close>

text \<open>
  Two services of the server keep the latest report of each host in memory: the container
  inventory and the host metrics. Both map an agent uuid to a host id (\<open>rememberHost\<close>),
  store a report under the host id an agent resolves to, and answer by host id or by agent
  uuid. The gateway and the hosts service rely on the laws below and on nothing else.

  \<open>resolve\<close> is the source's \<open>hostId ?? this.hostIdByUuid.get(agentUuid)\<close> followed by the
  falsy test.
\<close>

definition resolve_host :: "string option \<Rightarrow> string option \<Rightarrow> string option" where
  "resolve_host explicit known =
     (let r = (case explicit of None \<Rightarrow> known | Some h \<Rightarrow> Some h)
      in if truthy_str r then r else None)"

lemma resolve_host_Some: "resolve_host e k = Some h \<Longrightarrow> h \<noteq> []"
  by (auto simp: resolve_host_def Let_def split: if_splits)

lemma resolve_host_simps [simp]:
  "h \<noteq> [] \<Longrightarrow> resolve_host (Some h) k = Some h"
  "h \<noteq> [] \<Longrightarrow> resolve_host None (Some h) = Some h"
  "resolve_host None None = None"
  by (simp_all add: resolve_host_def)

locale host_directory =
  fixes remember :: "string \<Rightarrow> string \<Rightarrow> 's \<Rightarrow> 's"
    and store :: "string \<Rightarrow> 'v \<Rightarrow> string option \<Rightarrow> 's \<Rightarrow> 'r option \<times> 's"
    and by_host :: "string \<Rightarrow> 's \<Rightarrow> 'r option"
    and by_uuid :: "string \<Rightarrow> 's \<Rightarrow> 'r option"
    and host_of :: "'s \<Rightarrow> string \<Rightarrow> string option"
    and entry :: "string \<Rightarrow> string \<Rightarrow> 'v \<Rightarrow> 'r"
  assumes remember_host_of: "host_of (remember h u s) u' = (if u' = u then Some h else host_of s u')"
    and remember_other: "h' \<noteq> h \<Longrightarrow> by_host h' (remember h u s) = by_host h' s"
    and store_unknown: "resolve_host e (host_of s u) = None \<Longrightarrow> store u v e s = (None, s)"
    and store_result: "resolve_host e (host_of s u) = Some h \<Longrightarrow> fst (store u v e s) = Some (entry h u v)"
    and store_host_of: "resolve_host e (host_of s u) = Some h \<Longrightarrow>
          host_of (snd (store u v e s)) u' = (if u' = u then Some h else host_of s u')"
    and store_by_host: "resolve_host e (host_of s u) = Some h \<Longrightarrow>
          by_host h' (snd (store u v e s)) = (if h' = h then Some (entry h u v) else by_host h' s)"
    and by_uuid_resolves: "by_uuid u s =
          (case resolve_host None (host_of s u) of None \<Rightarrow> None | Some h \<Rightarrow> by_host h s)"
begin

lemma store_then_lookup:
  assumes "resolve_host e (host_of s u) = Some h"
  shows "by_host h (snd (store u v e s)) = Some (entry h u v)"
    and "by_uuid u (snd (store u v e s)) = Some (entry h u v)"
  using assms resolve_host_Some [OF assms]
  by (simp_all add: store_by_host store_host_of by_uuid_resolves)

lemma remembered_store:
  assumes "h \<noteq> []"
  shows "by_host h (snd (store u v None (remember h u s))) = Some (entry h u v)"
  using assms by (intro store_then_lookup(1)) (simp add: remember_host_of)

lemma store_keeps_other_hosts:
  assumes "resolve_host e (host_of s u) = Some h" "h' \<noteq> h"
  shows "by_host h' (snd (store u v e s)) = by_host h' s"
  using assms by (simp add: store_by_host)

text \<open>Whatever else is stored in between, a host's entry is the last report stored for it.\<close>

fun store_all :: "(string \<times> 'v \<times> string option) list \<Rightarrow> 's \<Rightarrow> 's" where
  "store_all [] s = s"
| "store_all ((u, v, e) # rs) s = store_all rs (snd (store u v e s))"

lemma store_all_other_hosts:
  assumes "\<forall>(u, v, e)\<in>set rs. \<exists>h''. e = Some h'' \<and> h'' \<noteq> [] \<and> h'' \<noteq> h'"
  shows "by_host h' (store_all rs s) = by_host h' s"
  using assms
proof (induction rs arbitrary: s)
  case Nil
  then show ?case by simp
next
  case (Cons r rs)
  obtain u v e where r: "r = (u, v, e)" by (cases r)
  with Cons.prems obtain h'' where "e = Some h''" "h'' \<noteq> []" "h'' \<noteq> h'" by auto
  with Cons r show ?case by (simp add: store_keeps_other_hosts)
qed

lemma latest_store:
  assumes "h \<noteq> []" and "\<forall>(u', v', e)\<in>set rs. \<exists>h''. e = Some h'' \<and> h'' \<noteq> [] \<and> h'' \<noteq> h"
  shows "by_host h (store_all ((u, v, Some h) # rs) s) = Some (entry h u v)"
  using assms by (simp add: store_all_other_hosts store_then_lookup)

end

end
