(* ===== verification/Inventory.thy ===== *)
theory Inventory
  imports HostDirectory ListedParser
begin

section \<open>The container inventory\<close>

text \<open>
  \<open>apps/server/src/agents/container-inventory.service.ts\<close>. Dates are milliseconds since the
  epoch; \<open>new Date()\<close> is the \<open>now\<close> argument, \<open>new Date(0)\<close> is 0.
\<close>

record HostContainerSnapshot =
  snap_hostId :: string
  snap_agentUuid :: string
  snap_containers :: "ContainerSummary list"
  snap_updatedAt :: int

record inventory =
  inv_byHostId :: "(string, HostContainerSnapshot) js_map"
  inv_hostIdByUuid :: "(string, string) js_map"

definition inventory_init :: inventory where
  "inventory_init = \<lparr>inv_byHostId = [], inv_hostIdByUuid = []\<rparr>"

definition inv_rememberHost :: "string \<Rightarrow> string \<Rightarrow> inventory \<Rightarrow> inventory" where
  "inv_rememberHost hostId agentUuid s0 =
     (let s = s0\<lparr>inv_hostIdByUuid := map_set agentUuid hostId (inv_hostIdByUuid s0)\<rparr>
      in case map_get (inv_byHostId s) hostId of
           None \<Rightarrow>
             s\<lparr>inv_byHostId := map_set hostId
                 \<lparr>snap_hostId = hostId, snap_agentUuid = agentUuid, snap_containers = [],
                  snap_updatedAt = 0\<rparr> (inv_byHostId s)\<rparr>
         | Some existing \<Rightarrow>
             if snap_agentUuid existing \<noteq> agentUuid
             then s\<lparr>inv_byHostId := map_set hostId (existing\<lparr>snap_agentUuid := agentUuid\<rparr>) (inv_byHostId s)\<rparr>
             else s)"

definition inv_setContainers ::
  "string \<Rightarrow> ContainerSummary list \<times> int \<Rightarrow> string option \<Rightarrow> inventory \<Rightarrow> HostContainerSnapshot option \<times> inventory"
where
  "inv_setContainers agentUuid cs_now hostId s =
     (case resolve_host hostId (map_get (inv_hostIdByUuid s) agentUuid) of
        None \<Rightarrow> (None, s)
      | Some resolvedHostId \<Rightarrow>
          (let snapshot = \<lparr>snap_hostId = resolvedHostId, snap_agentUuid = agentUuid,
                           snap_containers = fst cs_now, snap_updatedAt = snd cs_now\<rparr>
           in (Some snapshot,
               s\<lparr>inv_byHostId := map_set resolvedHostId snapshot (inv_byHostId s),
                 inv_hostIdByUuid := map_set agentUuid resolvedHostId (inv_hostIdByUuid s)\<rparr>)))"

definition inv_getByHostId :: "string \<Rightarrow> inventory \<Rightarrow> HostContainerSnapshot option" where
  "inv_getByHostId hostId s = map_get (inv_byHostId s) hostId"

definition inv_getByUuid :: "string \<Rightarrow> inventory \<Rightarrow> HostContainerSnapshot option" where
  "inv_getByUuid agentUuid s =
     (let hostId = map_get (inv_hostIdByUuid s) agentUuid
      in if \<not> truthy_str hostId then None
         else (case hostId of None \<Rightarrow> None | Some h \<Rightarrow> map_get (inv_byHostId s) h))"

text \<open>What callers do with a snapshot: \<open>?.containers ?? []\<close>.\<close>

definition snapshot_containers :: "HostContainerSnapshot option \<Rightarrow> ContainerSummary list" where
  "snapshot_containers r = (case r of None \<Rightarrow> [] | Some s \<Rightarrow> snap_containers s)"

definition inv_entry :: "string \<Rightarrow> string \<Rightarrow> ContainerSummary list \<times> int \<Rightarrow> HostContainerSnapshot" where
  "inv_entry h u v = \<lparr>snap_hostId = h, snap_agentUuid = u, snap_containers = fst v, snap_updatedAt = snd v\<rparr>"

definition inv_host_of :: "inventory \<Rightarrow> string \<Rightarrow> string option" where
  "inv_host_of s u = map_get (inv_hostIdByUuid s) u"

lemmas inventory_defs =
  inv_rememberHost_def inv_setContainers_def inv_getByHostId_def inv_getByUuid_def
  inv_host_of_def inv_entry_def

interpretation inv: host_directory inv_rememberHost inv_setContainers inv_getByHostId
  inv_getByUuid inv_host_of inv_entry
  by unfold_locales
    (auto simp: inventory_defs js_map_simps Let_def resolve_host_def split: option.splits if_splits)

subsection \<open>The invariant of the two maps\<close>

text \<open>
  Every snapshot sits under its own host id, keys are unique, and a remembered host always
  has a snapshot, so a lookup by a known uuid never misses.
\<close>

definition inventory_inv :: "inventory \<Rightarrow> bool" where
  "inventory_inv s \<longleftrightarrow>
     unique_keys (inv_byHostId s) \<and> unique_keys (inv_hostIdByUuid s) \<and>
     (\<forall>h r. map_get (inv_byHostId s) h = Some r \<longrightarrow> snap_hostId r = h) \<and>
     (\<forall>u h. map_get (inv_hostIdByUuid s) u = Some h \<longrightarrow> map_get (inv_byHostId s) h \<noteq> None)"

lemma inventory_inv_init [simp]: "inventory_inv inventory_init"
  by (simp add: inventory_inv_def inventory_init_def)

lemma inv_rememberHost_inv: "inventory_inv s \<Longrightarrow> inventory_inv (inv_rememberHost h u s)"
  by (auto simp: inventory_inv_def inv_rememberHost_def js_map_simps Let_def split: option.splits if_splits)

lemma inv_setContainers_inv: "inventory_inv s \<Longrightarrow> inventory_inv (snd (inv_setContainers u v e s))"
  by (auto simp: inventory_inv_def inv_setContainers_def js_map_simps Let_def split: option.splits if_splits)

text \<open>Every stored summary has the shape the parser checks.\<close>

definition inventory_valid :: "inventory \<Rightarrow> bool" where
  "inventory_valid s \<longleftrightarrow>
     (\<forall>h r. map_get (inv_byHostId s) h = Some r \<longrightarrow> (\<forall>c\<in>set (snap_containers r). valid_summary c))"

lemma inventory_valid_init [simp]: "inventory_valid inventory_init"
  by (simp add: inventory_valid_def inventory_init_def)

lemma inv_rememberHost_valid: "inventory_valid s \<Longrightarrow> inventory_valid (inv_rememberHost h u s)"
  by (auto simp: inventory_valid_def inv_rememberHost_def js_map_simps Let_def split: option.splits if_splits)

lemma inv_setContainers_valid:
  "inventory_valid s \<Longrightarrow> \<forall>c\<in>set (fst v). valid_summary c \<Longrightarrow> inventory_valid (snd (inv_setContainers u v e s))"
  by (auto simp: inventory_valid_def inv_setContainers_def js_map_simps Let_def split: option.splits if_splits)

lemma inventory_valid_containers:
  assumes "inventory_valid s" "c \<in> set (snapshot_containers (inv_getByHostId h s))"
  shows "valid_summary c"
proof (cases "map_get (inv_byHostId s) h")
  case None
  then show ?thesis using assms(2) by (simp add: inv_getByHostId_def snapshot_containers_def)
next
  case (Some r)
  then have "c \<in> set (snap_containers r)" using assms(2) by (simp add: inv_getByHostId_def snapshot_containers_def)
  then show ?thesis using assms(1) Some by (auto simp: inventory_valid_def)
qed

text \<open>Remembering a host never loses containers that are already known.\<close>

lemma inv_rememberHost_containers:
  "snapshot_containers (inv_getByHostId h' (inv_rememberHost h u s)) =
     snapshot_containers (inv_getByHostId h' s)"
  by (auto simp: inventory_defs snapshot_containers_def js_map_simps Let_def split: option.splits)

end
