(* ===== verification/HostMetrics.thy ===== *)
theory HostMetrics
  imports HostDirectory
begin

section \<open>The host metrics cache\<close>

text \<open>
  \<open>apps/server/src/metrics/host-metrics.service.ts\<close>. \<open>date_parse\<close> is \<open>new Date(value)\<close>
  on the unvalidated field: the instant in milliseconds, or \<open>None\<close> for an \<open>Invalid Date\<close>.
\<close>

type_synonym date_parser = "json \<Rightarrow> int option"

record HostMetricsSnapshot =
  ms_hostId :: string
  ms_agentUuid :: string
  ms_cpu :: json
  ms_memory :: json
  ms_collectedAt :: int
  ms_receivedAt :: int

record host_metrics =
  met_byHostId :: "(string, HostMetricsSnapshot) js_map"
  met_hostIdByUuid :: "(string, string) js_map"

definition host_metrics_init :: host_metrics where
  "host_metrics_init = \<lparr>met_byHostId = [], met_hostIdByUuid = []\<rparr>"

definition parseTimestamp :: "date_parser \<Rightarrow> int \<Rightarrow> json option \<Rightarrow> int" where
  "parseTimestamp date_parse now v =
     (case v of
        None \<Rightarrow> now
      | Some x \<Rightarrow>
          if \<not> json_truthy (Some x) then now
          else (case date_parse x of None \<Rightarrow> now | Some t \<Rightarrow> t))"

definition met_rememberHost :: "string \<Rightarrow> string \<Rightarrow> host_metrics \<Rightarrow> host_metrics" where
  "met_rememberHost hostId agentUuid s =
     s\<lparr>met_hostIdByUuid := map_set agentUuid hostId (met_hostIdByUuid s)\<rparr>"

definition met_set ::
  "date_parser \<Rightarrow> string \<Rightarrow> HostMetricsPayload \<times> int \<Rightarrow> string option \<Rightarrow> host_metrics \<Rightarrow> HostMetricsSnapshot option \<times> host_metrics"
where
  "met_set date_parse agentUuid payload_now hostId s =
     (case resolve_host hostId (map_get (met_hostIdByUuid s) agentUuid) of
        None \<Rightarrow> (None, s)
      | Some resolvedHostId \<Rightarrow>
          (let payload = fst payload_now; now = snd payload_now;
               snapshot = \<lparr>ms_hostId = resolvedHostId, ms_agentUuid = agentUuid,
                           ms_cpu = hm_cpu payload, ms_memory = hm_memory payload,
                           ms_collectedAt = parseTimestamp date_parse now (hm_collectedAt payload),
                           ms_receivedAt = now\<rparr>
           in (Some snapshot,
               s\<lparr>met_byHostId := map_set resolvedHostId snapshot (met_byHostId s),
                 met_hostIdByUuid := map_set agentUuid resolvedHostId (met_hostIdByUuid s)\<rparr>)))"

definition met_getByHostId :: "string \<Rightarrow> host_metrics \<Rightarrow> HostMetricsSnapshot option" where
  "met_getByHostId hostId s = map_get (met_byHostId s) hostId"

definition met_getByUuid :: "string \<Rightarrow> host_metrics \<Rightarrow> HostMetricsSnapshot option" where
  "met_getByUuid agentUuid s =
     (let hostId = map_get (met_hostIdByUuid s) agentUuid
      in if \<not> truthy_str hostId then None
         else (case hostId of None \<Rightarrow> None | Some h \<Rightarrow> map_get (met_byHostId s) h))"

definition met_entry :: "date_parser \<Rightarrow> string \<Rightarrow> string \<Rightarrow> HostMetricsPayload \<times> int \<Rightarrow> HostMetricsSnapshot" where
  "met_entry date_parse h u v =
     \<lparr>ms_hostId = h, ms_agentUuid = u, ms_cpu = hm_cpu (fst v), ms_memory = hm_memory (fst v),
      ms_collectedAt = parseTimestamp date_parse (snd v) (hm_collectedAt (fst v)), ms_receivedAt = snd v\<rparr>"

definition met_host_of :: "host_metrics \<Rightarrow> string \<Rightarrow> string option" where
  "met_host_of s u = map_get (met_hostIdByUuid s) u"

lemmas host_metrics_defs =
  met_rememberHost_def met_set_def met_getByHostId_def met_getByUuid_def met_host_of_def met_entry_def

interpretation met: host_directory met_rememberHost "met_set date_parse" met_getByHostId
  met_getByUuid met_host_of "met_entry date_parse"
  for date_parse
  by unfold_locales
    (auto simp: host_metrics_defs js_map_simps Let_def resolve_host_def split: option.splits if_splits)

subsection \<open>Timestamps\<close>

lemma parseTimestamp_cases:
  "parseTimestamp dp now v = now \<or> (\<exists>x. v = Some x \<and> json_truthy v \<and> dp x = Some (parseTimestamp dp now v))"
  by (auto simp: parseTimestamp_def split: option.splits)

subsection \<open>The invariant\<close>

definition host_metrics_inv :: "host_metrics \<Rightarrow> bool" where
  "host_metrics_inv s \<longleftrightarrow>
     unique_keys (met_byHostId s) \<and> unique_keys (met_hostIdByUuid s) \<and>
     (\<forall>h r. map_get (met_byHostId s) h = Some r \<longrightarrow> ms_hostId r = h)"

lemma host_metrics_inv_init [simp]: "host_metrics_inv host_metrics_init"
  by (simp add: host_metrics_inv_def host_metrics_init_def)

lemma met_rememberHost_inv: "host_metrics_inv s \<Longrightarrow> host_metrics_inv (met_rememberHost h u s)"
  by (auto simp: host_metrics_inv_def met_rememberHost_def)

lemma met_set_inv: "host_metrics_inv s \<Longrightarrow> host_metrics_inv (snd (met_set dp u v e s))"
  by (auto simp: host_metrics_inv_def met_set_def js_map_simps Let_def split: option.splits if_splits)

end
