(* ===== verification/AgentStore.thy ===== *)
theory AgentStore
  imports Protocol "HOL-Library.Multiset"
begin

section \<open>The agents table and the agents service\<close>

text \<open>
  \<open>apps/server/src/agents/agents.service.ts\<close> over the table \<open>agents\<close> of
  \<open>apps/server/prisma/schema.prisma\<close>. Prisma's client is not in the repository: it is the
  parameter \<open>P\<close> of every operation, a record of the delegate calls the service makes, each a
  function from the table's rows to an error or a result. The locale \<open>prisma_agents\<close> names
  the documented behaviour the service relies on, always under the condition that the call
  succeeded: any call may fail (an unreachable database) at any time.
\<close>

subsection \<open>Rows\<close>

record agent =
  ag_id :: string
  ag_uuid :: string
  ag_hostname :: string
  ag_displayName :: "string option"
  ag_os :: string
  ag_architecture :: string
  ag_version :: string
  ag_status :: AgentStatus
  ag_lastSeen :: "int option"
  ag_createdAt :: int
  ag_updatedAt :: int

type_synonym agent_table = "agent list"

datatype prisma_error = KnownRequestError string | OtherPrismaError string

datatype agent_where = WhereUuid string | WhereId string

fun row_matches :: "agent_where \<Rightarrow> agent \<Rightarrow> bool" where
  "row_matches (WhereUuid u) a = (ag_uuid a = u)"
| "row_matches (WhereId i) a = (ag_id a = i)"

text \<open>The \<open>data\<close> of an update: a column that is not mentioned keeps its value.\<close>

record agent_data =
  set_hostname :: "string option"
  set_os :: "string option"
  set_architecture :: "string option"
  set_version :: "string option"
  set_status :: "AgentStatus option"
  set_lastSeen :: "int option"
  set_displayName :: "string option"

definition no_change :: agent_data where
  "no_change = \<lparr>set_hostname = None, set_os = None, set_architecture = None, set_version = None,
                set_status = None, set_lastSeen = None, set_displayName = None\<rparr>"

definition apply_agent_data :: "agent_data \<Rightarrow> agent \<Rightarrow> agent" where
  "apply_agent_data d a =
     a\<lparr>ag_hostname := nullish (set_hostname d) (ag_hostname a),
       ag_os := nullish (set_os d) (ag_os a),
       ag_architecture := nullish (set_architecture d) (ag_architecture a),
       ag_version := nullish (set_version d) (ag_version a),
       ag_status := nullish (set_status d) (ag_status a),
       ag_lastSeen := (case set_lastSeen d of None \<Rightarrow> ag_lastSeen a | Some t \<Rightarrow> Some t),
       ag_displayName := (case set_displayName d of None \<Rightarrow> ag_displayName a | Some n \<Rightarrow> Some n)\<rparr>"

record agent_create =
  new_uuid :: string
  new_hostname :: string
  new_os :: string
  new_architecture :: string
  new_version :: string
  new_status :: AgentStatus
  new_lastSeen :: int

definition created_from :: "agent_create \<Rightarrow> agent \<Rightarrow> bool" where
  "created_from c a \<longleftrightarrow>
     ag_uuid a = new_uuid c \<and> ag_hostname a = new_hostname c \<and> ag_os a = new_os c \<and>
     ag_architecture a = new_architecture c \<and> ag_version a = new_version c \<and>
     ag_status a = new_status c \<and> ag_lastSeen a = Some (new_lastSeen c) \<and> ag_displayName a = None"

text \<open>Prisma sets \<open>updatedAt\<close> itself on every write.\<close>

definition same_row :: "agent \<Rightarrow> agent \<Rightarrow> bool" where
  "same_row a b \<longleftrightarrow> a\<lparr>ag_updatedAt := 0\<rparr> = b\<lparr>ag_updatedAt := 0\<rparr>"

text \<open>\<open>@id\<close> and \<open>@unique\<close>; a generated \<open>cuid()\<close> is never empty.\<close>

definition table_ok :: "agent_table \<Rightarrow> bool" where
  "table_ok t \<longleftrightarrow> distinct (map ag_id t) \<and> distinct (map ag_uuid t) \<and> (\<forall>a\<in>set t. ag_id a \<noteq> [])"

definition row_of :: "agent_table \<Rightarrow> string \<Rightarrow> agent option" where
  "row_of t u = find (row_matches (WhereUuid u)) t"

subsection \<open>The client's interface\<close>

record agent_client =
  pr_findUnique :: "agent_where \<Rightarrow> agent_table \<Rightarrow> prisma_error + agent option"
  pr_upsert :: "agent_where \<Rightarrow> agent_create \<Rightarrow> agent_data \<Rightarrow> agent_table \<Rightarrow> prisma_error + (agent \<times> agent_table)"
  pr_update :: "agent_where \<Rightarrow> agent_data \<Rightarrow> agent_table \<Rightarrow> prisma_error + (agent \<times> agent_table)"
  pr_findMany :: "agent_table \<Rightarrow> prisma_error + agent list"
  pr_delete :: "agent_where \<Rightarrow> agent_table \<Rightarrow> prisma_error + (agent \<times> agent_table)"

definition replace_row :: "agent_where \<Rightarrow> agent \<Rightarrow> agent_table \<Rightarrow> agent_table" where
  "replace_row w a t = map (\<lambda>r. if row_matches w r then a else r) t"

subsection \<open>The service\<close>

definition agents_register ::
  "agent_client \<Rightarrow> int \<Rightarrow> AgentRegisterPayload \<Rightarrow> agent_table \<Rightarrow> prisma_error + (AgentRegisteredPayload \<times> agent_table)"
where
  "agents_register P now payload t =
     (case pr_upsert P (WhereUuid (reg_uuid payload))
             \<lparr>new_uuid = reg_uuid payload, new_hostname = reg_hostname payload, new_os = reg_os payload,
              new_architecture = reg_architecture payload, new_version = reg_version payload,
              new_status = ONLINE, new_lastSeen = now\<rparr>
             (no_change\<lparr>set_hostname := Some (reg_hostname payload), set_os := Some (reg_os payload),
                        set_architecture := Some (reg_architecture payload),
                        set_version := Some (reg_version payload),
                        set_status := Some ONLINE, set_lastSeen := Some now\<rparr>) t of
        Inl e \<Rightarrow> Inl e
      | Inr (agent, t') \<Rightarrow>
          Inr (\<lparr>rgd_id = ag_id agent, rgd_uuid = ag_uuid agent,
                rgd_status = AgentStatus_string (ag_status agent),
                rgd_message = ''Registration successful''\<rparr>, t'))"

definition agents_heartbeat ::
  "agent_client \<Rightarrow> int \<Rightarrow> string \<Rightarrow> agent_table \<Rightarrow> prisma_error + (agent option \<times> agent_table)"
where
  "agents_heartbeat P now uuid t =
     (case pr_findUnique P (WhereUuid uuid) t of
        Inl e \<Rightarrow> Inl e
      | Inr None \<Rightarrow> Inr (None, t)
      | Inr (Some existing) \<Rightarrow>
          (case pr_update P (WhereUuid uuid)
                  (no_change\<lparr>set_status := Some ONLINE, set_lastSeen := Some now\<rparr>) t of
             Inl e \<Rightarrow> Inl e
           | Inr (a, t') \<Rightarrow> Inr (Some a, t')))"

text \<open>The \<open>catch\<close> of \<open>markOffline\<close> swallows every failure; the row is then as it was.\<close>

definition agents_markOffline :: "agent_client \<Rightarrow> string \<Rightarrow> agent_table \<Rightarrow> agent_table" where
  "agents_markOffline P uuid t =
     (case pr_update P (WhereUuid uuid) (no_change\<lparr>set_status := Some OFFLINE\<rparr>) t of
        Inl e \<Rightarrow> t
      | Inr (a, t') \<Rightarrow> t')"

definition agents_findByUuid :: "agent_client \<Rightarrow> string \<Rightarrow> agent_table \<Rightarrow> prisma_error + agent option" where
  "agents_findByUuid P uuid t = pr_findUnique P (WhereUuid uuid) t"

definition agents_findById :: "agent_client \<Rightarrow> string \<Rightarrow> agent_table \<Rightarrow> prisma_error + agent option" where
  "agents_findById P key t = pr_findUnique P (WhereId key) t"

definition agents_findAll :: "agent_client \<Rightarrow> agent_table \<Rightarrow> prisma_error + agent list" where
  "agents_findAll P t = pr_findMany P t"

definition agents_updateDisplayName ::
  "agent_client \<Rightarrow> string \<Rightarrow> string \<Rightarrow> agent_table \<Rightarrow> prisma_error + (agent option \<times> agent_table)"
where
  "agents_updateDisplayName P key displayName t =
     (case agents_findById P key t of
        Inl e \<Rightarrow> Inl e
      | Inr None \<Rightarrow> Inr (None, t)
      | Inr (Some existing) \<Rightarrow>
          (case pr_update P (WhereId key) (no_change\<lparr>set_displayName := Some displayName\<rparr>) t of
             Inl e \<Rightarrow> Inl e
           | Inr (a, t') \<Rightarrow> Inr (Some a, t')))"

definition agents_delete :: "agent_client \<Rightarrow> string \<Rightarrow> agent_table \<Rightarrow> prisma_error + agent_table" where
  "agents_delete P key t =
     (case pr_delete P (WhereId key) t of Inl e \<Rightarrow> Inl e | Inr (a, t') \<Rightarrow> Inr t')"

subsection \<open>Rows and lookups\<close>

lemma find_Some_mem: "find p t = Some a \<Longrightarrow> a \<in> set t \<and> p a"
  by (metis find_Some_iff nth_mem)

lemma find_unique:
  assumes "table_ok t" "a \<in> set t" "row_matches w a"
  shows "find (row_matches w) t = Some a"
proof -
  have "find (row_matches w) t \<noteq> None" using assms(2,3) by (auto simp: find_None_iff)
  then obtain b where b: "find (row_matches w) t = Some b" by auto
  then have "b \<in> set t" "row_matches w b" using find_Some_mem by metis+
  with assms have "b = a" by (cases w) (auto simp: table_ok_def distinct_map inj_on_def)
  with b show ?thesis by simp
qed

lemma row_of_iff: "table_ok t \<Longrightarrow> row_of t u = Some a \<longleftrightarrow> a \<in> set t \<and> ag_uuid a = u"
  using find_unique [of t a "WhereUuid u"] by (auto simp: row_of_def dest: find_Some_mem)

lemma same_row_fields:
  assumes "same_row a b"
  shows "ag_id a = ag_id b" "ag_uuid a = ag_uuid b" "ag_hostname a = ag_hostname b"
    "ag_displayName a = ag_displayName b" "ag_os a = ag_os b" "ag_version a = ag_version b"
    "ag_architecture a = ag_architecture b" "ag_status a = ag_status b"
    "ag_lastSeen a = ag_lastSeen b" "ag_createdAt a = ag_createdAt b"
  using assms by (auto simp: same_row_def intro: agent.equality elim!: agent.cases) (cases a; cases b; simp)+

lemma apply_agent_data_fields [simp]:
  "ag_id (apply_agent_data d a) = ag_id a"
  "ag_uuid (apply_agent_data d a) = ag_uuid a"
  "ag_createdAt (apply_agent_data d a) = ag_createdAt a"
  "ag_status (apply_agent_data d a) = nullish (set_status d) (ag_status a)"
  "ag_hostname (apply_agent_data d a) = nullish (set_hostname d) (ag_hostname a)"
  "set_displayName d = None \<Longrightarrow> ag_displayName (apply_agent_data d a) = ag_displayName a"
  "set_displayName d = Some n \<Longrightarrow> ag_displayName (apply_agent_data d a) = Some n"
  "set_lastSeen d = Some s \<Longrightarrow> ag_lastSeen (apply_agent_data d a) = Some s"
  "set_lastSeen d = None \<Longrightarrow> ag_lastSeen (apply_agent_data d a) = ag_lastSeen a"
  by (simp_all add: apply_agent_data_def)

lemma no_change_fields [simp]:
  "set_hostname no_change = None" "set_os no_change = None" "set_architecture no_change = None"
  "set_version no_change = None" "set_status no_change = None" "set_lastSeen no_change = None"
  "set_displayName no_change = None"
  by (simp_all add: no_change_def)

lemma replace_row_keys:
  assumes "table_ok t" "a0 \<in> set t" "row_matches w a0" "ag_id a = ag_id a0" "ag_uuid a = ag_uuid a0"
  shows "map ag_id (replace_row w a t) = map ag_id t" "map ag_uuid (replace_row w a t) = map ag_uuid t"
proof -
  have "r = a0" if "r \<in> set t" "row_matches w r" for r
    using find_unique [OF assms(1-3)] find_unique [OF assms(1) that] by simp
  then show "map ag_id (replace_row w a t) = map ag_id t" "map ag_uuid (replace_row w a t) = map ag_uuid t"
    using assms(4,5) by (auto simp: replace_row_def)
qed

lemma replace_row_table_ok:
  assumes "table_ok t" "find (row_matches w) t = Some a0" "ag_id a = ag_id a0" "ag_uuid a = ag_uuid a0"
  shows "table_ok (replace_row w a t)"
proof -
  have a0: "a0 \<in> set t" "row_matches w a0" using find_Some_mem [OF assms(2)] by auto
  have "\<forall>r\<in>set (replace_row w a t). ag_id r \<noteq> []"
    using assms(1,3) a0(1) by (auto simp: replace_row_def table_ok_def)
  then show ?thesis
    using assms(1) replace_row_keys [OF assms(1) a0 assms(3,4)] by (simp add: table_ok_def)
qed

lemma row_of_replace:
  assumes "table_ok t" "find (row_matches w) t = Some a0" "ag_id a = ag_id a0" "ag_uuid a = ag_uuid a0"
  shows "row_of (replace_row w a t) u = (if u = ag_uuid a0 then Some a else row_of t u)"
proof -
  have a0: "a0 \<in> set t" "row_matches w a0" using find_Some_mem [OF assms(2)] by auto
  have only: "r = a0" if "r \<in> set t" "row_matches w r" for r
    using find_unique [OF assms(1) a0] find_unique [OF assms(1) that] by simp
  have ok: "table_ok (replace_row w a t)" using replace_row_table_ok [OF assms] .
  show ?thesis
  proof (cases "u = ag_uuid a0")
    case True
    have "a \<in> set (replace_row w a t)" using a0 by (force simp: replace_row_def)
    then show ?thesis using True assms(4) row_of_iff [OF ok] by simp
  next
    case False
    have "b \<in> set (replace_row w a t) \<and> ag_uuid b = u \<longleftrightarrow> b \<in> set t \<and> ag_uuid b = u" for b
      using False assms(4) only by (auto simp: replace_row_def split: if_splits)
    then have "row_of (replace_row w a t) u = Some b \<longleftrightarrow> row_of t u = Some b" for b
      by (simp add: row_of_iff [OF ok] row_of_iff [OF assms(1)])
    then show ?thesis using False by (metis option.exhaust)
  qed
qed

lemma row_of_snoc: "row_of (t @ [a]) u = (case row_of t u of None \<Rightarrow> if ag_uuid a = u then Some a else None | Some b \<Rightarrow> Some b)"
  by (induction t) (auto simp: row_of_def)

subsection \<open>The service's contract\<close>

text \<open>What the gateway and the hosts service rely on.\<close>

locale agents_service =
  fixes register :: "int \<Rightarrow> AgentRegisterPayload \<Rightarrow> agent_table \<Rightarrow> prisma_error + (AgentRegisteredPayload \<times> agent_table)"
    and heartbeat :: "int \<Rightarrow> string \<Rightarrow> agent_table \<Rightarrow> prisma_error + (agent option \<times> agent_table)"
    and markOffline :: "string \<Rightarrow> agent_table \<Rightarrow> agent_table"
    and rename :: "string \<Rightarrow> string \<Rightarrow> agent_table \<Rightarrow> prisma_error + (agent option \<times> agent_table)"
  assumes register_ok: "table_ok t \<Longrightarrow> register now p t = Inr (r, t') \<Longrightarrow>
          table_ok t' \<and> rgd_uuid r = reg_uuid p \<and> rgd_id r \<noteq> [] \<and> rgd_status r = ''ONLINE'' \<and>
          (\<exists>a. row_of t' (reg_uuid p) = Some a \<and> ag_id a = rgd_id r \<and> ag_status a = ONLINE \<and>
               ag_lastSeen a = Some now \<and> ag_hostname a = reg_hostname p)"
    and register_known: "table_ok t \<Longrightarrow> register now p t = Inr (r, t') \<Longrightarrow> row_of t (reg_uuid p) = Some a \<Longrightarrow>
          \<exists>a'. row_of t' (reg_uuid p) = Some a' \<and> ag_id a' = ag_id a \<and> ag_displayName a' = ag_displayName a"
    and register_frame: "table_ok t \<Longrightarrow> register now p t = Inr (r, t') \<Longrightarrow> u \<noteq> reg_uuid p \<Longrightarrow>
          row_of t' u = row_of t u"
    and heartbeat_ok: "table_ok t \<Longrightarrow> heartbeat now u t = Inr (ao, t') \<Longrightarrow>
          table_ok t' \<and> (case row_of t u of
             None \<Rightarrow> ao = None \<and> t' = t
           | Some a \<Rightarrow> \<exists>a'. ao = Some a' \<and> row_of t' u = Some a' \<and> ag_id a' = ag_id a \<and>
               ag_displayName a' = ag_displayName a \<and> ag_status a' = ONLINE \<and> ag_lastSeen a' = Some now)"
    and heartbeat_frame: "table_ok t \<Longrightarrow> heartbeat now u t = Inr (ao, t') \<Longrightarrow> u' \<noteq> u \<Longrightarrow> row_of t' u' = row_of t u'"
    and markOffline_ok: "table_ok t \<Longrightarrow> table_ok (markOffline u t)"
    and markOffline_row: "table_ok t \<Longrightarrow> row_of t u = Some a \<Longrightarrow>
          \<exists>a'. row_of (markOffline u t) u = Some a' \<and> ag_id a' = ag_id a \<and>
               ag_displayName a' = ag_displayName a \<and> ag_lastSeen a' = ag_lastSeen a"
    and markOffline_frame: "table_ok t \<Longrightarrow> u' \<noteq> u \<Longrightarrow> row_of (markOffline u t) u' = row_of t u'"
    and rename_ok: "table_ok t \<Longrightarrow> rename i n t = Inr (Some a, t') \<Longrightarrow>
          table_ok t' \<and> ag_id a = i \<and> ag_displayName a = Some n \<and> row_of t' (ag_uuid a) = Some a"
begin

text \<open>An agent keeps its host id, and its display name, across every later registration.\<close>

lemma reregister_same_id:
  assumes "table_ok t" "register n1 p t = Inr (r1, t1)" "register n2 q t1 = Inr (r2, t2)"
    and "reg_uuid q = reg_uuid p"
  shows "rgd_id r2 = rgd_id r1"
proof -
  obtain a where a: "table_ok t1" "row_of t1 (reg_uuid p) = Some a" "ag_id a = rgd_id r1"
    using register_ok [OF assms(1,2)] by blast
  then have "row_of t1 (reg_uuid q) = Some a" using assms(4) by simp
  then show ?thesis
    using register_known [OF a(1) assms(3)] register_ok [OF a(1) assms(3)] a(3) by fastforce
qed

lemma register_keeps_row:
  assumes "table_ok t" "register n p t = Inr (r, t')" "row_of t u = Some a"
  shows "\<exists>a'. row_of t' u = Some a' \<and> ag_id a' = ag_id a \<and> ag_displayName a' = ag_displayName a"
proof (cases "u = reg_uuid p")
  case True
  with register_known [OF assms(1,2)] assms(3) show ?thesis by blast
next
  case False
  with register_frame [OF assms(1,2)] assms(3) show ?thesis by auto
qed

lemma heartbeat_keeps_row:
  assumes "table_ok t" "heartbeat n u0 t = Inr (r, t')" "row_of t u = Some a"
  shows "\<exists>a'. row_of t' u = Some a' \<and> ag_id a' = ag_id a \<and> ag_displayName a' = ag_displayName a"
proof (cases "u = u0")
  case True
  with heartbeat_ok [OF assms(1,2)] assms(3) show ?thesis by auto
next
  case False
  with heartbeat_frame [OF assms(1,2)] assms(3) show ?thesis by auto
qed

lemma markOffline_keeps_row:
  assumes "table_ok t" "row_of t u = Some a"
  shows "\<exists>a'. row_of (markOffline u0 t) u = Some a' \<and> ag_id a' = ag_id a \<and> ag_displayName a' = ag_displayName a"
proof (cases "u = u0")
  case True
  with markOffline_row [OF assms(1)] assms(2) show ?thesis by blast
next
  case False
  with markOffline_frame [OF assms(1)] assms(2) show ?thesis by auto
qed

end

subsection \<open>The documented behaviour of the Prisma delegate\<close>

locale prisma_agents =
  fixes P :: agent_client
  assumes findUnique_law: "pr_findUnique P w t = Inr r \<Longrightarrow> r = find (row_matches w) t"
    and update_law: "table_ok t \<Longrightarrow> pr_update P w d t = Inr (a, t') \<Longrightarrow>
          \<exists>a0. find (row_matches w) t = Some a0 \<and> same_row a (apply_agent_data d a0) \<and> t' = replace_row w a t"
    and upsert_existing: "table_ok t \<Longrightarrow> pr_upsert P (WhereUuid u) c d t = Inr (a, t') \<Longrightarrow>
          find (row_matches (WhereUuid u)) t = Some a0 \<Longrightarrow>
          same_row a (apply_agent_data d a0) \<and> t' = replace_row (WhereUuid u) a t"
    and upsert_new: "table_ok t \<Longrightarrow> pr_upsert P (WhereUuid u) c d t = Inr (a, t') \<Longrightarrow>
          find (row_matches (WhereUuid u)) t = None \<Longrightarrow> new_uuid c = u \<Longrightarrow>
          created_from c a \<and> ag_id a \<noteq> [] \<and> ag_id a \<notin> ag_id ` set t \<and> t' = t @ [a]"
    and findMany_law: "pr_findMany P t = Inr as \<Longrightarrow>
          mset as = mset t \<and> sorted_wrt (\<lambda>x y. ag_createdAt y \<le> ag_createdAt x) as"
    and delete_law: "table_ok t \<Longrightarrow> pr_delete P w t = Inr (a, t') \<Longrightarrow>
          find (row_matches w) t = Some a \<and> t' = filter (\<lambda>r. \<not> row_matches w r) t"

text \<open>Each write of the service, in terms of the row it touches.\<close>

context prisma_agents
begin

lemma update_row:
  assumes "table_ok t" "pr_update P w d t = Inr (a, t')"
  obtains a0 where "find (row_matches w) t = Some a0" "row_matches w a0" "table_ok t'"
    "ag_id a = ag_id a0" "ag_uuid a = ag_uuid a0"
    "ag_displayName a = ag_displayName (apply_agent_data d a0)"
    "ag_status a = ag_status (apply_agent_data d a0)" "ag_lastSeen a = ag_lastSeen (apply_agent_data d a0)"
    "\<And>u. row_of t' u = (if u = ag_uuid a0 then Some a else row_of t u)"
proof -
  obtain a0 where a0: "find (row_matches w) t = Some a0" "same_row a (apply_agent_data d a0)"
    and t': "t' = replace_row w a t"
    using update_law [OF assms] by blast
  note f = same_row_fields [OF a0(2)]
  have keys: "ag_id a = ag_id a0" "ag_uuid a = ag_uuid a0" using f by simp_all
  show ?thesis
    by (rule that [OF a0(1)])
      (use find_Some_mem [OF a0(1)] keys f in \<open>simp_all add: t' replace_row_table_ok [OF assms(1) a0(1) keys]
        row_of_replace [OF assms(1) a0(1) keys]\<close>)
qed

lemma register_cases:
  assumes "table_ok t" "agents_register P now p t = Inr (r, t')"
  obtains a where "table_ok t'" "row_of t' (reg_uuid p) = Some a" "ag_uuid a = reg_uuid p"
    "ag_id a = rgd_id r" "ag_status a = ONLINE" "ag_lastSeen a = Some now" "ag_hostname a = reg_hostname p"
    "rgd_uuid r = reg_uuid p" "rgd_status r = ''ONLINE''" "rgd_id r \<noteq> []"
    "\<And>u. u \<noteq> reg_uuid p \<Longrightarrow> row_of t' u = row_of t u"
    "\<And>b. row_of t (reg_uuid p) = Some b \<Longrightarrow> ag_id a = ag_id b \<and> ag_displayName a = ag_displayName b"
proof -
  define w where "w = WhereUuid (reg_uuid p)"
  obtain c d a where up: "pr_upsert P w c d t = Inr (a, t')"
    and r: "r = \<lparr>rgd_id = ag_id a, rgd_uuid = ag_uuid a, rgd_status = AgentStatus_string (ag_status a),
                rgd_message = ''Registration successful''\<rparr>"
    and d: "d = no_change\<lparr>set_hostname := Some (reg_hostname p), set_os := Some (reg_os p),
              set_architecture := Some (reg_architecture p), set_version := Some (reg_version p),
              set_status := Some ONLINE, set_lastSeen := Some now\<rparr>"
    and c: "new_uuid c = reg_uuid p" "new_hostname c = reg_hostname p" "new_status c = ONLINE" "new_lastSeen c = now"
    using assms(2) by (fastforce simp: agents_register_def w_def split: sum.splits prod.splits)
  show ?thesis
  proof (cases "find (row_matches w) t")
    case None
    have new: "created_from c a" "ag_id a \<noteq> []" "ag_id a \<notin> ag_id ` set t" "t' = t @ [a]"
      using upsert_new [OF assms(1) up [unfolded w_def] None [unfolded w_def] c(1)] by auto
    have fresh: "ag_uuid a \<notin> ag_uuid ` set t"
      using None new(1) c(1) by (auto simp: find_None_iff w_def created_from_def)
    have row: "row_of t' u = (if u = reg_uuid p then Some a else row_of t u)" for u
      using None new(1,4) c(1)
      using row_of_snoc [of t a u] by (auto simp: row_of_def w_def created_from_def split: option.splits)
    show ?thesis
      by (rule that [of a])
        (use new fresh row c r assms(1) None in \<open>auto simp: table_ok_def created_from_def row_of_def w_def\<close>)
  next
    case (Some a0)
    have ex: "same_row a (apply_agent_data d a0)" "t' = replace_row w a t"
      using upsert_existing [OF assms(1) up [unfolded w_def] Some [unfolded w_def]] by (auto simp: w_def)
    note f = same_row_fields [OF ex(1)]
    have a0: "a0 \<in> set t" "ag_uuid a0 = reg_uuid p" using find_Some_mem [OF Some] by (auto simp: w_def)
    have keys: "ag_id a = ag_id a0" "ag_uuid a = ag_uuid a0" using f by simp_all
    have row: "row_of t' u = (if u = reg_uuid p then Some a else row_of t u)" for u
      using row_of_replace [OF assms(1) Some keys] a0(2) by (simp add: ex(2))
    show ?thesis
      by (rule that [of a])
        (use f d r row a0 keys Some assms(1) replace_row_table_ok [OF assms(1) Some keys] in
          \<open>auto simp: ex(2) row_of_def w_def table_ok_def\<close>)
  qed
qed

end

sublocale prisma_agents \<subseteq> agents_service "agents_register P" "agents_heartbeat P" "agents_markOffline P"
  "agents_updateDisplayName P"
proof (unfold_locales, goal_cases)
  case (1 t now p r t')
  show ?case by (rule register_cases [OF 1]) simp
next
  case (2 t now p r t' a)
  show ?case by (rule register_cases [OF 2(1,2)]) (use 2(3) in simp)
next
  case (3 t now p r t' u)
  show ?case by (rule register_cases [OF 3(1,2)]) (use 3(3) in simp)
next
  case (4 t now u ao t')
  show ?case
  proof (cases "row_of t u")
    case None
    then show ?thesis using 4
      by (auto simp: agents_heartbeat_def row_of_def dest: findUnique_law split: sum.splits option.splits)
  next
    case (Some a0)
    then obtain a where a: "ao = Some a"
      and up: "pr_update P (WhereUuid u) (no_change\<lparr>set_status := Some ONLINE, set_lastSeen := Some now\<rparr>) t = Inr (a, t')"
      using 4 by (auto simp: agents_heartbeat_def row_of_def dest: findUnique_law split: sum.splits option.splits)
    show ?thesis
      by (rule update_row [OF 4(1) up]) (use Some a in \<open>auto simp: row_of_def\<close>)
  qed
next
  case (5 t now u ao t' u')
  show ?case
  proof (cases "t' = t")
    case False
    then obtain d a where up: "pr_update P (WhereUuid u) d t = Inr (a, t')"
      using 5(2) by (auto simp: agents_heartbeat_def split: sum.splits option.splits)
    show ?thesis by (rule update_row [OF 5(1) up]) (use 5(3) in simp)
  qed simp
next
  case (6 t u)
  show ?case
    by (auto simp: agents_markOffline_def 6 split: sum.splits intro: update_row [OF 6])
next
  case (7 t u a)
  show ?case
  proof (cases "pr_update P (WhereUuid u) (no_change\<lparr>set_status := Some OFFLINE\<rparr>) t")
    case (Inr r)
    then have up: "pr_update P (WhereUuid u) (no_change\<lparr>set_status := Some OFFLINE\<rparr>) t = Inr (fst r, snd r)"
      by simp
    show ?thesis
      by (rule update_row [OF 7(1) up])
        (use 7(2) up in \<open>auto simp: agents_markOffline_def row_of_def split: prod.splits\<close>)
  qed (use 7(2) in \<open>simp add: agents_markOffline_def\<close>)
next
  case (8 t u' u)
  show ?case
  proof (cases "pr_update P (WhereUuid u) (no_change\<lparr>set_status := Some OFFLINE\<rparr>) t")
    case (Inr r)
    then have up: "pr_update P (WhereUuid u) (no_change\<lparr>set_status := Some OFFLINE\<rparr>) t = Inr (fst r, snd r)"
      by simp
    show ?thesis
      by (rule update_row [OF 8(1) up])
        (use 8(2) up in \<open>auto simp: agents_markOffline_def split: prod.splits\<close>)
  qed (simp add: agents_markOffline_def)
next
  case (9 t i n a t')
  then have up: "pr_update P (WhereId i) (no_change\<lparr>set_displayName := Some n\<rparr>) t = Inr (a, t')"
    by (auto simp: agents_updateDisplayName_def split: sum.splits option.splits)
  show ?case by (rule update_row [OF 9(1) up]) simp
qed

subsection \<open>Histories of the service\<close>

text \<open>
  What agents and the gateway do to the table between two operator actions: calls of the
  three agent-driven operations, a failed call leaving the table as it was.
\<close>

datatype agent_event = Registers int AgentRegisterPayload | Beats int string | Disconnects string

fun agents_event :: "agent_client \<Rightarrow> agent_event \<Rightarrow> agent_table \<Rightarrow> agent_table" where
  "agents_event P (Registers now p) t = (case agents_register P now p t of Inl e \<Rightarrow> t | Inr (r, t') \<Rightarrow> t')"
| "agents_event P (Beats now u) t = (case agents_heartbeat P now u t of Inl e \<Rightarrow> t | Inr (r, t') \<Rightarrow> t')"
| "agents_event P (Disconnects u) t = agents_markOffline P u t"

context prisma_agents
begin

lemma event_table_ok: "table_ok t \<Longrightarrow> table_ok (agents_event P e t)"
  by (cases e) (auto split: sum.splits dest: register_ok heartbeat_ok intro: markOffline_ok)

lemma event_keeps_row:
  assumes "table_ok t" "row_of t u = Some a"
  shows "\<exists>a'. row_of (agents_event P e t) u = Some a' \<and> ag_id a' = ag_id a \<and> ag_displayName a' = ag_displayName a"
  using assms
  by (cases e)
    (auto split: sum.splits dest: register_keeps_row [OF assms(1) _ assms(2)]
      heartbeat_keeps_row [OF assms(1) _ assms(2)] intro: markOffline_keeps_row)

lemma history_keeps_row:
  assumes "table_ok t" "row_of t u = Some a"
  shows "\<exists>a'. row_of (fold (agents_event P) es t) u = Some a' \<and> ag_id a' = ag_id a \<and>
              ag_displayName a' = ag_displayName a"
  using assms
proof (induction es arbitrary: t a)
  case Nil
  then show ?case by simp
next
  case (Cons e es)
  obtain a1 where a1: "row_of (agents_event P e t) u = Some a1" "ag_id a1 = ag_id a"
    "ag_displayName a1 = ag_displayName a"
    using event_keeps_row [OF Cons.prems] by blast
  from Cons.IH [OF event_table_ok [OF Cons.prems(1)] a1(1)] show ?case using a1 by simp
qed

end

subsection \<open>An in-memory delegate\<close>

text \<open>
  A delegate that never fails and keeps the rows in a list; it satisfies the laws, so
  theorems that assume them are not about nothing, and it runs.
\<close>

definition mem_fresh_id :: "agent_table \<Rightarrow> string" where
  "mem_fresh_id t = replicate (Suc (foldr max (map (length \<circ> ag_id) t) 0)) CHR ''c''"

definition mem_update :: "agent_where \<Rightarrow> agent_data \<Rightarrow> agent_table \<Rightarrow> prisma_error + (agent \<times> agent_table)" where
  "mem_update w d t =
     (case find (row_matches w) t of
        None \<Rightarrow> Inl (KnownRequestError ''P2025'')
      | Some a0 \<Rightarrow> (let a = apply_agent_data d a0 in Inr (a, replace_row w a t)))"

definition mem_create :: "agent_create \<Rightarrow> agent_table \<Rightarrow> agent" where
  "mem_create c t =
     \<lparr>ag_id = mem_fresh_id t, ag_uuid = new_uuid c, ag_hostname = new_hostname c, ag_displayName = None,
      ag_os = new_os c, ag_architecture = new_architecture c, ag_version = new_version c,
      ag_status = new_status c, ag_lastSeen = Some (new_lastSeen c), ag_createdAt = new_lastSeen c,
      ag_updatedAt = new_lastSeen c\<rparr>"

definition mem_agents :: agent_client where
  "mem_agents =
     \<lparr>pr_findUnique = (\<lambda>w t. Inr (find (row_matches w) t)),
      pr_upsert = (\<lambda>w c d t. case find (row_matches w) t of
                    None \<Rightarrow> (let a = mem_create c t in Inr (a, t @ [a]))
                  | Some a0 \<Rightarrow> mem_update w d t),
      pr_update = mem_update,
      pr_findMany = (\<lambda>t. Inr (sort_key (\<lambda>a. - ag_createdAt a) t)),
      pr_delete = (\<lambda>w t. case find (row_matches w) t of
                    None \<Rightarrow> Inl (KnownRequestError ''P2025'')
                  | Some a \<Rightarrow> Inr (a, filter (\<lambda>r. \<not> row_matches w r) t))\<rparr>"

lemma mem_fresh_id_fresh: "x \<in> set t \<Longrightarrow> mem_fresh_id t \<noteq> ag_id x"
proof -
  assume x: "x \<in> set t"
  have "length (ag_id a) \<le> foldr max (map (length \<circ> ag_id) t) 0" if "a \<in> set t" for a
    using that by (induction t) auto
  then have "length (ag_id a) < length (mem_fresh_id t)" if "a \<in> set t" for a
    using that by (auto simp: mem_fresh_id_def less_Suc_eq_le)
  then show ?thesis using x by force
qed

lemma mem_fresh_id_not_Nil [simp]: "mem_fresh_id t \<noteq> []"
  by (simp add: mem_fresh_id_def)

interpretation mem_db: prisma_agents mem_agents
proof (unfold_locales, goal_cases)
  case (5 t as)
  have "sorted_wrt (\<lambda>x y. ag_createdAt y \<le> ag_createdAt x) (sort_key (\<lambda>a. - ag_createdAt a) t)"
    using sorted_sort_key [of "\<lambda>a. - ag_createdAt a" t] by (simp add: sorted_map)
  with 5 show ?case by (auto simp: mem_agents_def)
qed (auto dest: mem_fresh_id_fresh simp: mem_agents_def mem_update_def mem_create_def
       created_from_def same_row_def Let_def split: option.splits)

subsection \<open>Properties of the service\<close>

context prisma_agents
begin

lemma register_again:
  assumes "table_ok t" "agents_register P n1 p t = Inr (r1, t1)" "agents_register P n2 q t1 = Inr (r2, t2)"
    and "reg_uuid q = reg_uuid p"
  shows "rgd_id r2 = rgd_id r1" "table_ok t2"
  using reregister_same_id [OF assms] register_ok [OF _ assms(3)] register_ok [OF assms(1,2)] by blast+

end

lemma mem_register_total: "\<exists>r t'. agents_register mem_agents n p t = Inr (r, t')"
  by (cases "find (row_matches (WhereUuid (reg_uuid p))) t")
    (simp_all add: agents_register_def mem_agents_def mem_update_def Let_def)

text \<open>
  An agent that registers again, whatever it reports the second time, is the same host: it
  gets the host id of its first registration.
\<close>

theorem agent_keeps_host_id:
  assumes "prisma_agents P" "table_ok t" "agents_register P n1 p t = Inr (r1, t1)"
    and "agents_register P n2 q t1 = Inr (r2, t2)" "reg_uuid q = reg_uuid p"
  shows "rgd_id r2 = rgd_id r1 \<and> table_ok t2"
  using prisma_agents.register_again [OF assms] by blast

definition demo_box :: "string \<Rightarrow> AgentRegisterPayload" where
  "demo_box os = \<lparr>reg_uuid = ''u1'', reg_hostname = ''box'', reg_os = os, reg_architecture = ''x64'',
                 reg_version = ''1''\<rparr>"

theorem agent_keeps_host_id_witness:
  "\<exists>t1 t2 r1 r2. agents_register mem_agents 1 (demo_box ''linux'') [] = Inr (r1, t1) \<and>
     agents_register mem_agents 2 (demo_box ''bsd'') t1 = Inr (r2, t2) \<and> rgd_id r2 = rgd_id r1"
proof -
  obtain r1 t1 where r1: "agents_register mem_agents 1 (demo_box ''linux'') [] = Inr (r1, t1)"
    using mem_register_total by blast
  obtain r2 t2 where r2: "agents_register mem_agents 2 (demo_box ''bsd'') t1 = Inr (r2, t2)"
    using mem_register_total by blast
  have "table_ok []" by (simp add: table_ok_def)
  then show ?thesis
    using agent_keeps_host_id [OF mem_db.prisma_agents_axioms _ r1 r2] r1 r2 by (auto simp: demo_box_def)
qed

end
