(* ===== verification/Gateway.thy ===== *)
theory Gateway
  imports ListedParser Inventory HostMetrics AgentStore
begin

section \<open>The agents gateway\<close>

text \<open>
  \<open>apps/server/src/agents/agents.gateway.ts\<close>: the WebSocket endpoint agents talk to, and the
  request/response layer the HTTP side uses to talk back. Its state is the five maps of
  the class together with the caches and the table it writes; promises, timers and
  sockets are numbered in the order they are created, and what becomes visible outside
  (a frame sent, a promise settled, a log chunk handed to a subscriber) is appended to
  \<open>effects\<close>.

  JavaScript runs one callback at a time, so each operation is a state transformer; the
  only handler with code after an \<open>await\<close> is \<open>handleRegister\<close>, which is two: the part up to
  the database call, and its continuation, queued in \<open>registering\<close>.

  A rejection nobody catches (\<open>void this.handleMessage(...)\<close>) is recorded in \<open>unhandled\<close>.
\<close>

type_synonym sock = nat
type_synonym promise = nat
type_synonym timer = nat

subsection \<open>State\<close>

record AgentSocket =
  agentUuid :: "string option"
  agentId :: "string option"
  isOpen :: bool

record PendingList =
  plist_promise :: promise
  plist_timer :: timer

record PendingCommand =
  pcmd_agentUuid :: string
  pcmd_promise :: promise
  pcmd_timer :: timer

record PendingInspect =
  pins_agentUuid :: string
  pins_promise :: promise
  pins_timer :: timer

record LogSubscriber =
  sub_agentUuid :: string
  sub_containerId :: string
  sub_sink :: nat

text \<open>How a promise handed to the HTTP side is settled.\<close>

datatype settlement =
    ListResolved "ContainerSummary list"
  | CommandResolved ContainerResultPayload
  | CommandRejected string
  | InspectResolved ContainerInspectedPayload
  | InspectRejected string

datatype effect = Sent sock MessageEnvelope | Settled promise settlement | Chunk nat LogsChunkPayload

text \<open>The closures given to \<open>setTimeout\<close>, with the variables they capture.\<close>

datatype timer_callback =
    ListTimeout string string promise
  | CommandTimeout string ContainerAction promise
  | InspectTimeout string promise

record gateway =
  sockets :: "sock \<Rightarrow> AgentSocket"
  socketsByUuid :: "(string, sock) js_map"
  pendingLists :: "(string, PendingList) js_map"
  pendingCommands :: "(string, PendingCommand) js_map"
  pendingInspects :: "(string, PendingInspect) js_map"
  logSubscribers :: "(string, LogSubscriber) js_map"
  inventory :: inventory
  hostMetrics :: host_metrics
  agents :: agent_table
  timers :: "(timer, timer_callback) js_map"
  nextTimer :: nat
  nextPromise :: nat
  uuidDraws :: nat
  registering :: "(sock \<times> AgentRegisteredPayload) list"
  effects :: "effect list"
  unhandled :: "prisma_error list"

text \<open>
  What the gateway calls but the repository does not contain: the Prisma delegate, the
  engine's \<open>JSON.parse\<close> (\<open>None\<close> is a \<open>SyntaxError\<close>) and \<open>new Date\<close>, and \<open>randomUUID\<close> as
  the sequence of values it draws.
\<close>

record runtime =
  rt_prisma :: agent_client
  rt_jsonParse :: "string \<Rightarrow> json option"
  rt_date :: date_parser
  rt_uuid :: "nat \<Rightarrow> string"

definition fresh_socket :: AgentSocket where
  "fresh_socket = \<lparr>agentUuid = None, agentId = None, isOpen = False\<rparr>"

definition gateway_init :: "agent_table \<Rightarrow> gateway" where
  "gateway_init t =
     \<lparr>sockets = (\<lambda>_. fresh_socket), socketsByUuid = [], pendingLists = [], pendingCommands = [],
      pendingInspects = [], logSubscribers = [], inventory = inventory_init,
      hostMetrics = host_metrics_init, agents = t, timers = [], nextTimer = 0, nextPromise = 0,
      uuidDraws = 0, registering = [], effects = [], unhandled = []\<rparr>"

subsection \<open>Promises, timers, sending\<close>

definition emit :: "effect \<Rightarrow> gateway \<Rightarrow> gateway" where
  "emit e g = g\<lparr>effects := effects g @ [e]\<rparr>"

definition settle :: "promise \<Rightarrow> settlement \<Rightarrow> gateway \<Rightarrow> gateway" where
  "settle p s g = emit (Settled p s) g"

definition setTimeout :: "timer_callback \<Rightarrow> gateway \<Rightarrow> timer \<times> gateway" where
  "setTimeout cb g =
     (nextTimer g, g\<lparr>timers := map_set (nextTimer g) cb (timers g), nextTimer := Suc (nextTimer g)\<rparr>)"

definition clearTimeout :: "timer \<Rightarrow> gateway \<Rightarrow> gateway" where
  "clearTimeout t g = g\<lparr>timers := map_delete t (timers g)\<rparr>"

definition newPromise :: "gateway \<Rightarrow> promise \<times> gateway" where
  "newPromise g = (nextPromise g, g\<lparr>nextPromise := Suc (nextPromise g)\<rparr>)"

definition randomUUID :: "runtime \<Rightarrow> gateway \<Rightarrow> string \<times> gateway" where
  "randomUUID rt g = (rt_uuid rt (uuidDraws g), g\<lparr>uuidDraws := Suc (uuidDraws g)\<rparr>)"

definition send :: "sock \<Rightarrow> MessageEnvelope \<Rightarrow> gateway \<Rightarrow> gateway" where
  "send s envelope g = (if isOpen (sockets g s) then emit (Sent s envelope) g else g)"

definition set_socket :: "sock \<Rightarrow> AgentSocket \<Rightarrow> gateway \<Rightarrow> gateway" where
  "set_socket s c g = g\<lparr>sockets := (sockets g)(s := c)\<rparr>"

text \<open>
  \<open>resolvePendingList\<close> is the block that \<open>handleDisconnect\<close>, \<open>requestContainerList\<close> and
  \<open>handleContainerListed\<close> share: clear the timer, drop the entry, resolve the promise.
\<close>

definition resolvePendingList :: "string \<Rightarrow> ContainerSummary list \<Rightarrow> gateway \<Rightarrow> gateway" where
  "resolvePendingList uuid cs g =
     (case map_get (pendingLists g) uuid of
        None \<Rightarrow> g
      | Some pending \<Rightarrow>
          (let g1 = clearTimeout (plist_timer pending) g;
               g2 = g1\<lparr>pendingLists := map_delete uuid (pendingLists g1)\<rparr>
           in settle (plist_promise pending) (ListResolved cs) g2))"

subsection \<open>Connections\<close>

definition handleConnection :: "sock \<Rightarrow> gateway \<Rightarrow> gateway" where
  "handleConnection client g = set_socket client \<lparr>agentUuid = None, agentId = None, isOpen = True\<rparr> g"

text \<open>The loops of the three private helpers run over the entries present when they start.\<close>

fun rejectCommands :: "string \<Rightarrow> string \<Rightarrow> (string \<times> PendingCommand) list \<Rightarrow> gateway \<Rightarrow> gateway" where
  "rejectCommands uuid err [] g = g"
| "rejectCommands uuid err ((requestId, pending) # es) g =
     (if pcmd_agentUuid pending \<noteq> uuid then rejectCommands uuid err es g
      else
        (let g1 = clearTimeout (pcmd_timer pending) g;
             g2 = g1\<lparr>pendingCommands := map_delete requestId (pendingCommands g1)\<rparr>
         in rejectCommands uuid err es (settle (pcmd_promise pending) (CommandRejected err) g2)))"

definition rejectPendingCommandsForAgent :: "string \<Rightarrow> string \<Rightarrow> gateway \<Rightarrow> gateway" where
  "rejectPendingCommandsForAgent uuid err g = rejectCommands uuid err (pendingCommands g) g"

fun rejectInspects :: "string \<Rightarrow> string \<Rightarrow> (string \<times> PendingInspect) list \<Rightarrow> gateway \<Rightarrow> gateway" where
  "rejectInspects uuid err [] g = g"
| "rejectInspects uuid err ((requestId, pending) # es) g =
     (if pins_agentUuid pending \<noteq> uuid then rejectInspects uuid err es g
      else
        (let g1 = clearTimeout (pins_timer pending) g;
             g2 = g1\<lparr>pendingInspects := map_delete requestId (pendingInspects g1)\<rparr>
         in rejectInspects uuid err es (settle (pins_promise pending) (InspectRejected err) g2)))"

definition rejectPendingInspectsForAgent :: "string \<Rightarrow> string \<Rightarrow> gateway \<Rightarrow> gateway" where
  "rejectPendingInspectsForAgent uuid err g = rejectInspects uuid err (pendingInspects g) g"

fun dropSubscribers :: "string \<Rightarrow> (string \<times> LogSubscriber) list \<Rightarrow> gateway \<Rightarrow> gateway" where
  "dropSubscribers uuid [] g = g"
| "dropSubscribers uuid ((requestId, subscriber) # es) g =
     (if sub_agentUuid subscriber \<noteq> uuid then dropSubscribers uuid es g
      else dropSubscribers uuid es (g\<lparr>logSubscribers := map_delete requestId (logSubscribers g)\<rparr>))"

definition unsubscribeLogsForAgent :: "string \<Rightarrow> gateway \<Rightarrow> gateway" where
  "unsubscribeLogsForAgent uuid g = dropSubscribers uuid (logSubscribers g) g"

definition disconnected_command :: string where
  "disconnected_command = ''Agent disconnected before command completed''"

definition disconnected_inspect :: string where
  "disconnected_inspect = ''Agent disconnected before inspect completed''"

definition handleDisconnect :: "runtime \<Rightarrow> sock \<Rightarrow> gateway \<Rightarrow> gateway" where
  "handleDisconnect rt client g =
     (case agentUuid (sockets g client) of
        None \<Rightarrow> g
      | Some uuid \<Rightarrow>
          if uuid = [] then g
          else
            (let g1 = g\<lparr>socketsByUuid := map_delete uuid (socketsByUuid g)\<rparr>;
                 g2 = resolvePendingList uuid (snapshot_containers (inv_getByUuid uuid (inventory g1))) g1;
                 g3 = rejectPendingCommandsForAgent uuid disconnected_command g2;
                 g4 = rejectPendingInspectsForAgent uuid disconnected_inspect g3;
                 g5 = unsubscribeLogsForAgent uuid g4
             in g5\<lparr>agents := agents_markOffline (rt_prisma rt) uuid (agents g5)\<rparr>))"

subsection \<open>Requests from the HTTP side\<close>

text \<open>\<open>openClient\<close> is the guard \<open>!client || client.readyState !== OPEN\<close>, negated.\<close>

definition openClient :: "string \<Rightarrow> gateway \<Rightarrow> sock option" where
  "openClient uuid g =
     (case map_get (socketsByUuid g) uuid of
        None \<Rightarrow> None
      | Some client \<Rightarrow> if isOpen (sockets g client) then Some client else None)"

definition remember_inventory :: "string \<Rightarrow> string \<Rightarrow> gateway \<Rightarrow> gateway" where
  "remember_inventory hostId uuid g = g\<lparr>inventory := inv_rememberHost hostId uuid (inventory g)\<rparr>"

datatype list_reply = Cached "ContainerSummary list" | Awaiting promise

definition requestContainerList :: "string \<Rightarrow> string \<Rightarrow> gateway \<Rightarrow> list_reply \<times> gateway" where
  "requestContainerList uuid hostId g0 =
     (let g = remember_inventory hostId uuid g0
      in case openClient uuid g of
           None \<Rightarrow> (Cached (snapshot_containers (inv_getByHostId hostId (inventory g))), g)
         | Some client \<Rightarrow>
             (let (p, g1) = newPromise g;
                  g2 = resolvePendingList uuid (snapshot_containers (inv_getByUuid uuid (inventory g1))) g1;
                  (t, g3) = setTimeout (ListTimeout uuid hostId p) g2;
                  g4 = g3\<lparr>pendingLists := map_set uuid \<lparr>plist_promise = p, plist_timer = t\<rparr> (pendingLists g3)\<rparr>
              in (Awaiting p, send client (createEnvelope CONTAINER_LIST (JObj [])) g4)))"

fun COMMAND_TYPE :: "ContainerAction \<Rightarrow> string" where
  "COMMAND_TYPE Start = CONTAINER_START"
| "COMMAND_TYPE Stop = CONTAINER_STOP"
| "COMMAND_TYPE Restart = CONTAINER_RESTART"
| "COMMAND_TYPE Remove = CONTAINER_REMOVE"
| "COMMAND_TYPE Pause = CONTAINER_PAUSE"
| "COMMAND_TYPE Unpause = CONTAINER_UNPAUSE"

definition command_payload :: "ContainerAction \<Rightarrow> string \<Rightarrow> string \<Rightarrow> bool \<Rightarrow> json" where
  "command_payload action requestId containerId force =
     (if action = Remove
      then JObj [(''requestId'', JStr requestId), (''containerId'', JStr containerId), (''force'', JBool force)]
      else JObj [(''requestId'', JStr requestId), (''containerId'', JStr containerId)])"

definition not_connected :: string where
  "not_connected = ''Agent is not connected''"

definition sendContainerCommand ::
  "runtime \<Rightarrow> string \<Rightarrow> string \<Rightarrow> ContainerAction \<Rightarrow> string \<Rightarrow> bool \<Rightarrow> gateway \<Rightarrow> (string + promise) \<times> gateway"
where
  "sendContainerCommand rt uuid hostId action containerId force g0 =
     (let g = remember_inventory hostId uuid g0
      in case openClient uuid g of
           None \<Rightarrow> (Inl not_connected, g)
         | Some client \<Rightarrow>
             (let (requestId, g1) = randomUUID rt g;
                  (p, g2) = newPromise g1;
                  (t, g3) = setTimeout (CommandTimeout requestId action p) g2;
                  g4 = g3\<lparr>pendingCommands := map_set requestId
                          \<lparr>pcmd_agentUuid = uuid, pcmd_promise = p, pcmd_timer = t\<rparr> (pendingCommands g3)\<rparr>
              in (Inr p, send client (createEnvelope (COMMAND_TYPE action)
                           (command_payload action requestId containerId force)) g4)))"

definition inspectContainer ::
  "runtime \<Rightarrow> string \<Rightarrow> string \<Rightarrow> string \<Rightarrow> gateway \<Rightarrow> (string + promise) \<times> gateway"
where
  "inspectContainer rt uuid hostId containerId g0 =
     (let g = remember_inventory hostId uuid g0
      in case openClient uuid g of
           None \<Rightarrow> (Inl not_connected, g)
         | Some client \<Rightarrow>
             (let (requestId, g1) = randomUUID rt g;
                  (p, g2) = newPromise g1;
                  (t, g3) = setTimeout (InspectTimeout requestId p) g2;
                  g4 = g3\<lparr>pendingInspects := map_set requestId
                          \<lparr>pins_agentUuid = uuid, pins_promise = p, pins_timer = t\<rparr> (pendingInspects g3)\<rparr>
              in (Inr p, send client (createEnvelope CONTAINER_INSPECT
                           (JObj [(''requestId'', JStr requestId), (''containerId'', JStr containerId)])) g4)))"

definition startLogStream ::
  "runtime \<Rightarrow> string \<Rightarrow> string \<Rightarrow> string \<Rightarrow> js_number option \<Rightarrow> bool option \<Rightarrow> nat \<Rightarrow> gateway \<Rightarrow> (string + string) \<times> gateway"
where
  "startLogStream rt uuid hostId containerId tail follow onChunk g0 =
     (let g = remember_inventory hostId uuid g0
      in case openClient uuid g of
           None \<Rightarrow> (Inl not_connected, g)
         | Some client \<Rightarrow>
             (let (requestId, g1) = randomUUID rt g;
                  g2 = g1\<lparr>logSubscribers := map_set requestId
                          \<lparr>sub_agentUuid = uuid, sub_containerId = containerId, sub_sink = onChunk\<rparr>
                          (logSubscribers g1)\<rparr>
              in (Inr requestId, send client (createEnvelope LOGS_SUBSCRIBE
                     (JObj [(''requestId'', JStr requestId), (''containerId'', JStr containerId),
                            (''tail'', JNum (nullish tail (js_int 100))),
                            (''follow'', JBool (nullish follow True))])) g2)))"

definition stopLogStream :: "string \<Rightarrow> gateway \<Rightarrow> gateway" where
  "stopLogStream requestId g =
     (case map_get (logSubscribers g) requestId of
        None \<Rightarrow> g
      | Some subscriber \<Rightarrow>
          (let g1 = g\<lparr>logSubscribers := map_delete requestId (logSubscribers g)\<rparr>
           in case openClient (sub_agentUuid subscriber) g1 of
                None \<Rightarrow> g1
              | Some client \<Rightarrow>
                  send client (createEnvelope LOGS_UNSUBSCRIBE (JObj [(''requestId'', JStr requestId)])) g1))"

end
