(* ===== verification/GatewayMessages.thy ===== *)
theory GatewayMessages
  imports Gateway
begin

section \<open>The gateway's message handlers and its steps\<close>

text \<open>
  \<open>handleMessage\<close> and the handlers it dispatches to, then the transition relation of the
  whole gateway: connections, frames, timers, requests from the HTTP side and resumed
  registrations, in any order.
\<close>

subsection \<open>Frames\<close>

text \<open>\<open>RawData\<close> is \<open>Buffer | ArrayBuffer | Buffer[]\<close>; the bytes are ASCII.\<close>

datatype RawData = RawBuffer string | RawArrayBuffer string | RawFragments "string list"

fun decodeRawData :: "RawData \<Rightarrow> string" where
  "decodeRawData (RawFragments bs) = concat bs"
| "decodeRawData (RawBuffer b) = b"
| "decodeRawData (RawArrayBuffer b) = b"

definition reject_unhandled :: "prisma_error \<Rightarrow> gateway \<Rightarrow> gateway" where
  "reject_unhandled e g = g\<lparr>unhandled := unhandled g @ [e]\<rparr>"

text \<open>
  Prisma validates the type of every input before it queries: a field that is not a
  string makes the call reject. That rejection is unhandled and ends the process, so what a
  heartbeat with such a uuid wrote before the call is not kept.
\<close>

definition validation_error :: prisma_error where
  "validation_error = OtherPrismaError ''PrismaClientValidationError''"

subsection \<open>Registration and heartbeat\<close>

text \<open>The payload as Prisma sees it; the defaults are those of \<open>??\<close>.\<close>

definition register_input :: "json \<Rightarrow> AgentRegisterPayload option" where
  "register_input payload =
     (case (as_string (field payload ''uuid''), as_string (field payload ''hostname''),
            as_string (field payload ''os''),
            as_string (Some (json_nullish (field payload ''architecture'') (JStr ''unknown''))),
            as_string (Some (json_nullish (field payload ''version'') (JStr ''unknown'')))) of
        (Some u, Some h, Some os, Some arch, Some v) \<Rightarrow>
          Some \<lparr>reg_uuid = u, reg_hostname = h, reg_os = os, reg_architecture = arch, reg_version = v\<rparr>
      | _ \<Rightarrow> None)"

definition registered_envelope :: "json \<Rightarrow> string \<Rightarrow> MessageEnvelope" where
  "registered_envelope uuid message =
     createEnvelope AGENT_REGISTERED
       (JObj [(''id'', JStr ''''), (''uuid'', uuid), (''status'', JStr ''UNKNOWN''), (''message'', JStr message)])"

definition handleRegister :: "runtime \<Rightarrow> int \<Rightarrow> sock \<Rightarrow> json \<Rightarrow> gateway \<Rightarrow> gateway" where
  "handleRegister rt now client payload g =
     (if \<not> json_truthy (field payload ''uuid'') \<or> \<not> json_truthy (field payload ''hostname'')
         \<or> \<not> json_truthy (field payload ''os'')
      then send client (registered_envelope (json_nullish (field payload ''uuid'') (JStr ''''))
                          ''Invalid registration payload'') g
      else (case register_input payload of
              None \<Rightarrow> reject_unhandled validation_error g
            | Some input \<Rightarrow>
                (case agents_register (rt_prisma rt) now input (agents g) of
                   Inl e \<Rightarrow> reject_unhandled e g
                 | Inr (result, t') \<Rightarrow>
                     g\<lparr>agents := t', registering := registering g @ [(client, result)]\<rparr>)))"

text \<open>The code of \<open>handleRegister\<close> after its \<open>await\<close>.\<close>

definition resumeRegister :: "sock \<Rightarrow> AgentRegisteredPayload \<Rightarrow> gateway \<Rightarrow> gateway" where
  "resumeRegister client result g =
     (let g1 = set_socket client
                 ((sockets g client)\<lparr>agentUuid := Some (rgd_uuid result), agentId := Some (rgd_id result)\<rparr>) g;
          g2 = g1\<lparr>socketsByUuid := map_set (rgd_uuid result) client (socketsByUuid g1)\<rparr>;
          g3 = remember_inventory (rgd_id result) (rgd_uuid result) g2;
          g4 = g3\<lparr>hostMetrics := met_rememberHost (rgd_id result) (rgd_uuid result) (hostMetrics g3)\<rparr>;
          g5 = send client (createEnvelope AGENT_REGISTERED (AgentRegisteredPayload_json result)) g4
      in send client (createEnvelope CONTAINER_LIST (JObj [])) g5)"

definition handleHeartbeat :: "runtime \<Rightarrow> int \<Rightarrow> sock \<Rightarrow> json \<Rightarrow> gateway \<Rightarrow> gateway" where
  "handleHeartbeat rt now client payload g =
     (if \<not> json_truthy (field payload ''uuid'') then g
      else (case as_string (field payload ''uuid'') of
              None \<Rightarrow> reject_unhandled validation_error g
            | Some uuid \<Rightarrow>
                (let g1 = set_socket client ((sockets g client)\<lparr>agentUuid := Some uuid\<rparr>) g;
                     g2 = g1\<lparr>socketsByUuid := map_set uuid client (socketsByUuid g1)\<rparr>
                 in case agents_heartbeat (rt_prisma rt) now uuid (agents g2) of
                      Inl e \<Rightarrow> reject_unhandled e g2
                    | Inr (r, t') \<Rightarrow> g2\<lparr>agents := t'\<rparr>)))"

subsection \<open>Reports and answers\<close>

definition handleContainerListed :: "int \<Rightarrow> sock \<Rightarrow> json \<Rightarrow> gateway \<Rightarrow> gateway" where
  "handleContainerListed now client payload g =
     (let containers = pl_containers (parseContainerListedPayload payload);
          c = sockets g client
      in if \<not> truthy_str (agentUuid c) then g
         else
           (let uuid = nullish (agentUuid c) [];
                g1 = g\<lparr>inventory := snd (inv_setContainers uuid (containers, now) (agentId c) (inventory g))\<rparr>
            in resolvePendingList uuid containers g1))"

text \<open>A \<open>requestId\<close> that is not a string equals no key of the map.\<close>

definition handleContainerResult :: "json \<Rightarrow> gateway \<Rightarrow> gateway" where
  "handleContainerResult payload g =
     (if \<not> json_truthy (field payload ''requestId'') then g
      else (case as_string (field payload ''requestId'') of
              None \<Rightarrow> g
            | Some requestId \<Rightarrow>
                (case map_get (pendingCommands g) requestId of
                   None \<Rightarrow> g
                 | Some pending \<Rightarrow>
                     (let g1 = clearTimeout (pcmd_timer pending) g;
                          g2 = g1\<lparr>pendingCommands := map_delete requestId (pendingCommands g1)\<rparr>
                      in settle (pcmd_promise pending)
                           (CommandResolved
                              \<lparr>res_requestId = requestId, res_action = field payload ''action'',
                               res_containerId = field payload ''containerId'',
                               res_ok = json_truthy (field payload ''ok''),
                               res_message = json_nullish (field payload ''message'') (JStr ''''),
                               res_error = json_nullish (field payload ''error'') JNull\<rparr>) g2))))"

definition handleContainerInspected :: "json \<Rightarrow> gateway \<Rightarrow> gateway" where
  "handleContainerInspected payload g =
     (if \<not> json_truthy (field payload ''requestId'') then g
      else (case as_string (field payload ''requestId'') of
              None \<Rightarrow> g
            | Some requestId \<Rightarrow>
                (case map_get (pendingInspects g) requestId of
                   None \<Rightarrow> g
                 | Some pending \<Rightarrow>
                     (let g1 = clearTimeout (pins_timer pending) g;
                          g2 = g1\<lparr>pendingInspects := map_delete requestId (pendingInspects g1)\<rparr>
                      in settle (pins_promise pending)
                           (InspectResolved
                              \<lparr>ins_requestId = requestId,
                               ins_container = json_nullish (field payload ''container'') JNull,
                               ins_ok = json_truthy (field payload ''ok''),
                               ins_error = json_nullish (field payload ''error'') JNull\<rparr>) g2))))"

definition handleHostMetrics :: "runtime \<Rightarrow> int \<Rightarrow> sock \<Rightarrow> json \<Rightarrow> gateway \<Rightarrow> gateway" where
  "handleHostMetrics rt now client payload g =
     (let c = sockets g client;
          uuid = (case agentUuid c of Some u \<Rightarrow> Some (JStr u) | None \<Rightarrow> field payload ''uuid'')
      in if \<not> json_truthy uuid \<or> \<not> json_truthy (field payload ''cpu'') \<or> \<not> json_truthy (field payload ''memory'')
         then g
         else (case as_string uuid of
                 None \<Rightarrow> g
               | Some u \<Rightarrow>
                   g\<lparr>hostMetrics := snd (met_set (rt_date rt) u
                       (\<lparr>hm_collectedAt = field payload ''collectedAt'',
                         hm_cpu = json_nullish (field payload ''cpu'') JNull,
                         hm_memory = json_nullish (field payload ''memory'') JNull\<rparr>, now)
                       (agentId c) (hostMetrics g))\<rparr>))"

definition handleLogsChunk :: "json \<Rightarrow> gateway \<Rightarrow> gateway" where
  "handleLogsChunk payload g =
     (if \<not> json_truthy (field payload ''requestId'') then g
      else (case as_string (field payload ''requestId'') of
              None \<Rightarrow> g
            | Some requestId \<Rightarrow>
                (case map_get (logSubscribers g) requestId of
                   None \<Rightarrow> g
                 | Some subscriber \<Rightarrow>
                     emit (Chunk (sub_sink subscriber)
                       \<lparr>chunk_requestId = requestId, chunk_containerId = field payload ''containerId'',
                        chunk_entries = (case field payload ''entries'' of Some (JArr es) \<Rightarrow> es | _ \<Rightarrow> [])\<rparr>) g)))"

subsection \<open>Dispatch\<close>

definition dispatch :: "runtime \<Rightarrow> int \<Rightarrow> sock \<Rightarrow> string \<Rightarrow> json \<Rightarrow> gateway \<Rightarrow> gateway" where
  "dispatch rt now client t payload g =
     (if t = AGENT_REGISTER then handleRegister rt now client payload g
      else if t = AGENT_HEARTBEAT then handleHeartbeat rt now client payload g
      else if t = CONTAINER_LISTED then handleContainerListed now client payload g
      else if t = CONTAINER_RESULT then handleContainerResult payload g
      else if t = CONTAINER_INSPECTED then handleContainerInspected payload g
      else if t = LOGS_CHUNK then handleLogsChunk payload g
      else if t = METRICS_HOST then handleHostMetrics rt now client payload g
      else g)"

definition handleMessage :: "runtime \<Rightarrow> int \<Rightarrow> sock \<Rightarrow> RawData \<Rightarrow> gateway \<Rightarrow> gateway" where
  "handleMessage rt now client data g =
     (case rt_jsonParse rt (decodeRawData data) of
        None \<Rightarrow> send client (registered_envelope (JStr '''') ''Invalid JSON message'') g
      | Some parsed \<Rightarrow>
          if \<not> isMessageEnvelope parsed then g
          else (case (field parsed ''type'', field parsed ''payload'') of
                  (Some (JStr t), Some payload) \<Rightarrow> dispatch rt now client t payload g
                | _ \<Rightarrow> g))"

subsection \<open>Timers\<close>

definition timeout_command :: "ContainerAction \<Rightarrow> string" where
  "timeout_command action = ''Agent timed out waiting for container.result ('' @ action_name action @ '')''"

definition timeout_inspect :: string where
  "timeout_inspect = ''Agent timed out waiting for container.inspected''"

fun run_callback :: "timer_callback \<Rightarrow> gateway \<Rightarrow> gateway" where
  "run_callback (ListTimeout uuid hostId p) g =
     (let g1 = g\<lparr>pendingLists := map_delete uuid (pendingLists g)\<rparr>
      in settle p (ListResolved (snapshot_containers (inv_getByHostId hostId (inventory g1)))) g1)"
| "run_callback (CommandTimeout requestId action p) g =
     settle p (CommandRejected (timeout_command action))
       (g\<lparr>pendingCommands := map_delete requestId (pendingCommands g)\<rparr>)"
| "run_callback (InspectTimeout requestId p) g =
     settle p (InspectRejected timeout_inspect)
       (g\<lparr>pendingInspects := map_delete requestId (pendingInspects g)\<rparr>)"

text \<open>A timer that fires leaves the timer table before its callback runs.\<close>

definition fire_timer :: "timer \<Rightarrow> gateway \<Rightarrow> gateway" where
  "fire_timer t g =
     (case map_get (timers g) t of
        None \<Rightarrow> g
      | Some cb \<Rightarrow> run_callback cb (g\<lparr>timers := map_delete t (timers g)\<rparr>))"

subsection \<open>Steps and reachable states\<close>

text \<open>
  An unhandled rejection ends the Node process, so a state that has one takes no step.
  The database applies a registration when the call is issued; the continuation runs at
  any later point (\<open>resume\<close>). A closing socket stops being \<open>OPEN\<close> before its disconnect
  event is delivered (\<open>closing\<close>, then \<open>disconnect\<close>).
\<close>

definition alive :: "gateway \<Rightarrow> bool" where
  "alive g \<longleftrightarrow> unhandled g = []"

definition close_socket :: "sock \<Rightarrow> gateway \<Rightarrow> gateway" where
  "close_socket s g = set_socket s ((sockets g s)\<lparr>isOpen := False\<rparr>) g"

definition drop_registering :: "nat \<Rightarrow> gateway \<Rightarrow> gateway" where
  "drop_registering k g = g\<lparr>registering := take k (registering g) @ drop (Suc k) (registering g)\<rparr>"

inductive gateway_step :: "runtime \<Rightarrow> gateway \<Rightarrow> gateway \<Rightarrow> bool" for rt :: runtime where
  connect: "alive g \<Longrightarrow> sockets g s = fresh_socket \<Longrightarrow> gateway_step rt g (handleConnection s g)"
| closing: "alive g \<Longrightarrow> gateway_step rt g (close_socket s g)"
| disconnect: "alive g \<Longrightarrow> \<not> isOpen (sockets g s) \<Longrightarrow> gateway_step rt g (handleDisconnect rt s g)"
| message: "alive g \<Longrightarrow> gateway_step rt g (handleMessage rt now s data g)"
| resume: "alive g \<Longrightarrow> k < length (registering g) \<Longrightarrow> registering g ! k = (s, r) \<Longrightarrow>
     gateway_step rt g (resumeRegister s r (drop_registering k g))"
| timer: "alive g \<Longrightarrow> map_get (timers g) t = Some cb \<Longrightarrow> gateway_step rt g (fire_timer t g)"
| request_list: "alive g \<Longrightarrow> requestContainerList u h g = (rep, g') \<Longrightarrow> gateway_step rt g g'"
| command: "alive g \<Longrightarrow> sendContainerCommand rt u h a c f g = (res, g') \<Longrightarrow> gateway_step rt g g'"
| inspect: "alive g \<Longrightarrow> inspectContainer rt u h c g = (res, g') \<Longrightarrow> gateway_step rt g g'"
| start_logs: "alive g \<Longrightarrow> startLogStream rt u h c tail follow sink g = (rid, g') \<Longrightarrow> gateway_step rt g g'"
| stop_logs: "alive g \<Longrightarrow> gateway_step rt g (stopLogStream rid g)"

inductive gateway_reachable :: "runtime \<Rightarrow> agent_table \<Rightarrow> gateway \<Rightarrow> bool" for rt :: runtime and t0 :: agent_table where
  start: "gateway_reachable rt t0 (gateway_init t0)"
| step: "gateway_reachable rt t0 g \<Longrightarrow> gateway_step rt g g' \<Longrightarrow> gateway_reachable rt t0 g'"

end
