(* ===== verification/GatewayInv.thy ===== *)
theory GatewayInv
  imports GatewayMessages
begin

section \<open>The gateway's invariant: promises, pending entries and timers\<close>

text \<open>
  A request to an agent creates three things: a promise the HTTP side waits on, an entry in
  one of the pending maps, and a timer. The invariant says that they come and go together:
  the pending entries and the running timers are the same multiset (seen through the key,
  the promise and the timer id), and the promises of the pending entries together with the
  promises already settled are each promise ever created, once.
\<close>

subsection \<open>The views\<close>

datatype pending_key = ListKey string | CommandKey string | InspectKey string

type_synonym pending_view = "(pending_key \<times> promise \<times> timer) list"

definition list_view :: "(string, PendingList) js_map \<Rightarrow> pending_view" where
  "list_view m = map (\<lambda>(u, e). (ListKey u, plist_promise e, plist_timer e)) m"

definition command_view :: "(string, PendingCommand) js_map \<Rightarrow> pending_view" where
  "command_view m = map (\<lambda>(r, e). (CommandKey r, pcmd_promise e, pcmd_timer e)) m"

definition inspect_view :: "(string, PendingInspect) js_map \<Rightarrow> pending_view" where
  "inspect_view m = map (\<lambda>(r, e). (InspectKey r, pins_promise e, pins_timer e)) m"

definition pendings :: "gateway \<Rightarrow> pending_view" where
  "pendings g = list_view (pendingLists g) @ command_view (pendingCommands g) @ inspect_view (pendingInspects g)"

fun cb_key :: "timer_callback \<Rightarrow> pending_key" where
  "cb_key (ListTimeout u h p) = ListKey u"
| "cb_key (CommandTimeout r a p) = CommandKey r"
| "cb_key (InspectTimeout r p) = InspectKey r"

fun cb_promise :: "timer_callback \<Rightarrow> promise" where
  "cb_promise (ListTimeout u h p) = p"
| "cb_promise (CommandTimeout r a p) = p"
| "cb_promise (InspectTimeout r p) = p"

definition timer_view :: "(timer, timer_callback) js_map \<Rightarrow> pending_view" where
  "timer_view m = map (\<lambda>(t, cb). (cb_key cb, cb_promise cb, t)) m"

fun settled_promise :: "effect \<Rightarrow> promise option" where
  "settled_promise (Settled p s) = Some p"
| "settled_promise e = None"

definition settled :: "effect list \<Rightarrow> promise list" where
  "settled es = List.map_filter settled_promise es"

definition pending_promises :: "gateway \<Rightarrow> promise multiset" where
  "pending_promises g = image_mset (fst \<circ> snd) (mset (pendings g))"

definition gateway_inv :: "runtime \<Rightarrow> gateway \<Rightarrow> bool" where
  "gateway_inv rt g \<longleftrightarrow>
     unique_keys (pendingLists g) \<and> unique_keys (pendingCommands g) \<and> unique_keys (pendingInspects g) \<and>
     unique_keys (timers g) \<and>
     mset (pendings g) = mset (timer_view (timers g)) \<and>
     pending_promises g + mset (settled (effects g)) = mset [0..<nextPromise g] \<and>
     (\<forall>t\<in>fst ` set (timers g). t < nextTimer g) \<and>
     (\<forall>r\<in>fst ` set (pendingCommands g) \<union> fst ` set (pendingInspects g). r \<in> rt_uuid rt ` {..<uuidDraws g})"

subsection \<open>Views under the map operations\<close>

lemma settled_append [simp]: "settled (es @ fs) = settled es @ settled fs"
  by (simp add: settled_def List.map_filter_def)

lemma settled_simps [simp]:
  "settled [] = []"
  "settled (Settled p s # es) = p # settled es"
  "settled (Sent c m # es) = settled es"
  "settled (Chunk k d # es) = settled es"
  by (simp_all add: settled_def List.map_filter_def)

lemma mset_delete_present:
  "unique_keys m \<Longrightarrow> map_get m k = Some v \<Longrightarrow> mset m = add_mset (k, v) (mset (map_delete k m))"
proof (induction m)
  case Nil
  then show ?case by simp
next
  case (Cons p m)
  show ?case
  proof (cases "fst p = k")
    case True
    then have "k \<notin> fst ` set m" using Cons.prems by (auto simp: unique_keys_def)
    then have "map_delete k m = m" by (simp add: delete_idem)
    then show ?thesis using True Cons.prems by (cases p) auto
  next
    case False
    then show ?thesis using Cons by (auto simp: unique_keys_def)
  qed
qed

lemma view_delete:
  assumes "unique_keys m" "map_get m k = Some v"
  shows "mset (map f m) = add_mset (f (k, v)) (mset (map f (map_delete k m)))"
  using mset_delete_present [OF assms] by (metis image_mset_add_mset mset_map)

lemma view_set_fresh: "map_get m k = None \<Longrightarrow> map f (map_set k v m) = map f m @ [f (k, v)]"
  by (simp add: map_set_fresh)

lemmas view_defs = list_view_def command_view_def inspect_view_def

lemma list_view_delete:
  "unique_keys m \<Longrightarrow> map_get m u = Some e \<Longrightarrow>
     mset (list_view m) = add_mset (ListKey u, plist_promise e, plist_timer e) (mset (list_view (map_delete u m)))"
  unfolding list_view_def by (subst view_delete) auto

lemma command_view_delete:
  "unique_keys m \<Longrightarrow> map_get m r = Some e \<Longrightarrow>
     mset (command_view m) = add_mset (CommandKey r, pcmd_promise e, pcmd_timer e) (mset (command_view (map_delete r m)))"
  unfolding command_view_def by (subst view_delete) auto

lemma inspect_view_delete:
  "unique_keys m \<Longrightarrow> map_get m r = Some e \<Longrightarrow>
     mset (inspect_view m) = add_mset (InspectKey r, pins_promise e, pins_timer e) (mset (inspect_view (map_delete r m)))"
  unfolding inspect_view_def by (subst view_delete) auto

lemma timer_view_delete:
  "unique_keys m \<Longrightarrow> map_get m t = Some cb \<Longrightarrow>
     mset (timer_view m) = add_mset (cb_key cb, cb_promise cb, t) (mset (timer_view (map_delete t m)))"
  unfolding timer_view_def by (subst view_delete) auto

lemmas view_deletes = list_view_delete command_view_delete inspect_view_delete

lemma views_set_fresh:
  "map_get ml u = None \<Longrightarrow> list_view (map_set u l ml) = list_view ml @ [(ListKey u, plist_promise l, plist_timer l)]"
  "map_get mc r = None \<Longrightarrow> command_view (map_set r c mc) = command_view mc @ [(CommandKey r, pcmd_promise c, pcmd_timer c)]"
  "map_get mi r = None \<Longrightarrow> inspect_view (map_set r i mi) = inspect_view mi @ [(InspectKey r, pins_promise i, pins_timer i)]"
  "map_get mt t = None \<Longrightarrow> timer_view (map_set t cb mt) = timer_view mt @ [(cb_key cb, cb_promise cb, t)]"
  by (simp_all add: view_defs timer_view_def view_set_fresh)

subsection \<open>Taking a pending entry out\<close>

text \<open>
  The one argument behind every settlement: a pending entry has a running timer of its own,
  so removing the entry, its timer and settling its promise keeps both sides equal.
\<close>

lemma pending_timer:
  assumes "gateway_inv rt g" "(k, p, t) \<in> set (pendings g)"
  obtains cb where "map_get (timers g) t = Some cb" "cb_key cb = k" "cb_promise cb = p"
proof -
  have "(k, p, t) \<in> set (timer_view (timers g))"
    using assms by (metis gateway_inv_def set_mset_mset)
  then obtain cb where "(t, cb) \<in> set (timers g)" "cb_key cb = k" "cb_promise cb = p"
    by (auto simp: timer_view_def)
  then show ?thesis using that assms(1) by (metis gateway_inv_def map_get_mem)
qed

lemma timer_pending:
  assumes "gateway_inv rt g" "map_get (timers g) t = Some cb"
  shows "(cb_key cb, cb_promise cb, t) \<in> set (pendings g)"
proof -
  have "(t, cb) \<in> set (timers g)" using assms by (simp add: gateway_inv_def map_get_mem)
  then have "(cb_key cb, cb_promise cb, t) \<in> set (timer_view (timers g))"
    by (force simp: timer_view_def)
  then show ?thesis using assms(1) by (metis gateway_inv_def set_mset_mset)
qed

lemma gateway_inv_remove:
  assumes inv: "gateway_inv rt g"
    and entry: "mset (pendings g) = add_mset (k, p, t) (mset (pendings g'))"
    and timers: "timers g' = map_delete t (timers g)"
    and effects: "effects g' = effects g @ [Settled p s]"
    and counters: "nextPromise g' = nextPromise g" "nextTimer g' = nextTimer g" "uuidDraws g' = uuidDraws g"
    and keys: "unique_keys (pendingLists g')" "unique_keys (pendingCommands g')" "unique_keys (pendingInspects g')"
    and sub: "set (pendingCommands g') \<subseteq> set (pendingCommands g)" "set (pendingInspects g') \<subseteq> set (pendingInspects g)"
  shows "gateway_inv rt g'"
proof -
  have "(k, p, t) \<in># mset (pendings g)" using entry by simp
  then have "(k, p, t) \<in> set (pendings g)" by simp
  then obtain cb where cb: "map_get (timers g) t = Some cb" "cb_key cb = k" "cb_promise cb = p"
    by (rule pending_timer [OF inv])
  have "mset (timer_view (timers g)) = add_mset (k, p, t) (mset (timer_view (timers g')))"
    using inv cb by (simp add: timer_view_delete gateway_inv_def timers)
  then have views: "mset (pendings g') = mset (timer_view (timers g'))"
    using inv entry by (simp add: gateway_inv_def)
  have "pending_promises g = add_mset p (pending_promises g')"
    by (simp add: pending_promises_def entry)
  then have promises: "pending_promises g' + mset (settled (effects g')) = mset [0..<nextPromise g']"
    using inv by (simp add: gateway_inv_def effects counters)
  have tmrs: "unique_keys (timers g')" "\<forall>t\<in>fst ` set (timers g'). t < nextTimer g'"
    using inv by (auto simp: gateway_inv_def timers counters set_map_delete)
  have rids: "\<forall>r\<in>fst ` set (pendingCommands g') \<union> fst ` set (pendingInspects g').
                r \<in> rt_uuid rt ` {..<uuidDraws g'}"
    using inv sub unfolding gateway_inv_def counters by blast
  show ?thesis
    unfolding gateway_inv_def using views promises keys tmrs rids by blast
qed

lemma gateway_inv_add:
  assumes inv: "gateway_inv rt g"
    and entry: "mset (pendings g') = add_mset (cb_key cb, nextPromise g, nextTimer g) (mset (pendings g))"
    and cb: "cb_promise cb = nextPromise g"
    and timers: "timers g' = map_set (nextTimer g) cb (timers g)"
    and effects: "settled (effects g') = settled (effects g)"
    and counters: "nextPromise g' = Suc (nextPromise g)" "nextTimer g' = Suc (nextTimer g)" "uuidDraws g \<le> uuidDraws g'"
    and keys: "unique_keys (pendingLists g')" "unique_keys (pendingCommands g')" "unique_keys (pendingInspects g')"
    and rids: "\<forall>r\<in>fst ` set (pendingCommands g') \<union> fst ` set (pendingInspects g').
                 r \<in> rt_uuid rt ` {..<uuidDraws g'}"
  shows "gateway_inv rt g'"
proof -
  have fresh: "map_get (timers g) (nextTimer g) = None"
    using inv by (auto simp: gateway_inv_def map_of_eq_None_iff)
  have "mset (pendings g') = mset (timer_view (timers g'))"
    using inv entry by (simp add: gateway_inv_def timers views_set_fresh(4) [OF fresh] cb)
  moreover have "pending_promises g' = add_mset (nextPromise g) (pending_promises g)"
    by (simp add: pending_promises_def entry)
  then have "pending_promises g' + mset (settled (effects g')) = mset [0..<nextPromise g']"
    using inv by (simp add: gateway_inv_def effects counters)
  moreover have "\<forall>t\<in>fst ` set (timers g'). t < nextTimer g'"
    using inv by (auto simp: timers gateway_inv_def map_set_fresh [OF fresh] counters less_Suc_eq)
  ultimately show ?thesis
    using inv keys rids by (simp add: gateway_inv_def timers)
qed

text \<open>Everything else a handler writes is outside the invariant.\<close>

lemma gateway_inv_cong:
  assumes "gateway_inv rt g" "pendingLists g' = pendingLists g" "pendingCommands g' = pendingCommands g"
    "pendingInspects g' = pendingInspects g" "timers g' = timers g" "settled (effects g') = settled (effects g)"
    "nextPromise g' = nextPromise g" "nextTimer g' = nextTimer g" "uuidDraws g \<le> uuidDraws g'"
  shows "gateway_inv rt g'"
proof -
  have mono: "rt_uuid rt ` {..<uuidDraws g} \<subseteq> rt_uuid rt ` {..<uuidDraws g'}" using assms(9) by auto
  have same: "pendings g' = pendings g" "pending_promises g' = pending_promises g"
    using assms(2-4) by (simp_all add: pendings_def pending_promises_def)
  show ?thesis
    using assms(1) mono unfolding gateway_inv_def same assms(2-8) by blast
qed

end
