(* ===== verification/GatewayPreserve.thy ===== *)
theory GatewayPreserve
  imports GatewayInv
begin

section \<open>Every operation of the gateway preserves its invariant\<close>

text \<open>
  One lemma per operation, in the order of the code, then the step relation and the
  reachable states. The three ways a promise is settled (answer, timeout, disconnect) are
  instances of \<open>gateway_inv_remove\<close>, the three ways one is created of
  \<open>gateway_inv_add\<close>. A request id must not be drawn twice: \<open>inj (rt_uuid rt)\<close>.
\<close>

lemmas gateway_state_defs =
  emit_def settle_def setTimeout_def clearTimeout_def newPromise_def randomUUID_def set_socket_def
  remember_inventory_def

subsection \<open>What only sends or writes elsewhere\<close>

lemma send_simps [simp]:
  "sockets (send s e g) = sockets g" "socketsByUuid (send s e g) = socketsByUuid g"
  "pendingLists (send s e g) = pendingLists g" "pendingCommands (send s e g) = pendingCommands g"
  "pendingInspects (send s e g) = pendingInspects g" "logSubscribers (send s e g) = logSubscribers g"
  "inventory (send s e g) = inventory g" "hostMetrics (send s e g) = hostMetrics g"
  "agents (send s e g) = agents g" "timers (send s e g) = timers g" "nextTimer (send s e g) = nextTimer g"
  "nextPromise (send s e g) = nextPromise g" "uuidDraws (send s e g) = uuidDraws g"
  "registering (send s e g) = registering g" "unhandled (send s e g) = unhandled g"
  "settled (effects (send s e g)) = settled (effects g)"
  by (simp_all add: send_def emit_def)

lemma send_inv [simp]: "gateway_inv rt g \<Longrightarrow> gateway_inv rt (send s e g)"
  by (erule gateway_inv_cong) simp_all

lemma set_socket_inv [simp]: "gateway_inv rt g \<Longrightarrow> gateway_inv rt (set_socket s c g)"
  by (erule gateway_inv_cong) (simp_all add: set_socket_def)

lemma remember_inventory_inv [simp]: "gateway_inv rt g \<Longrightarrow> gateway_inv rt (remember_inventory h u g)"
  by (erule gateway_inv_cong) (simp_all add: remember_inventory_def)

lemma field_updates_inv [simp]:
  "gateway_inv rt g \<Longrightarrow> gateway_inv rt (g\<lparr>socketsByUuid := m\<rparr>)"
  "gateway_inv rt g \<Longrightarrow> gateway_inv rt (g\<lparr>logSubscribers := l\<rparr>)"
  "gateway_inv rt g \<Longrightarrow> gateway_inv rt (g\<lparr>inventory := i\<rparr>)"
  "gateway_inv rt g \<Longrightarrow> gateway_inv rt (g\<lparr>hostMetrics := h\<rparr>)"
  "gateway_inv rt g \<Longrightarrow> gateway_inv rt (g\<lparr>agents := t\<rparr>)"
  "gateway_inv rt g \<Longrightarrow> gateway_inv rt (g\<lparr>registering := rs\<rparr>)"
  "gateway_inv rt g \<Longrightarrow> gateway_inv rt (g\<lparr>unhandled := us\<rparr>)"
  by (erule gateway_inv_cong; simp)+

lemma randomUUID_inv: "gateway_inv rt g \<Longrightarrow> randomUUID rt g = (r, g') \<Longrightarrow> gateway_inv rt g'"
  by (erule gateway_inv_cong) (auto simp: randomUUID_def)

lemma emit_chunk_inv [simp]: "gateway_inv rt g \<Longrightarrow> gateway_inv rt (emit (Chunk k d) g)"
  by (erule gateway_inv_cong) (simp_all add: emit_def)

subsection \<open>Settling\<close>

lemma inv_unique:
  assumes "gateway_inv rt g"
  shows "unique_keys (pendingLists g)" "unique_keys (pendingCommands g)" "unique_keys (pendingInspects g)"
    "unique_keys (timers g)"
  using assms by (simp_all add: gateway_inv_def)

lemma settle_list_inv:
  assumes inv: "gateway_inv rt g" and get: "map_get (pendingLists g) u = Some e"
  shows "gateway_inv rt (settle (plist_promise e) s
           (g\<lparr>timers := map_delete (plist_timer e) (timers g), pendingLists := map_delete u (pendingLists g)\<rparr>))"
  using inv
proof (rule gateway_inv_remove)
  show "mset (pendings g) = add_mset (ListKey u, plist_promise e, plist_timer e)
          (mset (pendings (settle (plist_promise e) s
             (g\<lparr>timers := map_delete (plist_timer e) (timers g), pendingLists := map_delete u (pendingLists g)\<rparr>))))"
    using list_view_delete [OF inv_unique(1) [OF inv] get] by (simp add: pendings_def settle_def emit_def)
qed (use inv_unique [OF inv] in \<open>simp_all add: settle_def emit_def\<close>)

lemma settle_command_inv:
  assumes inv: "gateway_inv rt g" and get: "map_get (pendingCommands g) r = Some e"
  shows "gateway_inv rt (settle (pcmd_promise e) s
           (g\<lparr>timers := map_delete (pcmd_timer e) (timers g), pendingCommands := map_delete r (pendingCommands g)\<rparr>))"
  using inv
proof (rule gateway_inv_remove)
  show "mset (pendings g) = add_mset (CommandKey r, pcmd_promise e, pcmd_timer e)
          (mset (pendings (settle (pcmd_promise e) s
             (g\<lparr>timers := map_delete (pcmd_timer e) (timers g), pendingCommands := map_delete r (pendingCommands g)\<rparr>))))"
    using command_view_delete [OF inv_unique(2) [OF inv] get] by (simp add: pendings_def settle_def emit_def)
qed (use inv_unique [OF inv] in \<open>auto simp: settle_def emit_def set_map_delete\<close>)

lemma settle_inspect_inv:
  assumes inv: "gateway_inv rt g" and get: "map_get (pendingInspects g) r = Some e"
  shows "gateway_inv rt (settle (pins_promise e) s
           (g\<lparr>timers := map_delete (pins_timer e) (timers g), pendingInspects := map_delete r (pendingInspects g)\<rparr>))"
  using inv
proof (rule gateway_inv_remove)
  show "mset (pendings g) = add_mset (InspectKey r, pins_promise e, pins_timer e)
          (mset (pendings (settle (pins_promise e) s
             (g\<lparr>timers := map_delete (pins_timer e) (timers g), pendingInspects := map_delete r (pendingInspects g)\<rparr>))))"
    using inspect_view_delete [OF inv_unique(3) [OF inv] get] by (simp add: pendings_def settle_def emit_def)
qed (use inv_unique [OF inv] in \<open>auto simp: settle_def emit_def set_map_delete\<close>)

lemma resolvePendingList_inv [simp]: "gateway_inv rt g \<Longrightarrow> gateway_inv rt (resolvePendingList u cs g)"
  using settle_list_inv [of rt g u _ "ListResolved cs"]
  by (auto simp: resolvePendingList_def Let_def clearTimeout_def split: option.split)

text \<open>
  The three loops visit entries of the map they delete from: every entry still to be
  visited is still in the map, because its key differs from those already deleted.
\<close>

lemma rejectCommands_inv:
  "gateway_inv rt g \<Longrightarrow> unique_keys es \<Longrightarrow> (\<forall>(r, e)\<in>set es. map_get (pendingCommands g) r = Some e) \<Longrightarrow>
     gateway_inv rt (rejectCommands u err es g)"
proof (induction u err es g rule: rejectCommands.induct)
  case (2 u err r e es g)
  show ?case
  proof (cases "pcmd_agentUuid e = u")
    case True
    let ?g = "settle (pcmd_promise e) (CommandRejected err)
       (g\<lparr>timers := map_delete (pcmd_timer e) (timers g), pendingCommands := map_delete r (pendingCommands g)\<rparr>)"
    have "gateway_inv rt ?g" using 2(3,5) by (intro settle_command_inv) auto
    moreover have "\<forall>(r', e')\<in>set es. map_get (pendingCommands ?g) r' = Some e'"
      using 2(4,5) by (force simp: settle_def emit_def unique_keys_def map_get_delete)
    ultimately show ?thesis
      using 2(2) [of "clearTimeout (pcmd_timer e) g"] True 2(4)
      by (simp add: clearTimeout_def unique_keys_def Let_def)
  next
    case False
    then show ?thesis using 2 by (simp add: unique_keys_def)
  qed
qed simp

lemma rejectInspects_inv:
  "gateway_inv rt g \<Longrightarrow> unique_keys es \<Longrightarrow> (\<forall>(r, e)\<in>set es. map_get (pendingInspects g) r = Some e) \<Longrightarrow>
     gateway_inv rt (rejectInspects u err es g)"
proof (induction u err es g rule: rejectInspects.induct)
  case (2 u err r e es g)
  show ?case
  proof (cases "pins_agentUuid e = u")
    case True
    let ?g = "settle (pins_promise e) (InspectRejected err)
       (g\<lparr>timers := map_delete (pins_timer e) (timers g), pendingInspects := map_delete r (pendingInspects g)\<rparr>)"
    have "gateway_inv rt ?g" using 2(3,5) by (intro settle_inspect_inv) auto
    moreover have "\<forall>(r', e')\<in>set es. map_get (pendingInspects ?g) r' = Some e'"
      using 2(4,5) by (force simp: settle_def emit_def unique_keys_def map_get_delete)
    ultimately show ?thesis
      using 2(2) [of "clearTimeout (pins_timer e) g"] True 2(4)
      by (simp add: clearTimeout_def unique_keys_def Let_def)
  next
    case False
    then show ?thesis using 2 by (simp add: unique_keys_def)
  qed
qed simp

lemma entries_present: "unique_keys m \<Longrightarrow> \<forall>(r, e)\<in>set m. map_get m r = Some e"
  by (auto simp: map_get_mem)

lemma reject_pending_inv [simp]:
  assumes "gateway_inv rt g"
  shows "gateway_inv rt (rejectPendingCommandsForAgent u err g)"
    "gateway_inv rt (rejectPendingInspectsForAgent u err g)"
  unfolding rejectPendingCommandsForAgent_def rejectPendingInspectsForAgent_def
  by (rule rejectCommands_inv [OF assms inv_unique(2) entries_present, OF assms inv_unique(2), OF assms],
      rule rejectInspects_inv [OF assms inv_unique(3) entries_present, OF assms inv_unique(3), OF assms])

lemma dropSubscribers_inv: "gateway_inv rt g \<Longrightarrow> gateway_inv rt (dropSubscribers u es g)"
  by (induction u es g rule: dropSubscribers.induct) auto

lemma handleDisconnect_inv [simp]: "gateway_inv rt g \<Longrightarrow> gateway_inv rt (handleDisconnect rt s g)"
  unfolding handleDisconnect_def Let_def unsubscribeLogsForAgent_def
  by (simp add: dropSubscribers_inv split: option.split)


subsection \<open>Requests\<close>

lemma pendings_add:
  "map_get (pendingLists g) u = None \<Longrightarrow>
     mset (pendings (g\<lparr>pendingLists := map_set u l (pendingLists g)\<rparr>))
       = add_mset (ListKey u, plist_promise l, plist_timer l) (mset (pendings g))"
  "map_get (pendingCommands g) r = None \<Longrightarrow>
     mset (pendings (g\<lparr>pendingCommands := map_set r c (pendingCommands g)\<rparr>))
       = add_mset (CommandKey r, pcmd_promise c, pcmd_timer c) (mset (pendings g))"
  "map_get (pendingInspects g) r = None \<Longrightarrow>
     mset (pendings (g\<lparr>pendingInspects := map_set r i (pendingInspects g)\<rparr>))
       = add_mset (InspectKey r, pins_promise i, pins_timer i) (mset (pendings g))"
  by (simp_all add: pendings_def views_set_fresh)

lemma pendings_cong [simp]:
  "pendings (g\<lparr>timers := ts\<rparr>) = pendings g" "pendings (g\<lparr>nextTimer := n\<rparr>) = pendings g"
  "pendings (g\<lparr>nextPromise := n\<rparr>) = pendings g" "pendings (g\<lparr>uuidDraws := n\<rparr>) = pendings g"
  "pendings (g\<lparr>inventory := i\<rparr>) = pendings g" "pendings (g\<lparr>effects := es\<rparr>) = pendings g"
  by (simp_all add: pendings_def)

text \<open>A drawn request id is not in use, when no id is drawn twice.\<close>

lemma fresh_requestId:
  assumes "inj (rt_uuid rt)" "gateway_inv rt g"
  shows "map_get (pendingCommands g) (rt_uuid rt (uuidDraws g)) = None"
    "map_get (pendingInspects g) (rt_uuid rt (uuidDraws g)) = None"
proof -
  have new: "rt_uuid rt (uuidDraws g) \<notin> rt_uuid rt ` {..<uuidDraws g}"
    using assms(1) by (simp add: inj_image_mem_iff)
  have "rt_uuid rt (uuidDraws g) \<notin> fst ` set (pendingCommands g) \<union> fst ` set (pendingInspects g)"
    using assms(2) new unfolding gateway_inv_def by blast
  then show "map_get (pendingCommands g) (rt_uuid rt (uuidDraws g)) = None"
    "map_get (pendingInspects g) (rt_uuid rt (uuidDraws g)) = None"
    by (simp_all add: map_of_eq_None_iff)
qed

lemma keys_map_set: "unique_keys m \<Longrightarrow> fst ` set (map_set k v m) = insert k (fst ` set m)"
  by (force simp: set_map_set)

text \<open>The three additions, as states.\<close>

lemma add_list_inv:
  assumes "gateway_inv rt g" "map_get (pendingLists g) u = None"
  shows "gateway_inv rt (g\<lparr>nextPromise := Suc (nextPromise g),
           timers := map_set (nextTimer g) (ListTimeout u h (nextPromise g)) (timers g),
           nextTimer := Suc (nextTimer g),
           pendingLists := map_set u \<lparr>plist_promise = nextPromise g, plist_timer = nextTimer g\<rparr> (pendingLists g)\<rparr>)"
  using assms(1)
proof (rule gateway_inv_add [where cb = "ListTimeout u h (nextPromise g)"])
qed (use assms inv_unique [OF assms(1)] in \<open>simp_all add: pendings_def views_set_fresh gateway_inv_def\<close>)

lemma insert_requestId:
  assumes "gateway_inv rt g"
  shows "\<forall>r\<in>insert (rt_uuid rt (uuidDraws g)) (fst ` set (pendingCommands g) \<union> fst ` set (pendingInspects g)).
           r \<in> rt_uuid rt ` {..<Suc (uuidDraws g)}"
  using assms unfolding gateway_inv_def lessThan_Suc by blast

lemma add_command_inv:
  assumes "inj (rt_uuid rt)" and inv: "gateway_inv rt g"
  shows "gateway_inv rt (g\<lparr>uuidDraws := Suc (uuidDraws g), nextPromise := Suc (nextPromise g),
           timers := map_set (nextTimer g) (CommandTimeout (rt_uuid rt (uuidDraws g)) a (nextPromise g)) (timers g),
           nextTimer := Suc (nextTimer g),
           pendingCommands := map_set (rt_uuid rt (uuidDraws g))
             \<lparr>pcmd_agentUuid = u, pcmd_promise = nextPromise g, pcmd_timer = nextTimer g\<rparr> (pendingCommands g)\<rparr>)"
  using inv
proof (rule gateway_inv_add [where cb = "CommandTimeout (rt_uuid rt (uuidDraws g)) a (nextPromise g)"])
qed (use inv_unique [OF inv] fresh_requestId [OF assms] insert_requestId [OF inv]
     in \<open>simp_all add: pendings_def views_set_fresh keys_map_set\<close>)

lemma add_inspect_inv:
  assumes "inj (rt_uuid rt)" and inv: "gateway_inv rt g"
  shows "gateway_inv rt (g\<lparr>uuidDraws := Suc (uuidDraws g), nextPromise := Suc (nextPromise g),
           timers := map_set (nextTimer g) (InspectTimeout (rt_uuid rt (uuidDraws g)) (nextPromise g)) (timers g),
           nextTimer := Suc (nextTimer g),
           pendingInspects := map_set (rt_uuid rt (uuidDraws g))
             \<lparr>pins_agentUuid = u, pins_promise = nextPromise g, pins_timer = nextTimer g\<rparr> (pendingInspects g)\<rparr>)"
  using inv
proof (rule gateway_inv_add [where cb = "InspectTimeout (rt_uuid rt (uuidDraws g)) (nextPromise g)"])
qed (use inv_unique [OF inv] fresh_requestId [OF assms] insert_requestId [OF inv]
     in \<open>simp_all add: pendings_def views_set_fresh keys_map_set\<close>)


subsection \<open>The request operations\<close>

lemma resolvePendingList_fields [simp]:
  "sockets (resolvePendingList u cs g) = sockets g" "socketsByUuid (resolvePendingList u cs g) = socketsByUuid g"
  "pendingCommands (resolvePendingList u cs g) = pendingCommands g"
  "pendingInspects (resolvePendingList u cs g) = pendingInspects g"
  "logSubscribers (resolvePendingList u cs g) = logSubscribers g"
  "inventory (resolvePendingList u cs g) = inventory g" "hostMetrics (resolvePendingList u cs g) = hostMetrics g"
  "agents (resolvePendingList u cs g) = agents g" "nextPromise (resolvePendingList u cs g) = nextPromise g"
  "nextTimer (resolvePendingList u cs g) = nextTimer g" "uuidDraws (resolvePendingList u cs g) = uuidDraws g"
  "registering (resolvePendingList u cs g) = registering g" "unhandled (resolvePendingList u cs g) = unhandled g"
  by (simp_all add: resolvePendingList_def Let_def clearTimeout_def settle_def emit_def split: option.split)

lemma resolvePendingList_gone [simp]: "map_get (pendingLists (resolvePendingList u cs g)) u = None"
  by (simp add: resolvePendingList_def Let_def clearTimeout_def settle_def emit_def map_get_delete split: option.split)

lemma resolvePendingList_nextPromise:
  "resolvePendingList u cs (g\<lparr>nextPromise := n\<rparr>) = (resolvePendingList u cs g)\<lparr>nextPromise := n\<rparr>"
  by (simp add: resolvePendingList_def Let_def clearTimeout_def settle_def emit_def split: option.split)

lemma openClient_cong [simp]:
  "openClient u (remember_inventory h v g) = openClient u g"
  "openClient u (g\<lparr>logSubscribers := l\<rparr>) = openClient u g"
  by (auto simp: openClient_def remember_inventory_def split: option.split)

lemma requestContainerList_inv:
  assumes inv: "gateway_inv rt g" and req: "requestContainerList u h g = (rep, g')"
  shows "gateway_inv rt g'"
proof (cases "openClient u g")
  case None
  then show ?thesis using req inv by (auto simp: requestContainerList_def Let_def)
next
  case (Some client)
  let ?g = "remember_inventory h u g"
  let ?r = "resolvePendingList u (snapshot_containers (inv_getByUuid u (inventory ?g))) ?g"
  have "gateway_inv rt ?r" using inv by simp
  note add_list_inv [OF this, of u h]
  then show ?thesis
    using req Some
    by (auto simp: requestContainerList_def Let_def newPromise_def setTimeout_def resolvePendingList_nextPromise)
qed

lemma sendContainerCommand_inv:
  assumes "inj (rt_uuid rt)" and inv: "gateway_inv rt g" and req: "sendContainerCommand rt u h a c f g = (res, g')"
  shows "gateway_inv rt g'"
proof (cases "openClient u g")
  case None
  then show ?thesis using req inv by (auto simp: sendContainerCommand_def Let_def)
next
  case (Some client)
  have "gateway_inv rt (remember_inventory h u g)" using inv by simp
  note add_command_inv [OF assms(1) this, of u a]
  then show ?thesis
    using req Some by (auto simp: sendContainerCommand_def Let_def newPromise_def setTimeout_def randomUUID_def)
qed

lemma inspectContainer_inv:
  assumes "inj (rt_uuid rt)" and inv: "gateway_inv rt g" and req: "inspectContainer rt u h c g = (res, g')"
  shows "gateway_inv rt g'"
proof (cases "openClient u g")
  case None
  then show ?thesis using req inv by (auto simp: inspectContainer_def Let_def)
next
  case (Some client)
  have "gateway_inv rt (remember_inventory h u g)" using inv by simp
  note add_inspect_inv [OF assms(1) this, of u]
  then show ?thesis
    using req Some by (auto simp: inspectContainer_def Let_def newPromise_def setTimeout_def randomUUID_def)
qed

lemma startLogStream_inv:
  assumes inv: "gateway_inv rt g" and req: "startLogStream rt u h c tail follow sink g = (rid, g')"
  shows "gateway_inv rt g'"
proof (cases "openClient u g")
  case None
  then show ?thesis using req inv by (auto simp: startLogStream_def Let_def)
next
  case (Some client)
  have "gateway_inv rt (remember_inventory h u g\<lparr>uuidDraws := Suc (uuidDraws g)\<rparr>)"
    using inv by (rule gateway_inv_cong) (simp_all add: remember_inventory_def)
  then have "gateway_inv rt (remember_inventory h u g
      \<lparr>uuidDraws := Suc (uuidDraws (remember_inventory h u g))\<rparr>)"
    by (simp add: remember_inventory_def)
  then show ?thesis using req Some
    by (auto simp: startLogStream_def Let_def randomUUID_def intro!: send_inv field_updates_inv)
qed

lemma stopLogStream_inv [simp]: "gateway_inv rt g \<Longrightarrow> gateway_inv rt (stopLogStream rid g)"
  by (simp add: stopLogStream_def Let_def split: option.split)

subsection \<open>The message handlers\<close>

lemma handleRegister_inv: "gateway_inv rt g \<Longrightarrow> gateway_inv rt (handleRegister rt now s payload g)"
  by (simp add: handleRegister_def reject_unhandled_def split: option.split sum.split)

lemma resumeRegister_inv: "gateway_inv rt g \<Longrightarrow> gateway_inv rt (resumeRegister s r (drop_registering k g))"
  by (simp add: resumeRegister_def drop_registering_def Let_def)

lemma handleHeartbeat_inv: "gateway_inv rt g \<Longrightarrow> gateway_inv rt (handleHeartbeat rt now s payload g)"
  by (simp add: handleHeartbeat_def reject_unhandled_def Let_def split: option.split sum.split)

lemma handleContainerListed_inv: "gateway_inv rt g \<Longrightarrow> gateway_inv rt (handleContainerListed now s payload g)"
  by (simp add: handleContainerListed_def Let_def)

lemma handleContainerResult_inv: "gateway_inv rt g \<Longrightarrow> gateway_inv rt (handleContainerResult payload g)"
  using settle_command_inv
  by (simp add: handleContainerResult_def Let_def clearTimeout_def split: option.split)

lemma handleContainerInspected_inv: "gateway_inv rt g \<Longrightarrow> gateway_inv rt (handleContainerInspected payload g)"
  using settle_inspect_inv
  by (simp add: handleContainerInspected_def Let_def clearTimeout_def split: option.split)

lemma handleHostMetrics_inv: "gateway_inv rt g \<Longrightarrow> gateway_inv rt (handleHostMetrics rt now s payload g)"
  by (simp add: handleHostMetrics_def Let_def split: option.split)

lemma handleLogsChunk_inv: "gateway_inv rt g \<Longrightarrow> gateway_inv rt (handleLogsChunk payload g)"
  by (simp add: handleLogsChunk_def split: option.split)

lemmas handlers_inv =
  handleRegister_inv handleHeartbeat_inv handleContainerListed_inv handleContainerResult_inv
  handleContainerInspected_inv handleHostMetrics_inv handleLogsChunk_inv

lemma dispatch_inv: "gateway_inv rt g \<Longrightarrow> gateway_inv rt (dispatch rt now s t payload g)"
  by (simp add: dispatch_def handlers_inv)

lemma handleMessage_inv: "gateway_inv rt g \<Longrightarrow> gateway_inv rt (handleMessage rt now s data g)"
  by (simp add: handleMessage_def dispatch_inv split: option.split json.split)

subsection \<open>Timers\<close>

lemma pending_entry:
  assumes "gateway_inv rt g"
  shows "(ListKey u, p, t) \<in> set (pendings g) \<longleftrightarrow>
       (\<exists>e. map_get (pendingLists g) u = Some e \<and> plist_promise e = p \<and> plist_timer e = t)"
    "(CommandKey r, p, t) \<in> set (pendings g) \<longleftrightarrow>
       (\<exists>e. map_get (pendingCommands g) r = Some e \<and> pcmd_promise e = p \<and> pcmd_timer e = t)"
    "(InspectKey r, p, t) \<in> set (pendings g) \<longleftrightarrow>
       (\<exists>e. map_get (pendingInspects g) r = Some e \<and> pins_promise e = p \<and> pins_timer e = t)"
  using inv_unique [OF assms]
  by (auto simp: pendings_def view_defs map_get_mem image_iff Bex_def)

lemma fire_timer_inv: "gateway_inv rt g \<Longrightarrow> gateway_inv rt (fire_timer t g)"
proof (cases "map_get (timers g) t")
  case None
  then show "gateway_inv rt g \<Longrightarrow> ?thesis" by (simp add: fire_timer_def)
next
  case (Some cb)
  assume inv: "gateway_inv rt g"
  note pend = timer_pending [OF inv Some]
  show ?thesis
  proof (cases cb)
    case (ListTimeout u h p)
    then show ?thesis
      using Some pend pending_entry(1) [OF inv, of u p t] settle_list_inv [OF inv, of u]
      by (auto simp: fire_timer_def Let_def)
  next
    case (CommandTimeout r a p)
    then show ?thesis
      using Some pend pending_entry(2) [OF inv, of r p t] settle_command_inv [OF inv, of r]
      by (auto simp: fire_timer_def)
  next
    case (InspectTimeout r p)
    then show ?thesis
      using Some pend pending_entry(3) [OF inv, of r p t] settle_inspect_inv [OF inv, of r]
      by (auto simp: fire_timer_def)
  qed
qed

subsection \<open>Steps and reachable states\<close>

lemma gateway_init_inv: "gateway_inv rt (gateway_init t0)"
  by (simp add: gateway_inv_def gateway_init_def pendings_def view_defs timer_view_def pending_promises_def)

lemma gateway_step_inv:
  assumes "inj (rt_uuid rt)"
  shows "gateway_step rt g g' \<Longrightarrow> gateway_inv rt g \<Longrightarrow> gateway_inv rt g'"
proof (induction rule: gateway_step.induct)
  case (command g u h a c f res g')
  then show ?case using sendContainerCommand_inv [OF assms] by blast
next
  case (inspect g u h c res g')
  then show ?case using inspectContainer_inv [OF assms] by blast
next
  case (request_list g u h rep g')
  then show ?case using requestContainerList_inv by blast
next
  case (start_logs g u h c tail follow sink rid g')
  then show ?case using startLogStream_inv by blast
qed (simp_all add: handleConnection_def close_socket_def handleMessage_inv resumeRegister_inv fire_timer_inv)

lemma gateway_reachable_inv:
  "gateway_reachable rt t0 g \<Longrightarrow> inj (rt_uuid rt) \<Longrightarrow> gateway_inv rt g"
  by (induction rule: gateway_reachable.induct) (auto simp: gateway_init_inv dest: gateway_step_inv)

end
