(* ===== verification/GatewayPromises.thy ===== *)
theory GatewayPromises
  imports GatewayPreserve "HOL-Library.Sublist"
begin

section \<open>What becomes of a promise\<close>

text \<open>
  The abstract contract of the request layer: a promise handed to the HTTP side goes from
  \<open>Absent\<close> to \<open>Waiting\<close> to \<open>Done\<close>, each at most once and never back, and a \<open>Waiting\<close> promise
  has a running timer that settles it. The gateway's steps refine that automaton.
\<close>

subsection \<open>The abstract automaton\<close>

datatype promise_state = Absent | Waiting | Done settlement

inductive promise_step :: "promise_state \<Rightarrow> promise_state \<Rightarrow> bool" where
  stays: "promise_step a a"
| created: "promise_step Absent Waiting"
| settled_by: "promise_step Waiting (Done s)"

fun outcome :: "effect list \<Rightarrow> promise \<Rightarrow> settlement option" where
  "outcome [] p = None"
| "outcome (Settled q s # es) p = (if q = p then Some s else outcome es p)"
| "outcome (Sent c m # es) p = outcome es p"
| "outcome (Chunk k d # es) p = outcome es p"

definition promise_state :: "gateway \<Rightarrow> promise \<Rightarrow> promise_state" where
  "promise_state g p =
     (case outcome (effects g) p of
        Some s \<Rightarrow> Done s
      | None \<Rightarrow> if p \<in> (\<lambda>(k, q, t). q) ` set (pendings g) then Waiting else Absent)"

lemma outcome_append: "outcome (es @ fs) p = (case outcome es p of Some s \<Rightarrow> Some s | None \<Rightarrow> outcome fs p)"
  by (induction es p rule: outcome.induct) auto

lemma outcome_None_iff: "outcome es p = None \<longleftrightarrow> p \<notin> set (settled es)"
  by (induction es p rule: outcome.induct) auto

lemma waiting_pending: "p \<in> (\<lambda>(k, q, t). q) ` set (pendings g) \<longleftrightarrow> p \<in># pending_promises g"
  by (force simp: pending_promises_def)

subsection \<open>Each promise is pending or settled, and only once\<close>

lemma inv_counts:
  assumes "gateway_inv rt g"
  shows "count (pending_promises g) p + count (mset (settled (effects g))) p = (if p < nextPromise g then 1 else 0)"
proof -
  have "count (pending_promises g + mset (settled (effects g))) p = count (mset [0..<nextPromise g]) p"
    using assms by (simp only: gateway_inv_def)
  also have "\<dots> = (if p < nextPromise g then 1 else 0)" by (simp add: distinct_count_atmost_1)
  finally show ?thesis by simp
qed

lemma inv_promise_state:
  assumes "gateway_inv rt g"
  shows "promise_state g p = Absent \<longleftrightarrow> nextPromise g \<le> p"
    "promise_state g p = Waiting \<longleftrightarrow> p \<in># pending_promises g"
    "p \<in># pending_promises g \<Longrightarrow> outcome (effects g) p = None"
    "outcome (effects g) p = Some s \<Longrightarrow> p < nextPromise g"
proof -
  note counts = inv_counts [OF assms, of p]
  have settled: "outcome (effects g) p = None \<longleftrightarrow> count (mset (settled (effects g))) p = 0"
    by (simp add: outcome_None_iff)
  have pending: "p \<in># pending_promises g \<longleftrightarrow> count (pending_promises g) p \<noteq> 0"
    by (metis not_in_iff)
  have "\<not> (count (pending_promises g) p \<noteq> 0 \<and> count (mset (settled (effects g))) p \<noteq> 0)"
    using counts by presburger
  then show "p \<in># pending_promises g \<Longrightarrow> outcome (effects g) p = None"
    using settled pending by blast
  then show "promise_state g p = Waiting \<longleftrightarrow> p \<in># pending_promises g"
    by (auto simp: promise_state_def waiting_pending split: option.split)
  show "promise_state g p = Absent \<longleftrightarrow> nextPromise g \<le> p"
  proof -
    have "promise_state g p = Absent \<longleftrightarrow> outcome (effects g) p = None \<and> \<not> p \<in># pending_promises g"
      by (auto simp: promise_state_def waiting_pending split: option.split)
    moreover obtain a b where ab: "count (pending_promises g) p = a" "count (mset (settled (effects g))) p = b"
      by blast
    ultimately have "promise_state g p = Absent \<longleftrightarrow> b = 0 \<and> a = 0" unfolding settled pending ab by blast
    moreover have "a + b = (if p < nextPromise g then 1 else 0)" using counts unfolding ab .
    ultimately show ?thesis by (auto split: if_splits)
  qed
  show "outcome (effects g) p = Some s \<Longrightarrow> p < nextPromise g"
    using counts settled by (auto split: if_splits)
qed

subsection \<open>Effects and counters only grow\<close>

definition later :: "gateway \<Rightarrow> gateway \<Rightarrow> bool" where
  "later g g' \<longleftrightarrow> prefix (effects g) (effects g') \<and> nextPromise g \<le> nextPromise g'"

lemma later_refl [simp, intro]: "later g g"
  by (simp add: later_def)

lemma later_trans [trans]: "later g g' \<Longrightarrow> later g' g'' \<Longrightarrow> later g g''"
  by (auto simp: later_def)

lemma later_cong: "later g g' \<Longrightarrow> effects g'' = effects g' \<Longrightarrow> nextPromise g'' = nextPromise g' \<Longrightarrow> later g g''"
  by (simp add: later_def)

lemma later_emit [simp]: "later g g' \<Longrightarrow> later g (emit e g')"
  by (auto simp: later_def emit_def)

lemma later_send [simp]: "later g g' \<Longrightarrow> later g (send s e g')"
  by (simp add: send_def)

lemma later_settle [simp]: "later g g' \<Longrightarrow> later g (settle p s g')"
  by (simp add: settle_def)

lemma later_fields [simp]:
  "later g (g'\<lparr>timers := ts\<rparr>) = later g g'" "later g (g'\<lparr>nextTimer := n\<rparr>) = later g g'"
  "later g (g'\<lparr>pendingLists := ml\<rparr>) = later g g'" "later g (g'\<lparr>pendingCommands := mc\<rparr>) = later g g'"
  "later g (g'\<lparr>pendingInspects := mi\<rparr>) = later g g'" "later g (g'\<lparr>socketsByUuid := su\<rparr>) = later g g'"
  "later g (g'\<lparr>sockets := so\<rparr>) = later g g'" "later g (g'\<lparr>logSubscribers := ls\<rparr>) = later g g'"
  "later g (g'\<lparr>inventory := i\<rparr>) = later g g'" "later g (g'\<lparr>hostMetrics := h\<rparr>) = later g g'"
  "later g (g'\<lparr>agents := ta\<rparr>) = later g g'" "later g (g'\<lparr>uuidDraws := k\<rparr>) = later g g'"
  "later g (g'\<lparr>registering := rs\<rparr>) = later g g'" "later g (g'\<lparr>unhandled := us\<rparr>) = later g g'"
  by (simp_all add: later_def)

lemma later_nextPromise [simp]: "later g g' \<Longrightarrow> later g (g'\<lparr>nextPromise := Suc (nextPromise g')\<rparr>)"
  by (simp add: later_def)

lemma later_prims [simp]:
  "later g g' \<Longrightarrow> later g (set_socket s c g')" "later g g' \<Longrightarrow> later g (remember_inventory h u g')"
  "later g g' \<Longrightarrow> later g (clearTimeout t g')"
  by (simp_all add: set_socket_def remember_inventory_def clearTimeout_def)

lemma later_resolvePendingList [simp]: "later g g' \<Longrightarrow> later g (resolvePendingList u cs g')"
  by (simp add: resolvePendingList_def Let_def split: option.split)

lemma later_loops [simp]:
  "later g g' \<Longrightarrow> later g (rejectCommands u err ec g')"
  "later g g' \<Longrightarrow> later g (rejectInspects u err ei g')"
  "later g g' \<Longrightarrow> later g (dropSubscribers u es g')"
  subgoal by (induction u err ec g' rule: rejectCommands.induct) (auto simp: Let_def)
  subgoal by (induction u err ei g' rule: rejectInspects.induct) (auto simp: Let_def)
  subgoal by (induction u es g' rule: dropSubscribers.induct) auto
  done

lemma nextPromise_loops [simp]:
  "nextPromise (rejectCommands u err ec g) = nextPromise g"
  "nextPromise (rejectInspects u err ei g) = nextPromise g"
  "nextPromise (dropSubscribers u es g) = nextPromise g"
  subgoal by (induction u err ec g rule: rejectCommands.induct)
      (auto simp: Let_def settle_def emit_def clearTimeout_def)
  subgoal by (induction u err ei g rule: rejectInspects.induct)
      (auto simp: Let_def settle_def emit_def clearTimeout_def)
  subgoal by (induction u es g rule: dropSubscribers.induct) auto
  done

lemma handleDisconnect_later: "later g (handleDisconnect rt s g)"
  unfolding handleDisconnect_def Let_def unsubscribeLogsForAgent_def rejectPendingCommandsForAgent_def
    rejectPendingInspectsForAgent_def
  by (simp split: option.split)

lemma handleDisconnect_nextPromise: "nextPromise (handleDisconnect rt s g) = nextPromise g"
  unfolding handleDisconnect_def Let_def unsubscribeLogsForAgent_def rejectPendingCommandsForAgent_def
    rejectPendingInspectsForAgent_def
  by (simp split: option.split)

text \<open>No handler of an incoming frame creates a promise.\<close>

definition settles_only :: "gateway \<Rightarrow> gateway \<Rightarrow> bool" where
  "settles_only g g' \<longleftrightarrow> later g g' \<and> nextPromise g' = nextPromise g"

lemma handleRegister_settles: "settles_only g (handleRegister rt now s payload g)"
  by (simp add: settles_only_def handleRegister_def reject_unhandled_def split: option.split sum.split)

lemma handleHeartbeat_settles: "settles_only g (handleHeartbeat rt now s payload g)"
  by (simp add: settles_only_def handleHeartbeat_def reject_unhandled_def set_socket_def Let_def
      split: option.split sum.split)

lemma handleContainerListed_settles: "settles_only g (handleContainerListed now s payload g)"
  by (simp add: settles_only_def handleContainerListed_def Let_def)

lemma handleContainerResult_settles: "settles_only g (handleContainerResult payload g)"
  by (simp add: settles_only_def handleContainerResult_def clearTimeout_def settle_def Let_def split: option.split)
    (simp add: emit_def)

lemma handleContainerInspected_settles: "settles_only g (handleContainerInspected payload g)"
  by (simp add: settles_only_def handleContainerInspected_def clearTimeout_def settle_def Let_def split: option.split)
    (simp add: emit_def)

lemma handleHostMetrics_settles: "settles_only g (handleHostMetrics rt now s payload g)"
  by (simp add: settles_only_def handleHostMetrics_def Let_def split: option.split)

lemma handleLogsChunk_settles: "settles_only g (handleLogsChunk payload g)"
  by (simp add: settles_only_def handleLogsChunk_def split: option.split) (simp add: emit_def)

lemma settles_only_send [simp]: "settles_only g (send s e g)"
  by (simp add: settles_only_def)

lemma settles_only_refl [simp]: "settles_only g g"
  by (simp add: settles_only_def)

lemma handleMessage_settles: "settles_only g (handleMessage rt now s data g)"
  by (simp add: handleMessage_def dispatch_def handleRegister_settles handleHeartbeat_settles
      handleContainerListed_settles handleContainerResult_settles handleContainerInspected_settles
      handleHostMetrics_settles handleLogsChunk_settles split: option.split json.split)

lemma run_callback_later: "later g g' \<Longrightarrow> later g (run_callback cb g')"
  by (cases cb) (simp_all add: Let_def)

lemma run_callback_nextPromise: "nextPromise (run_callback cb g) = nextPromise g"
  by (cases cb) (simp_all add: settle_def emit_def Let_def)

lemma stopLogStream_later: "later g (stopLogStream rid g) \<and> nextPromise (stopLogStream rid g) = nextPromise g"
  by (simp add: stopLogStream_def Let_def split: option.split)


subsection \<open>The request operations\<close>

text \<open>
  Only \<open>requestContainerList\<close>, \<open>sendContainerCommand\<close> and \<open>inspectContainer\<close> create a promise, and
  what they settle was there before.
\<close>

definition settles_old :: "gateway \<Rightarrow> gateway \<Rightarrow> bool" where
  "settles_old g g' \<longleftrightarrow>
     later g g' \<and> (\<forall>p s. outcome (effects g) p = None \<longrightarrow> outcome (effects g') p = Some s \<longrightarrow> p < nextPromise g)"

lemma later_outcome:
  "later g g' \<Longrightarrow> outcome (effects g) p = Some s \<Longrightarrow> outcome (effects g') p = Some s"
  by (auto simp: later_def prefix_def outcome_append)

lemma settles_only_old:
  "settles_only g g' \<Longrightarrow> gateway_inv rt g' \<Longrightarrow> settles_old g g'"
  by (auto simp: settles_only_def settles_old_def dest: inv_promise_state(4))

lemma outcome_emit:
  "outcome (effects (emit e g)) p = (case outcome (effects g) p of Some s \<Rightarrow> Some s | None \<Rightarrow> outcome [e] p)"
  by (simp add: emit_def outcome_append)

lemma outcome_send [simp]: "outcome (effects (send s e g)) p = outcome (effects g) p"
  by (simp add: send_def outcome_emit split: option.split)

lemma prefix_send [simp]: "prefix es (effects g) \<Longrightarrow> prefix es (effects (send s e g))"
  by (auto simp: send_def emit_def)

lemma prefix_resolvePendingList [simp]: "prefix es (effects g) \<Longrightarrow> prefix es (effects (resolvePendingList u cs g))"
  by (auto simp: resolvePendingList_def settle_def emit_def clearTimeout_def Let_def split: option.split)

lemma outcome_resolvePendingList:
  "outcome (effects (resolvePendingList u cs g)) p =
     (case outcome (effects g) p of
        Some s \<Rightarrow> Some s
      | None \<Rightarrow> (case map_get (pendingLists g) u of
                  Some e \<Rightarrow> if plist_promise e = p then Some (ListResolved cs) else None
                | None \<Rightarrow> None))"
  by (simp add: resolvePendingList_def settle_def clearTimeout_def outcome_emit Let_def split: option.split)

lemma requestContainerList_settles_old:
  assumes inv: "gateway_inv rt g" and req: "requestContainerList u h g = (rep, g')"
  shows "settles_old g g'"
proof (cases "openClient u g")
  case None
  then show ?thesis using req
    by (auto simp: requestContainerList_def Let_def settles_old_def) (auto simp: remember_inventory_def)
next
  case (Some client)
  have "plist_promise e < nextPromise g" if "map_get (pendingLists g) u = Some e" for e
  proof -
    have "(ListKey u, plist_promise e, plist_timer e) \<in> set (pendings g)"
      using that pending_entry(1) [OF inv] by blast
    then have "plist_promise e \<in># pending_promises g" by (force simp: waiting_pending [symmetric])
    then show ?thesis using inv_promise_state(1,2) [OF inv] by (metis not_le promise_state.distinct(1))
  qed
  then show ?thesis using req Some
    by (auto simp: requestContainerList_def Let_def settles_old_def newPromise_def setTimeout_def
        resolvePendingList_nextPromise outcome_resolvePendingList split: option.splits if_splits)
      (auto simp: remember_inventory_def later_def)
qed

lemma requests_settle_old:
  "sendContainerCommand rt u h a c f g = (res, g') \<Longrightarrow> settles_old g g'"
  "inspectContainer rt u h c g = (res, g') \<Longrightarrow> settles_old g g'"
  "startLogStream rt u h c tail follow sink g = (rid, g') \<Longrightarrow> settles_old g g'"
  by (auto simp: sendContainerCommand_def inspectContainer_def startLogStream_def settles_old_def Let_def
      randomUUID_def newPromise_def setTimeout_def remember_inventory_def later_def split: option.splits)

lemma fire_timer_settles: "settles_only g (fire_timer t g)"
  by (simp add: settles_only_def fire_timer_def run_callback_later run_callback_nextPromise split: option.split)

lemma gateway_step_settles_old:
  assumes "inj (rt_uuid rt)" "gateway_step rt g g'" "gateway_inv rt g"
  shows "settles_old g g'"
proof -
  note inv' = gateway_step_inv [OF assms]
  show ?thesis
    using assms(2,3) inv'
  proof (induction rule: gateway_step.induct)
    case (connect g s)
    then show ?case by (intro settles_only_old [where rt = rt]) (auto simp: settles_only_def handleConnection_def set_socket_def)
  next
    case (closing g s)
    then show ?case by (intro settles_only_old [where rt = rt]) (auto simp: settles_only_def close_socket_def set_socket_def)
  next
    case (disconnect g s)
    then show ?case by (intro settles_only_old [where rt = rt])
        (auto simp: settles_only_def handleDisconnect_later handleDisconnect_nextPromise)
  next
    case (message g now s data)
    then show ?case by (intro settles_only_old [where rt = rt] handleMessage_settles)
  next
    case (resume g k s r)
    have "settles_only g (resumeRegister s r (drop_registering k g))"
      by (simp add: settles_only_def resumeRegister_def drop_registering_def Let_def set_socket_def
          remember_inventory_def)
    then show ?case using resume settles_only_old [where rt = rt] by blast
  next
    case (timer g t cb)
    then show ?case by (intro settles_only_old [where rt = rt] fire_timer_settles)
  next
    case (stop_logs g rid)
    then show ?case by (intro settles_only_old [where rt = rt]) (auto simp: settles_only_def stopLogStream_later)
  qed (blast intro: requestContainerList_settles_old requests_settle_old)+
qed

lemma settles_old_promise_step:
  assumes inv: "gateway_inv rt g" and inv': "gateway_inv rt g'" and old: "settles_old g g'"
  shows "promise_step (promise_state g p) (promise_state g' p)"
proof (cases "promise_state g p")
  case Absent
  then have ge: "nextPromise g \<le> p" using inv_promise_state(1) [OF inv] by blast
  then have "outcome (effects g) p = None" using inv_promise_state(4) [OF inv] by (cases "outcome (effects g) p") fastforce+
  then have "outcome (effects g') p = None"
    using old ge by (cases "outcome (effects g') p") (simp, force simp: settles_old_def)
  then have "promise_state g' p \<in> {Absent, Waiting}" by (simp add: promise_state_def)
  then show ?thesis using Absent by (auto intro: promise_step.intros)
next
  case Waiting
  then have "p < nextPromise g" using inv_promise_state(1) [OF inv, of p] by simp
  then have "promise_state g' p \<noteq> Absent"
    using old inv_promise_state(1) [OF inv', of p] by (simp add: settles_old_def later_def)
  then show ?thesis using Waiting by (cases "promise_state g' p") (auto intro: promise_step.intros)
next
  case (Done s)
  then have "outcome (effects g) p = Some s" by (auto simp: promise_state_def split: option.splits if_splits)
  then have "promise_state g' p = Done s"
    using old later_outcome by (fastforce simp: settles_old_def promise_state_def)
  then show ?thesis using Done by (auto intro: promise_step.intros)
qed

subsection \<open>Running out the clocks\<close>

definition expire_all :: "gateway \<Rightarrow> gateway" where
  "expire_all g = fold fire_timer (map fst (timers g)) g"

lemma run_callback_fields [simp]:
  "timers (run_callback cb g) = timers g" "unhandled (run_callback cb g) = unhandled g"
  by (cases cb; simp add: settle_def emit_def Let_def)+

lemma map_delete_absent: "map_get m k = None \<Longrightarrow> map_delete k m = m"
  by (simp add: map_of_eq_None_iff delete_idem)

lemma fire_timer_timers: "timers (fire_timer t g) = map_delete t (timers g)"
  by (cases "map_get (timers g) t") (simp_all add: fire_timer_def map_delete_absent)

lemma fire_timer_unhandled: "unhandled (fire_timer t g) = unhandled g"
  by (cases "map_get (timers g) t") (simp_all add: fire_timer_def)

lemma fold_fire_timer_inv: "gateway_inv rt g \<Longrightarrow> gateway_inv rt (fold fire_timer ts g)"
  by (induction ts arbitrary: g) (simp_all add: fire_timer_inv)

lemma fold_fire_timer_timers: "fst ` set (timers (fold fire_timer ts g)) = fst ` set (timers g) - set ts"
  by (induction ts arbitrary: g) (auto simp: fire_timer_timers set_map_delete)

lemma fold_fire_timer_nextPromise: "nextPromise (fold fire_timer ts g) = nextPromise g"
proof (induction ts arbitrary: g)
  case (Cons t ts)
  then show ?case using fire_timer_settles [of g t] by (simp add: settles_only_def)
qed simp

lemma expire_all_steps: "alive g \<Longrightarrow> (gateway_step rt)\<^sup>*\<^sup>* g (fold fire_timer ts g)"
proof (induction ts arbitrary: g)
  case (Cons t ts)
  have "(gateway_step rt)\<^sup>*\<^sup>* g (fire_timer t g)"
  proof (cases "map_get (timers g) t")
    case None
    then show ?thesis by (simp add: fire_timer_def)
  next
    case (Some cb)
    then show ?thesis using gateway_step.timer Cons.prems by blast
  qed
  moreover have "(gateway_step rt)\<^sup>*\<^sup>* (fire_timer t g) (fold fire_timer ts (fire_timer t g))"
    using Cons by (simp add: alive_def fire_timer_unhandled)
  ultimately show ?case by simp
qed simp

lemma expire_all_settles:
  assumes "gateway_inv rt g" "p < nextPromise g"
  shows "\<exists>s. promise_state (expire_all g) p = Done s"
proof -
  have inv: "gateway_inv rt (expire_all g)"
    unfolding expire_all_def using assms(1) by (rule fold_fire_timer_inv)
  have "fst ` set (timers (expire_all g)) = {}"
    by (simp add: expire_all_def fold_fire_timer_timers)
  then have "mset (pendings (expire_all g)) = {#}"
    using inv by (simp add: gateway_inv_def timer_view_def)
  then have "promise_state (expire_all g) p \<noteq> Waiting"
    using inv_promise_state(2) [OF inv] by (simp add: pending_promises_def)
  moreover have "promise_state (expire_all g) p \<noteq> Absent"
    using inv_promise_state(1) [OF inv] assms(2) by (simp add: expire_all_def fold_fire_timer_nextPromise)
  ultimately show ?thesis by (cases "promise_state (expire_all g) p") auto
qed

end
