(* ===== verification/GatewayRequests.thy ===== *)
theory GatewayRequests
  imports GatewayPromises
begin

section \<open>Requests and their answers\<close>

text \<open>
  The functional behaviour of the request layer, stated on the promise automaton: what a
  request, an answer, a timeout and a disconnect do to the state of every promise, and what
  is sent on which socket.
\<close>

subsection \<open>One promise changes\<close>

lemma removal_states:
  assumes inv: "gateway_inv rt g"
    and entry: "mset (pendings g) = add_mset (k, p, t) (mset (pendings g'))"
    and effects: "effects g' = effects g @ [Settled p s]"
  shows "promise_state g' = (promise_state g)(p := Done s)"
proof
  fix q
  have "p \<in># pending_promises g" by (simp add: pending_promises_def entry)
  then have none: "outcome (effects g) p = None" using inv_promise_state(3) [OF inv] by blast
  have "set (pendings g) = insert (k, p, t) (set (pendings g'))"
    using arg_cong [OF entry, of set_mset] by simp
  then show "promise_state g' q = ((promise_state g)(p := Done s)) q"
    using none by (auto simp: promise_state_def effects outcome_append split: option.split)
qed

lemma addition_states:
  assumes inv: "gateway_inv rt g"
    and entry: "mset (pendings g') = add_mset (k, nextPromise g, t) (mset (pendings g))"
    and same: "outcome (effects g') = outcome (effects g)"
  shows "promise_state g' = (promise_state g)(nextPromise g := Waiting)"
proof
  fix q
  have none: "outcome (effects g) (nextPromise g) = None"
    using inv_promise_state(4) [OF inv] by (metis less_irrefl not_Some_eq)
  have "set (pendings g') = insert (k, nextPromise g, t) (set (pendings g))"
    using arg_cong [OF entry, of set_mset] by simp
  then show "promise_state g' q = ((promise_state g)(nextPromise g := Waiting)) q"
    using none by (auto simp: promise_state_def same split: option.split)
qed

lemma promise_state_cong:
  "pendings g' = pendings g \<Longrightarrow> outcome (effects g') = outcome (effects g) \<Longrightarrow> promise_state g' = promise_state g"
  by (rule ext) (simp add: promise_state_def)

lemma pendings_send [simp]: "pendings (send s e g) = pendings g"
  by (simp add: pendings_def)

lemma promise_state_send [simp]: "promise_state (send s e g) = promise_state g"
  by (rule promise_state_cong) (auto simp: fun_eq_iff)

lemma promise_state_fields [simp]:
  "promise_state (g\<lparr>inventory := i\<rparr>) = promise_state g" "promise_state (g\<lparr>agents := t\<rparr>) = promise_state g"
  "promise_state (g\<lparr>socketsByUuid := m\<rparr>) = promise_state g" "promise_state (g\<lparr>logSubscribers := l\<rparr>) = promise_state g"
  by (rule promise_state_cong; simp add: pendings_def)+

lemma promise_state_remember [simp]: "promise_state (remember_inventory h u g) = promise_state g"
  by (simp add: remember_inventory_def)

lemma settle_list_states:
  assumes inv: "gateway_inv rt g" and get: "map_get (pendingLists g) u = Some e"
  shows "promise_state (settle (plist_promise e) s
           (g\<lparr>timers := ts, pendingLists := map_delete u (pendingLists g)\<rparr>))
         = (promise_state g)(plist_promise e := Done s)"
  using inv
proof (rule removal_states)
  show "mset (pendings g) = add_mset (ListKey u, plist_promise e, plist_timer e)
      (mset (pendings (settle (plist_promise e) s (g\<lparr>timers := ts, pendingLists := map_delete u (pendingLists g)\<rparr>))))"
    using list_view_delete [OF inv_unique(1) [OF inv] get] by (simp add: pendings_def settle_def emit_def)
qed (simp add: settle_def emit_def)

lemma settle_command_states:
  assumes inv: "gateway_inv rt g" and get: "map_get (pendingCommands g) r = Some e"
  shows "promise_state (settle (pcmd_promise e) s
           (g\<lparr>timers := ts, pendingCommands := map_delete r (pendingCommands g)\<rparr>))
         = (promise_state g)(pcmd_promise e := Done s)"
  using inv
proof (rule removal_states)
  show "mset (pendings g) = add_mset (CommandKey r, pcmd_promise e, pcmd_timer e)
      (mset (pendings (settle (pcmd_promise e) s (g\<lparr>timers := ts, pendingCommands := map_delete r (pendingCommands g)\<rparr>))))"
    using command_view_delete [OF inv_unique(2) [OF inv] get] by (simp add: pendings_def settle_def emit_def)
qed (simp add: settle_def emit_def)

lemma settle_inspect_states:
  assumes inv: "gateway_inv rt g" and get: "map_get (pendingInspects g) r = Some e"
  shows "promise_state (settle (pins_promise e) s
           (g\<lparr>timers := ts, pendingInspects := map_delete r (pendingInspects g)\<rparr>))
         = (promise_state g)(pins_promise e := Done s)"
  using inv
proof (rule removal_states)
  show "mset (pendings g) = add_mset (InspectKey r, pins_promise e, pins_timer e)
      (mset (pendings (settle (pins_promise e) s (g\<lparr>timers := ts, pendingInspects := map_delete r (pendingInspects g)\<rparr>))))"
    using inspect_view_delete [OF inv_unique(3) [OF inv] get] by (simp add: pendings_def settle_def emit_def)
qed (simp add: settle_def emit_def)

lemma resolvePendingList_states:
  assumes "gateway_inv rt g"
  shows "promise_state (resolvePendingList u cs g) =
           (case map_get (pendingLists g) u of
              None \<Rightarrow> promise_state g
            | Some e \<Rightarrow> (promise_state g)(plist_promise e := Done (ListResolved cs)))"
  using settle_list_states [OF assms]
  by (simp add: resolvePendingList_def Let_def clearTimeout_def split: option.split)

subsection \<open>Timeouts\<close>

text \<open>What the closure of a timer settles its promise with.\<close>

fun timeout_settlement :: "inventory \<Rightarrow> timer_callback \<Rightarrow> settlement" where
  "timeout_settlement i (ListTimeout u h p) = ListResolved (snapshot_containers (inv_getByHostId h i))"
| "timeout_settlement i (CommandTimeout r a p) = CommandRejected (timeout_command a)"
| "timeout_settlement i (InspectTimeout r p) = InspectRejected timeout_inspect"

lemma fire_timer_states:
  assumes inv: "gateway_inv rt g" and get: "map_get (timers g) t = Some cb"
  shows "promise_state (fire_timer t g) = (promise_state g)(cb_promise cb := Done (timeout_settlement (inventory g) cb))"
proof -
  note pend = timer_pending [OF inv get]
  show ?thesis
  proof (cases cb)
    case (ListTimeout u h p)
    then show ?thesis
      using get pend pending_entry(1) [OF inv, of u p t] settle_list_states [OF inv, of u]
      by (auto simp: fire_timer_def Let_def)
  next
    case (CommandTimeout r a p)
    then show ?thesis
      using get pend pending_entry(2) [OF inv, of r p t] settle_command_states [OF inv, of r]
      by (auto simp: fire_timer_def)
  next
    case (InspectTimeout r p)
    then show ?thesis
      using get pend pending_entry(3) [OF inv, of r p t] settle_inspect_states [OF inv, of r]
      by (auto simp: fire_timer_def)
  qed
qed

subsection \<open>Commands\<close>

definition command_frame :: "ContainerAction \<Rightarrow> string \<Rightarrow> string \<Rightarrow> bool \<Rightarrow> MessageEnvelope" where
  "command_frame action requestId containerId force =
     createEnvelope (COMMAND_TYPE action) (command_payload action requestId containerId force)"

definition result_of :: "string \<Rightarrow> json \<Rightarrow> ContainerResultPayload" where
  "result_of requestId payload =
     \<lparr>res_requestId = requestId, res_action = field payload ''action'',
      res_containerId = field payload ''containerId'', res_ok = json_truthy (field payload ''ok''),
      res_message = json_nullish (field payload ''message'') (JStr ''''),
      res_error = json_nullish (field payload ''error'') JNull\<rparr>"

lemma openClient_isOpen: "openClient u g = Some client \<Longrightarrow> isOpen (sockets g client)"
  by (auto simp: openClient_def split: option.splits if_splits)

lemma send_open: "isOpen (sockets g s) \<Longrightarrow> send s e g = emit (Sent s e) g"
  by (simp add: send_def)

lemma sendContainerCommand_offline:
  "openClient u g = None \<Longrightarrow>
     sendContainerCommand rt u h a c f g = (Inl not_connected, remember_inventory h u g)"
  by (simp add: sendContainerCommand_def)

lemma sendContainerCommand_online:
  assumes client: "openClient u g = Some client" and inv: "gateway_inv rt g" and inj: "inj (rt_uuid rt)"
  defines "r \<equiv> rt_uuid rt (uuidDraws g)"
  shows "fst (sendContainerCommand rt u h a c f g) = Inr (nextPromise g)"
    "effects (snd (sendContainerCommand rt u h a c f g)) = effects g @ [Sent client (command_frame a r c f)]"
    "map_get (pendingCommands (snd (sendContainerCommand rt u h a c f g))) r
       = Some \<lparr>pcmd_agentUuid = u, pcmd_promise = nextPromise g, pcmd_timer = nextTimer g\<rparr>"
    "promise_state (snd (sendContainerCommand rt u h a c f g)) = (promise_state g)(nextPromise g := Waiting)"
proof -
  have "openClient u (remember_inventory h u g) = Some client" using client by simp
  note unfold = sendContainerCommand_def Let_def randomUUID_def newPromise_def setTimeout_def
  show "fst (sendContainerCommand rt u h a c f g) = Inr (nextPromise g)"
    using client by (simp add: unfold) (simp add: remember_inventory_def)
  show "effects (snd (sendContainerCommand rt u h a c f g)) = effects g @ [Sent client (command_frame a r c f)]"
    using client openClient_isOpen [OF client]
    by (simp add: unfold) (simp add: remember_inventory_def send_def emit_def command_frame_def r_def)
  show "map_get (pendingCommands (snd (sendContainerCommand rt u h a c f g))) r
       = Some \<lparr>pcmd_agentUuid = u, pcmd_promise = nextPromise g, pcmd_timer = nextTimer g\<rparr>"
    using client by (simp add: unfold) (simp add: remember_inventory_def r_def map_get_set)
  show "promise_state (snd (sendContainerCommand rt u h a c f g)) = (promise_state g)(nextPromise g := Waiting)"
    using inv
  proof (rule addition_states)
    show "mset (pendings (snd (sendContainerCommand rt u h a c f g)))
            = add_mset (CommandKey r, nextPromise g, nextTimer g) (mset (pendings g))"
      using client fresh_requestId(1) [OF inj inv]
      by (simp add: unfold) (simp add: remember_inventory_def r_def pendings_def views_set_fresh)
    show "outcome (effects (snd (sendContainerCommand rt u h a c f g))) = outcome (effects g)"
      using client by (simp add: unfold fun_eq_iff) (simp add: remember_inventory_def)
  qed
qed

lemma handleContainerResult_answer:
  assumes "field payload ''requestId'' = Some (JStr r)" "r \<noteq> []" "map_get (pendingCommands g) r = Some e"
  shows "handleContainerResult payload g =
           settle (pcmd_promise e) (CommandResolved (result_of r payload))
             (g\<lparr>timers := map_delete (pcmd_timer e) (timers g), pendingCommands := map_delete r (pendingCommands g)\<rparr>)"
  using assms by (simp add: handleContainerResult_def clearTimeout_def result_of_def)

lemma handleContainerResult_states:
  assumes "gateway_inv rt g" "field payload ''requestId'' = Some (JStr r)" "r \<noteq> []"
    "map_get (pendingCommands g) r = Some e"
  shows "promise_state (handleContainerResult payload g) =
           (promise_state g)(pcmd_promise e := Done (CommandResolved (result_of r payload)))"
  using handleContainerResult_answer [OF assms(2-4)] settle_command_states [OF assms(1,4)] by simp

lemma handleContainerResult_ignored:
  "(\<forall>r. field payload ''requestId'' = Some (JStr r) \<longrightarrow> map_get (pendingCommands g) r = None) \<Longrightarrow>
     handleContainerResult payload g = g"
  by (auto simp: handleContainerResult_def split: option.split json.splits)


subsection \<open>Inspecting\<close>

definition inspect_frame :: "string \<Rightarrow> string \<Rightarrow> MessageEnvelope" where
  "inspect_frame requestId containerId =
     createEnvelope CONTAINER_INSPECT
       (JObj [(''requestId'', JStr requestId), (''containerId'', JStr containerId)])"

definition inspected_of :: "string \<Rightarrow> json \<Rightarrow> ContainerInspectedPayload" where
  "inspected_of requestId payload =
     \<lparr>ins_requestId = requestId, ins_container = json_nullish (field payload ''container'') JNull,
      ins_ok = json_truthy (field payload ''ok''), ins_error = json_nullish (field payload ''error'') JNull\<rparr>"

lemma inspectContainer_offline:
  "openClient u g = None \<Longrightarrow> inspectContainer rt u h c g = (Inl not_connected, remember_inventory h u g)"
  by (simp add: inspectContainer_def)

lemma inspectContainer_online:
  assumes client: "openClient u g = Some client" and inv: "gateway_inv rt g" and inj: "inj (rt_uuid rt)"
  defines "r \<equiv> rt_uuid rt (uuidDraws g)"
  shows "fst (inspectContainer rt u h c g) = Inr (nextPromise g)"
    "effects (snd (inspectContainer rt u h c g)) = effects g @ [Sent client (inspect_frame r c)]"
    "map_get (pendingInspects (snd (inspectContainer rt u h c g))) r
       = Some \<lparr>pins_agentUuid = u, pins_promise = nextPromise g, pins_timer = nextTimer g\<rparr>"
    "promise_state (snd (inspectContainer rt u h c g)) = (promise_state g)(nextPromise g := Waiting)"
proof -
  note unfold = inspectContainer_def Let_def randomUUID_def newPromise_def setTimeout_def
  show "fst (inspectContainer rt u h c g) = Inr (nextPromise g)"
    using client by (simp add: unfold) (simp add: remember_inventory_def)
  show "effects (snd (inspectContainer rt u h c g)) = effects g @ [Sent client (inspect_frame r c)]"
    using client openClient_isOpen [OF client]
    by (simp add: unfold) (simp add: remember_inventory_def send_def emit_def inspect_frame_def r_def)
  show "map_get (pendingInspects (snd (inspectContainer rt u h c g))) r
       = Some \<lparr>pins_agentUuid = u, pins_promise = nextPromise g, pins_timer = nextTimer g\<rparr>"
    using client by (simp add: unfold) (simp add: remember_inventory_def r_def map_get_set)
  show "promise_state (snd (inspectContainer rt u h c g)) = (promise_state g)(nextPromise g := Waiting)"
    using inv
  proof (rule addition_states)
    show "mset (pendings (snd (inspectContainer rt u h c g)))
            = add_mset (InspectKey r, nextPromise g, nextTimer g) (mset (pendings g))"
      using client fresh_requestId(2) [OF inj inv]
      by (simp add: unfold) (simp add: remember_inventory_def r_def pendings_def views_set_fresh)
    show "outcome (effects (snd (inspectContainer rt u h c g))) = outcome (effects g)"
      using client by (simp add: unfold fun_eq_iff) (simp add: remember_inventory_def)
  qed
qed

lemma handleContainerInspected_answer:
  assumes "field payload ''requestId'' = Some (JStr r)" "r \<noteq> []" "map_get (pendingInspects g) r = Some e"
  shows "handleContainerInspected payload g =
           settle (pins_promise e) (InspectResolved (inspected_of r payload))
             (g\<lparr>timers := map_delete (pins_timer e) (timers g), pendingInspects := map_delete r (pendingInspects g)\<rparr>)"
  using assms by (simp add: handleContainerInspected_def clearTimeout_def inspected_of_def)

lemma handleContainerInspected_states:
  assumes "gateway_inv rt g" "field payload ''requestId'' = Some (JStr r)" "r \<noteq> []"
    "map_get (pendingInspects g) r = Some e"
  shows "promise_state (handleContainerInspected payload g) =
           (promise_state g)(pins_promise e := Done (InspectResolved (inspected_of r payload)))"
  using handleContainerInspected_answer [OF assms(2-4)] settle_inspect_states [OF assms(1,4)] by simp

lemma handleContainerInspected_ignored:
  "(\<forall>r. field payload ''requestId'' = Some (JStr r) \<longrightarrow> map_get (pendingInspects g) r = None) \<Longrightarrow>
     handleContainerInspected payload g = g"
  by (auto simp: handleContainerInspected_def split: option.split json.splits)

subsection \<open>Container lists\<close>

lemma handleContainerListed_anonymous:
  "\<not> truthy_str (agentUuid (sockets g s)) \<Longrightarrow> handleContainerListed now s payload g = g"
  by (simp add: handleContainerListed_def Let_def)

definition parsed_containers :: "json \<Rightarrow> ContainerSummary list" where
  "parsed_containers payload = pl_containers (parseContainerListedPayload payload)"

lemma handleContainerListed_named:
  assumes "agentUuid (sockets g s) = Some u" "u \<noteq> []"
  shows "handleContainerListed now s payload g =
           resolvePendingList u (parsed_containers payload)
             (g\<lparr>inventory := snd (inv_setContainers u (parsed_containers payload, now)
                                  (agentId (sockets g s)) (inventory g))\<rparr>)"
  using assms by (simp add: handleContainerListed_def Let_def parsed_containers_def)

subsection \<open>Disconnects\<close>

lemma rejectCommands_commands:
  "pendingCommands (rejectCommands u err es g) =
     filter (\<lambda>(r, e). \<not> (\<exists>e'. (r, e') \<in> set es \<and> pcmd_agentUuid e' = u)) (pendingCommands g)"
proof (induction u err es g rule: rejectCommands.induct)
  case (1 u err g)
  then show ?case by simp
next
  case (2 u err r e es g)
  have delete: "map_delete r m = filter (\<lambda>x. fst x \<noteq> r) m" for m :: "(string, PendingCommand) js_map"
    by (induction m) auto
  show ?case
    using 2 by (auto simp: Let_def settle_def emit_def clearTimeout_def delete intro!: filter_cong)
qed

lemma rejectInspects_inspects:
  "pendingInspects (rejectInspects u err es g) =
     filter (\<lambda>(r, e). \<not> (\<exists>e'. (r, e') \<in> set es \<and> pins_agentUuid e' = u)) (pendingInspects g)"
proof (induction u err es g rule: rejectInspects.induct)
  case (1 u err g)
  then show ?case by simp
next
  case (2 u err r e es g)
  have delete: "map_delete r m = filter (\<lambda>x. fst x \<noteq> r) m" for m :: "(string, PendingInspect) js_map"
    by (induction m) auto
  show ?case
    using 2 by (auto simp: Let_def settle_def emit_def clearTimeout_def delete intro!: filter_cong)
qed

lemma dropSubscribers_subscribers:
  "logSubscribers (dropSubscribers u es g) =
     filter (\<lambda>(r, e). \<not> (\<exists>e'. (r, e') \<in> set es \<and> sub_agentUuid e' = u)) (logSubscribers g)"
proof (induction u es g rule: dropSubscribers.induct)
  case (1 u g)
  then show ?case by simp
next
  case (2 u r e es g)
  have delete: "map_delete r m = filter (\<lambda>x. fst x \<noteq> r) m" for m :: "(string, LogSubscriber) js_map"
    by (induction m) auto
  show ?case using 2 by (auto simp: delete intro!: filter_cong)
qed

lemma filter_own_entries:
  "unique_keys m \<Longrightarrow>
     filter (\<lambda>(r, e). \<forall>e'. (r, e') \<in> set m \<longrightarrow> f e' \<noteq> u) m = filter (\<lambda>(r, e). f e \<noteq> u) m"
  by (rule filter_cong) (auto simp: unique_keys_def dest: eq_key_imp_eq_value)

lemma rejectCommands_fields [simp]:
  "sockets (rejectCommands u err es g) = sockets g" "socketsByUuid (rejectCommands u err es g) = socketsByUuid g"
  "pendingLists (rejectCommands u err es g) = pendingLists g"
  "pendingInspects (rejectCommands u err es g) = pendingInspects g"
  "logSubscribers (rejectCommands u err es g) = logSubscribers g"
  "inventory (rejectCommands u err es g) = inventory g" "hostMetrics (rejectCommands u err es g) = hostMetrics g"
  "agents (rejectCommands u err es g) = agents g"
  by (induction u err es g rule: rejectCommands.induct)
    (simp_all add: Let_def settle_def emit_def clearTimeout_def)

lemma rejectInspects_fields [simp]:
  "sockets (rejectInspects u err es g) = sockets g" "socketsByUuid (rejectInspects u err es g) = socketsByUuid g"
  "pendingLists (rejectInspects u err es g) = pendingLists g"
  "pendingCommands (rejectInspects u err es g) = pendingCommands g"
  "logSubscribers (rejectInspects u err es g) = logSubscribers g"
  "inventory (rejectInspects u err es g) = inventory g" "hostMetrics (rejectInspects u err es g) = hostMetrics g"
  "agents (rejectInspects u err es g) = agents g"
  by (induction u err es g rule: rejectInspects.induct)
    (simp_all add: Let_def settle_def emit_def clearTimeout_def)

lemma dropSubscribers_fields [simp]:
  "sockets (dropSubscribers u es g) = sockets g" "socketsByUuid (dropSubscribers u es g) = socketsByUuid g"
  "pendingLists (dropSubscribers u es g) = pendingLists g"
  "pendingCommands (dropSubscribers u es g) = pendingCommands g"
  "pendingInspects (dropSubscribers u es g) = pendingInspects g"
  "inventory (dropSubscribers u es g) = inventory g" "hostMetrics (dropSubscribers u es g) = hostMetrics g"
  "agents (dropSubscribers u es g) = agents g" "effects (dropSubscribers u es g) = effects g"
  by (induction u es g rule: dropSubscribers.induct) simp_all


lemma rejectCommands_states:
  "gateway_inv rt g \<Longrightarrow> unique_keys es \<Longrightarrow> (\<forall>(r, e)\<in>set es. map_get (pendingCommands g) r = Some e) \<Longrightarrow>
     promise_state (rejectCommands u err es g) =
       (\<lambda>p. if \<exists>(r, e)\<in>set es. pcmd_agentUuid e = u \<and> pcmd_promise e = p then Done (CommandRejected err)
            else promise_state g p)"
proof (induction u err es g rule: rejectCommands.induct)
  case (2 u err r e es g)
  show ?case
  proof (cases "pcmd_agentUuid e = u")
    case True
    let ?g = "settle (pcmd_promise e) (CommandRejected err)
       (g\<lparr>timers := map_delete (pcmd_timer e) (timers g), pendingCommands := map_delete r (pendingCommands g)\<rparr>)"
    have get: "map_get (pendingCommands g) r = Some e" using 2(5) by auto
    have "gateway_inv rt ?g" by (rule settle_command_inv [OF 2(3) get])
    moreover have "promise_state ?g = (promise_state g)(pcmd_promise e := Done (CommandRejected err))"
      by (rule settle_command_states [OF 2(3) get])
    moreover have "\<forall>(r', e')\<in>set es. map_get (pendingCommands ?g) r' = Some e'"
      using 2(4,5) by (force simp: settle_def emit_def unique_keys_def map_get_delete)
    ultimately show ?thesis
      using 2(2) [of "clearTimeout (pcmd_timer e) g"] True 2(4)
      by (auto simp: clearTimeout_def unique_keys_def Let_def fun_eq_iff)
  next
    case False
    then show ?thesis using 2 by (auto simp: unique_keys_def fun_eq_iff)
  qed
qed simp

lemma rejectInspects_states:
  "gateway_inv rt g \<Longrightarrow> unique_keys es \<Longrightarrow> (\<forall>(r, e)\<in>set es. map_get (pendingInspects g) r = Some e) \<Longrightarrow>
     promise_state (rejectInspects u err es g) =
       (\<lambda>p. if \<exists>(r, e)\<in>set es. pins_agentUuid e = u \<and> pins_promise e = p then Done (InspectRejected err)
            else promise_state g p)"
proof (induction u err es g rule: rejectInspects.induct)
  case (2 u err r e es g)
  show ?case
  proof (cases "pins_agentUuid e = u")
    case True
    let ?g = "settle (pins_promise e) (InspectRejected err)
       (g\<lparr>timers := map_delete (pins_timer e) (timers g), pendingInspects := map_delete r (pendingInspects g)\<rparr>)"
    have get: "map_get (pendingInspects g) r = Some e" using 2(5) by auto
    have "gateway_inv rt ?g" by (rule settle_inspect_inv [OF 2(3) get])
    moreover have "promise_state ?g = (promise_state g)(pins_promise e := Done (InspectRejected err))"
      by (rule settle_inspect_states [OF 2(3) get])
    moreover have "\<forall>(r', e')\<in>set es. map_get (pendingInspects ?g) r' = Some e'"
      using 2(4,5) by (force simp: settle_def emit_def unique_keys_def map_get_delete)
    ultimately show ?thesis
      using 2(2) [of "clearTimeout (pins_timer e) g"] True 2(4)
      by (auto simp: clearTimeout_def unique_keys_def Let_def fun_eq_iff)
  next
    case False
    then show ?thesis using 2 by (auto simp: unique_keys_def fun_eq_iff)
  qed
qed simp

lemma promise_state_dropSubscribers [simp]: "promise_state (dropSubscribers u es g) = promise_state g"
  by (rule promise_state_cong) (simp_all add: pendings_def)

text \<open>What a disconnect of agent \<open>u\<close> settles each promise with.\<close>

definition disconnect_settlement :: "string \<Rightarrow> gateway \<Rightarrow> promise \<Rightarrow> settlement option" where
  "disconnect_settlement u g p =
     (if \<exists>(r, e)\<in>set (pendingInspects g). pins_agentUuid e = u \<and> pins_promise e = p
      then Some (InspectRejected disconnected_inspect)
      else if \<exists>(r, e)\<in>set (pendingCommands g). pcmd_agentUuid e = u \<and> pcmd_promise e = p
      then Some (CommandRejected disconnected_command)
      else case map_get (pendingLists g) u of
             Some e \<Rightarrow> if plist_promise e = p
                       then Some (ListResolved (snapshot_containers (inv_getByUuid u (inventory g)))) else None
           | None \<Rightarrow> None)"

lemma handleDisconnect_anonymous: "\<not> truthy_str (agentUuid (sockets g s)) \<Longrightarrow> handleDisconnect rt s g = g"
  by (auto simp: handleDisconnect_def split: option.split)

lemma handleDisconnect_states:
  assumes inv: "gateway_inv rt g" and uuid: "agentUuid (sockets g s) = Some u" "u \<noteq> []"
  shows "promise_state (handleDisconnect rt s g) =
           (\<lambda>p. case disconnect_settlement u g p of Some x \<Rightarrow> Done x | None \<Rightarrow> promise_state g p)"
proof -
  let ?cs = "snapshot_containers (inv_getByUuid u (inventory g))"
  let ?g1 = "g\<lparr>socketsByUuid := map_delete u (socketsByUuid g)\<rparr>"
  let ?g2 = "resolvePendingList u ?cs ?g1"
  let ?g3 = "rejectPendingCommandsForAgent u disconnected_command ?g2"
  have inv1: "gateway_inv rt ?g1" using inv by simp
  have inv2: "gateway_inv rt ?g2" using inv1 by simp
  have inv3: "gateway_inv rt ?g3" using inv2 by simp
  have s2: "promise_state ?g2 = (case map_get (pendingLists g) u of None \<Rightarrow> promise_state g
      | Some e \<Rightarrow> (promise_state g)(plist_promise e := Done (ListResolved ?cs)))"
    using resolvePendingList_states [OF inv1, of u ?cs] by (simp cong: option.case_cong)
  have s3: "promise_state ?g3 = (\<lambda>p. if \<exists>(r, e)\<in>set (pendingCommands g). pcmd_agentUuid e = u \<and> pcmd_promise e = p
      then Done (CommandRejected disconnected_command) else promise_state ?g2 p)"
    using rejectCommands_states [OF inv2 inv_unique(2) [OF inv2] entries_present [OF inv_unique(2) [OF inv2]]]
    by (simp add: rejectPendingCommandsForAgent_def)
  have "promise_state (rejectPendingInspectsForAgent u disconnected_inspect ?g3) =
      (\<lambda>p. if \<exists>(r, e)\<in>set (pendingInspects g). pins_agentUuid e = u \<and> pins_promise e = p
      then Done (InspectRejected disconnected_inspect) else promise_state ?g3 p)"
    using rejectInspects_states [OF inv3 inv_unique(3) [OF inv3] entries_present [OF inv_unique(3) [OF inv3]]]
    by (simp add: rejectPendingInspectsForAgent_def rejectPendingCommandsForAgent_def)
  then show ?thesis
    using uuid
    by (simp add: handleDisconnect_def unsubscribeLogsForAgent_def s2 s3 disconnect_settlement_def Let_def
        fun_eq_iff split: option.split)
qed

lemma resolvePendingList_lists:
  "pendingLists (resolvePendingList u cs g) = map_delete u (pendingLists g)"
  by (simp add: resolvePendingList_def Let_def clearTimeout_def settle_def emit_def map_delete_absent split: option.split)

lemma handleDisconnect_maps:
  assumes uuid: "agentUuid (sockets g s) = Some u" "u \<noteq> []"
    and unique: "gateway_inv rt g" "unique_keys (logSubscribers g)"
  shows "socketsByUuid (handleDisconnect rt s g) = map_delete u (socketsByUuid g)"
    "pendingLists (handleDisconnect rt s g) = map_delete u (pendingLists g)"
    "pendingCommands (handleDisconnect rt s g) = filter (\<lambda>(r, e). pcmd_agentUuid e \<noteq> u) (pendingCommands g)"
    "pendingInspects (handleDisconnect rt s g) = filter (\<lambda>(r, e). pins_agentUuid e \<noteq> u) (pendingInspects g)"
    "logSubscribers (handleDisconnect rt s g) = filter (\<lambda>(r, e). sub_agentUuid e \<noteq> u) (logSubscribers g)"
    "agents (handleDisconnect rt s g) = agents_markOffline (rt_prisma rt) u (agents g)"
    "inventory (handleDisconnect rt s g) = inventory g" "hostMetrics (handleDisconnect rt s g) = hostMetrics g"
  using uuid unique(2) inv_unique [OF unique(1)]
  by (simp_all add: handleDisconnect_def Let_def rejectPendingCommandsForAgent_def rejectPendingInspectsForAgent_def
      unsubscribeLogsForAgent_def rejectCommands_commands rejectInspects_inspects dropSubscribers_subscribers
      filter_own_entries resolvePendingList_lists)

end
