(* ===== verification/GatewayExample.thy ===== *)
theory GatewayExample
  imports GatewayRequests
begin

section \<open>A run of the gateway\<close>

text \<open>
  A concrete runtime and a concrete run, on which the gateway's theorems are applied: one
  agent connects, registers and is asked to stop a container. The parser of the runtime is
  a table of the frames of the run; request ids are \<open>r\<close>, \<open>rr\<close>, and so on, all different.
\<close>

definition demo_result :: json where
  "demo_result = JObj [(''requestId'', JStr ''r''), (''action'', JStr ''stop''), (''containerId'', JStr ''c1''),
                       (''ok'', JBool True)]"

definition demo_listed :: json where
  "demo_listed = JObj [(''containers'', JArr [])]"

definition demo_frame :: "string \<Rightarrow> json \<Rightarrow> json" where
  "demo_frame t p = JObj [(''type'', JStr t), (''payload'', p)]"

definition demo_registration :: json where
  "demo_registration = JObj [(''uuid'', JStr ''u1''), (''hostname'', JStr ''box''), (''os'', JStr ''linux'')]"

definition demo_parse :: "string \<Rightarrow> json option" where
  "demo_parse s =
     (if s = ''register'' then Some (demo_frame AGENT_REGISTER demo_registration)
      else if s = ''result'' then Some (demo_frame CONTAINER_RESULT demo_result)
      else if s = ''listed'' then Some (demo_frame CONTAINER_LISTED demo_listed)
      else if s = ''heartbeat'' then Some (demo_frame AGENT_HEARTBEAT (JObj [(''uuid'', JStr ''u1'')]))
      else None)"

definition demo_rt :: runtime where
  "demo_rt = \<lparr>rt_prisma = mem_agents, rt_jsonParse = demo_parse, rt_date = (\<lambda>_. None),
              rt_uuid = (\<lambda>n. replicate (Suc n) CHR ''r'')\<rparr>"

lemma demo_rt_inj: "inj (rt_uuid demo_rt)"
  by (rule injI) (simp add: demo_rt_def)

definition demo_connected :: gateway where
  "demo_connected = handleConnection 0 (gateway_init [])"

definition demo_registering :: gateway where
  "demo_registering = handleMessage demo_rt 1000 0 (RawBuffer ''register'') demo_connected"

definition demo_registered :: gateway where
  "demo_registered =
     (case registering demo_registering of
        [] \<Rightarrow> demo_registering
      | (s, r) # rs \<Rightarrow> resumeRegister s r (drop_registering 0 demo_registering))"

definition demo_commanded :: gateway where
  "demo_commanded = snd (sendContainerCommand demo_rt ''u1'' ''c'' Stop ''c1'' False demo_registered)"

definition demo_answered :: gateway where
  "demo_answered = handleMessage demo_rt 2000 0 (RawBuffer ''result'') demo_commanded"

lemma demo_reachable_connected: "gateway_reachable demo_rt [] demo_connected"
  unfolding demo_connected_def
  by (rule gateway_reachable.step [OF gateway_reachable.start])
    (rule gateway_step.connect, simp_all add: gateway_init_def alive_def)

lemma demo_alive: "alive demo_connected" "alive demo_registering" "alive demo_registered" "alive demo_commanded"
  by code_simp+

lemma demo_reachable_registering: "gateway_reachable demo_rt [] demo_registering"
  unfolding demo_registering_def
  by (rule gateway_reachable.step [OF demo_reachable_connected gateway_step.message [OF demo_alive(1)]])

lemma demo_registering_queue:
  "registering demo_registering =
     [(0, \<lparr>rgd_id = ''c'', rgd_uuid = ''u1'', rgd_status = ''ONLINE'', rgd_message = ''Registration successful''\<rparr>)]"
  by code_simp

lemma demo_reachable_registered: "gateway_reachable demo_rt [] demo_registered"
proof -
  have "gateway_step demo_rt demo_registering demo_registered"
    unfolding demo_registered_def demo_registering_queue
    by (simp, rule gateway_step.resume) (simp_all add: demo_alive demo_registering_queue)
  then show ?thesis by (rule gateway_reachable.step [OF demo_reachable_registering])
qed

lemma demo_reachable_commanded: "gateway_reachable demo_rt [] demo_commanded"
  unfolding demo_commanded_def
  by (rule gateway_reachable.step [OF demo_reachable_registered])
    (rule gateway_step.command [OF demo_alive(3)], rule prod.collapse [symmetric])

lemma demo_reachable_answered: "gateway_reachable demo_rt [] demo_answered"
  unfolding demo_answered_def
  by (rule gateway_reachable.step [OF demo_reachable_commanded gateway_step.message [OF demo_alive(4)]])

lemma demo_openClient: "openClient ''u1'' demo_registered = Some 0"
  by code_simp

lemma demo_counters: "nextPromise demo_commanded = 1" "nextPromise demo_registered = 0"
  by code_simp+

end
