(* ===== verification/GatewayTheorems.thy ===== *)
theory GatewayTheorems
  imports GatewayExample
begin

section \<open>The request layer is correct\<close>

text \<open>
  The properties of the gateway's promises. Each holds in every reachable state of a
  gateway whose request ids never repeat, whatever agents send and in whatever order the
  events come.
\<close>

subsection \<open>Exactly once, and always\<close>

definition pending_count :: "gateway \<Rightarrow> promise \<Rightarrow> nat" where
  "pending_count g p = length (filter (\<lambda>(k, q, t). q = p) (pendings g))"

definition settled_count :: "gateway \<Rightarrow> promise \<Rightarrow> nat" where
  "settled_count g p = count_list (settled (effects g)) p"

lemma count_promise:
  "length (filter (\<lambda>(k, q, t). q = p) xs) = count (image_mset (fst \<circ> snd) (mset xs)) p"
  by (induction xs) auto

lemma inv_exactly_once:
  assumes "gateway_inv rt g" "p < nextPromise g"
  shows "pending_count g p + settled_count g p = 1"
  using inv_counts [OF assms(1), of p] assms(2)
  by (simp add: pending_count_def settled_count_def count_promise pending_promises_def count_mset)

text \<open>
  C1. In every reachable state each promise ever handed to the HTTP side is accounted for exactly
  once: it is in one entry of one pending map and unsettled, or in none and settled once.
  No request is answered twice and none is forgotten.
\<close>

theorem promise_exactly_once:
  assumes "inj (rt_uuid rt)" "gateway_reachable rt t0 g" "p < nextPromise g"
  shows "pending_count g p + settled_count g p = 1"
  using inv_exactly_once [OF gateway_reachable_inv [OF assms(2,1)] assms(3)] .

theorem promise_exactly_once_witness: "pending_count demo_commanded 0 + settled_count demo_commanded 0 = 1"
  by (rule promise_exactly_once [OF demo_rt_inj demo_reachable_commanded]) (simp add: demo_counters)

text \<open>
  C2. The gateway refines the promise automaton: one step takes each promise from absent to
  waiting or from waiting to done, or leaves it; a settled promise keeps its settlement.
\<close>

theorem gateway_refines_promises:
  assumes "inj (rt_uuid rt)" "gateway_reachable rt t0 g" "gateway_step rt g g'"
  shows "promise_step (promise_state g p) (promise_state g' p)"
proof -
  have inv: "gateway_inv rt g" by (rule gateway_reachable_inv [OF assms(2,1)])
  show ?thesis
    by (rule settles_old_promise_step [OF inv gateway_step_inv [OF assms(1,3) inv]
          gateway_step_settles_old [OF assms(1,3) inv]])
qed

theorem gateway_refines_promises_witness:
  "promise_step (promise_state demo_commanded 0) (promise_state demo_answered 0)"
  by (rule gateway_refines_promises [OF demo_rt_inj demo_reachable_commanded])
    (simp add: demo_answered_def gateway_step.message demo_alive)

text \<open>
  C12. No HTTP request waits forever: from any reachable state of a live process, letting the
  running timers fire is a sequence of steps after which every promise is settled.
\<close>

theorem no_promise_left_waiting:
  assumes "inj (rt_uuid rt)" "gateway_reachable rt t0 g" "alive g"
  shows "(gateway_step rt)\<^sup>*\<^sup>* g (expire_all g) \<and> timers (expire_all g) = [] \<and>
         (\<forall>p. promise_state (expire_all g) p \<noteq> Waiting)"
proof -
  have inv: "gateway_inv rt g" by (rule gateway_reachable_inv [OF assms(2,1)])
  have inv': "gateway_inv rt (expire_all g)" unfolding expire_all_def by (rule fold_fire_timer_inv [OF inv])
  have "fst ` set (timers (expire_all g)) = {}" by (simp add: expire_all_def fold_fire_timer_timers)
  moreover have "promise_state (expire_all g) p \<noteq> Waiting" for p
  proof (cases "p < nextPromise g")
    case True
    then show ?thesis using expire_all_settles [OF inv] by fastforce
  next
    case False
    then have "promise_state (expire_all g) p = Absent"
      using inv_promise_state(1) [OF inv'] by (simp add: expire_all_def fold_fire_timer_nextPromise)
    then show ?thesis by simp
  qed
  ultimately show ?thesis using expire_all_steps [OF assms(3)] by (simp add: expire_all_def)
qed

theorem no_promise_left_waiting_witness:
  "promise_state demo_commanded 0 = Waiting \<and> (gateway_step demo_rt)\<^sup>*\<^sup>* demo_commanded (expire_all demo_commanded) \<and>
   promise_state (expire_all demo_commanded) 0 \<noteq> Waiting"
proof -
  have "promise_state demo_commanded 0 = Waiting" by code_simp
  then show ?thesis
    using no_promise_left_waiting [OF demo_rt_inj demo_reachable_commanded demo_alive(4)] by blast
qed

text \<open>
  Every waiting promise has a running timer of its own; when that timer fires, this promise
  alone is settled, with the timeout the code gives its kind: an error for a command or an
  inspection, the cached containers for a list.
\<close>

theorem waiting_promise_times_out:
  assumes "inj (rt_uuid rt)" "gateway_reachable rt t0 g" "promise_state g p = Waiting"
  shows "\<exists>t cb. map_get (timers g) t = Some cb \<and> cb_promise cb = p \<and>
           promise_state (fire_timer t g) = (promise_state g)(p := Done (timeout_settlement (inventory g) cb))"
proof -
  have inv: "gateway_inv rt g" by (rule gateway_reachable_inv [OF assms(2,1)])
  obtain k t where "(k, p, t) \<in> set (pendings g)"
    using assms(3) inv_promise_state(2) [OF inv] by (auto simp flip: waiting_pending)
  then obtain cb where "map_get (timers g) t = Some cb" "cb_promise cb = p"
    by (rule pending_timer [OF inv])
  then show ?thesis using fire_timer_states [OF inv] by metis
qed

theorem waiting_promise_times_out_witness:
  "\<exists>t cb. map_get (timers demo_commanded) t = Some cb \<and> cb_promise cb = 0 \<and>
     promise_state (fire_timer t demo_commanded)
       = (promise_state demo_commanded)(0 := Done (timeout_settlement (inventory demo_commanded) cb))"
  by (rule waiting_promise_times_out [OF demo_rt_inj demo_reachable_commanded]) code_simp

subsection \<open>Requests and answers\<close>



text \<open>
  The same for an inspection and the agent's \<open>container.inspected\<close>.
\<close>

theorem inspect_roundtrip:
  assumes "inj (rt_uuid rt)" "gateway_reachable rt t0 g" "openClient u g = Some client"
    and "inspectContainer rt u h c g = (res, g')"
    and "r = rt_uuid rt (uuidDraws g)" "r \<noteq> []" "field payload ''requestId'' = Some (JStr r)"
  shows "\<exists>p. res = Inr p \<and> promise_state g p = Absent \<and>
           effects g' = effects g @ [Sent client (inspect_frame r c)] \<and>
           promise_state g' = (promise_state g)(p := Waiting) \<and>
           promise_state (handleContainerInspected payload g')
             = (promise_state g)(p := Done (InspectResolved (inspected_of r payload)))"
proof -
  have inv: "gateway_inv rt g" by (rule gateway_reachable_inv [OF assms(2,1)])
  have inv': "gateway_inv rt g'" by (rule inspectContainer_inv [OF assms(1) inv assms(4)])
  note online = inspectContainer_online [OF assms(3) inv assms(1), of h c, folded assms(5)]
  have "res = Inr (nextPromise g)" "g' = snd (inspectContainer rt u h c g)"
    using online(1) assms(4) by simp_all
  then show ?thesis
    using online(2-4) handleContainerInspected_states [OF inv' assms(7,6)] inv_promise_state(1) [OF inv, of "nextPromise g"]
    by simp
qed

theorem inspect_roundtrip_witness:
  "\<exists>p. fst (inspectContainer demo_rt ''u1'' ''c'' ''c1'' demo_registered) = Inr p"
proof -
  have "inspectContainer demo_rt ''u1'' ''c'' ''c1'' demo_registered
        = (fst (inspectContainer demo_rt ''u1'' ''c'' ''c1'' demo_registered),
           snd (inspectContainer demo_rt ''u1'' ''c'' ''c1'' demo_registered))"
    by simp
  moreover have "''r'' = rt_uuid demo_rt (uuidDraws demo_registered)" by code_simp
  moreover have "field demo_result ''requestId'' = Some (JStr ''r'')" by code_simp
  ultimately show ?thesis
    using inspect_roundtrip [OF demo_rt_inj demo_reachable_registered demo_openClient, of "''c''" "''c1''"]
    by blast
qed

end
