(* ===== verification/HttpErrors.thy ===== *)
theory HttpErrors
  imports AgentStore
begin

section \<open>HTTP exceptions and timestamps\<close>

text \<open>
  The exceptions the server throws (NestJS classes, by name, with the status NestJS documents
  for them), the three kinds of failure a service call can end with, and
  \<open>Date.prototype.toISOString\<close>, which the replies contain. A \<open>Date\<close> is the number of
  milliseconds since the epoch.
\<close>

subsection \<open>Exceptions\<close>

datatype http_exception =
    BadRequestException string
  | UnauthorizedException string
  | ForbiddenException string
  | NotFoundException string
  | ConflictException string
  | ServiceUnavailableException string
  | GatewayTimeoutException string

fun http_status :: "http_exception \<Rightarrow> nat" where
  "http_status (BadRequestException m) = 400"
| "http_status (UnauthorizedException m) = 401"
| "http_status (ForbiddenException m) = 403"
| "http_status (NotFoundException m) = 404"
| "http_status (ConflictException m) = 409"
| "http_status (ServiceUnavailableException m) = 503"
| "http_status (GatewayTimeoutException m) = 504"

fun http_message :: "http_exception \<Rightarrow> string" where
  "http_message (BadRequestException m) = m"
| "http_message (UnauthorizedException m) = m"
| "http_message (ForbiddenException m) = m"
| "http_message (NotFoundException m) = m"
| "http_message (ConflictException m) = m"
| "http_message (ServiceUnavailableException m) = m"
| "http_message (GatewayTimeoutException m) = m"

text \<open>
  What a service call rejects with: a plain \<open>Error\<close>, an \<open>HttpException\<close>, or an error of the
  database client, which the framework turns into status 500.
\<close>

datatype failure = PlainError string | Http http_exception | Database prisma_error

subsection \<open>Dates\<close>

definition pad_left :: "nat \<Rightarrow> nat \<Rightarrow> string" where
  "pad_left k n = replicate (k - length (show_nat n)) CHR ''0'' @ show_nat n"

text \<open>Year, month and day of a day number, in the proleptic Gregorian calendar.\<close>

definition civil_from_days :: "int \<Rightarrow> int \<times> nat \<times> nat" where
  "civil_from_days days =
     (let z = days + 719468;
          era = z div 146097;
          doe = z mod 146097;
          yoe = (doe - doe div 1460 + doe div 36524 - doe div 146096) div 365;
          doy = doe - (365 * yoe + yoe div 4 - yoe div 100);
          mp = (5 * doy + 2) div 153;
          d = doy - (153 * mp + 2) div 5 + 1;
          m = (if mp < 10 then mp + 3 else mp - 9)
      in (yoe + era * 400 + (if m \<le> 2 then 1 else 0), nat m, nat d))"

definition iso_year :: "int \<Rightarrow> string" where
  "iso_year y =
     (if 0 \<le> y \<and> y \<le> 9999 then pad_left 4 (nat y)
      else (if y < 0 then ''-'' else ''+'') @ pad_left 6 (nat (abs y)))"

definition toISOString :: "int \<Rightarrow> string" where
  "toISOString ms =
     (let (y, mo, d) = civil_from_days (ms div 86400000);
          r = nat (ms mod 86400000)
      in iso_year y @ ''-'' @ pad_left 2 mo @ ''-'' @ pad_left 2 d @ ''T'' @
         pad_left 2 (r div 3600000) @ '':'' @ pad_left 2 (r div 60000 mod 60) @ '':'' @
         pad_left 2 (r div 1000 mod 60) @ ''.'' @ pad_left 3 (r mod 1000) @ ''Z'')"

text \<open>The calendar at the epoch and around a leap day.\<close>

lemma civil_from_days_examples:
  "civil_from_days 0 = (1970, 1, 1)" "civil_from_days (- 1) = (1969, 12, 31)"
  "civil_from_days 11016 = (2000, 2, 29)" "civil_from_days 11017 = (2000, 3, 1)"
  by code_simp+

lemma replicate_few: "replicate 2 x = [x, x]" "replicate 3 x = [x, x, x]"
  by (simp_all add: numeral_2_eq_2 numeral_3_eq_3)

lemma pad_left_digits: "pad_left 2 0 = ''00''" "pad_left 3 0 = ''000''" "pad_left 2 (Suc 0) = ''01''"
  "pad_left 4 1970 = ''1970''"
  by (simp_all add: pad_left_def show_nat_eval replicate_few)

lemma toISOString_epoch: "toISOString 0 = ''1970-01-01T00:00:00.000Z''"
  by (simp add: toISOString_def civil_from_days_examples iso_year_def pad_left_digits)

end
