(* ===== verification/GatewayAgents.thy ===== *)
theory GatewayAgents
  imports GatewayExample
begin

section \<open>Agents: registration, reports, log streams, disconnects\<close>

text \<open>
  The behaviour of the handlers that write the caches, the table and the subscriber map,
  and the invariants of these maps over the reachable states.
\<close>

subsection \<open>The maps and caches stay well formed\<close>

definition caches_inv :: "gateway \<Rightarrow> bool" where
  "caches_inv g \<longleftrightarrow>
     unique_keys (socketsByUuid g) \<and> unique_keys (logSubscribers g) \<and>
     inventory_inv (inventory g) \<and> inventory_valid (inventory g) \<and> host_metrics_inv (hostMetrics g)"

lemma caches_inv_cong:
  "caches_inv g \<Longrightarrow> socketsByUuid g' = socketsByUuid g \<Longrightarrow> logSubscribers g' = logSubscribers g \<Longrightarrow>
     inventory g' = inventory g \<Longrightarrow> hostMetrics g' = hostMetrics g \<Longrightarrow> caches_inv g'"
  by (simp add: caches_inv_def)

lemma caches_inv_ops [simp]:
  "caches_inv (send s e g) = caches_inv g" "caches_inv (emit x g) = caches_inv g"
  "caches_inv (settle p y g) = caches_inv g" "caches_inv (clearTimeout t g) = caches_inv g"
  "caches_inv (set_socket s c g) = caches_inv g" "caches_inv (resolvePendingList u cs g) = caches_inv g"
  "caches_inv (rejectCommands u err ec g) = caches_inv g" "caches_inv (rejectInspects u err ei g) = caches_inv g"
  by (simp_all add: caches_inv_def emit_def settle_def clearTimeout_def set_socket_def)

lemma caches_inv_fields [simp]:
  "caches_inv (g\<lparr>timers := ts\<rparr>) = caches_inv g" "caches_inv (g\<lparr>nextTimer := n\<rparr>) = caches_inv g"
  "caches_inv (g\<lparr>nextPromise := n\<rparr>) = caches_inv g" "caches_inv (g\<lparr>uuidDraws := n\<rparr>) = caches_inv g"
  "caches_inv (g\<lparr>pendingLists := ml\<rparr>) = caches_inv g" "caches_inv (g\<lparr>pendingCommands := mc\<rparr>) = caches_inv g"
  "caches_inv (g\<lparr>pendingInspects := mi\<rparr>) = caches_inv g" "caches_inv (g\<lparr>agents := ta\<rparr>) = caches_inv g"
  "caches_inv (g\<lparr>registering := rs\<rparr>) = caches_inv g" "caches_inv (g\<lparr>unhandled := us\<rparr>) = caches_inv g"
  by (simp_all add: caches_inv_def)

lemma caches_inv_writes [simp]:
  "caches_inv g \<Longrightarrow> caches_inv (g\<lparr>socketsByUuid := map_set u s (socketsByUuid g)\<rparr>)"
  "caches_inv g \<Longrightarrow> caches_inv (g\<lparr>socketsByUuid := map_delete u (socketsByUuid g)\<rparr>)"
  "caches_inv g \<Longrightarrow> caches_inv (g\<lparr>logSubscribers := map_set r l (logSubscribers g)\<rparr>)"
  "caches_inv g \<Longrightarrow> caches_inv (g\<lparr>logSubscribers := map_delete r (logSubscribers g)\<rparr>)"
  "caches_inv g \<Longrightarrow> \<forall>c\<in>set (fst v). valid_summary c \<Longrightarrow>
     caches_inv (g\<lparr>inventory := snd (inv_setContainers u v e (inventory g))\<rparr>)"
  "caches_inv g \<Longrightarrow> caches_inv (g\<lparr>hostMetrics := snd (met_set dp u w e (hostMetrics g))\<rparr>)"
  "caches_inv g \<Longrightarrow> caches_inv (g\<lparr>hostMetrics := met_rememberHost h u (hostMetrics g)\<rparr>)"
  "caches_inv g \<Longrightarrow> caches_inv (remember_inventory h u g)"
  by (simp_all add: caches_inv_def inv_setContainers_inv inv_setContainers_valid met_set_inv
      met_rememberHost_inv remember_inventory_def inv_rememberHost_inv inv_rememberHost_valid)

lemma dropSubscribers_caches [simp]: "caches_inv g \<Longrightarrow> caches_inv (dropSubscribers u es g)"
  by (induction u es g rule: dropSubscribers.induct) auto

lemma handleDisconnect_caches: "caches_inv g \<Longrightarrow> caches_inv (handleDisconnect rt s g)"
  unfolding handleDisconnect_def Let_def unsubscribeLogsForAgent_def rejectPendingCommandsForAgent_def
    rejectPendingInspectsForAgent_def
  by (simp split: option.split)

lemma requests_caches:
  "caches_inv g \<Longrightarrow> caches_inv (snd (requestContainerList u h g))"
  "caches_inv g \<Longrightarrow> caches_inv (snd (sendContainerCommand rt u h a c f g))"
  "caches_inv g \<Longrightarrow> caches_inv (snd (inspectContainer rt u h c g))"
  by (simp_all add: requestContainerList_def sendContainerCommand_def inspectContainer_def Let_def newPromise_def
      setTimeout_def randomUUID_def split: option.split)

lemma startLogStream_caches:
  assumes "caches_inv g" shows "caches_inv (snd (startLogStream rt u h c tail follow sink g))"
proof -
  have "caches_inv (remember_inventory h u g\<lparr>uuidDraws := n\<rparr>)" for n using assms by simp
  from caches_inv_writes(3) [OF this] show ?thesis
    using assms by (simp add: startLogStream_def Let_def randomUUID_def split: option.split)
qed

lemma stopLogStream_caches: "caches_inv g \<Longrightarrow> caches_inv (stopLogStream rid g)"
  by (simp add: stopLogStream_def Let_def split: option.split)

lemma resumeRegister_caches:
  assumes "caches_inv g" shows "caches_inv (resumeRegister s r (drop_registering k g))"
proof -
  have "caches_inv (set_socket s c (drop_registering k g))" for c
    using assms by (simp add: drop_registering_def)
  from caches_inv_writes(7) [OF caches_inv_writes(8) [OF caches_inv_writes(1) [OF this]]] show ?thesis
    by (simp add: resumeRegister_def Let_def)
qed

lemma handlers_caches:
  "caches_inv g \<Longrightarrow> caches_inv (handleRegister rt now s payload g)"
  "caches_inv g \<Longrightarrow> caches_inv (handleContainerListed now s payload g)"
  "caches_inv g \<Longrightarrow> caches_inv (handleContainerResult payload g)"
  "caches_inv g \<Longrightarrow> caches_inv (handleContainerInspected payload g)"
  "caches_inv g \<Longrightarrow> caches_inv (handleHostMetrics rt now s payload g)"
  "caches_inv g \<Longrightarrow> caches_inv (handleLogsChunk payload g)"
  by (simp_all add: handleRegister_def handleContainerListed_def handleContainerResult_def Let_def
      handleContainerInspected_def handleHostMetrics_def handleLogsChunk_def reject_unhandled_def
      split: option.split sum.split)

lemma handleHeartbeat_caches:
  assumes "caches_inv g" shows "caches_inv (handleHeartbeat rt now s payload g)"
proof -
  have "caches_inv (set_socket s c g)" for c using assms by simp
  from caches_inv_writes(1) [OF this] show ?thesis
    using assms by (simp add: handleHeartbeat_def reject_unhandled_def Let_def split: option.split sum.split)
qed

lemma handleMessage_caches: "caches_inv g \<Longrightarrow> caches_inv (handleMessage rt now s data g)"
  by (simp add: handleMessage_def dispatch_def handlers_caches handleHeartbeat_caches
      split: option.split json.split)

lemma fire_timer_caches: "caches_inv g \<Longrightarrow> caches_inv (fire_timer t g)"
  by (cases "map_get (timers g) t"; simp add: fire_timer_def) (rename_tac cb, case_tac cb, simp_all add: Let_def)

lemma gateway_step_caches: "gateway_step rt g g' \<Longrightarrow> caches_inv g \<Longrightarrow> caches_inv g'"
proof (induction rule: gateway_step.induct)
  case (request_list g u h rep g')
  then show ?case using requests_caches(1) [of g u h] by simp
next
  case (command g u h a c f res g')
  then show ?case using requests_caches(2) [of g rt u h a c f] by simp
next
  case (inspect g u h c res g')
  then show ?case using requests_caches(3) [of g rt u h c] by simp
next
  case (start_logs g u h c tail follow sink rid g')
  then show ?case using startLogStream_caches [of g rt u h c tail follow sink] by simp
qed (simp_all add: handleConnection_def close_socket_def handleDisconnect_caches handleMessage_caches
      resumeRegister_caches fire_timer_caches stopLogStream_caches)

lemma gateway_reachable_caches: "gateway_reachable rt t0 g \<Longrightarrow> caches_inv g"
proof (induction rule: gateway_reachable.induct)
  case start
  show ?case by (simp add: caches_inv_def gateway_init_def)
next
  case (step g g')
  then show ?case by (blast intro: gateway_step_caches)
qed


subsection \<open>The table only changes by the service's three agent-driven calls\<close>

lemma agents_ops [simp]:
  "agents (emit x g) = agents g" "agents (settle p y g) = agents g" "agents (clearTimeout t g) = agents g"
  "agents (set_socket s c g) = agents g" "agents (remember_inventory h u g) = agents g"
  "agents (run_callback cb g) = agents g" "agents (drop_registering k g) = agents g"
  by (simp_all add: emit_def settle_def clearTimeout_def set_socket_def remember_inventory_def drop_registering_def)
    (cases cb; simp add: settle_def emit_def Let_def)

lemma handleDisconnect_agents:
  "agents (handleDisconnect rt s g) = agents g \<or>
   (\<exists>u. agents (handleDisconnect rt s g) = agents_event (rt_prisma rt) (Disconnects u) (agents g))"
  unfolding handleDisconnect_def Let_def unsubscribeLogsForAgent_def rejectPendingCommandsForAgent_def
    rejectPendingInspectsForAgent_def
  by (auto split: option.split)

definition table_step :: "agent_client \<Rightarrow> agent_table \<Rightarrow> agent_table \<Rightarrow> bool" where
  "table_step P t t' \<longleftrightarrow> t' = t \<or> (\<exists>e. t' = agents_event P e t)"

lemma table_step_refl [simp]: "table_step P t t"
  by (simp add: table_step_def)

lemma table_step_event: "t' = agents_event P e t \<Longrightarrow> table_step P t t'"
  by (auto simp: table_step_def)

lemma handleRegister_agents: "table_step (rt_prisma rt) (agents g) (agents (handleRegister rt now s payload g))"
proof (cases "register_input payload")
  case None
  then show ?thesis by (simp add: handleRegister_def reject_unhandled_def)
next
  case (Some input)
  show ?thesis
  proof (cases "agents_register (rt_prisma rt) now input (agents g)")
    case (Inl e)
    then show ?thesis using Some by (simp add: handleRegister_def reject_unhandled_def)
  next
    case (Inr r)
    have "table_step (rt_prisma rt) (agents g) (snd r)"
      using Inr by (intro table_step_event [of _ _ "Registers now input"]) (simp add: case_prod_beta)
    then show ?thesis using Some Inr by (simp add: handleRegister_def case_prod_beta)
  qed
qed

lemma handleHeartbeat_agents: "table_step (rt_prisma rt) (agents g) (agents (handleHeartbeat rt now s payload g))"
proof (cases "as_string (field payload ''uuid'')")
  case None
  then show ?thesis by (simp add: handleHeartbeat_def reject_unhandled_def)
next
  case (Some u)
  show ?thesis
  proof (cases "agents_heartbeat (rt_prisma rt) now u (agents g)")
    case (Inl e)
    then show ?thesis using Some by (simp add: handleHeartbeat_def reject_unhandled_def Let_def)
  next
    case (Inr r)
    have "table_step (rt_prisma rt) (agents g) (snd r)"
      using Inr by (intro table_step_event [of _ _ "Beats now u"]) (simp add: case_prod_beta)
    then show ?thesis using Some Inr by (simp add: handleHeartbeat_def Let_def case_prod_beta)
  qed
qed

lemma other_handlers_agents:
  "agents (handleContainerListed now s payload g) = agents g"
  "agents (handleContainerResult payload g) = agents g" "agents (handleContainerInspected payload g) = agents g"
  "agents (handleHostMetrics rt now s payload g) = agents g" "agents (handleLogsChunk payload g) = agents g"
  by (simp_all add: handleContainerListed_def handleContainerResult_def handleContainerInspected_def
      handleHostMetrics_def handleLogsChunk_def Let_def split: option.split)

lemma handleMessage_agents: "table_step (rt_prisma rt) (agents g) (agents (handleMessage rt now s data g))"
  by (simp add: handleMessage_def dispatch_def handleRegister_agents handleHeartbeat_agents other_handlers_agents
      split: option.split json.split)

lemma requests_agents:
  "agents (snd (requestContainerList u h g)) = agents g"
  "agents (snd (sendContainerCommand rt u h a c f g)) = agents g"
  "agents (snd (inspectContainer rt u h c g)) = agents g"
  "agents (snd (startLogStream rt u h c tail follow sink g)) = agents g"
  by (simp_all add: requestContainerList_def sendContainerCommand_def inspectContainer_def startLogStream_def Let_def
      newPromise_def setTimeout_def randomUUID_def split: option.split)

lemma gateway_step_agents:
  "gateway_step rt g g' \<Longrightarrow>
     table_step (rt_prisma rt) (agents g) (agents g')"
proof (induction rule: gateway_step.induct)
  case (disconnect g s)
  then show ?case unfolding table_step_def using handleDisconnect_agents [of rt s g] by blast
next
  case (message g now s data)
  then show ?case by (simp add: handleMessage_agents)
next
  case (request_list g u h rep g')
  then show ?case using requests_agents(1) [of u h g] by simp
next
  case (command g u h a c f res g')
  then show ?case using requests_agents(2) [of rt u h a c f g] by simp
next
  case (inspect g u h c res g')
  then show ?case using requests_agents(3) [of rt u h c g] by simp
next
  case (start_logs g u h c tail follow sink rid g')
  then show ?case using requests_agents(4) [of rt u h c tail follow sink g] by simp
qed (simp_all add: handleConnection_def close_socket_def resumeRegister_def fire_timer_def stopLogStream_def Let_def
      split: option.split)

lemma gateway_history:
  "gateway_reachable rt t0 g \<Longrightarrow> \<exists>es. agents g = fold (agents_event (rt_prisma rt)) es t0"
proof (induction rule: gateway_reachable.induct)
  case start
  have "agents (gateway_init t0) = fold (agents_event (rt_prisma rt)) [] t0" by (simp add: gateway_init_def)
  then show ?case by blast
next
  case (step g g')
  from step.IH obtain es where es: "agents g = fold (agents_event (rt_prisma rt)) es t0" by blast
  from gateway_step_agents [OF step.hyps(2), unfolded table_step_def] show ?case
  proof
    assume "agents g' = agents g"
    then show ?thesis using es by metis
  next
    assume "\<exists>e. agents g' = agents_event (rt_prisma rt) e (agents g)"
    then obtain e where "agents g' = fold (agents_event (rt_prisma rt)) (es @ [e]) t0" using es by auto
    then show ?thesis by blast
  qed
qed

subsection \<open>Properties of registration\<close>

text \<open>
  C15. Whatever agents do, in any interleaving of connections, frames, timers and requests, every
  host the table had at the start keeps its host id and its display name: only an operator's
  rename or delete changes them.
\<close>

theorem hosts_keep_their_identity:
  assumes "prisma_agents (rt_prisma rt)" "table_ok t0" "gateway_reachable rt t0 g" "row_of t0 u = Some a"
  shows "\<exists>a'. row_of (agents g) u = Some a' \<and> ag_id a' = ag_id a \<and> ag_displayName a' = ag_displayName a"
proof -
  obtain es where "agents g = fold (agents_event (rt_prisma rt)) es t0"
    using gateway_history [OF assms(3)] by blast
  then show ?thesis using prisma_agents.history_keeps_row [OF assms(1,2,4)] by simp
qed

definition demo_row :: agent where
  "demo_row = \<lparr>ag_id = ''h1'', ag_uuid = ''u1'', ag_hostname = ''old'', ag_displayName = Some ''Web'', ag_os = ''linux'',
              ag_architecture = ''amd64'', ag_version = ''1'', ag_status = OFFLINE, ag_lastSeen = None,
              ag_createdAt = 1, ag_updatedAt = 1\<rparr>"

lemma demo_prisma: "prisma_agents (rt_prisma demo_rt)"
  by (simp add: demo_rt_def mem_db.prisma_agents_axioms)

theorem hosts_keep_their_identity_witness:
  "\<exists>a'. row_of (agents (handleMessage demo_rt 5 0 (RawBuffer ''register'') (gateway_init [demo_row]))) ''u1'' = Some a' \<and>
        ag_id a' = ''h1'' \<and> ag_displayName a' = Some ''Web''"
proof -
  have reach: "gateway_reachable demo_rt [demo_row]
                 (handleMessage demo_rt 5 0 (RawBuffer ''register'') (gateway_init [demo_row]))"
    by (rule gateway_reachable.step [OF gateway_reachable.start gateway_step.message])
      (simp add: alive_def gateway_init_def)
  have "table_ok [demo_row]" by (simp add: table_ok_def demo_row_def)
  moreover have "row_of [demo_row] ''u1'' = Some demo_row" by (simp add: row_of_def demo_row_def)
  ultimately show ?thesis
    using hosts_keep_their_identity [OF demo_prisma _ reach] by (fastforce simp: demo_row_def)
qed

definition registration :: "json \<Rightarrow> AgentRegisterPayload \<Rightarrow> bool" where
  "registration payload p \<longleftrightarrow>
     register_input payload = Some p \<and> reg_uuid p \<noteq> [] \<and> reg_hostname p \<noteq> [] \<and> reg_os p \<noteq> []"

lemma register_input_fields:
  "register_input payload = Some p \<Longrightarrow>
     field payload ''uuid'' = Some (JStr (reg_uuid p)) \<and> field payload ''hostname'' = Some (JStr (reg_hostname p)) \<and>
     field payload ''os'' = Some (JStr (reg_os p))"
  by (auto simp: register_input_def split: option.splits)

lemma handleRegister_valid:
  assumes "registration payload p" "agents_register (rt_prisma rt) now p (agents g) = Inr (r, t')"
  shows "handleRegister rt now s payload g = g\<lparr>agents := t', registering := registering g @ [(s, r)]\<rparr>"
  using assms register_input_fields [of payload p]
  by (simp add: registration_def handleRegister_def)

text \<open>
  C14. Registration: a complete payload from an open socket, stored by the table, ends with the
  agent ONLINE under its uuid, the socket reachable under this uuid and named by it, both
  caches knowing its host id, and two frames sent: the confirmation carrying the host id, then
  the first \<open>container.list\<close>.
\<close>

theorem registration_handshake:
  assumes "prisma_agents (rt_prisma rt)" "table_ok (agents g)" "registration payload p"
    and "agents_register (rt_prisma rt) now p (agents g) = Inr (r, t')"
    and "registering g = []" "isOpen (sockets g s)"
    and "g' = resumeRegister s r (drop_registering 0 (handleRegister rt now s payload g))"
  shows "openClient (reg_uuid p) g' = Some s \<and>
         agentUuid (sockets g' s) = Some (reg_uuid p) \<and> agentId (sockets g' s) = Some (rgd_id r) \<and>
         inv_host_of (inventory g') (reg_uuid p) = Some (rgd_id r) \<and>
         met_host_of (hostMetrics g') (reg_uuid p) = Some (rgd_id r) \<and>
         (\<exists>a. row_of (agents g') (reg_uuid p) = Some a \<and> ag_id a = rgd_id r \<and> ag_status a = ONLINE \<and>
              ag_lastSeen a = Some now) \<and>
         effects g' = effects g @
           [Sent s (createEnvelope AGENT_REGISTERED (AgentRegisteredPayload_json r)),
            Sent s (createEnvelope CONTAINER_LIST (JObj []))] \<and>
         registering g' = []"
proof -
  have row: "rgd_uuid r = reg_uuid p"
    "\<exists>a. row_of t' (reg_uuid p) = Some a \<and> ag_id a = rgd_id r \<and> ag_status a = ONLINE \<and> ag_lastSeen a = Some now"
    using prisma_agents.register_cases [OF assms(1,2,4)] by metis+
  show ?thesis
    unfolding assms(7) handleRegister_valid [where rt = rt, OF assms(3,4)]
    using assms(5,6) row
    by (simp add: resumeRegister_def Let_def drop_registering_def set_socket_def openClient_def map_get_set
        send_def emit_def remember_inventory_def inv.remember_host_of met.remember_host_of)
qed

definition demo_payload :: AgentRegisterPayload where
  "demo_payload = \<lparr>reg_uuid = ''u1'', reg_hostname = ''box'', reg_os = ''linux'', reg_architecture = ''unknown'',
                   reg_version = ''unknown''\<rparr>"

definition demo_confirmation :: AgentRegisteredPayload where
  "demo_confirmation = \<lparr>rgd_id = ''c'', rgd_uuid = ''u1'', rgd_status = ''ONLINE'',
                        rgd_message = ''Registration successful''\<rparr>"

lemma demo_register_result:
  "\<exists>t'. agents_register (rt_prisma demo_rt) 1000 demo_payload (agents demo_connected) = Inr (demo_confirmation, t')"
proof -
  have "map_sum (\<lambda>_. ()) fst (agents_register (rt_prisma demo_rt) 1000 demo_payload (agents demo_connected))
        = Inr demo_confirmation"
    by code_simp
  then show ?thesis
    by (cases "agents_register (rt_prisma demo_rt) 1000 demo_payload (agents demo_connected)") auto
qed

lemma demo_register_message: "demo_registering = handleRegister demo_rt 1000 0 demo_registration demo_connected"
  by (simp add: demo_registering_def handleMessage_def demo_rt_def demo_parse_def demo_frame_def
      isMessageEnvelope_def isJsonObject_def demo_registration_def dispatch_def)

theorem registration_handshake_witness:
  "openClient ''u1'' demo_registered = Some 0 \<and> inv_host_of (inventory demo_registered) ''u1'' = Some ''c''"
proof -
  obtain t' where t': "agents_register (rt_prisma demo_rt) 1000 demo_payload (agents demo_connected) = Inr (demo_confirmation, t')"
    using demo_register_result by blast
  have "table_ok (agents demo_connected)"
    by (simp add: demo_connected_def handleConnection_def set_socket_def gateway_init_def table_ok_def)
  moreover have "registration demo_registration demo_payload" by code_simp
  moreover have "registering demo_connected = []" by code_simp
  moreover have "isOpen (sockets demo_connected 0)" by code_simp
  moreover have "demo_registered = resumeRegister 0 demo_confirmation
      (drop_registering 0 (handleRegister demo_rt 1000 0 demo_registration demo_connected))"
    by (simp add: demo_registered_def demo_registering_queue demo_confirmation_def flip: demo_register_message)
  ultimately show ?thesis
    using registration_handshake [OF demo_prisma _ _ t', of demo_registration 0 demo_registered]
    by (simp add: demo_payload_def demo_confirmation_def)
qed

text \<open>
  An incomplete registration (uuid, host name or operating system missing or falsy) is
  answered on its own socket with status \<open>UNKNOWN\<close> and writes nothing: no row, no socket
  entry, no cache, no promise.
\<close>

theorem incomplete_registration_rejected:
  assumes "\<not> json_truthy (field payload ''uuid'') \<or> \<not> json_truthy (field payload ''hostname'') \<or>
           \<not> json_truthy (field payload ''os'')"
  shows "handleRegister rt now s payload g =
           (if isOpen (sockets g s)
            then g\<lparr>effects := effects g @
                    [Sent s (registered_envelope (json_nullish (field payload ''uuid'') (JStr ''''))
                               ''Invalid registration payload'')]\<rparr>
            else g)"
  using assms by (simp add: handleRegister_def send_def emit_def)

theorem incomplete_registration_rejected_witness:
  "handleRegister demo_rt 0 0 (JObj []) demo_connected =
     demo_connected\<lparr>effects := effects demo_connected @
       [Sent 0 (registered_envelope (JStr '''') ''Invalid registration payload'')]\<rparr>"
proof -
  have "isOpen (sockets demo_connected 0)" by code_simp
  moreover have "\<not> json_truthy (field (JObj []) ''uuid'')" by code_simp
  moreover have "json_nullish (field (JObj []) ''uuid'') (JStr '''') = JStr ''''" by code_simp
  ultimately show ?thesis using incomplete_registration_rejected [of "JObj []" demo_rt 0 0 demo_connected] by simp
qed

text \<open>
  A registration whose uuid is truthy but not a string passes the guard and makes the
  database call reject; nothing catches that rejection, which ends the process.
\<close>

theorem ill_typed_registration_ends_process:
  assumes "json_truthy (field payload ''uuid'')" "as_string (field payload ''uuid'') = None"
    and "json_truthy (field payload ''hostname'')" "json_truthy (field payload ''os'')"
  shows "\<not> alive (handleRegister rt now s payload g) \<and> \<not> gateway_step rt (handleRegister rt now s payload g) g'"
proof -
  have "register_input payload = None" using assms(2) by (simp add: register_input_def)
  then have "\<not> alive (handleRegister rt now s payload g)"
    using assms by (simp add: handleRegister_def reject_unhandled_def alive_def)
  then show ?thesis by (auto elim: gateway_step.cases)
qed

theorem ill_typed_registration_ends_process_witness:
  "\<not> alive (handleRegister demo_rt 0 0
      (JObj [(''uuid'', JBool True), (''hostname'', JStr ''h''), (''os'', JStr ''o'')]) demo_connected)"
  by (rule ill_typed_registration_ends_process [THEN conjunct1]) code_simp+

subsection \<open>Properties of reports\<close>

text \<open>
  A container report of a registered agent is what every later read gets: under the agent's
  uuid and under its host id the cache holds exactly the well-formed summaries of the report,
  with the time it came; every other host's entry is untouched, and a caller waiting for
  this agent's list gets the same containers.
\<close>

theorem report_reaches_readers:
  assumes "gateway_inv rt g" "agentUuid (sockets g s) = Some u" "u \<noteq> []"
    and "resolve_host (agentId (sockets g s)) (inv_host_of (inventory g) u) = Some h"
    and "g' = handleContainerListed now s payload g"
  shows "inv_getByUuid u (inventory g') = Some (inv_entry h u (parsed_containers payload, now)) \<and>
         inv_getByHostId h (inventory g') = Some (inv_entry h u (parsed_containers payload, now)) \<and>
         (\<forall>h'. h' \<noteq> h \<longrightarrow> inv_getByHostId h' (inventory g') = inv_getByHostId h' (inventory g)) \<and>
         promise_state g' =
           (case map_get (pendingLists g) u of
              None \<Rightarrow> promise_state g
            | Some e \<Rightarrow> (promise_state g)(plist_promise e := Done (ListResolved (parsed_containers payload))))"
proof -
  let ?i = "snd (inv_setContainers u (parsed_containers payload, now) (agentId (sockets g s)) (inventory g))"
  have g': "g' = resolvePendingList u (parsed_containers payload) (g\<lparr>inventory := ?i\<rparr>)"
    using handleContainerListed_named [OF assms(2,3)] assms(5) by simp
  have "gateway_inv rt (g\<lparr>inventory := ?i\<rparr>)" using assms(1) by simp
  from resolvePendingList_states [OF this, of u "parsed_containers payload"]
  have "promise_state g' = (case map_get (pendingLists g) u of None \<Rightarrow> promise_state g
      | Some e \<Rightarrow> (promise_state g)(plist_promise e := Done (ListResolved (parsed_containers payload))))"
    by (simp add: g' cong: option.case_cong)
  then show ?thesis
    using inv.store_then_lookup [OF assms(4)] inv.store_keeps_other_hosts [OF assms(4)] by (simp add: g')
qed

theorem report_reaches_readers_witness:
  "inv_getByHostId ''c'' (inventory (handleContainerListed 7 0 demo_listed demo_registered)) =
     Some (inv_entry ''c'' ''u1'' ([], 7))"
proof -
  have "gateway_inv demo_rt demo_registered"
    by (rule gateway_reachable_inv [OF demo_reachable_registered demo_rt_inj])
  moreover have "agentUuid (sockets demo_registered 0) = Some ''u1''" by code_simp
  moreover have "resolve_host (agentId (sockets demo_registered 0)) (inv_host_of (inventory demo_registered) ''u1'') = Some ''c''"
    by code_simp
  moreover have "parsed_containers demo_listed = []" by code_simp
  ultimately show ?thesis
    using report_reaches_readers [of demo_rt demo_registered 0 "''u1''" "''c''" _ 7 demo_listed] by simp
qed

text \<open>
  Asking a connected agent for its containers: the caller gets a fresh promise and one
  \<open>container.list\<close> frame is sent. An older request for the same agent is settled at once with
  the cached containers, so no two requests wait on the same entry.
\<close>

theorem list_request_supersedes:
  assumes "inj (rt_uuid rt)" "gateway_reachable rt t0 g" "openClient u g = Some client"
    and "requestContainerList u h g = (rep, g')"
  shows "rep = Awaiting (nextPromise g) \<and>
         promise_state g' =
           (case map_get (pendingLists g) u of
              None \<Rightarrow> promise_state g
            | Some e \<Rightarrow> (promise_state g)(plist_promise e := Done (ListResolved
                (snapshot_containers (inv_getByUuid u (inv_rememberHost h u (inventory g)))))))
           (nextPromise g := Waiting) \<and>
         map_get (pendingLists g') u = Some \<lparr>plist_promise = nextPromise g, plist_timer = nextTimer g\<rparr> \<and>
         last (effects g') = Sent client (createEnvelope CONTAINER_LIST (JObj []))"
proof -
  let ?g = "remember_inventory h u g"
  let ?cs = "snapshot_containers (inv_getByUuid u (inv_rememberHost h u (inventory g)))"
  let ?r = "resolvePendingList u ?cs ?g"
  let ?add = "?r\<lparr>nextPromise := Suc (nextPromise g),
      timers := map_set (nextTimer g) (ListTimeout u h (nextPromise g)) (timers ?r), nextTimer := Suc (nextTimer g),
      pendingLists := map_set u \<lparr>plist_promise = nextPromise g, plist_timer = nextTimer g\<rparr> (pendingLists ?r)\<rparr>"
  have inv: "gateway_inv rt ?g" using gateway_reachable_inv [OF assms(2,1)] by simp
  have fields: "nextPromise ?g = nextPromise g" "nextTimer ?g = nextTimer g" "pendingLists ?g = pendingLists g"
    "sockets ?g = sockets g" "inventory ?g = inv_rememberHost h u (inventory g)"
    by (simp_all add: remember_inventory_def)
  have rep: "rep = Awaiting (nextPromise g)" and g': "g' = send client (createEnvelope CONTAINER_LIST (JObj [])) ?add"
    using assms(3,4)
    by (auto simp: requestContainerList_def Let_def newPromise_def setTimeout_def resolvePendingList_nextPromise fields)
  have "promise_state ?add = (promise_state ?r)(nextPromise ?r := Waiting)"
  proof (rule addition_states)
    show "gateway_inv rt ?r" using inv by simp
    show "mset (pendings ?add) = add_mset (ListKey u, nextPromise ?r, nextTimer g) (mset (pendings ?r))"
      by (simp add: pendings_def views_set_fresh fields)
  qed simp
  moreover have "promise_state ?r = (case map_get (pendingLists g) u of None \<Rightarrow> promise_state g
      | Some e \<Rightarrow> (promise_state g)(plist_promise e := Done (ListResolved ?cs)))"
    using resolvePendingList_states [OF inv, of u ?cs] by (simp add: fields cong: option.case_cong)
  moreover have "last (effects g') = Sent client (createEnvelope CONTAINER_LIST (JObj []))"
    using openClient_isOpen [OF assms(3)] by (simp add: g' send_def emit_def fields)
  ultimately show ?thesis by (simp add: rep g' fields map_get_set)
qed

theorem list_request_supersedes_witness:
  "fst (requestContainerList ''u1'' ''c'' demo_registered) = Awaiting 0"
  using list_request_supersedes [OF demo_rt_inj demo_reachable_registered demo_openClient surjective_pairing, of "''c''"]
  by (simp add: demo_counters)

subsection \<open>Properties of log streams\<close>

definition logs_frame :: "string \<Rightarrow> string \<Rightarrow> js_number option \<Rightarrow> bool option \<Rightarrow> MessageEnvelope" where
  "logs_frame requestId containerId tail follow =
     createEnvelope LOGS_SUBSCRIBE
       (JObj [(''requestId'', JStr requestId), (''containerId'', JStr containerId),
              (''tail'', JNum (nullish tail (js_int 100))), (''follow'', JBool (nullish follow True))])"

definition unsubscribe_frame :: "string \<Rightarrow> MessageEnvelope" where
  "unsubscribe_frame requestId = createEnvelope LOGS_UNSUBSCRIBE (JObj [(''requestId'', JStr requestId)])"

definition chunk_of :: "string \<Rightarrow> json \<Rightarrow> LogsChunkPayload" where
  "chunk_of requestId payload =
     \<lparr>chunk_requestId = requestId, chunk_containerId = field payload ''containerId'',
      chunk_entries = (case field payload ''entries'' of Some (JArr es) \<Rightarrow> es | _ \<Rightarrow> [])\<rparr>"

lemma handleLogsChunk_live:
  assumes "field payload ''requestId'' = Some (JStr r)" "r \<noteq> []" "map_get (logSubscribers g) r = Some sub"
  shows "handleLogsChunk payload g = emit (Chunk (sub_sink sub) (chunk_of r payload)) g"
  using assms by (simp add: handleLogsChunk_def chunk_of_def)

lemma handleLogsChunk_stopped:
  assumes "field payload ''requestId'' = Some (JStr r)" "map_get (logSubscribers g) r = None"
  shows "handleLogsChunk payload g = g"
  using assms by (simp add: handleLogsChunk_def)

text \<open>
  C40. A log stream: subscribing sends one frame with the defaults filled in; every chunk with
  the stream's id goes to the subscriber's callback and nowhere else; unsubscribing tells the
  agent, and a chunk that arrives after it is dropped.
\<close>

theorem log_stream_lifecycle:
  assumes "openClient u g = Some client" "startLogStream rt u h c tail follow sink g = (res, g')"
    and "r = rt_uuid rt (uuidDraws g)" "r \<noteq> []" "field payload ''requestId'' = Some (JStr r)"
  shows "res = Inr r \<and>
         effects g' = effects g @ [Sent client (logs_frame r c tail follow)] \<and>
         handleLogsChunk payload g' = emit (Chunk sink (chunk_of r payload)) g' \<and>
         effects (stopLogStream r g') = effects g' @ [Sent client (unsubscribe_frame r)] \<and>
         handleLogsChunk payload (stopLogStream r g') = stopLogStream r g'"
proof -
  let ?sub = "\<lparr>sub_agentUuid = u, sub_containerId = c, sub_sink = sink\<rparr>"
  let ?g = "remember_inventory h u g\<lparr>uuidDraws := Suc (uuidDraws g), logSubscribers := map_set r ?sub (logSubscribers g)\<rparr>"
  have opened: "isOpen (sockets g client)" by (rule openClient_isOpen [OF assms(1)])
  have res: "res = Inr r" and g': "g' = send client (logs_frame r c tail follow) ?g"
    using assms(1,2)
    by (auto simp: startLogStream_def Let_def randomUUID_def logs_frame_def assms(3) remember_inventory_def openClient_def
        split: option.splits if_splits)
  have sub: "map_get (logSubscribers g') r = Some ?sub" by (simp add: g' map_get_set)
  have client: "openClient u g' = Some client"
    using assms(1) by (simp add: g' openClient_def remember_inventory_def cong: option.case_cong)
  have stop: "stopLogStream r g' = send client (unsubscribe_frame r) (g'\<lparr>logSubscribers := map_delete r (logSubscribers g')\<rparr>)"
    using client by (simp add: stopLogStream_def sub unsubscribe_frame_def)
  have "isOpen (sockets g' client)" using opened by (simp add: g' remember_inventory_def)
  then show ?thesis
    using res opened handleLogsChunk_live [OF assms(5,4) sub] handleLogsChunk_stopped [OF assms(5), of "stopLogStream r g'"]
    by (simp add: stop) (simp add: g' send_def emit_def remember_inventory_def map_get_delete)
qed

theorem log_stream_lifecycle_witness:
  "fst (startLogStream demo_rt ''u1'' ''c'' ''c1'' None None 5 demo_registered) = Inr ''r''"
proof -
  have "''r'' = rt_uuid demo_rt (uuidDraws demo_registered)" by code_simp
  moreover have "field demo_result ''requestId'' = Some (JStr ''r'')" by code_simp
  ultimately show ?thesis
    using log_stream_lifecycle [OF demo_openClient surjective_pairing, where rt = demo_rt] by blast
qed

subsection \<open>Properties of disconnects\<close>

text \<open>
  C13. A disconnect of a named agent settles every request that waits for it, with the error (or,
  for a list, the cache) of its kind, and no other; afterwards no pending entry, no log
  subscriber and no socket entry of the agent is left, and those of other agents are as before.
\<close>

theorem disconnect_releases_agent:
  assumes "inj (rt_uuid rt)" "gateway_reachable rt t0 g" "agentUuid (sockets g s) = Some u" "u \<noteq> []"
    and "g' = handleDisconnect rt s g"
  shows "promise_state g' =
           (\<lambda>p. case disconnect_settlement u g p of Some x \<Rightarrow> Done x | None \<Rightarrow> promise_state g p) \<and>
         socketsByUuid g' = map_delete u (socketsByUuid g) \<and>
         pendingLists g' = map_delete u (pendingLists g) \<and>
         pendingCommands g' = filter (\<lambda>(r, e). pcmd_agentUuid e \<noteq> u) (pendingCommands g) \<and>
         pendingInspects g' = filter (\<lambda>(r, e). pins_agentUuid e \<noteq> u) (pendingInspects g) \<and>
         logSubscribers g' = filter (\<lambda>(r, e). sub_agentUuid e \<noteq> u) (logSubscribers g) \<and>
         agents g' = agents_markOffline (rt_prisma rt) u (agents g)"
proof -
  have inv: "gateway_inv rt g" by (rule gateway_reachable_inv [OF assms(2,1)])
  have unique: "unique_keys (logSubscribers g)"
    using gateway_reachable_caches [OF assms(2)] by (simp add: caches_inv_def)
  show ?thesis
    unfolding assms(5) handleDisconnect_states [OF inv assms(3,4)]
    using handleDisconnect_maps [OF assms(3,4) inv unique] by simp
qed

theorem disconnect_releases_agent_witness:
  "promise_state (handleDisconnect demo_rt 0 demo_commanded) 0 = Done (CommandRejected disconnected_command)"
proof -
  have "agentUuid (sockets demo_commanded 0) = Some ''u1''" by code_simp
  moreover have "disconnect_settlement ''u1'' demo_commanded 0 = Some (CommandRejected disconnected_command)"
    by code_simp
  ultimately show ?thesis
    using disconnect_releases_agent [OF demo_rt_inj demo_reachable_commanded, of 0 "''u1''"] by simp
qed

text \<open>
  The socket entry is deleted by uuid, whichever socket it names: when an agent has
  reconnected on a new socket, the late disconnect of the old one makes the agent unreachable
  although the new socket is open and still carries its uuid.
\<close>

theorem stale_disconnect_drops_live_socket:
  assumes "agentUuid (sockets g old) = Some u" "u \<noteq> []" "openClient u g = Some new" "new \<noteq> old"
  shows "openClient u (handleDisconnect rt old g) = None \<and>
         isOpen (sockets (handleDisconnect rt old g) new) \<and>
         sendContainerCommand rt u h a c f (handleDisconnect rt old g)
           = (Inl not_connected, remember_inventory h u (handleDisconnect rt old g))"
proof -
  have "socketsByUuid (handleDisconnect rt old g) = map_delete u (socketsByUuid g)"
    "sockets (handleDisconnect rt old g) = sockets g"
    using assms(1,2)
    by (simp_all add: handleDisconnect_def Let_def rejectPendingCommandsForAgent_def
        rejectPendingInspectsForAgent_def unsubscribeLogsForAgent_def)
  then show ?thesis
    using openClient_isOpen [OF assms(3)] sendContainerCommand_offline [of u "handleDisconnect rt old g"]
    by (simp add: openClient_def map_get_delete)
qed

definition demo_reconnected :: gateway where
  "demo_reconnected =
     close_socket 0 (handleMessage demo_rt 3000 1 (RawBuffer ''heartbeat'') (handleConnection 1 demo_registered))"

theorem stale_disconnect_drops_live_socket_witness:
  "openClient ''u1'' demo_reconnected = Some 1 \<and> openClient ''u1'' (handleDisconnect demo_rt 0 demo_reconnected) = None"
proof -
  have "openClient ''u1'' demo_reconnected = Some 1" by code_simp
  moreover have "agentUuid (sockets demo_reconnected 0) = Some ''u1''" by code_simp
  ultimately show ?thesis using stale_disconnect_drops_live_socket [of demo_reconnected 0 "''u1''" 1 demo_rt] by simp
qed

text \<open>
  A socket that closes while its registration is being written has no uuid yet, so its disconnect marks
  nothing offline; the continuation then enters the closed socket. The row stays as the registration wrote
  it, and no request finds the agent.
\<close>

theorem late_registration_strands_host:
  assumes "agentUuid (sockets g s) = None" "\<not> isOpen (sockets g s)" "registering g ! k = (s, r)"
    and "g' = resumeRegister s r (drop_registering k (handleDisconnect rt s g))"
  shows "agents g' = agents g \<and> map_get (socketsByUuid g') (rgd_uuid r) = Some s \<and> openClient (rgd_uuid r) g' = None"
proof -
  have same: "handleDisconnect rt s g = g" using assms(1) by (simp add: handleDisconnect_def)
  show ?thesis
    using assms(2) unfolding assms(4) same
    by (simp add: resumeRegister_def drop_registering_def send_def set_socket_def remember_inventory_def openClient_def
        map_get_set Let_def)
qed

subsection \<open>Properties of the frame dispatch\<close>

definition agent_message_types :: "string list" where
  "agent_message_types =
     [AGENT_REGISTER, AGENT_HEARTBEAT, CONTAINER_LISTED, CONTAINER_RESULT, CONTAINER_INSPECTED, LOGS_CHUNK, METRICS_HOST]"

text \<open>
  A frame that is not JSON, not an envelope or of an unknown type changes nothing: at most
  the sender is told, and no promise is settled.
\<close>

theorem malformed_frame_harmless:
  assumes "case rt_jsonParse rt (decodeRawData data) of
             None \<Rightarrow> True
           | Some v \<Rightarrow> \<not> isMessageEnvelope v \<or>
                      (\<exists>t. field v ''type'' = Some (JStr t) \<and> t \<notin> set agent_message_types)"
  shows "\<exists>es. handleMessage rt now s data g = g\<lparr>effects := effects g @ es\<rparr> \<and> settled es = [] \<and> length es \<le> 1"
proof (cases "rt_jsonParse rt (decodeRawData data)")
  case None
  then show ?thesis
    by (cases "isOpen (sockets g s)")
      (auto simp: handleMessage_def send_def emit_def intro: exI [of _ "[Sent s e]" for e] exI [of _ "[]"])
next
  case (Some v)
  have "handleMessage rt now s data g = g"
    using assms Some
    by (auto simp: handleMessage_def dispatch_def agent_message_types_def split: option.split json.split)
  then show ?thesis by (intro exI [of _ "[]"]) simp
qed

theorem malformed_frame_harmless_witness:
  "\<exists>es. handleMessage demo_rt 0 0 (RawBuffer ''garbage'') demo_registered = demo_registered\<lparr>effects := effects demo_registered @ es\<rparr>"
  using malformed_frame_harmless [of demo_rt "RawBuffer ''garbage''" 0 0 demo_registered]
  by (auto simp: demo_rt_def demo_parse_def)

text \<open>
  An answer is taken once: after a \<open>container.result\<close> or \<open>container.inspected\<close> frame has
  been handled, a repetition of the same frame changes nothing.
\<close>

theorem repeated_answer_ignored:
  "handleContainerResult payload (handleContainerResult payload g) = handleContainerResult payload g \<and>
   handleContainerInspected payload (handleContainerInspected payload g) = handleContainerInspected payload g"
proof -
  have "map_get (pendingCommands (handleContainerResult payload g)) r = None"
    if "field payload ''requestId'' = Some (JStr r)" "r \<noteq> []" for r
    using that by (cases "map_get (pendingCommands g) r")
      (simp_all add: handleContainerResult_def clearTimeout_def settle_def emit_def map_get_delete)
  moreover have "map_get (pendingInspects (handleContainerInspected payload g)) r = None"
    if "field payload ''requestId'' = Some (JStr r)" "r \<noteq> []" for r
    using that by (cases "map_get (pendingInspects g) r")
      (simp_all add: handleContainerInspected_def clearTimeout_def settle_def emit_def map_get_delete)
  ultimately show ?thesis
    by (auto simp: handleContainerResult_def [of payload "handleContainerResult payload g"]
        handleContainerInspected_def [of payload "handleContainerInspected payload g"] split: option.split)
qed

end
