(* ===== verification/HostsApi.thy ===== *)
theory HostsApi
  imports HttpErrors GatewayAgents
begin

section \<open>The hosts API\<close>

text \<open>
  \<open>hosts.service.ts\<close>, \<open>hosts.controller.ts\<close> and \<open>dto/update-host.dto.ts\<close>. Each service
  call first awaits a database query and then works synchronously on the caches, which may
  have changed in between: the operations take the table \<open>t\<close> the query ran on and the
  gateway state \<open>g\<close> at the time it returned. \<open>deleteHost\<close> takes in addition the
  table \<open>t2\<close> its second call finds.

  The day arithmetic of \<open>deleteHost\<close> is local time: \<open>minus_days\<close> is the parameter that
  gives the instant a number of calendar days earlier.
\<close>

subsection \<open>Replies\<close>

record HostMetricsDto =
  md_hostId :: string
  md_cpu :: "json option"
  md_memory :: "json option"
  md_collectedAt :: "string option"

record HostDto =
  hd_id :: string
  hd_uuid :: string
  hd_hostname :: string
  hd_displayName :: string
  hd_os :: string
  hd_architecture :: string
  hd_version :: string
  hd_status :: string
  hd_lastSeen :: "string option"
  hd_metrics :: HostMetricsDto

record HostContainersDto =
  hc_hostId :: string
  hc_containers :: "ContainerSummary list"
  hc_updatedAt :: "string option"

definition toMetricsDto :: "string \<Rightarrow> HostMetricsSnapshot option \<Rightarrow> HostMetricsDto" where
  "toMetricsDto hostId snapshot =
     \<lparr>md_hostId = hostId, md_cpu = map_option ms_cpu snapshot, md_memory = map_option ms_memory snapshot,
      md_collectedAt = map_option (toISOString \<circ> ms_collectedAt) snapshot\<rparr>"

text \<open>\<open>agent.displayName?.trim() || agent.hostname\<close>\<close>

definition displayed_name :: "agent \<Rightarrow> string" where
  "displayed_name a =
     (case ag_displayName a of
        None \<Rightarrow> ag_hostname a
      | Some n \<Rightarrow> if js_trim n = [] then ag_hostname a else js_trim n)"

definition toHostDto :: "agent \<Rightarrow> HostMetricsSnapshot option \<Rightarrow> HostDto" where
  "toHostDto a snapshot =
     \<lparr>hd_id = ag_id a, hd_uuid = ag_uuid a, hd_hostname = ag_hostname a, hd_displayName = displayed_name a,
      hd_os = ag_os a, hd_architecture = ag_architecture a, hd_version = ag_version a,
      hd_status = AgentStatus_string (ag_status a), hd_lastSeen = map_option toISOString (ag_lastSeen a),
      hd_metrics = toMetricsDto (ag_id a) snapshot\<rparr>"

subsection \<open>The service\<close>

definition remember_metrics :: "string \<Rightarrow> string \<Rightarrow> gateway \<Rightarrow> gateway" where
  "remember_metrics hostId uuid g = g\<lparr>hostMetrics := met_rememberHost hostId uuid (hostMetrics g)\<rparr>"

fun rememberAgents :: "agent list \<Rightarrow> gateway \<Rightarrow> gateway" where
  "rememberAgents [] g = g"
| "rememberAgents (a # as) g =
     rememberAgents as (remember_metrics (ag_id a) (ag_uuid a) (remember_inventory (ag_id a) (ag_uuid a) g))"

definition listHosts :: "agent_client \<Rightarrow> agent_table \<Rightarrow> gateway \<Rightarrow> (failure + HostDto list) \<times> gateway" where
  "listHosts P t g =
     (case agents_findAll P t of
        Inl e \<Rightarrow> (Inl (Database e), g)
      | Inr as \<Rightarrow>
          (let g' = rememberAgents as g
           in (Inr (map (\<lambda>a. toHostDto a (met_getByHostId (ag_id a) (hostMetrics g'))) as), g')))"

definition hosts_updateDisplayName ::
  "agent_client \<Rightarrow> string \<Rightarrow> string \<Rightarrow> agent_table \<Rightarrow> gateway \<Rightarrow>
     (failure + HostDto option) \<times> agent_table \<times> gateway"
where
  "hosts_updateDisplayName P hostId displayName t g =
     (case agents_updateDisplayName P hostId displayName t of
        Inl e \<Rightarrow> (Inl (Database e), t, g)
      | Inr (None, t') \<Rightarrow> (Inr None, t', g)
      | Inr (Some updated, t') \<Rightarrow>
          (let g' = remember_metrics (ag_id updated) (ag_uuid updated) g
           in (Inr (Some (toHostDto updated (met_getByHostId (ag_id updated) (hostMetrics g')))), t', g')))"

definition hosts_getMetrics ::
  "agent_client \<Rightarrow> string \<Rightarrow> agent_table \<Rightarrow> gateway \<Rightarrow> (failure + HostMetricsDto option) \<times> gateway"
where
  "hosts_getMetrics P hostId t g =
     (case agents_findById P hostId t of
        Inl e \<Rightarrow> (Inl (Database e), g)
      | Inr None \<Rightarrow> (Inr None, g)
      | Inr (Some a) \<Rightarrow>
          (let g' = remember_metrics (ag_id a) (ag_uuid a) g
           in (Inr (Some (toMetricsDto (ag_id a) (met_getByHostId (ag_id a) (hostMetrics g')))), g')))"

definition hosts_listContainers ::
  "agent_client \<Rightarrow> string \<Rightarrow> agent_table \<Rightarrow> gateway \<Rightarrow> (failure + HostContainersDto option) \<times> gateway"
where
  "hosts_listContainers P hostId t g =
     (case agents_findById P hostId t of
        Inl e \<Rightarrow> (Inl (Database e), g)
      | Inr None \<Rightarrow> (Inr None, g)
      | Inr (Some a) \<Rightarrow>
          (let g' = remember_inventory (ag_id a) (ag_uuid a) g;
               snapshot = inv_getByHostId (ag_id a) (inventory g')
           in (Inr (Some \<lparr>hc_hostId = ag_id a, hc_containers = snapshot_containers snapshot,
                          hc_updatedAt = map_option (toISOString \<circ> snap_updatedAt) snapshot\<rparr>), g')))"

definition host_not_found :: "string \<Rightarrow> http_exception" where
  "host_not_found hostId = NotFoundException (''Host not found: '' @ hostId)"

definition deleteHost ::
  "agent_client \<Rightarrow> (nat \<Rightarrow> int \<Rightarrow> int) \<Rightarrow> int \<Rightarrow> string \<Rightarrow> agent_table \<Rightarrow> agent_table \<Rightarrow> failure + agent_table"
where
  "deleteHost P minus_days now hostId t t2 =
     (case agents_findById P hostId t of
        Inl e \<Rightarrow> Inl (Database e)
      | Inr None \<Rightarrow> Inl (Http (host_not_found hostId))
      | Inr (Some a) \<Rightarrow>
          if ag_status a = ONLINE then Inl (Http (ConflictException ''Cannot delete an active host''))
          else
            (let lastSeenDate = nullish (ag_lastSeen a) (ag_createdAt a);
                 sevenDaysAgo = minus_days 7 now
             in if lastSeenDate > sevenDaysAgo
                then Inl (Http (ConflictException ''Host must be inactive for at least 7 days''))
                else (case agents_delete P (ag_id a) t2 of Inl e \<Rightarrow> Inl (Database e) | Inr t' \<Rightarrow> Inr t')))"

subsection \<open>The controller\<close>

text \<open>The validated body of the rename route; \<open>None\<close> is the 400 of the validation pipe.\<close>

definition HOST_DISPLAY_NAME_MAX_LENGTH :: nat where
  "HOST_DISPLAY_NAME_MAX_LENGTH = 64"

definition validateUpdateHost :: "json \<Rightarrow> string option" where
  "validateUpdateHost body =
     (case field body ''displayName'' of
        Some (JStr s) \<Rightarrow>
          (let v = js_trim s
           in if v \<noteq> [] \<and> length v \<le> HOST_DISPLAY_NAME_MAX_LENGTH then Some v else None)
      | _ \<Rightarrow> None)"

text \<open>\<open>if (!result) throw new NotFoundException(...)\<close>\<close>

definition or_not_found :: "string \<Rightarrow> (failure + 'a option) \<Rightarrow> failure + 'a" where
  "or_not_found hostId r =
     (case r of
        Inl e \<Rightarrow> Inl e
      | Inr None \<Rightarrow> Inl (Http (host_not_found hostId))
      | Inr (Some x) \<Rightarrow> Inr x)"

definition hosts_controller_rename ::
  "agent_client \<Rightarrow> string \<Rightarrow> json \<Rightarrow> agent_table \<Rightarrow> gateway \<Rightarrow> (failure + HostDto) \<times> agent_table \<times> gateway"
where
  "hosts_controller_rename P key body t g =
     (case validateUpdateHost body of
        None \<Rightarrow> (Inl (Http (BadRequestException ''Bad Request Exception'')), t, g)
      | Some name \<Rightarrow>
          (let (result, t', g') = hosts_updateDisplayName P key name t g in (or_not_found key result, t', g')))"

definition hosts_controller_getMetrics ::
  "agent_client \<Rightarrow> string \<Rightarrow> agent_table \<Rightarrow> gateway \<Rightarrow> (failure + HostMetricsDto) \<times> gateway"
where
  "hosts_controller_getMetrics P key t g =
     (let (result, g') = hosts_getMetrics P key t g in (or_not_found key result, g'))"

definition hosts_controller_listContainers ::
  "agent_client \<Rightarrow> string \<Rightarrow> agent_table \<Rightarrow> gateway \<Rightarrow> (failure + HostContainersDto) \<times> gateway"
where
  "hosts_controller_listContainers P key t g =
     (let (result, g') = hosts_listContainers P key t g in (or_not_found key result, g'))"

subsection \<open>Remembering hosts\<close>

lemma rememberAgents_reads:
  "met_getByHostId h (hostMetrics (rememberAgents as g)) = met_getByHostId h (hostMetrics g)"
  "snapshot_containers (inv_getByHostId h (inventory (rememberAgents as g)))
     = snapshot_containers (inv_getByHostId h (inventory g))"
  by (induction as arbitrary: g)
    (simp_all add: remember_metrics_def remember_inventory_def met_getByHostId_def met_rememberHost_def
      inv_rememberHost_containers)

lemma rememberAgents_host_of:
  "distinct (map ag_uuid as) \<Longrightarrow>
     inv_host_of (inventory (rememberAgents as g)) u =
       (case find (\<lambda>a. ag_uuid a = u) as of Some a \<Rightarrow> Some (ag_id a) | None \<Rightarrow> inv_host_of (inventory g) u) \<and>
     met_host_of (hostMetrics (rememberAgents as g)) u =
       (case find (\<lambda>a. ag_uuid a = u) as of Some a \<Rightarrow> Some (ag_id a) | None \<Rightarrow> met_host_of (hostMetrics g) u)"
proof (induction as arbitrary: g)
  case (Cons a as)
  have "find (\<lambda>b. ag_uuid b = ag_uuid a) as = None" using Cons.prems by (simp add: find_None_iff) (metis imageI)
  then show ?case
    using Cons
    by (auto simp: remember_metrics_def remember_inventory_def inv.remember_host_of met.remember_host_of
        split: option.split)
qed simp

lemma find_uuid:
  assumes "distinct (map ag_uuid as)" "a \<in> set as"
  shows "find (\<lambda>b. ag_uuid b = ag_uuid a) as = Some a"
  using assms by (induction as) auto

subsection \<open>Properties\<close>



lemma host_query:
  assumes "prisma_agents P" "table_ok t" "agents_findById P hostId t = Inr r"
  shows "r = find (row_matches (WhereId hostId)) t"
  using prisma_agents.findUnique_law [OF assms(1)] assms(3) by (simp add: agents_findById_def)

text \<open>
  C3. What the dashboard shows as a host's containers is the agent's last report: if nothing else
  touches the caches in between, the reply to a listing after a report carries exactly the
  well-formed summaries of the report and the time it came.
\<close>

theorem report_reaches_dashboard:
  assumes "agentUuid (sockets g s) = Some u" "u \<noteq> []"
    and "resolve_host (agentId (sockets g s)) (inv_host_of (inventory g) u) = Some (ag_id a)"
    and "agents_findById P hostId t = Inr (Some a)" "ag_uuid a = u"
  shows "fst (hosts_controller_listContainers P hostId t (handleContainerListed now s payload g)) =
           Inr \<lparr>hc_hostId = ag_id a, hc_containers = parsed_containers payload,
                hc_updatedAt = Some (toISOString now)\<rparr>"
proof -
  let ?i = "snd (inv_setContainers u (parsed_containers payload, now) (agentId (sockets g s)) (inventory g))"
  have "inventory (handleContainerListed now s payload g) = ?i"
    using handleContainerListed_named [OF assms(1,2)] by simp
  moreover have "inv_getByHostId (ag_id a) ?i = Some (inv_entry (ag_id a) u (parsed_containers payload, now))"
    by (rule inv.store_then_lookup(1) [OF assms(3)])
  then have "inv_getByHostId (ag_id a) (inv_rememberHost (ag_id a) u ?i) =
      Some (inv_entry (ag_id a) u (parsed_containers payload, now))"
    by (simp add: inv_getByHostId_def inv_rememberHost_def inv_entry_def Let_def)
  ultimately show ?thesis
    using assms(4,5)
    by (simp add: hosts_controller_listContainers_def hosts_listContainers_def or_not_found_def
        remember_inventory_def snapshot_containers_def inv_entry_def)
qed

definition demo_host_row :: agent where
  "demo_host_row = demo_row\<lparr>ag_id := ''c''\<rparr>"

theorem report_reaches_dashboard_witness:
  "fst (hosts_controller_listContainers mem_agents ''c'' [demo_host_row] (handleContainerListed 0 0 demo_listed demo_registered)) =
     Inr \<lparr>hc_hostId = ''c'', hc_containers = [], hc_updatedAt = Some ''1970-01-01T00:00:00.000Z''\<rparr>"
proof -
  have "agentUuid (sockets demo_registered 0) = Some ''u1''" by code_simp
  moreover have "resolve_host (agentId (sockets demo_registered 0)) (inv_host_of (inventory demo_registered) ''u1'') = Some ''c''"
    by code_simp
  moreover have "agents_findById mem_agents ''c'' [demo_host_row] = Inr (Some demo_host_row)"
    by (simp add: agents_findById_def mem_agents_def demo_host_row_def demo_row_def)
  moreover have "parsed_containers demo_listed = []" by code_simp
  ultimately show ?thesis
    using report_reaches_dashboard [of demo_registered 0 "''u1''" demo_host_row mem_agents "''c''" "[demo_host_row]" 0 demo_listed]
    by (simp add: demo_host_row_def demo_row_def toISOString_epoch)
qed

text \<open>
  The same for the host metrics: a well-formed sample from an agent's socket is what the
  metrics route of its host answers, with the agent's own sampling time when it parses and
  the arrival time otherwise.
\<close>

theorem sample_reaches_dashboard:
  assumes "agentUuid (sockets g s) = Some u" "u \<noteq> []"
    and "field payload ''cpu'' = Some cpu" "json_truthy (Some cpu)"
    and "field payload ''memory'' = Some memory" "json_truthy (Some memory)"
    and "resolve_host (agentId (sockets g s)) (met_host_of (hostMetrics g) u) = Some (ag_id a)"
    and "agents_findById P hostId t = Inr (Some a)" "ag_uuid a = u"
  shows "fst (hosts_controller_getMetrics P hostId t (handleHostMetrics rt now s payload g)) =
           Inr \<lparr>md_hostId = ag_id a, md_cpu = Some cpu, md_memory = Some memory,
                md_collectedAt = Some (toISOString (parseTimestamp (rt_date rt) now (field payload ''collectedAt'')))\<rparr>"
proof -
  let ?p = "\<lparr>hm_collectedAt = field payload ''collectedAt'', hm_cpu = cpu, hm_memory = memory\<rparr>"
  let ?m = "snd (met_set (rt_date rt) u (?p, now) (agentId (sockets g s)) (hostMetrics g))"
  have cpu: "json_nullish (Some cpu) JNull = cpu" "json_nullish (Some memory) JNull = memory"
    using assms(4,6) by (auto elim: json_truthy.elims)
  have "hostMetrics (handleHostMetrics rt now s payload g) = ?m"
    using assms(1-6) by (simp add: handleHostMetrics_def cpu)
  moreover have "met_getByHostId (ag_id a) ?m = Some (met_entry (rt_date rt) (ag_id a) u (?p, now))"
    by (rule met.store_then_lookup(1) [OF assms(7)])
  ultimately show ?thesis
    using assms(8,9)
    by (simp add: hosts_controller_getMetrics_def hosts_getMetrics_def or_not_found_def remember_metrics_def
        met_getByHostId_def met_rememberHost_def toMetricsDto_def met_entry_def)
qed

definition demo_sample :: json where
  "demo_sample = JObj [(''cpu'', JObj []), (''memory'', JObj [])]"

theorem sample_reaches_dashboard_witness:
  "fst (hosts_controller_getMetrics mem_agents ''c'' [demo_host_row] (handleHostMetrics demo_rt 0 0 demo_sample demo_registered)) =
     Inr \<lparr>md_hostId = ''c'', md_cpu = Some (JObj []), md_memory = Some (JObj []),
          md_collectedAt = Some ''1970-01-01T00:00:00.000Z''\<rparr>"
proof -
  have "agentUuid (sockets demo_registered 0) = Some ''u1''" by code_simp
  moreover have "resolve_host (agentId (sockets demo_registered 0)) (met_host_of (hostMetrics demo_registered) ''u1'') = Some ''c''"
    by code_simp
  moreover have "agents_findById mem_agents ''c'' [demo_host_row] = Inr (Some demo_host_row)"
    by (simp add: agents_findById_def mem_agents_def demo_host_row_def demo_row_def)
  ultimately show ?thesis
    using sample_reaches_dashboard [of demo_registered 0 "''u1''" demo_sample "JObj []" "JObj []" demo_host_row
        mem_agents "''c''" "[demo_host_row]" demo_rt 0]
    by (simp add: demo_host_row_def demo_row_def demo_sample_def parseTimestamp_def toISOString_epoch)
qed

text \<open>
  Deleting a host succeeds only for a host the query found not ONLINE and silent since at least
  seven days before now; it then removes this host's row and no other. Every other request
  fails and changes no row: 404 for an unknown host, 409 for an active or recent one.
\<close>

theorem delete_host_guarded:
  assumes "prisma_agents P" "table_ok t" "table_ok t2"
  shows "case deleteHost P minus_days now hostId t t2 of
           Inr t' \<Rightarrow>
             (\<exists>a. find (row_matches (WhereId hostId)) t = Some a \<and> ag_status a \<noteq> ONLINE \<and>
                  nullish (ag_lastSeen a) (ag_createdAt a) \<le> minus_days 7 now \<and>
                  t' = filter (\<lambda>r. ag_id r \<noteq> hostId) t2)
         | Inl (Http e) \<Rightarrow>
             (http_status e = 404 \<and> find (row_matches (WhereId hostId)) t = None) \<or>
             (http_status e = 409 \<and> (\<exists>a. find (row_matches (WhereId hostId)) t = Some a \<and>
                (ag_status a = ONLINE \<or> minus_days 7 now < nullish (ag_lastSeen a) (ag_createdAt a))))
         | Inl (Database e) \<Rightarrow> True
         | Inl (PlainError m) \<Rightarrow> False"
proof (cases "agents_findById P hostId t")
  case (Inl e)
  then show ?thesis by (simp add: deleteHost_def)
next
  case (Inr r)
  note query = host_query [OF assms(1,2) Inr]
  show ?thesis
  proof (cases r)
    case None
    then show ?thesis using Inr query by (simp add: deleteHost_def host_not_found_def)
  next
    case (Some a)
    have row: "find (row_matches (WhereId hostId)) t = Some a" using Some query by simp
    then have key: "ag_id a = hostId" using find_Some_mem [OF row] by simp
    have "t' = filter (\<lambda>r. ag_id r \<noteq> hostId) t2" if deleted: "agents_delete P (ag_id a) t2 = Inr t'" for t'
    proof -
      obtain b where "pr_delete P (WhereId (ag_id a)) t2 = Inr (b, t')"
        using deleted by (cases "pr_delete P (WhereId (ag_id a)) t2") (auto simp: agents_delete_def)
      from prisma_agents.delete_law [OF assms(1,3) this] show ?thesis using key by simp
    qed
    then show ?thesis
      using Inr Some row by (auto simp: deleteHost_def Let_def not_less split: sum.splits)
  qed
qed

theorem delete_host_guarded_witness:
  "deleteHost mem_agents (\<lambda>n now. now - int n * 86400000) 1000000000 ''h1'' [demo_row] [demo_row] = Inr [] \<and>
   (case deleteHost mem_agents (\<lambda>n now. now - int n * 86400000) 1000000000 ''h1'' [demo_row] [demo_row] of
      Inr t' \<Rightarrow> ag_status demo_row \<noteq> ONLINE | _ \<Rightarrow> False)"
proof -
  have ok: "table_ok [demo_row]" by (simp add: table_ok_def demo_row_def)
  have deleted: "deleteHost mem_agents (\<lambda>n now. now - int n * 86400000) 1000000000 ''h1'' [demo_row] [demo_row] = Inr []"
    by (simp add: deleteHost_def agents_findById_def agents_delete_def mem_agents_def demo_row_def nullish_def)
  then show ?thesis
    using delete_host_guarded [OF mem_db.prisma_agents_axioms ok ok,
        where minus_days = "\<lambda>n now. now - int n * 86400000" and now = 1000000000 and hostId = "''h1''"]
    by (auto simp: demo_row_def)
qed

text \<open>
  Renaming through the API: a body whose \<open>displayName\<close>, trimmed, is not empty and at most 64
  characters long renames the host, and the reply and every later host list show that
  name; any other body is refused with 400 and changes nothing.
\<close>

theorem rename_host:
  assumes "prisma_agents P" "table_ok t" "hosts_controller_rename P key body t g = (Inr dto, t', g')"
  shows "\<exists>s. field body ''displayName'' = Some (JStr s) \<and> js_trim s \<noteq> [] \<and> length (js_trim s) \<le> 64 \<and>
           hd_id dto = key \<and> hd_displayName dto = js_trim s \<and>
           (\<exists>a. a \<in> set t' \<and> ag_id a = key \<and> displayed_name a = js_trim s)"
proof -
  obtain name where name: "validateUpdateHost body = Some name"
    using assms(3) by (auto simp: hosts_controller_rename_def split: option.splits)
  then obtain s where s: "field body ''displayName'' = Some (JStr s)" "name = js_trim s" "name \<noteq> []" "length name \<le> 64"
    by (auto simp: validateUpdateHost_def HOST_DISPLAY_NAME_MAX_LENGTH_def Let_def split: option.splits json.splits if_splits)
  obtain a where a: "agents_updateDisplayName P key name t = Inr (Some a, t')"
    and dto: "dto = toHostDto a (met_getByHostId (ag_id a) (hostMetrics (remember_metrics (ag_id a) (ag_uuid a) g)))"
    using assms(3) name
    by (auto simp: hosts_controller_rename_def hosts_updateDisplayName_def or_not_found_def Let_def
        split: sum.splits option.splits prod.splits)
  have update: "pr_update P (WhereId key) (no_change\<lparr>set_displayName := Some name\<rparr>) t = Inr (a, t')"
    using a by (auto simp: agents_updateDisplayName_def split: sum.splits option.splits)
  have row: "ag_displayName a = Some name \<and> ag_id a = key \<and> row_of t' (ag_uuid a) = Some a"
    by (rule prisma_agents.update_row [OF assms(1,2) update]) simp
  then have "a \<in> set t'" by (auto simp: row_of_def dest: find_Some_mem)
  then show ?thesis using s row by (auto simp: dto toHostDto_def displayed_name_def)
qed

theorem rename_host_witness:
  "\<exists>dto t' g'. hosts_controller_rename mem_agents ''h1'' (JObj [(''displayName'', JStr '' Db '')]) [demo_row] (gateway_init [])
     = (Inr dto, t', g') \<and> hd_displayName dto = ''Db''"
proof -
  have ok: "table_ok [demo_row]" by (simp add: table_ok_def demo_row_def)
  let ?r = "hosts_controller_rename mem_agents ''h1'' (JObj [(''displayName'', JStr '' Db '')]) [demo_row] (gateway_init [])"
  have trim: "js_trim '' Db '' = ''Db''" by code_simp
  have v: "validateUpdateHost (JObj [(''displayName'', JStr '' Db '')]) = Some ''Db''" by code_simp
  have u: "agents_updateDisplayName mem_agents ''h1'' ''Db'' [demo_row] =
      Inr (Some (demo_row\<lparr>ag_displayName := Some ''Db''\<rparr>), [demo_row\<lparr>ag_displayName := Some ''Db''\<rparr>])"
    by (simp add: agents_updateDisplayName_def agents_findById_def mem_agents_def mem_update_def demo_row_def
        apply_agent_data_def no_change_def nullish_def replace_row_def Let_def)
  obtain dto t' g' where "?r = (Inr dto, t', g')"
    by (simp add: hosts_controller_rename_def hosts_updateDisplayName_def v u or_not_found_def Let_def)
  moreover from rename_host [OF mem_db.prisma_agents_axioms ok this] have "hd_displayName dto = ''Db''"
    by (auto simp: trim)
  ultimately show ?thesis by blast
qed


text \<open>
  C36. Whatever agents send, every container that \<open>GET /hosts/:id/containers\<close> answers has the shape the
  API promises: a non-empty id, a finite creation time, ports with finite private port and no
  empty address.
\<close>

theorem served_containers_well_typed:
  assumes "gateway_reachable rt t0 g" "hosts_controller_listContainers P k t g = (Inr dto, g')"
  shows "\<forall>c\<in>set (hc_containers dto). valid_summary c"
proof -
  have valid: "inventory_valid (inventory g)" using gateway_reachable_caches [OF assms(1)] by (simp add: caches_inv_def)
  from assms(2) obtain h where "hc_containers dto = snapshot_containers (inv_getByHostId h (inventory g))"
    by (auto simp: hosts_controller_listContainers_def hosts_listContainers_def or_not_found_def remember_inventory_def
        inv_rememberHost_containers Let_def split: sum.splits option.splits)
  then show ?thesis using inventory_valid_containers [OF valid] by simp
qed

theorem served_containers_well_typed_witness:
  "\<exists>dto g'. hosts_controller_listContainers mem_agents ''c'' [demo_host_row] demo_registered = (Inr dto, g') \<and>
     (\<forall>c\<in>set (hc_containers dto). valid_summary c)"
proof -
  have "agents_findById mem_agents ''c'' [demo_host_row] = Inr (Some demo_host_row)"
    by (simp add: agents_findById_def mem_agents_def demo_host_row_def demo_row_def)
  then obtain dto g' where run: "hosts_controller_listContainers mem_agents ''c'' [demo_host_row] demo_registered = (Inr dto, g')"
    by (simp add: hosts_controller_listContainers_def hosts_listContainers_def or_not_found_def Let_def)
  then show ?thesis using served_containers_well_typed [OF demo_reachable_registered run] by blast
qed

end
