(* ===== verification/ContainersApi.thy ===== *)
theory ContainersApi
  imports HostsApi
begin

section \<open>The containers API\<close>

text \<open>
  \<open>containers.service.ts\<close> and \<open>containers.controller.ts\<close>: lifecycle commands and inspection
  (a guard, a host lookup, a request to the gateway, and the translation of whatever comes
  back into an HTTP reply) and the log stream, whose \<open>Observable\<close> is a state machine of its
  own. As in \<open>HostsApi\<close> the table \<open>t\<close> is the one the lookup ran on.

  The text of a database error is not in the repository: \<open>db_message\<close> is a parameter.
\<close>

subsection \<open>The service\<close>

definition blank :: "string option \<Rightarrow> bool" where
  "blank s = (case s of None \<Rightarrow> True | Some x \<Rightarrow> js_trim x = [])"

definition find_agent :: "agent_client \<Rightarrow> string option \<Rightarrow> string \<Rightarrow> agent_table \<Rightarrow> failure + agent" where
  "find_agent P hostId containerId t =
     (if blank hostId then Inl (PlainError ''hostId is required'')
      else if js_trim containerId = [] then Inl (PlainError ''containerId is required'')
      else (case agents_findById P (nullish hostId []) t of
              Inl e \<Rightarrow> Inl (Database e)
            | Inr None \<Rightarrow> Inl (PlainError (''Host not found: '' @ nullish hostId []))
            | Inr (Some a) \<Rightarrow> Inr a))"

definition lift_request :: "(string + 'a) \<times> gateway \<Rightarrow> (failure + 'a) \<times> gateway" where
  "lift_request r = (case fst r of Inl m \<Rightarrow> Inl (PlainError m) | Inr x \<Rightarrow> Inr x, snd r)"

definition runLifecycleAction ::
  "runtime \<Rightarrow> string option \<Rightarrow> string \<Rightarrow> ContainerAction \<Rightarrow> bool \<Rightarrow> agent_table \<Rightarrow> gateway \<Rightarrow> (failure + promise) \<times> gateway"
where
  "runLifecycleAction rt hostId containerId action force t g =
     (case find_agent (rt_prisma rt) hostId containerId t of
        Inl e \<Rightarrow> (Inl e, g)
      | Inr a \<Rightarrow> lift_request (sendContainerCommand rt (ag_uuid a) (ag_id a) action containerId force g))"

definition service_inspectContainer ::
  "runtime \<Rightarrow> string option \<Rightarrow> string \<Rightarrow> agent_table \<Rightarrow> gateway \<Rightarrow> (failure + promise) \<times> gateway"
where
  "service_inspectContainer rt hostId containerId t g =
     (case find_agent (rt_prisma rt) hostId containerId t of
        Inl e \<Rightarrow> (Inl e, g)
      | Inr a \<Rightarrow> lift_request (inspectContainer rt (ag_uuid a) (ag_id a) containerId g))"

definition service_startLogStream ::
  "runtime \<Rightarrow> string option \<Rightarrow> string \<Rightarrow> js_number option \<Rightarrow> bool option \<Rightarrow> nat \<Rightarrow> agent_table \<Rightarrow> gateway \<Rightarrow>
     (failure + string) \<times> gateway"
where
  "service_startLogStream rt hostId containerId tail follow onChunk t g =
     (case find_agent (rt_prisma rt) hostId containerId t of
        Inl e \<Rightarrow> (Inl e, g)
      | Inr a \<Rightarrow>
          lift_request (startLogStream rt (ag_uuid a) (ag_id a) containerId
            (Some (nullish tail (js_int 100))) (Some (nullish follow True)) onChunk g))"

subsection \<open>Errors as HTTP replies\<close>

definition failure_message :: "(prisma_error \<Rightarrow> string) \<Rightarrow> failure \<Rightarrow> string" where
  "failure_message db_message e =
     (case e of PlainError m \<Rightarrow> m | Http x \<Rightarrow> http_message x | Database d \<Rightarrow> db_message d)"

definition map_message :: "string \<Rightarrow> http_exception" where
  "map_message message =
     (if js_includes message ''not found'' then NotFoundException message
      else if js_includes message ''not connected'' \<or> js_includes message ''offline''
      then ServiceUnavailableException message
      else if js_includes message ''timed out'' then GatewayTimeoutException message
      else if js_includes message ''required'' then BadRequestException message
      else BadRequestException message)"

definition mapAndThrow :: "(prisma_error \<Rightarrow> string) \<Rightarrow> failure \<Rightarrow> http_exception" where
  "mapAndThrow db_message e = (case e of Http x \<Rightarrow> x | _ \<Rightarrow> map_message (failure_message db_message e))"

definition mapStreamError :: "string \<Rightarrow> http_exception" where
  "mapStreamError message =
     (if js_includes message ''not found'' then NotFoundException message
      else if js_includes message ''not connected'' \<or> js_includes message ''offline''
      then ServiceUnavailableException message
      else BadRequestException message)"

subsection \<open>Lifecycle commands\<close>

text \<open>
  \<open>await\<close> in \<open>runAction\<close>: either the call failed at once, or the reply follows when the
  promise is settled.
\<close>

datatype 'a http_reply = Replied "http_exception + 'a" | Pending promise

definition runAction ::
  "runtime \<Rightarrow> (prisma_error \<Rightarrow> string) \<Rightarrow> string \<Rightarrow> string option \<Rightarrow> ContainerAction \<Rightarrow> bool \<Rightarrow> agent_table \<Rightarrow> gateway \<Rightarrow>
     ContainerResultPayload http_reply \<times> gateway"
where
  "runAction rt db_message containerId hostId action force t g =
     (case runLifecycleAction rt hostId containerId action force t g of
        (Inl e, g') \<Rightarrow> (Replied (Inl (mapAndThrow db_message e)), g')
      | (Inr p, g') \<Rightarrow> (Pending p, g'))"

definition runAction_settled :: "(prisma_error \<Rightarrow> string) \<Rightarrow> settlement \<Rightarrow> (http_exception + ContainerResultPayload) option" where
  "runAction_settled db_message s =
     (case s of
        CommandResolved r \<Rightarrow> Some (Inr r)
      | CommandRejected m \<Rightarrow> Some (Inl (mapAndThrow db_message (PlainError m)))
      | _ \<Rightarrow> None)"

text \<open>The six routes: \<open>force\<close> only reaches \<open>remove\<close>; it defaults to \<open>false\<close>.\<close>

definition lifecycle_route ::
  "runtime \<Rightarrow> (prisma_error \<Rightarrow> string) \<Rightarrow> ContainerAction \<Rightarrow> string \<Rightarrow> string option \<Rightarrow> bool option \<Rightarrow> agent_table \<Rightarrow> gateway \<Rightarrow>
     ContainerResultPayload http_reply \<times> gateway"
where
  "lifecycle_route rt db_message action containerId hostId force t g =
     runAction rt db_message containerId hostId action (if action = Remove then nullish force False else False) t g"

text \<open>The bodies the validation pipe lets through: a non-empty host id, and a Boolean \<open>force\<close> or none.\<close>

definition validateActionBody :: "json \<Rightarrow> string option" where
  "validateActionBody body =
     (case field body ''hostId'' of Some (JStr s) \<Rightarrow> if s \<noteq> [] then Some s else None | _ \<Rightarrow> None)"

definition validateRemoveBody :: "json \<Rightarrow> (string \<times> bool option) option" where
  "validateRemoveBody body =
     (case validateActionBody body of
        None \<Rightarrow> None
      | Some h \<Rightarrow>
          (case field body ''force'' of
             None \<Rightarrow> Some (h, None)
           | Some JNull \<Rightarrow> Some (h, None)
           | Some (JBool b) \<Rightarrow> Some (h, Some b)
           | _ \<Rightarrow> None))"

subsection \<open>Inspection\<close>

definition controller_inspect ::
  "runtime \<Rightarrow> (prisma_error \<Rightarrow> string) \<Rightarrow> string \<Rightarrow> string option \<Rightarrow> agent_table \<Rightarrow> gateway \<Rightarrow>
     ContainerInspectedPayload http_reply \<times> gateway"
where
  "controller_inspect rt db_message containerId hostId t g =
     (if blank hostId then (Replied (Inl (BadRequestException ''hostId query parameter is required'')), g)
      else (case service_inspectContainer rt hostId containerId t g of
              (Inl e, g') \<Rightarrow> (Replied (Inl (mapAndThrow db_message e)), g')
            | (Inr p, g') \<Rightarrow> (Pending p, g')))"

text \<open>The protocol's type of \<open>error\<close> is \<open>string | null\<close>; other values are outside the model.\<close>

definition inspect_settled :: "(prisma_error \<Rightarrow> string) \<Rightarrow> settlement \<Rightarrow> (http_exception + ContainerInspectedPayload) option" where
  "inspect_settled db_message s =
     (case s of
        InspectResolved r \<Rightarrow>
          Some (if \<not> ins_ok r
                then Inl (mapAndThrow db_message (Http (BadRequestException
                       (case ins_error r of JStr m \<Rightarrow> m | _ \<Rightarrow> ''Container inspect failed''))))
                else Inr r)
      | InspectRejected m \<Rightarrow> Some (Inl (mapAndThrow db_message (PlainError m)))
      | _ \<Rightarrow> None)"

subsection \<open>Log streams\<close>

text \<open>\<open>Number.parseInt(s, 10)\<close>: leading white space, a sign, then the longest run of digits.\<close>

definition digit_value :: "char \<Rightarrow> nat option" where
  "digit_value c = (let n = (of_char c :: nat) in if 48 \<le> n \<and> n \<le> 57 then Some (n - 48) else None)"

fun digits_prefix :: "string \<Rightarrow> nat list" where
  "digits_prefix [] = []"
| "digits_prefix (c # s) = (case digit_value c of None \<Rightarrow> [] | Some d \<Rightarrow> d # digits_prefix s)"

definition js_parseInt :: "string \<Rightarrow> int option" where
  "js_parseInt s =
     (let s1 = js_trimStart s;
          (neg, s2) = (case s1 of c # r \<Rightarrow> if c = CHR ''-'' then (True, r) else if c = CHR ''+'' then (False, r) else (False, s1)
                                 | [] \<Rightarrow> (False, []));
          ds = digits_prefix s2;
          n = int (foldl (\<lambda>acc d. acc * 10 + d) 0 ds)
      in if ds = [] then None else Some (if neg then - n else n))"

definition stream_tail :: "string option \<Rightarrow> js_number" where
  "stream_tail tailRaw =
     (case js_parseInt (nullish tailRaw ''100'') of
        Some n \<Rightarrow> if n > 0 then js_int n else js_int 100
      | None \<Rightarrow> js_int 100)"

definition stream_follow :: "string option \<Rightarrow> bool" where
  "stream_follow followRaw = (followRaw \<noteq> Some ''false'')"

datatype sse_event = LogsChunkEvent LogsChunkPayload | LogsSubscribedEvent string string | StreamError http_exception

text \<open>
  The closure of one subscription: \<open>requestId\<close> and \<open>closed\<close>, what it was opened with, whether
  the service call is still running, and the events the client received. An unsubscription
  and an error both run the teardown function, after which the subscriber ignores \<open>next\<close>.
\<close>

record log_stream =
  ls_hostId :: "string option"
  ls_containerId :: string
  ls_tail :: js_number
  ls_follow :: bool
  ls_starting :: bool
  ls_requestId :: "string option"
  ls_closed :: bool
  ls_events :: "sse_event list"

definition subscriber_next :: "sse_event \<Rightarrow> log_stream \<Rightarrow> log_stream" where
  "subscriber_next e st = (if ls_closed st then st else st\<lparr>ls_events := ls_events st @ [e]\<rparr>)"

definition streamLogs :: "string \<Rightarrow> string option \<Rightarrow> string option \<Rightarrow> string option \<Rightarrow> http_exception + log_stream" where
  "streamLogs containerId hostId tailRaw followRaw =
     (if blank hostId then Inl (BadRequestException ''hostId query parameter is required'')
      else Inr \<lparr>ls_hostId = hostId, ls_containerId = containerId, ls_tail = stream_tail tailRaw,
                ls_follow = stream_follow followRaw, ls_starting = True, ls_requestId = None,
                ls_closed = False, ls_events = []\<rparr>)"

text \<open>The service call returns: the \<open>then\<close> or the \<open>catch\<close> callback runs.\<close>

definition stream_started ::
  "runtime \<Rightarrow> (prisma_error \<Rightarrow> string) \<Rightarrow> nat \<Rightarrow> agent_table \<Rightarrow> log_stream \<Rightarrow> gateway \<Rightarrow> log_stream \<times> gateway"
where
  "stream_started rt db_message sink t st g =
     (case service_startLogStream rt (ls_hostId st) (ls_containerId st) (Some (ls_tail st)) (Some (ls_follow st)) sink t g of
        (Inr r, g') \<Rightarrow>
          (subscriber_next (LogsSubscribedEvent r (ls_containerId st)) (st\<lparr>ls_starting := False, ls_requestId := Some r\<rparr>), g')
      | (Inl e, g') \<Rightarrow>
          ((subscriber_next (StreamError (mapStreamError (failure_message db_message e))) (st\<lparr>ls_starting := False\<rparr>))
             \<lparr>ls_closed := True\<rparr>, g'))"

definition stream_chunk :: "LogsChunkPayload \<Rightarrow> log_stream \<Rightarrow> log_stream" where
  "stream_chunk payload st = (if ls_closed st then st else subscriber_next (LogsChunkEvent payload) st)"

definition stream_unsubscribe :: "log_stream \<Rightarrow> gateway \<Rightarrow> log_stream \<times> gateway" where
  "stream_unsubscribe st g =
     (st\<lparr>ls_closed := True\<rparr>,
      case ls_requestId st of
        None \<Rightarrow> g
      | Some r \<Rightarrow> if r = [] then g else stopLogStream r g)"

subsection \<open>Reading the query\<close>

lemma digit_value_char: "d < 10 \<Longrightarrow> digit_value (digit_char d) = Some d"
  by (simp add: digit_value_def digit_char_def)

lemma digits_prefix_append:
  "(\<forall>c\<in>set s. digit_value c \<noteq> None) \<Longrightarrow> digits_prefix (s @ t) = digits_prefix s @ digits_prefix t"
  by (induction s) (auto split: option.split)

lemma show_nat_digit_values: "\<forall>c\<in>set (show_nat n). digit_value c \<noteq> None"
proof (induction n rule: show_nat.induct)
  case (1 n)
  then show ?case
    by (cases "n < 10") (auto simp: show_nat_digit show_nat_digits digit_value_char)
qed

lemma foldl_digits: "foldl (\<lambda>acc d. acc * 10 + d) 0 (digits_prefix (show_nat n)) = n"
proof (induction n rule: show_nat.induct)
  case (1 n)
  show ?case
  proof (cases "n < 10")
    case True
    then show ?thesis by (simp add: show_nat_digit digit_value_char)
  next
    case False
    then have "digits_prefix (show_nat n) = digits_prefix (show_nat (n div 10)) @ [n mod 10]"
      using digits_prefix_append [OF show_nat_digit_values, of "n div 10" "[digit_char (n mod 10)]"]
      by (simp add: show_nat_digits digit_value_char)
    then show ?thesis using 1 False by simp
  qed
qed

lemma digit_value_plain:
  "digit_value c \<noteq> None \<Longrightarrow> \<not> js_space c \<and> c \<noteq> CHR ''-'' \<and> c \<noteq> CHR ''+''"
  by (auto simp: digit_value_def js_space_def Let_def split: if_splits)

lemma js_parseInt_show_nat: "js_parseInt (show_nat n) = Some (int n)"
proof -
  obtain c r where show_nat: "show_nat n = c # r" by (cases "show_nat n") simp_all
  have c: "digit_value c \<noteq> None" using show_nat_digit_values [of n] by (simp add: show_nat)
  then have "js_trimStart (c # r) = c # r" using digit_value_plain [OF c] by (simp add: js_trimStart_def)
  moreover have "digits_prefix (c # r) \<noteq> []" using c by (auto split: option.split)
  moreover have "foldl (\<lambda>acc d. acc * 10 + d) 0 (digits_prefix (c # r)) = n"
    using foldl_digits [of n] by (simp add: show_nat)
  ultimately show ?thesis
    using digit_value_plain [OF c] by (simp add: js_parseInt_def show_nat Let_def del: digits_prefix.simps)
qed

text \<open>
  Whatever text a client sends as \<open>tail\<close>, the agent is asked for a positive whole number of
  lines; a decimal positive number is taken as it is, and 100 stands for anything else.
\<close>

theorem stream_tail_bounds:
  "(\<exists>n. stream_tail tailRaw = js_int n \<and> 0 < n) \<and>
   (\<forall>k. stream_tail (Some (show_nat (Suc k))) = js_int (int (Suc k))) \<and>
   stream_tail None = js_int 100"
proof -
  have "js_parseInt ''100'' = Some 100" by code_simp
  then have "stream_tail None = js_int 100" by (simp add: stream_tail_def nullish_def)
  moreover have "stream_tail (Some (show_nat (Suc k))) = js_int (int (Suc k))" for k
    by (simp add: stream_tail_def nullish_def js_parseInt_show_nat)
  ultimately show ?thesis by (auto simp: stream_tail_def split: option.split)
qed

subsection \<open>Errors and replies\<close>

lemma js_startsWith_append: "js_startsWith s p \<Longrightarrow> js_startsWith (s @ t) p"
proof -
  assume "js_startsWith s p"
  then have "take (length p) s = p" by (simp add: js_startsWith_def)
  then have "length p \<le> length s" by (metis length_take min.cobounded1 min_def nle_le)
  then show ?thesis using \<open>take (length p) s = p\<close> by (simp add: js_startsWith_def)
qed

lemma js_includes_extend: "js_includes s p \<Longrightarrow> js_includes (s @ t) p"
proof (induction s)
  case Nil
  then show ?case by (cases t) (auto simp: js_startsWith_def)
next
  case (Cons c s)
  then show ?case using js_startsWith_append [of "c # s" p t] by auto
qed

lemma host_not_found_message: "map_message (''Host not found: '' @ h) = NotFoundException (''Host not found: '' @ h)"
proof -
  have "js_includes ''Host not found: '' ''not found''" by code_simp
  from js_includes_extend [OF this] show ?thesis by (simp add: map_message_def)
qed

text \<open>
  The status a client gets for each way a lifecycle command can fail: 404 for a host the table
  does not have, 503 when its agent is not connected, 504 when the agent does not answer in
  time, and 400 when the agent disconnects while the command is under way.
\<close>

theorem lifecycle_error_statuses:
  "http_status (mapAndThrow db_message (PlainError (''Host not found: '' @ h))) = 404 \<and>
   http_status (mapAndThrow db_message (PlainError not_connected)) = 503 \<and>
   (\<forall>a. runAction_settled db_message (CommandRejected (timeout_command a))
          = Some (Inl (GatewayTimeoutException (timeout_command a)))) \<and>
   runAction_settled db_message (CommandRejected disconnected_command)
     = Some (Inl (BadRequestException disconnected_command))"
proof -
  have "map_message not_connected = ServiceUnavailableException not_connected" by code_simp
  moreover have "list_all (\<lambda>a. map_message (timeout_command a) = GatewayTimeoutException (timeout_command a))
      [Start, Stop, Restart, Remove, Pause, Unpause]"
    by code_simp
  then have "map_message (timeout_command a) = GatewayTimeoutException (timeout_command a)" for a
    by (cases a) simp_all
  moreover have "map_message disconnected_command = BadRequestException disconnected_command" by code_simp
  ultimately show ?thesis
    by (simp add: mapAndThrow_def failure_message_def host_not_found_message [simplified] runAction_settled_def)
qed

lemma find_agent_found:
  assumes "js_trim h \<noteq> []" "js_trim c \<noteq> []" "agents_findById P h t = Inr (Some a)"
  shows "find_agent P (Some h) c t = Inr a"
  using assms by (simp add: find_agent_def blank_def nullish_def)

text \<open>
  C23. A lifecycle request for a known host with a connected agent: the reply waits on a fresh
  promise while the command is on its way to the agent, with the host's own uuid and id and
  \<open>force\<close> only for \<open>remove\<close>; the agent's result is the reply.
\<close>

theorem lifecycle_request_reply:
  assumes "inj (rt_uuid rt)" "gateway_reachable rt t0 g"
    and "js_trim h \<noteq> []" "js_trim c \<noteq> []" "agents_findById (rt_prisma rt) h t = Inr (Some a)"
    and "openClient (ag_uuid a) g = Some client"
    and "lifecycle_route rt db_message act c (Some h) force t g = (reply, g')"
    and "r = rt_uuid rt (uuidDraws g)" "r \<noteq> []" "field payload ''requestId'' = Some (JStr r)"
  shows "\<exists>p. reply = Pending p \<and> promise_state g' p = Waiting \<and>
           effects g' = effects g @
             [Sent client (command_frame act r c (if act = Remove then nullish force False else False))] \<and>
           (\<exists>s. promise_state (handleContainerResult payload g') p = Done s \<and>
                runAction_settled db_message s = Some (Inr (result_of r payload)))"
proof -
  let ?f = "if act = Remove then nullish force False else False"
  let ?send = "sendContainerCommand rt (ag_uuid a) (ag_id a) act c ?f g"
  have inv: "gateway_inv rt g" by (rule gateway_reachable_inv [OF assms(2,1)])
  note online = sendContainerCommand_online [OF assms(6) inv assms(1), of "ag_id a" act c ?f, folded assms(8)]
  have inv': "gateway_inv rt (snd ?send)"
    by (rule sendContainerCommand_inv [OF assms(1) inv]) (rule prod.collapse [symmetric])
  have reply: "reply = Pending (nextPromise g)" "g' = snd ?send"
    using assms(7) online(1)
    by (auto simp: lifecycle_route_def runAction_def runLifecycleAction_def find_agent_found [OF assms(3-5)]
        lift_request_def split: sum.splits prod.splits)
  then show ?thesis
    using online(2-4) handleContainerResult_states [OF inv' assms(10,9)]
    by (auto simp: runAction_settled_def)
qed

theorem lifecycle_request_reply_witness:
  "\<exists>p. fst (lifecycle_route demo_rt (\<lambda>_. []) Stop ''c1'' (Some ''c'') None [demo_host_row] demo_registered) = Pending p"
proof -
  have "''r'' = rt_uuid demo_rt (uuidDraws demo_registered)" by code_simp
  moreover have "field demo_result ''requestId'' = Some (JStr ''r'')" by code_simp
  moreover have "js_trim ''c'' \<noteq> []" "js_trim ''c1'' \<noteq> []" by code_simp+
  moreover have "agents_findById (rt_prisma demo_rt) ''c'' [demo_host_row] = Inr (Some demo_host_row)"
    by (simp add: agents_findById_def demo_rt_def mem_agents_def demo_host_row_def demo_row_def)
  moreover have "openClient (ag_uuid demo_host_row) demo_registered = Some 0"
    using demo_openClient by (simp add: demo_host_row_def demo_row_def)
  ultimately show ?thesis
    using lifecycle_request_reply [OF demo_rt_inj demo_reachable_registered _ _ _ _ prod.collapse [symmetric]]
    by blast
qed

subsection \<open>Properties of the event stream\<close>

lemma service_startLogStream_ok:
  assumes "js_trim h \<noteq> []" "js_trim c \<noteq> []" "agents_findById (rt_prisma rt) h t = Inr (Some a)"
    and "openClient (ag_uuid a) g = Some client"
  shows "service_startLogStream rt (Some h) c (Some n) (Some f) sink t g =
           (Inr (rt_uuid rt (uuidDraws g)),
            snd (startLogStream rt (ag_uuid a) (ag_id a) c (Some n) (Some f) sink g))"
proof -
  obtain res g' where start: "startLogStream rt (ag_uuid a) (ag_id a) c (Some n) (Some f) sink g = (res, g')"
    by (cases "startLogStream rt (ag_uuid a) (ag_id a) c (Some n) (Some f) sink g")
  have "res = Inr (rt_uuid rt (uuidDraws g))"
    using start assms(4)
    by (auto simp: startLogStream_def Let_def randomUUID_def remember_inventory_def openClient_def
        split: option.splits if_splits)
  then show ?thesis
    using start find_agent_found [OF assms(1-3)]
    by (simp add: service_startLogStream_def lift_request_def nullish_def)
qed

lemma startLogStream_subscriber:
  assumes "openClient u g = Some client"
  shows "map_get (logSubscribers (snd (startLogStream rt u h c tail follow sink g))) (rt_uuid rt (uuidDraws g)) =
           Some \<lparr>sub_agentUuid = u, sub_containerId = c, sub_sink = sink\<rparr>"
  using assms
  by (simp add: startLogStream_def Let_def randomUUID_def)
    (simp add: remember_inventory_def map_get_set)

lemma stopLogStream_subscriber: "map_get (logSubscribers (stopLogStream r g)) r = None"
  by (auto simp: stopLogStream_def Let_def map_get_delete split: option.split)

text \<open>
  A stream that started and is then closed by its client is closed at the agent too: the
  gateway forgets the subscription, and the client sees nothing after it closed.
\<close>

theorem closed_stream_is_released:
  assumes "stream_started rt db_message sink t st g = (st1, g1)" "ls_requestId st1 = Some r" "r \<noteq> []"
    and "stream_unsubscribe st1 g2 = (st2, g3)"
  shows "map_get (logSubscribers g3) r = None \<and> ls_closed st2 \<and>
         ls_events (stream_chunk payload st2) = ls_events st2"
  using assms stopLogStream_subscriber [of r g2]
  by (auto simp: stream_unsubscribe_def stream_chunk_def)

definition demo_stream :: log_stream where
  "demo_stream = \<lparr>ls_hostId = Some ''c'', ls_containerId = ''c1'', ls_tail = js_int 100, ls_follow = True,
                 ls_starting = True, ls_requestId = None, ls_closed = False, ls_events = []\<rparr>"

definition demo_started :: "log_stream \<times> gateway" where
  "demo_started = stream_started demo_rt (\<lambda>_. []) 5 [demo_host_row] demo_stream demo_registered"

lemma demo_streamLogs: "streamLogs ''c1'' (Some ''c'') None None = Inr demo_stream"
proof -
  have "\<not> blank (Some ''c'')" "stream_tail None = js_int 100" "stream_follow None" by code_simp+
  then show ?thesis by (simp add: streamLogs_def demo_stream_def)
qed

lemma demo_find: "agents_findById (rt_prisma demo_rt) ''c'' [demo_host_row] = Inr (Some demo_host_row)"
  by (simp add: agents_findById_def demo_rt_def mem_agents_def demo_host_row_def demo_row_def)

lemma demo_trim: "js_trim ''c'' \<noteq> []" "js_trim ''c1'' \<noteq> []"
  by code_simp+

lemma demo_client: "openClient (ag_uuid demo_host_row) demo_registered = Some 0"
  using demo_openClient by (simp add: demo_host_row_def demo_row_def)

lemma demo_first_id: "rt_uuid demo_rt (uuidDraws demo_registered) = ''r''"
  by code_simp

lemma demo_started_id: "ls_requestId (fst demo_started) = Some ''r''"
  using service_startLogStream_ok [OF demo_trim demo_find demo_client, of "js_int 100" True 5]
  by (simp add: demo_started_def stream_started_def demo_stream_def demo_first_id subscriber_next_def)

theorem closed_stream_is_released_witness:
  "map_get (logSubscribers (snd (stream_unsubscribe (fst demo_started) (snd demo_started)))) ''r'' = None"
  using closed_stream_is_released [OF demo_started_def [symmetric, THEN trans, OF prod.collapse [symmetric]]
      demo_started_id _ prod.collapse [symmetric]]
  by simp

text \<open>
  A client that closes the stream while the service is still looking up the host leaves the
  subscription behind: the id is not known yet, so nothing is stopped, and when the lookup
  returns the agent is asked to stream all the same, to a subscriber nobody will ever remove.
\<close>

theorem early_close_leaks_subscription:
  assumes "ls_requestId st = None" "stream_unsubscribe st g = (st1, g1)"
    and "ls_hostId st = Some h" "js_trim h \<noteq> []" "js_trim (ls_containerId st) \<noteq> []"
    and "agents_findById (rt_prisma rt) h t = Inr (Some a)" "openClient (ag_uuid a) g = Some client"
    and "stream_started rt db_message sink t st1 g1 = (st2, g2)"
  shows "g1 = g \<and> ls_closed st2 \<and> ls_events st2 = ls_events st \<and>
         map_get (logSubscribers g2) (rt_uuid rt (uuidDraws g)) =
           Some \<lparr>sub_agentUuid = ag_uuid a, sub_containerId = ls_containerId st, sub_sink = sink\<rparr>"
proof -
  have g1: "g1 = g" "st1 = st\<lparr>ls_closed := True\<rparr>" using assms(1,2) by (auto simp: stream_unsubscribe_def)
  then have "st2 = subscriber_next (LogsSubscribedEvent (rt_uuid rt (uuidDraws g)) (ls_containerId st))
      (st\<lparr>ls_closed := True, ls_starting := False, ls_requestId := Some (rt_uuid rt (uuidDraws g))\<rparr>)"
    "g2 = snd (startLogStream rt (ag_uuid a) (ag_id a) (ls_containerId st) (Some (ls_tail st)) (Some (ls_follow st)) sink g)"
    using assms(8) service_startLogStream_ok [OF assms(4-7), of "ls_tail st" "ls_follow st" sink] assms(3)
    by (auto simp: stream_started_def)
  then show ?thesis
    using g1 startLogStream_subscriber [OF assms(7)] by (simp add: subscriber_next_def)
qed

theorem early_close_leaks_subscription_witness:
  "\<exists>st2 g2. stream_started demo_rt (\<lambda>_. []) 5 [demo_host_row] (demo_stream\<lparr>ls_closed := True\<rparr>) demo_registered = (st2, g2) \<and>
            map_get (logSubscribers g2) ''r'' \<noteq> None"
proof -
  have st: "stream_unsubscribe demo_stream demo_registered = (demo_stream\<lparr>ls_closed := True\<rparr>, demo_registered)"
    by (simp add: stream_unsubscribe_def demo_stream_def)
  obtain st2 g2 where run:
    "stream_started demo_rt (\<lambda>_. []) 5 [demo_host_row] (demo_stream\<lparr>ls_closed := True\<rparr>) demo_registered = (st2, g2)"
    by (rule prod.exhaust)
  have "map_get (logSubscribers g2) ''r'' \<noteq> None"
    using early_close_leaks_subscription [OF _ st _ _ _ demo_find demo_client run] demo_trim
    by (simp add: demo_stream_def demo_first_id)
  then show ?thesis using run by blast
qed

end
