(* ===== verification/UserStore.thy ===== *)
theory UserStore
  imports HttpErrors
begin

section \<open>Users, passwords, first-run setup\<close>

text \<open>
  \<open>users.service.ts\<close>, \<open>password.util.ts\<close> and \<open>setup.service.ts\<close>. The password hash is bcrypt, a
  library: the record \<open>bcrypt\<close> holds its two calls, and the locale \<open>password_hasher\<close> the one law
  of its documentation the code relies on (a hash matches the password it was made from).
  The users table is reached through the Prisma delegate \<open>user_client\<close>, with its laws in the
  locale \<open>prisma_users\<close>. An \<open>await\<close> between two queries lets other requests in, so each
  operation takes one table per query.
\<close>

subsection \<open>Rows and the delegate\<close>

datatype UserRole = ADMIN | VIEWER

record user =
  us_id :: string
  us_username :: "string option"
  us_email :: string
  us_passwordHash :: string
  us_role :: UserRole
  us_createdAt :: int
  us_updatedAt :: int

type_synonym user_table = "user list"

datatype user_where = ByEmail string | ByUsername string | ByUserId string

fun user_matches :: "user_where \<Rightarrow> user \<Rightarrow> bool" where
  "user_matches (ByEmail e) u = (us_email u = e)"
| "user_matches (ByUsername n) u = (us_username u = Some n)"
| "user_matches (ByUserId i) u = (us_id u = i)"

record user_data =
  ud_email :: string
  ud_username :: "string option"
  ud_passwordHash :: string
  ud_role :: UserRole

record user_client =
  pu_findUnique :: "user_where \<Rightarrow> user_table \<Rightarrow> prisma_error + user option"
  pu_create :: "user_data \<Rightarrow> user_table \<Rightarrow> prisma_error + (user \<times> user_table)"
  pu_count :: "user_table \<Rightarrow> prisma_error + nat"

record bcrypt =
  bc_hash :: "string \<Rightarrow> nat \<Rightarrow> string"
  bc_compare :: "string \<Rightarrow> string \<Rightarrow> unit + bool"

text \<open>\<open>email\<close>, \<open>username\<close> and \<open>id\<close> are unique columns.\<close>

definition users_ok :: "user_table \<Rightarrow> bool" where
  "users_ok t \<longleftrightarrow>
     distinct (map us_id t) \<and> distinct (map us_email t) \<and>
     distinct (filter (\<lambda>n. n \<noteq> None) (map us_username t))"

subsection \<open>Passwords\<close>

definition BCRYPT_ROUNDS :: nat where
  "BCRYPT_ROUNDS = 12"

definition hashPassword :: "bcrypt \<Rightarrow> string \<Rightarrow> string" where
  "hashPassword B password = bc_hash B password BCRYPT_ROUNDS"

definition verifyPassword :: "bcrypt \<Rightarrow> string \<Rightarrow> string \<Rightarrow> bool" where
  "verifyPassword B password hash =
     (if password = [] \<or> hash = [] then False
      else (case bc_compare B password hash of Inr b \<Rightarrow> b | Inl u \<Rightarrow> False))"

subsection \<open>The service\<close>

record SafeUser =
  su_id :: string
  su_username :: "string option"
  su_email :: string
  su_role :: UserRole
  su_createdAt :: int
  su_updatedAt :: int

definition toSafeUser :: "user \<Rightarrow> SafeUser" where
  "toSafeUser u =
     \<lparr>su_id = us_id u, su_username = us_username u, su_email = us_email u, su_role = us_role u,
      su_createdAt = us_createdAt u, su_updatedAt = us_updatedAt u\<rparr>"

definition normalizeEmail :: "string option \<Rightarrow> string" where
  "normalizeEmail email = js_toLowerCase (js_trim (nullish email []))"

record RegisterUserInput =
  ri_email :: "string option"
  ri_password :: "string option"
  ri_username :: "string option"
  ri_role :: "UserRole option"

definition normalizeUsername :: "string option \<Rightarrow> string option" where
  "normalizeUsername n =
     (case n of None \<Rightarrow> None | Some s \<Rightarrow> if js_trim s = [] then None else Some (js_trim s))"

definition MIN_USERNAME_LENGTH :: nat where "MIN_USERNAME_LENGTH = 3"
definition MIN_PASSWORD_LENGTH :: nat where "MIN_PASSWORD_LENGTH = 8"

text \<open>The checks that need no database.\<close>

definition register_check :: "RegisterUserInput \<Rightarrow> http_exception option" where
  "register_check input =
     (let email = normalizeEmail (ri_email input);
          password = nullish (ri_password input) [];
          username = normalizeUsername (ri_username input)
      in if email = [] then Some (BadRequestException ''Email is required'')
         else if length password < MIN_PASSWORD_LENGTH
         then Some (BadRequestException (''Password must be at least '' @ show_nat MIN_PASSWORD_LENGTH @ '' characters''))
         else if (case username of Some n \<Rightarrow> length n < MIN_USERNAME_LENGTH | None \<Rightarrow> False)
         then Some (BadRequestException (''Username must be at least '' @ show_nat MIN_USERNAME_LENGTH @ '' characters''))
         else None)"

text \<open>
  \<open>register\<close>: the two lookups run on \<open>t1\<close>, the insertion on \<open>t2\<close>. \<open>Promise.all\<close> rejects with the
  error of either lookup.
\<close>

definition users_register ::
  "user_client \<Rightarrow> bcrypt \<Rightarrow> RegisterUserInput \<Rightarrow> user_table \<Rightarrow> user_table \<Rightarrow> failure + (SafeUser \<times> user_table)"
where
  "users_register D B input t1 t2 =
     (case register_check input of
        Some e \<Rightarrow> Inl (Http e)
      | None \<Rightarrow>
          (let email = normalizeEmail (ri_email input);
               username = normalizeUsername (ri_username input)
           in case (pu_findUnique D (ByEmail email) t1,
                    case username of None \<Rightarrow> Inr None | Some n \<Rightarrow> pu_findUnique D (ByUsername n) t1) of
                (Inl e, _) \<Rightarrow> Inl (Database e)
              | (_, Inl e) \<Rightarrow> Inl (Database e)
              | (Inr (Some u), _) \<Rightarrow> Inl (Http (ConflictException ''Email is already registered''))
              | (Inr None, Inr (Some u)) \<Rightarrow> Inl (Http (ConflictException ''Username is already taken''))
              | (Inr None, Inr None) \<Rightarrow>
                  (case pu_create D \<lparr>ud_email = email, ud_username = username,
                                     ud_passwordHash = hashPassword B (nullish (ri_password input) []),
                                     ud_role = nullish (ri_role input) VIEWER\<rparr> t2 of
                     Inr (u, t') \<Rightarrow> Inr (toSafeUser u, t')
                   | Inl e \<Rightarrow>
                       if e = KnownRequestError ''P2002''
                       then Inl (Http (ConflictException ''That email or username is already registered''))
                       else Inl (Database e))))"

definition users_findByEmailWithSecret :: "user_client \<Rightarrow> string option \<Rightarrow> user_table \<Rightarrow> prisma_error + user option" where
  "users_findByEmailWithSecret D email t =
     (let v = normalizeEmail email in if v = [] then Inr None else pu_findUnique D (ByEmail v) t)"

definition safe_result :: "prisma_error + user option \<Rightarrow> prisma_error + SafeUser option" where
  "safe_result r = (case r of Inl e \<Rightarrow> Inl e | Inr u \<Rightarrow> Inr (map_option toSafeUser u))"

definition users_findByEmail :: "user_client \<Rightarrow> string option \<Rightarrow> user_table \<Rightarrow> prisma_error + SafeUser option" where
  "users_findByEmail D email t = safe_result (users_findByEmailWithSecret D email t)"

definition users_findById :: "user_client \<Rightarrow> string option \<Rightarrow> user_table \<Rightarrow> prisma_error + SafeUser option" where
  "users_findById D key t =
     (if js_trim (nullish key []) = [] then Inr None else safe_result (pu_findUnique D (ByUserId (nullish key [])) t))"

definition users_findByUsername :: "user_client \<Rightarrow> string option \<Rightarrow> user_table \<Rightarrow> prisma_error + SafeUser option" where
  "users_findByUsername D username t =
     (let v = js_trim (nullish username []) in if v = [] then Inr None else safe_result (pu_findUnique D (ByUsername v) t))"

definition DUMMY_HASH :: string where
  "DUMMY_HASH = ''$2b$12$C6UzMDM.H6dfI/f/IKcEe.7rW9RGmYVRPzO0hqcVUCg7SBnMEfWLu''"

text \<open>
  \<open>validateCredentials\<close>, with the comparisons it makes in the second component: an unknown
  account costs one comparison like a known one.
\<close>

definition validateCredentials ::
  "user_client \<Rightarrow> bcrypt \<Rightarrow> string option \<Rightarrow> string option \<Rightarrow> user_table \<Rightarrow>
     (prisma_error + SafeUser option) \<times> (string \<times> string) list"
where
  "validateCredentials D B email password t =
     (let pw = nullish password []
      in case users_findByEmailWithSecret D email t of
           Inl e \<Rightarrow> (Inl e, [])
         | Inr None \<Rightarrow> (Inr None, [(pw, DUMMY_HASH)])
         | Inr (Some u) \<Rightarrow>
             (Inr (if verifyPassword B pw (us_passwordHash u) then Some (toSafeUser u) else None),
              [(pw, us_passwordHash u)]))"

definition users_hasAnyUser :: "user_client \<Rightarrow> user_table \<Rightarrow> prisma_error + bool" where
  "users_hasAnyUser D t = (case pu_count D t of Inl e \<Rightarrow> Inl e | Inr n \<Rightarrow> Inr (n > 0))"

definition users_countUsers :: "user_client \<Rightarrow> user_table \<Rightarrow> prisma_error + nat" where
  "users_countUsers D t = pu_count D t"

subsection \<open>First-run setup\<close>

record AuthUser =
  au_id :: string
  au_email :: string
  au_role :: UserRole

definition setup_getStatus :: "user_client \<Rightarrow> user_table \<Rightarrow> prisma_error + bool" where
  "setup_getStatus D t = (case users_hasAnyUser D t of Inl e \<Rightarrow> Inl e | Inr b \<Rightarrow> Inr (\<not> b))"

text \<open>The emptiness check runs on \<open>t0\<close>, the registration on \<open>t1\<close> and \<open>t2\<close>.\<close>

definition createFirstAdmin ::
  "user_client \<Rightarrow> bcrypt \<Rightarrow> string option \<Rightarrow> string option \<Rightarrow> user_table \<Rightarrow> user_table \<Rightarrow> user_table \<Rightarrow>
     failure + (AuthUser \<times> user_table)"
where
  "createFirstAdmin D B email password t0 t1 t2 =
     (case users_hasAnyUser D t0 of
        Inl e \<Rightarrow> Inl (Database e)
      | Inr True \<Rightarrow> Inl (Http (ConflictException ''DockSight has already been set up''))
      | Inr False \<Rightarrow>
          (case users_register D B \<lparr>ri_email = email, ri_password = password, ri_username = None, ri_role = Some ADMIN\<rparr> t1 t2 of
             Inl e \<Rightarrow> Inl e
           | Inr (u, t') \<Rightarrow> Inr (\<lparr>au_id = su_id u, au_email = su_email u, au_role = su_role u\<rparr>, t')))"

subsection \<open>The documented behaviour of the libraries\<close>

definition row_from :: "user_data \<Rightarrow> user \<Rightarrow> bool" where
  "row_from d u \<longleftrightarrow>
     us_email u = ud_email d \<and> us_username u = ud_username d \<and> us_passwordHash u = ud_passwordHash d \<and>
     us_role u = ud_role d"

locale prisma_users =
  fixes D :: user_client
  assumes find_law: "pu_findUnique D w t = Inr r \<Longrightarrow> r = find (user_matches w) t"
    and create_law: "users_ok t \<Longrightarrow> pu_create D d t = Inr (u, t') \<Longrightarrow>
          t' = t @ [u] \<and> row_from d u \<and> us_id u \<noteq> [] \<and> users_ok t'"
    and count_law: "pu_count D t = Inr n \<Longrightarrow> n = length t"

locale password_hasher =
  fixes B :: bcrypt
  assumes compare_law: "bc_compare B p (bc_hash B p n) = Inr True"
    and hash_not_empty: "bc_hash B p n \<noteq> []"

locale account_store = prisma_users D + password_hasher B for D B

subsection \<open>The service's contract\<close>

text \<open>What the login and the setup service rely on.\<close>

locale users_service =
  fixes reg :: "RegisterUserInput \<Rightarrow> user_table \<Rightarrow> user_table \<Rightarrow> failure + (SafeUser \<times> user_table)"
    and validate :: "string option \<Rightarrow> string option \<Rightarrow> user_table \<Rightarrow> prisma_error + SafeUser option"
    and any_user :: "user_table \<Rightarrow> prisma_error + bool"
  assumes reg_row: "users_ok t2 \<Longrightarrow> reg i t1 t2 = Inr (u, t') \<Longrightarrow>
          users_ok t' \<and> (\<exists>row. t' = t2 @ [row] \<and> u = toSafeUser row \<and> us_id row \<noteq> [] \<and>
             us_email row = normalizeEmail (ri_email i) \<and> us_role row = nullish (ri_role i) VIEWER)"
    and reg_validate: "users_ok t2 \<Longrightarrow> reg i t1 t2 = Inr (u, t') \<Longrightarrow>
          normalizeEmail e = normalizeEmail (ri_email i) \<Longrightarrow> validate e (ri_password i) t' = Inr r \<Longrightarrow> r = Some u"
    and validate_row: "validate e p t = Inr (Some u) \<Longrightarrow>
          \<exists>row\<in>set t. u = toSafeUser row \<and> us_email row = normalizeEmail e"
    and any_law: "any_user t = Inr b \<Longrightarrow> b = (t \<noteq> [])"
begin

lemma reg_admin:
  assumes "users_ok t2" "reg i t1 t2 = Inr (u, t')" "ri_role i = Some ADMIN"
  shows "su_role u = ADMIN" "length t' = Suc (length t2)"
  using reg_row [OF assms(1,2)] assms(3) by (auto simp: toSafeUser_def nullish_def)

lemma reg_keeps_rows:
  assumes "users_ok t2" "reg i t1 t2 = Inr (u, t')" "row \<in> set t2"
  shows "row \<in> set t'"
  using reg_row [OF assms(1,2)] assms(3) by auto

end

lemma register_created:
  assumes "users_register D B i t1 t2 = Inr (u, t')"
  obtains d row where "pu_create D d t2 = Inr (row, t')" "u = toSafeUser row"
    "ud_email d = normalizeEmail (ri_email i)" "ud_role d = nullish (ri_role i) VIEWER"
    "ud_passwordHash d = hashPassword B (nullish (ri_password i) [])"
    "normalizeEmail (ri_email i) \<noteq> []" "8 \<le> length (nullish (ri_password i) [])"
proof -
  have "register_check i = None" using assms by (auto simp: users_register_def split: option.splits)
  then have "normalizeEmail (ri_email i) \<noteq> []" "8 \<le> length (nullish (ri_password i) [])"
    by (auto simp: register_check_def Let_def MIN_PASSWORD_LENGTH_def split: if_splits)
  moreover obtain d row where "pu_create D d t2 = Inr (row, t')" "u = toSafeUser row"
    "ud_email d = normalizeEmail (ri_email i)" "ud_role d = nullish (ri_role i) VIEWER"
    "ud_passwordHash d = hashPassword B (nullish (ri_password i) [])"
    using assms by (fastforce simp: users_register_def Let_def split: option.splits sum.splits if_splits prod.splits)
  ultimately show ?thesis using that by blast
qed

lemma find_by_email:
  assumes "users_ok t" "row \<in> set t"
  shows "find (user_matches (ByEmail (us_email row))) t = Some row"
proof -
  have "find (user_matches (ByEmail (us_email row))) t \<noteq> None" using assms(2) by (auto simp: find_None_iff)
  then obtain r where r: "find (user_matches (ByEmail (us_email row))) t = Some r" by auto
  then have "r \<in> set t" "us_email r = us_email row" by (auto simp: find_Some_iff)
  then have "r = row" using assms by (auto simp: users_ok_def distinct_map inj_on_def)
  then show ?thesis using r by simp
qed

context account_store
begin

lemma register_row:
  assumes "users_ok t2" "users_register D B i t1 t2 = Inr (u, t')"
  obtains row where "users_ok t'" "t' = t2 @ [row]" "u = toSafeUser row" "us_id row \<noteq> []"
    "us_email row = normalizeEmail (ri_email i)" "us_role row = nullish (ri_role i) VIEWER"
    "us_passwordHash row = hashPassword B (nullish (ri_password i) [])"
    "normalizeEmail (ri_email i) \<noteq> []" "nullish (ri_password i) [] \<noteq> []"
proof -
  obtain d row where d: "pu_create D d t2 = Inr (row, t')" "u = toSafeUser row"
    "ud_email d = normalizeEmail (ri_email i)" "ud_role d = nullish (ri_role i) VIEWER"
    "ud_passwordHash d = hashPassword B (nullish (ri_password i) [])"
    "normalizeEmail (ri_email i) \<noteq> []" "8 \<le> length (nullish (ri_password i) [])"
    by (rule register_created [OF assms(2)])
  have "nullish (ri_password i) [] \<noteq> []" using d(7) by auto
  then show ?thesis
    by (intro that [of row]) (use d create_law [OF assms(1) d(1)] in \<open>auto simp: row_from_def\<close>)
qed

lemma register_then_validate:
  assumes "users_ok t2" "users_register D B i t1 t2 = Inr (u, t')"
    and "normalizeEmail e = normalizeEmail (ri_email i)"
    and "fst (validateCredentials D B e (ri_password i) t') = Inr r"
  shows "r = Some u"
proof -
  obtain row where row: "users_ok t'" "t' = t2 @ [row]" "u = toSafeUser row"
    "us_email row = normalizeEmail (ri_email i)" "us_passwordHash row = hashPassword B (nullish (ri_password i) [])"
    "normalizeEmail (ri_email i) \<noteq> []" "nullish (ri_password i) [] \<noteq> []"
    by (rule register_row [OF assms(1,2)])
  have verify: "verifyPassword B (nullish (ri_password i) []) (us_passwordHash row)"
    using row(5,7) compare_law hash_not_empty by (simp add: verifyPassword_def hashPassword_def)
  have found: "find (user_matches (ByEmail (normalizeEmail e))) t' = Some row"
    using find_by_email [OF row(1), of row] row(2,4) assms(3) by simp
  obtain x where x: "users_findByEmailWithSecret D e t' = Inr x"
    using assms(4) by (cases "users_findByEmailWithSecret D e t'") (auto simp: validateCredentials_def)
  then have "x = Some row"
    using find_law found row(6) assms(3) by (force simp: users_findByEmailWithSecret_def Let_def)
  then show ?thesis using assms(4) x verify row(3) by (simp add: validateCredentials_def)
qed

lemma validated_row:
  assumes "fst (validateCredentials D B e p t) = Inr (Some u)"
  shows "\<exists>row\<in>set t. u = toSafeUser row \<and> us_email row = normalizeEmail e \<and>
           verifyPassword B (nullish p []) (us_passwordHash row)"
proof -
  obtain row where row: "users_findByEmailWithSecret D e t = Inr (Some row)" "u = toSafeUser row"
    "verifyPassword B (nullish p []) (us_passwordHash row)"
    using assms by (auto simp: validateCredentials_def Let_def split: sum.splits option.splits if_splits)
  then have "Some row = find (user_matches (ByEmail (normalizeEmail e))) t"
    using find_law by (auto simp: users_findByEmailWithSecret_def Let_def split: if_splits)
  then have "row \<in> set t" "us_email row = normalizeEmail e" by (metis find_Some_iff nth_mem user_matches.simps(1))+
  then show ?thesis using row by blast
qed

end

sublocale account_store \<subseteq> users_service "users_register D B"
  "\<lambda>e p t. fst (validateCredentials D B e p t)" "users_hasAnyUser D"
proof (unfold_locales, goal_cases)
  case (1 t2 i t1 u t')
  show ?case by (rule register_row [OF 1]) blast
next
  case (2 t2 i t1 u t' e r)
  then show ?case by (rule register_then_validate)
next
  case (3 e p t u)
  then show ?case using validated_row by blast
next
  case (4 t b)
  then show ?case using count_law by (fastforce simp: users_hasAnyUser_def split: sum.splits)
qed

subsection \<open>In-memory instances\<close>

definition fresh_user_id :: "user_table \<Rightarrow> string" where
  "fresh_user_id t = replicate (Suc (foldr max (map (length \<circ> us_id) t) 0)) CHR ''u''"

definition mem_users :: user_client where
  "mem_users =
     \<lparr>pu_findUnique = (\<lambda>w t. Inr (find (user_matches w) t)),
      pu_create = (\<lambda>d t.
        if (\<exists>u\<in>set t. us_email u = ud_email d \<or> ud_username d \<noteq> None \<and> us_username u = ud_username d)
        then Inl (KnownRequestError ''P2002'')
        else (let u = \<lparr>us_id = fresh_user_id t, us_username = ud_username d, us_email = ud_email d,
                       us_passwordHash = ud_passwordHash d, us_role = ud_role d, us_createdAt = 0, us_updatedAt = 0\<rparr>
              in Inr (u, t @ [u]))),
      pu_count = (\<lambda>t. Inr (length t))\<rparr>"

definition mem_bcrypt :: bcrypt where
  "mem_bcrypt = \<lparr>bc_hash = (\<lambda>p n. CHR ''h'' # p), bc_compare = (\<lambda>p h. Inr (h = CHR ''h'' # p))\<rparr>"

lemma fresh_user_id_fresh: "fresh_user_id t \<notin> set (map us_id t)"
proof
  assume "fresh_user_id t \<in> set (map us_id t)"
  then obtain u where u: "u \<in> set t" "us_id u = fresh_user_id t" by auto
  have "length (us_id a) \<le> foldr max (map (length \<circ> us_id) t) 0" if "a \<in> set t" for a
    using that by (induction t) auto
  from this [OF u(1)] show False using u(2) by (simp add: fresh_user_id_def)
qed

lemma fresh_user_id_not_Nil [simp]: "fresh_user_id t \<noteq> []"
  by (simp add: fresh_user_id_def)

interpretation mem_accounts: account_store mem_users mem_bcrypt
proof (unfold_locales, goal_cases)
  case (2 t d u t')
  have free: "\<not> (\<exists>u\<in>set t. us_email u = ud_email d \<or> ud_username d \<noteq> None \<and> us_username u = ud_username d)"
    using 2(2) by (simp add: mem_users_def split: if_splits)
  then have "ud_email d \<notin> set (map us_email t)" "ud_username d \<noteq> None \<Longrightarrow> ud_username d \<notin> set (map us_username t)"
    by (auto simp: image_iff)
  then show ?case
    using 2 free fresh_user_id_fresh [of t]
    by (auto simp: mem_users_def row_from_def users_ok_def Let_def split: if_splits)
qed (auto simp: mem_users_def mem_bcrypt_def)

subsection \<open>Properties\<close>

text \<open>
  C34. Registering and logging in: a registered user is found again with the same password and any
  spelling of the address that differs in case or outer blanks; and whoever is let in has a
  row whose hash the password matches.
\<close>

theorem registered_user_can_log_in:
  assumes "account_store D B" "users_ok t2" "users_register D B i t1 t2 = Inr (u, t')"
    and "normalizeEmail e = normalizeEmail (ri_email i)"
    and "fst (validateCredentials D B e (ri_password i) t') = Inr r"
  shows "r = Some u \<and> su_email u = normalizeEmail (ri_email i) \<and> users_ok t'"
proof -
  have "r = Some u" by (rule account_store.register_then_validate [OF assms])
  moreover have "su_email u = normalizeEmail (ri_email i) \<and> users_ok t'"
    by (rule account_store.register_row [OF assms(1,2,3)]) (simp add: toSafeUser_def)
  ultimately show ?thesis by simp
qed

definition demo_input :: RegisterUserInput where
  "demo_input = \<lparr>ri_email = Some '' Ada@x.org'', ri_password = Some ''password'', ri_username = None, ri_role = None\<rparr>"

lemma demo_normalize: "normalizeEmail (Some '' Ada@x.org'') = ''ada@x.org''" "normalizeEmail (Some ''ada@X.org '') = ''ada@x.org''"
  by code_simp+

lemma mem_register_new:
  assumes "register_check i = None" "ri_username i = None"
    and "\<forall>u\<in>set t. us_email u \<noteq> normalizeEmail (ri_email i)"
  shows "\<exists>u t'. users_register mem_users mem_bcrypt i t t = Inr (u, t')"
proof -
  have "find (user_matches (ByEmail (normalizeEmail (ri_email i)))) t = None"
    using assms(3) by (auto simp: find_None_iff)
  then show ?thesis
    using assms by (auto simp: users_register_def mem_users_def normalizeUsername_def Let_def)
qed

lemma mem_validate_total: "\<exists>r. fst (validateCredentials mem_users mem_bcrypt e p t) = Inr r"
  by (cases "find (user_matches (ByEmail (normalizeEmail e))) t"; cases "normalizeEmail e = []")
    (simp_all add: validateCredentials_def users_findByEmailWithSecret_def mem_users_def Let_def)

theorem registered_user_can_log_in_witness:
  "\<exists>u t'. users_register mem_users mem_bcrypt demo_input [] [] = Inr (u, t') \<and>
     fst (validateCredentials mem_users mem_bcrypt (Some ''ada@X.org '') (Some ''password'') t') = Inr (Some u)"
proof -
  have check: "register_check demo_input = None" by code_simp
  obtain u t' where reg: "users_register mem_users mem_bcrypt demo_input [] [] = Inr (u, t')"
    using mem_register_new [OF check, of "[]"] by (auto simp: demo_input_def)
  obtain r where val: "fst (validateCredentials mem_users mem_bcrypt (Some ''ada@X.org '') (ri_password demo_input) t') = Inr r"
    using mem_validate_total by blast
  have "r = Some u"
    using registered_user_can_log_in [OF mem_accounts.account_store_axioms _ reg _ val]
    by (simp add: demo_input_def demo_normalize users_ok_def)
  then show ?thesis using reg val by (auto simp: demo_input_def)
qed

text \<open>
  A wrong password and an unknown address look the same: both answer null, after exactly one
  comparison against a stored or a dummy hash.
\<close>

theorem login_failures_indistinguishable:
  assumes "fst (validateCredentials D B e p t) = Inr None"
  shows "length (snd (validateCredentials D B e p t)) = 1 \<and>
         fst (hd (snd (validateCredentials D B e p t))) = nullish p []"
  using assms by (auto simp: validateCredentials_def Let_def split: sum.splits option.splits)

theorem login_failures_indistinguishable_witness:
  "length (snd (validateCredentials mem_users mem_bcrypt (Some ''who@x.org'') (Some ''password'') [])) = 1"
  using login_failures_indistinguishable [of mem_users mem_bcrypt "Some ''who@x.org''" "Some ''password''" "[]"]
  by (auto simp: validateCredentials_def users_findByEmailWithSecret_def mem_users_def Let_def)

text \<open>
  Once a user exists, first-run setup refuses to create an administrator: the request fails
  with 409 (or with a database error) and no user is created.
\<close>

theorem setup_closed_after_first_user:
  assumes "prisma_users D" "t0 \<noteq> []"
  shows "(\<exists>e. createFirstAdmin D B email password t0 t1 t2 = Inl (Database e)) \<or>
         createFirstAdmin D B email password t0 t1 t2
           = Inl (Http (ConflictException ''DockSight has already been set up''))"
proof (cases "pu_count D t0")
  case (Inl e)
  then show ?thesis by (simp add: createFirstAdmin_def users_hasAnyUser_def)
next
  case (Inr n)
  then have "n = length t0" by (rule prisma_users.count_law [OF assms(1)])
  then show ?thesis using Inr assms(2) by (simp add: createFirstAdmin_def users_hasAnyUser_def)
qed

definition demo_user :: user where
  "demo_user = \<lparr>us_id = ''u'', us_username = None, us_email = ''a@x.org'', us_passwordHash = ''hpassword'',
               us_role = ADMIN, us_createdAt = 0, us_updatedAt = 0\<rparr>"

theorem setup_closed_after_first_user_witness:
  "createFirstAdmin mem_users mem_bcrypt (Some ''b@x.org'') (Some ''password'') [demo_user] [demo_user] [demo_user]
     = Inl (Http (ConflictException ''DockSight has already been set up''))"
  using setup_closed_after_first_user [OF mem_accounts.prisma_users_axioms, of "[demo_user]" mem_bcrypt
      "Some ''b@x.org''" "Some ''password''" "[demo_user]" "[demo_user]"]
  by (simp add: createFirstAdmin_def users_hasAnyUser_def mem_users_def)

text \<open>
  The check is made once, before the registration: of two setup requests whose checks both ran
  while the table was empty, both can create an administrator.
\<close>

theorem concurrent_setup_creates_two_admins:
  assumes "account_store D B"
    and "createFirstAdmin D B e1 p1 [] [] [] = Inr (a1, t1)"
    and "createFirstAdmin D B e2 p2 [] t1 t1 = Inr (a2, t2)"
  shows "length t2 = 2 \<and> (\<forall>u\<in>set t2. us_role u = ADMIN) \<and> au_role a1 = ADMIN \<and> au_role a2 = ADMIN"
proof -
  let ?i = "\<lambda>e p. \<lparr>ri_email = e, ri_password = p, ri_username = None, ri_role = Some ADMIN\<rparr>"
  have ok: "users_ok []" by (simp add: users_ok_def)
  obtain u1 where u1: "users_register D B (?i e1 p1) [] [] = Inr (u1, t1)" "au_role a1 = su_role u1"
    using assms(2) by (auto simp: createFirstAdmin_def split: sum.splits bool.splits)
  obtain u2 where u2: "users_register D B (?i e2 p2) t1 t1 = Inr (u2, t2)" "au_role a2 = su_role u2"
    using assms(3) by (auto simp: createFirstAdmin_def split: sum.splits bool.splits)
  obtain r1 where r1: "users_ok t1" "t1 = [r1]" "us_role r1 = ADMIN" "u1 = toSafeUser r1"
    by (rule account_store.register_row [OF assms(1) ok u1(1)]) (simp add: nullish_def)
  obtain r2 where "t2 = t1 @ [r2]" "us_role r2 = ADMIN" "u2 = toSafeUser r2"
    by (rule account_store.register_row [OF assms(1) r1(1) u2(1)]) (simp add: nullish_def)
  then show ?thesis using r1 u1(2) u2(2) by (simp add: toSafeUser_def)
qed

theorem concurrent_setup_creates_two_admins_witness:
  "\<exists>a1 t1 a2 t2. createFirstAdmin mem_users mem_bcrypt (Some ''a@x.org'') (Some ''password'') [] [] [] = Inr (a1, t1) \<and>
     createFirstAdmin mem_users mem_bcrypt (Some ''b@x.org'') (Some ''password'') [] t1 t1 = Inr (a2, t2) \<and> length t2 = 2"
proof -
  let ?i = "\<lambda>e. \<lparr>ri_email = Some e, ri_password = Some ''password'', ri_username = None, ri_role = Some ADMIN\<rparr>"
  have check: "register_check (?i ''a@x.org'') = None" "register_check (?i ''b@x.org'') = None" by code_simp+
  have emails: "normalizeEmail (Some ''a@x.org'') = ''a@x.org''" "normalizeEmail (Some ''b@x.org'') = ''b@x.org''"
    by code_simp+
  have any: "users_hasAnyUser mem_users [] = Inr False" by (simp add: users_hasAnyUser_def mem_users_def)
  obtain u1 t1 where u1: "users_register mem_users mem_bcrypt (?i ''a@x.org'') [] [] = Inr (u1, t1)"
    using mem_register_new [OF check(1), of "[]"] by auto
  have "users_ok []" by (simp add: users_ok_def)
  then obtain r1 where "t1 = [r1]" "us_email r1 = ''a@x.org''"
    by (rule mem_accounts.register_row [OF _ u1]) (simp add: emails)
  then obtain u2 t2 where u2: "users_register mem_users mem_bcrypt (?i ''b@x.org'') t1 t1 = Inr (u2, t2)"
    using mem_register_new [OF check(2), of t1] by (auto simp: emails)
  have runs: "createFirstAdmin mem_users mem_bcrypt (Some ''a@x.org'') (Some ''password'') [] [] []
      = Inr (\<lparr>au_id = su_id u1, au_email = su_email u1, au_role = su_role u1\<rparr>, t1)"
    "createFirstAdmin mem_users mem_bcrypt (Some ''b@x.org'') (Some ''password'') [] t1 t1
      = Inr (\<lparr>au_id = su_id u2, au_email = su_email u2, au_role = su_role u2\<rparr>, t2)"
    using u1 u2 any by (simp_all add: createFirstAdmin_def)
  show ?thesis
    using concurrent_setup_creates_two_admins [OF mem_accounts.account_store_axioms runs] runs by blast
qed

end
