(* ===== verification/AuthApi.thy ===== *)
theory AuthApi
  imports UserStore "HOL-Library.Countable"
begin

section \<open>Login and the guards\<close>

text \<open>
  \<open>auth.service.ts\<close>, \<open>jwt-auth.guard.ts\<close>, \<open>roles.guard.ts\<close>, and the metadata the
  decorators give every route. Signing and verifying tokens is a library: the record \<open>jwt\<close> holds its two calls and
  the locale \<open>jwt_signer\<close> what its documentation promises.
\<close>

subsection \<open>Tokens\<close>

record JwtPayload =
  jp_sub :: string
  jp_role :: UserRole

record jwt =
  jw_signAsync :: "int \<Rightarrow> JwtPayload \<Rightarrow> string"
  jw_verifyAsync :: "int \<Rightarrow> string \<Rightarrow> json option"

fun role_name :: "UserRole \<Rightarrow> string" where
  "role_name ADMIN = ''ADMIN''"
| "role_name VIEWER = ''VIEWER''"

subsection \<open>The login service\<close>

record LoginResult =
  lr_accessToken :: string
  lr_user :: AuthUser

definition toAuthUser :: "SafeUser \<Rightarrow> AuthUser" where
  "toAuthUser u = \<lparr>au_id = su_id u, au_email = su_email u, au_role = su_role u\<rparr>"

definition signToken :: "jwt \<Rightarrow> int \<Rightarrow> SafeUser \<Rightarrow> string" where
  "signToken J now u = jw_signAsync J now \<lparr>jp_sub = su_id u, jp_role = su_role u\<rparr>"

definition login ::
  "user_client \<Rightarrow> bcrypt \<Rightarrow> jwt \<Rightarrow> int \<Rightarrow> string option \<Rightarrow> string option \<Rightarrow> user_table \<Rightarrow> failure + LoginResult"
where
  "login D B J now email password t =
     (case fst (validateCredentials D B email password t) of
        Inl e \<Rightarrow> Inl (Database e)
      | Inr None \<Rightarrow> Inl (Http (UnauthorizedException ''Invalid email or password''))
      | Inr (Some u) \<Rightarrow> Inr \<lparr>lr_accessToken = signToken J now u, lr_user = toAuthUser u\<rparr>)"

definition getProfile :: "user_client \<Rightarrow> string option \<Rightarrow> user_table \<Rightarrow> failure + AuthUser" where
  "getProfile D userId t =
     (case users_findById D userId t of
        Inl e \<Rightarrow> Inl (Database e)
      | Inr None \<Rightarrow> Inl (Http (UnauthorizedException ''Account no longer exists''))
      | Inr (Some u) \<Rightarrow> Inr (toAuthUser u))"

text \<open>What the log shows of an address.\<close>

definition redactEmail :: "string option \<Rightarrow> string" where
  "redactEmail email =
     (case js_split CHR ''@'' (nullish email []) of
        local # domain # rest \<Rightarrow>
          if domain = [] then ''<invalid>'' else js_slice 2 local @ ''***@'' @ domain
      | _ \<Rightarrow> ''<invalid>'')"

subsection \<open>Requests\<close>

text \<open>A header or query value is a string, an array of strings, or missing.\<close>

datatype header_value = HStr string | HArr "string list"

record AuthenticatedUser =
  an_id :: json
  an_role :: json

record RequestWithUser =
  rq_authorization :: "header_value option"
  rq_url :: "string option"
  rq_access_token :: "header_value option"

text \<open>
  \<open>JwtAuthGuard.extractToken\<close>: the second element of \<open>value.split(' ')\<close>, or the query parameter on
  a URL that mentions \<open>/logs\<close>.
\<close>

definition fromAuthorizationHeader :: "RequestWithUser \<Rightarrow> string option" where
  "fromAuthorizationHeader request =
     (let value = (case rq_authorization request of
                     None \<Rightarrow> None
                   | Some (HStr s) \<Rightarrow> Some s
                   | Some (HArr []) \<Rightarrow> None
                   | Some (HArr (s # ss)) \<Rightarrow> Some s)
      in case value of
           None \<Rightarrow> None
         | Some v \<Rightarrow>
             (case js_split CHR '' '' v of
                scheme # token # rest \<Rightarrow>
                  if js_toLowerCase scheme \<noteq> ''bearer'' \<or> token = [] then None else Some (js_trim token)
              | _ \<Rightarrow> None))"

definition fromEventSourceQuery :: "RequestWithUser \<Rightarrow> string option" where
  "fromEventSourceQuery request =
     (case rq_url request of
        None \<Rightarrow> None
      | Some url \<Rightarrow>
          if \<not> js_includes url ''/logs'' then None
          else (case rq_access_token request of
                  Some (HStr token) \<Rightarrow> if js_trim token = [] then None else Some (js_trim token)
                | _ \<Rightarrow> None))"

definition extractToken :: "RequestWithUser \<Rightarrow> string option" where
  "extractToken request =
     (case fromAuthorizationHeader request of Some t \<Rightarrow> Some t | None \<Rightarrow> fromEventSourceQuery request)"

subsection \<open>The guards\<close>

text \<open>
  What a route declares: \<open>Public\<close> on its handler or class, and the roles of its handler or class
  (\<open>getAllAndOverride\<close>: the handler's own metadata first).
\<close>

record route_meta =
  rm_http :: bool
  rm_handler_public :: "bool option"
  rm_class_public :: "bool option"
  rm_handler_roles :: "UserRole list option"
  rm_class_roles :: "UserRole list option"

definition override_meta :: "'a option \<Rightarrow> 'a option \<Rightarrow> 'a option" where
  "override_meta handler cls = (case handler of Some x \<Rightarrow> Some x | None \<Rightarrow> cls)"

text \<open>\<open>Inr\<close> is \<open>true\<close>, with the \<open>request.user\<close> the guard attached.\<close>

definition jwt_canActivate :: "jwt \<Rightarrow> int \<Rightarrow> route_meta \<Rightarrow> RequestWithUser \<Rightarrow> http_exception + AuthenticatedUser option" where
  "jwt_canActivate J now meta request =
     (if \<not> rm_http meta then Inr None
      else if override_meta (rm_handler_public meta) (rm_class_public meta) = Some True then Inr None
      else (case extractToken request of
              None \<Rightarrow> Inl (UnauthorizedException ''Missing authentication token'')
            | Some token \<Rightarrow>
                if token = [] then Inl (UnauthorizedException ''Missing authentication token'')
                else (case jw_verifyAsync J now token of
                        None \<Rightarrow> Inl (UnauthorizedException ''Invalid or expired token'')
                      | Some payload \<Rightarrow>
                          if \<not> json_truthy (field payload ''sub'') \<or> \<not> json_truthy (field payload ''role'')
                          then Inl (UnauthorizedException ''Malformed token payload'')
                          else Inr (Some \<lparr>an_id = json_nullish (field payload ''sub'') JNull,
                                          an_role = json_nullish (field payload ''role'') JNull\<rparr>))))"

definition roles_canActivate :: "route_meta \<Rightarrow> AuthenticatedUser option \<Rightarrow> http_exception + unit" where
  "roles_canActivate meta requester =
     (if \<not> rm_http meta then Inr ()
      else (case override_meta (rm_handler_roles meta) (rm_class_roles meta) of
              None \<Rightarrow> Inr ()
            | Some [] \<Rightarrow> Inr ()
            | Some required \<Rightarrow>
                (case requester of
                   None \<Rightarrow> Inl (ForbiddenException ''Authentication required'')
                 | Some u \<Rightarrow>
                     if an_role u \<notin> set (map (\<lambda>r. JStr (role_name r)) required)
                     then Inl (ForbiddenException
                            (''This action requires one of: '' @ js_join '', '' (map role_name required)))
                     else Inr ())))"

text \<open>\<open>AppModule\<close> registers the two guards globally, in this order.\<close>

definition app_guards :: "jwt \<Rightarrow> int \<Rightarrow> route_meta \<Rightarrow> RequestWithUser \<Rightarrow> http_exception + AuthenticatedUser option" where
  "app_guards J now meta request =
     (case jwt_canActivate J now meta request of
        Inl e \<Rightarrow> Inl e
      | Inr u \<Rightarrow> (case roles_canActivate meta u of Inl e \<Rightarrow> Inl e | Inr x \<Rightarrow> Inr u))"

subsection \<open>The routes\<close>

text \<open>The decorators of every controller method of the application.\<close>

datatype route =
    HostsList | HostsRename | HostsMetrics | HostsContainers | HostsDelete
  | ContainerInspectRoute | ContainerActionRoute nat | ContainerLogs
  | AuthLogin | AuthMe | SetupStatusRoute | SetupCreateAdmin | Health

definition protected_route :: "UserRole list option \<Rightarrow> route_meta" where
  "protected_route roles =
     \<lparr>rm_http = True, rm_handler_public = None, rm_class_public = None, rm_handler_roles = roles, rm_class_roles = None\<rparr>"

definition public_handler :: route_meta where
  "public_handler =
     \<lparr>rm_http = True, rm_handler_public = Some True, rm_class_public = None, rm_handler_roles = None, rm_class_roles = None\<rparr>"

definition public_class :: route_meta where
  "public_class =
     \<lparr>rm_http = True, rm_handler_public = None, rm_class_public = Some True, rm_handler_roles = None, rm_class_roles = None\<rparr>"

fun route_metadata :: "route \<Rightarrow> route_meta" where
  "route_metadata HostsList = protected_route None"
| "route_metadata HostsRename = protected_route (Some [ADMIN])"
| "route_metadata HostsMetrics = protected_route None"
| "route_metadata HostsContainers = protected_route None"
| "route_metadata HostsDelete = protected_route (Some [ADMIN])"
| "route_metadata ContainerInspectRoute = protected_route None"
| "route_metadata (ContainerActionRoute k) = protected_route (Some [ADMIN])"
| "route_metadata ContainerLogs = protected_route None"
| "route_metadata AuthLogin = public_handler"
| "route_metadata AuthMe = protected_route None"
| "route_metadata SetupStatusRoute = public_class"
| "route_metadata SetupCreateAdmin = public_class"
| "route_metadata Health = public_class"

definition route_public :: "route \<Rightarrow> bool" where
  "route_public r = (override_meta (rm_handler_public (route_metadata r)) (rm_class_public (route_metadata r)) = Some True)"

definition route_admin :: "route \<Rightarrow> bool" where
  "route_admin r = (override_meta (rm_handler_roles (route_metadata r)) (rm_class_roles (route_metadata r)) = Some [ADMIN])"

lemma public_routes:
  "route_public r \<longleftrightarrow> r \<in> {AuthLogin, SetupStatusRoute, SetupCreateAdmin, Health}"
  by (cases r) (simp_all add: route_public_def override_meta_def protected_route_def public_handler_def public_class_def)

lemma admin_routes:
  "route_admin r \<longleftrightarrow> r \<in> {HostsRename, HostsDelete} \<union> range ContainerActionRoute"
  by (cases r) (auto simp: route_admin_def override_meta_def protected_route_def public_handler_def public_class_def)

lemma route_cases:
  obtains "route_public r" "override_meta (rm_handler_roles (route_metadata r)) (rm_class_roles (route_metadata r)) = None"
  | "\<not> route_public r" "\<not> route_admin r" "override_meta (rm_handler_roles (route_metadata r)) (rm_class_roles (route_metadata r)) = None"
  | "\<not> route_public r" "route_admin r" "override_meta (rm_handler_roles (route_metadata r)) (rm_class_roles (route_metadata r)) = Some [ADMIN]"
  by (cases r) (auto simp: route_public_def route_admin_def override_meta_def protected_route_def public_handler_def public_class_def)

lemma route_http [simp]: "rm_http (route_metadata r)"
  by (cases r) (simp_all add: protected_route_def public_handler_def public_class_def)

subsection \<open>The documented behaviour of the token library\<close>

text \<open>
  A token is one word, verification at the time of signing succeeds, and whenever it succeeds it
  gives the signed claims back.
\<close>

definition carries :: "json \<Rightarrow> JwtPayload \<Rightarrow> bool" where
  "carries v p \<longleftrightarrow> field v ''sub'' = Some (JStr (jp_sub p)) \<and> field v ''role'' = Some (JStr (role_name (jp_role p)))"

locale jwt_signer =
  fixes J :: jwt
  assumes token_word: "jw_signAsync J now p \<noteq> []" "c \<in> set (jw_signAsync J now p) \<Longrightarrow> \<not> js_space c"
    and fresh_law: "jw_verifyAsync J now (jw_signAsync J now p) \<noteq> None"
    and verify_law: "jw_verifyAsync J now (jw_signAsync J t p) = Some v \<Longrightarrow> carries v p"

lemma js_split_word: "sep \<notin> set w \<Longrightarrow> js_split sep w = [w]"
  by (induction w) auto

lemma js_trim_word: "(\<And>c. c \<in> set w \<Longrightarrow> \<not> js_space c) \<Longrightarrow> js_trim w = w"
proof -
  assume w: "\<And>c. c \<in> set w \<Longrightarrow> \<not> js_space c"
  have drop: "dropWhile js_space u = u" if "set u \<subseteq> set w" for u
    using w that by (cases u) auto
  show ?thesis by (simp add: js_trim_def js_trimStart_def drop)
qed

lemma bearer_split:
  assumes "\<And>c. c \<in> set tok \<Longrightarrow> \<not> js_space c"
  shows "js_split CHR '' '' (''Bearer '' @ tok) = [''Bearer'', tok]"
proof -
  have "js_space (CHR '' '')" by code_simp
  then have "CHR '' '' \<notin> set tok" using assms by auto
  then show ?thesis by (simp add: js_split_word)
qed

definition bearer :: "string \<Rightarrow> RequestWithUser" where
  "bearer tok = \<lparr>rq_authorization = Some (HStr (''Bearer '' @ tok)), rq_url = None, rq_access_token = None\<rparr>"

lemma bearer_lower: "js_toLowerCase ''Bearer'' = ''bearer''"
  by code_simp

context jwt_signer
begin

lemma extract_bearer:
  assumes "rq_authorization q = Some (HStr (''Bearer '' @ jw_signAsync J t p))"
  shows "extractToken q = Some (jw_signAsync J t p)"
  using assms token_word(1) [of t p] bearer_split [OF token_word(2) [of _ t p]] bearer_lower
    js_trim_word [OF token_word(2) [of _ t p]]
  by (simp add: extractToken_def fromAuthorizationHeader_def Let_def del: append.simps append_Cons)

lemma signed_activates:
  assumes "rq_authorization q = Some (HStr (''Bearer '' @ jw_signAsync J t p))"
    and "jw_verifyAsync J now (jw_signAsync J t p) \<noteq> None" "jp_sub p \<noteq> []" "\<not> route_public r"
  shows "jwt_canActivate J now (route_metadata r) q
           = Inr (Some \<lparr>an_id = JStr (jp_sub p), an_role = JStr (role_name (jp_role p))\<rparr>)"
proof -
  obtain v where v: "jw_verifyAsync J now (jw_signAsync J t p) = Some v" using assms(2) by auto
  have "carries v p" by (rule verify_law [OF v])
  moreover have "role_name (jp_role p) \<noteq> []" by (cases "jp_role p") auto
  ultimately show ?thesis
    using assms(3,4) v token_word(1) extract_bearer [OF assms(1)]
    by (simp add: jwt_canActivate_def carries_def route_public_def)
qed

end

lemma app_guards_open:
  "route_public r \<Longrightarrow> app_guards J now (route_metadata r) q = Inr None"
  by (cases r rule: route_cases) (simp_all add: app_guards_def jwt_canActivate_def roles_canActivate_def route_public_def)

lemma app_guards_known:
  assumes "\<not> route_public r" "jwt_canActivate J now (route_metadata r) q = Inr (Some u)"
  shows "app_guards J now (route_metadata r) q =
           (if route_admin r \<and> an_role u \<noteq> JStr ''ADMIN''
            then Inl (ForbiddenException ''This action requires one of: ADMIN'') else Inr (Some u))"
  using assms by (cases r rule: route_cases) (simp_all add: app_guards_def roles_canActivate_def)

lemma jwt_canActivate_cases:
  assumes "\<not> route_public r"
  obtains m where "jwt_canActivate J now (route_metadata r) q = Inl (UnauthorizedException m)"
  | tok v where "extractToken q = Some tok" "tok \<noteq> []" "jw_verifyAsync J now tok = Some v"
      "json_truthy (field v ''sub'')" "json_truthy (field v ''role'')"
      "jwt_canActivate J now (route_metadata r) q
        = Inr (Some \<lparr>an_id = json_nullish (field v ''sub'') JNull, an_role = json_nullish (field v ''role'') JNull\<rparr>)"
proof (cases "extractToken q")
  case None
  then show ?thesis using assms that(1) by (simp add: jwt_canActivate_def route_public_def)
next
  case (Some tok)
  show ?thesis
  proof (cases "tok = [] \<or> jw_verifyAsync J now tok = None")
    case True
    then have "\<exists>m. jwt_canActivate J now (route_metadata r) q = Inl (UnauthorizedException m)"
      using Some assms by (auto simp: jwt_canActivate_def route_public_def)
    then show ?thesis using that(1) by blast
  next
    case False
    then obtain v where v: "jw_verifyAsync J now tok = Some v" by auto
    show ?thesis
    proof (cases "json_truthy (field v ''sub'') \<and> json_truthy (field v ''role'')")
      case True
      then show ?thesis using Some False v assms that(2) [OF Some _ v] by (auto simp: jwt_canActivate_def route_public_def)
    next
      case False
      then show ?thesis using Some \<open>\<not> (tok = [] \<or> _)\<close> v assms that(1) by (auto simp: jwt_canActivate_def route_public_def)
    qed
  qed
qed

subsection \<open>An instance\<close>

text \<open>A signer that spells every bit of the claims, with no expiry.\<close>

fun char_bits :: "char \<Rightarrow> bool list" where
  "char_bits (Char b0 b1 b2 b3 b4 b5 b6 b7) = [b0, b1, b2, b3, b4, b5, b6, b7]"

fun bits_string :: "bool list \<Rightarrow> string" where
  "bits_string (b0 # b1 # b2 # b3 # b4 # b5 # b6 # b7 # bs) = Char b0 b1 b2 b3 b4 b5 b6 b7 # bits_string bs"
| "bits_string bs = []"

definition bit_char :: "bool \<Rightarrow> char" where
  "bit_char b = (if b then CHR ''1'' else CHR ''0'')"

definition plain_jwt :: jwt where
  "plain_jwt =
     \<lparr>jw_signAsync = (\<lambda>now p. map bit_char ((jp_role p = ADMIN) # concat (map char_bits (jp_sub p)))),
      jw_verifyAsync = (\<lambda>now tok.
        (case map (\<lambda>c. c = CHR ''1'') tok of
           [] \<Rightarrow> None
         | a # bs \<Rightarrow> Some (JObj [(''sub'', JStr (bits_string bs)),
                                (''role'', JStr (role_name (if a then ADMIN else VIEWER)))])))\<rparr>"

lemma bits_string_bits: "bits_string (concat (map char_bits s)) = s"
proof (induction s)
  case (Cons c s)
  then show ?case by (cases c) simp
qed simp

lemma map_bit_char: "map (\<lambda>c. c = CHR ''1'') (map bit_char bs) = bs"
  by (induction bs) (auto simp: bit_char_def)

lemma bit_char_not_space: "\<not> js_space (bit_char b)"
  by (cases b) (simp_all add: bit_char_def js_space_def)

interpretation plain: jwt_signer plain_jwt
proof (unfold_locales, goal_cases)
  case (2 c now p)
  then show ?case by (auto simp: plain_jwt_def bit_char_not_space)
next
  case (4 now t p v)
  have v: "v = JObj [(''sub'', JStr (jp_sub p)), (''role'', JStr (role_name (jp_role p)))]"
    using 4 by (cases "jp_role p")
      (auto simp: plain_jwt_def bits_string_bits map_bit_char simp del: map_map, simp_all add: bit_char_def)
  show ?case by (simp add: carries_def v)
qed (auto simp: plain_jwt_def)

text \<open>What a successful login has found, and what its token opens.\<close>

lemma login_claims:
  assumes "account_store D B" "login D B J now email password t = Inr r"
  obtains row where "row \<in> set t" "us_email row = normalizeEmail email"
    "verifyPassword B (nullish password []) (us_passwordHash row)"
    "lr_user r = \<lparr>au_id = us_id row, au_email = us_email row, au_role = us_role row\<rparr>"
    "lr_accessToken r = jw_signAsync J now \<lparr>jp_sub = us_id row, jp_role = us_role row\<rparr>"
proof -
  obtain u where u: "fst (validateCredentials D B email password t) = Inr (Some u)"
    "r = \<lparr>lr_accessToken = signToken J now u, lr_user = toAuthUser u\<rparr>"
    using assms(2) by (auto simp: login_def split: sum.splits option.splits)
  obtain row where row: "row \<in> set t" "u = toSafeUser row" "us_email row = normalizeEmail email"
    "verifyPassword B (nullish password []) (us_passwordHash row)"
    using account_store.validated_row [OF assms(1) u(1)] by auto
  show ?thesis
    by (rule that [OF row(1,3,4)]) (simp_all add: u(2) row(2) toAuthUser_def toSafeUser_def signToken_def)
qed

context jwt_signer
begin

lemma signed_guards:
  assumes "rq_authorization q = Some (HStr (''Bearer '' @ jw_signAsync J now \<lparr>jp_sub = k, jp_role = role\<rparr>))"
    and "k \<noteq> []" "p \<notin> {AuthLogin, SetupStatusRoute, SetupCreateAdmin, Health}"
  shows "app_guards J now (route_metadata p) q =
      (if role = VIEWER \<and> p \<in> {HostsRename, HostsDelete} \<union> range ContainerActionRoute
       then Inl (ForbiddenException ''This action requires one of: ADMIN'')
       else Inr (Some \<lparr>an_id = JStr k, an_role = JStr (role_name role)\<rparr>))"
proof -
  have np: "\<not> route_public p" using assms(3) public_routes by blast
  have "jwt_canActivate J now (route_metadata p) q = Inr (Some \<lparr>an_id = JStr k, an_role = JStr (role_name role)\<rparr>)"
    using signed_activates [OF assms(1) fresh_law _ np] assms(2) by simp
  from app_guards_known [OF np this] show ?thesis using admin_routes [of p] by (cases role) auto
qed

end

subsection \<open>Properties\<close>

text \<open>
  C4. Fail closed: on every route but login, setup and health, a request is let through only
  with a token that verifies and carries an id and a role, on the lifecycle, rename and delete
  routes only with the role ADMIN; every refusal is a 401 or a 403.
\<close>

theorem guards_fail_closed:
  assumes "r \<notin> {AuthLogin, SetupStatusRoute, SetupCreateAdmin, Health}"
  shows "case app_guards J now (route_metadata r) q of
           Inl e \<Rightarrow> http_status e = 401 \<or> http_status e = 403 \<and> route_admin r
         | Inr u \<Rightarrow> (\<exists>tok v. extractToken q = Some tok \<and> jw_verifyAsync J now tok = Some v \<and>
                       json_truthy (field v ''sub'') \<and>
                       (if r \<in> {HostsRename, HostsDelete} \<union> range ContainerActionRoute
                        then field v ''role'' = Some (JStr ''ADMIN'') else json_truthy (field v ''role'')))"
proof -
  have np: "\<not> route_public r" using assms public_routes by blast
  show ?thesis
  proof (cases rule: jwt_canActivate_cases [OF np, of J now q])
    case (1 m)
    then show ?thesis by (simp add: app_guards_def)
  next
    case (2 tok v)
    have role: "field v ''role'' = Some (JStr ''ADMIN'')" if "json_nullish (field v ''role'') JNull = JStr ''ADMIN''"
      using that by (cases "field v ''role''" rule: json_truthy.cases) auto
    show ?thesis using 2 app_guards_known [OF np 2(6)] role admin_routes [of r] by (auto split: if_splits)
  qed
qed

definition demo_claims :: JwtPayload where
  "demo_claims = \<lparr>jp_sub = ''a'', jp_role = ADMIN\<rparr>"

lemma demo_guards:
  "app_guards plain_jwt 0 (route_metadata HostsDelete) (bearer (jw_signAsync plain_jwt 0 demo_claims))
     = Inr (Some \<lparr>an_id = JStr ''a'', an_role = JStr ''ADMIN''\<rparr>)"
proof -
  have np: "\<not> route_public HostsDelete" by (simp add: public_routes)
  have "jwt_canActivate plain_jwt 0 (route_metadata HostsDelete) (bearer (jw_signAsync plain_jwt 0 demo_claims))
      = Inr (Some \<lparr>an_id = JStr ''a'', an_role = JStr ''ADMIN''\<rparr>)"
    using plain.signed_activates [OF _ plain.fresh_law _ np, of "bearer (jw_signAsync plain_jwt 0 demo_claims)" 0 demo_claims]
    by (simp add: bearer_def demo_claims_def)
  from app_guards_known [OF np this] show ?thesis by simp
qed

theorem guards_fail_closed_witness:
  "\<exists>tok v. extractToken (bearer (jw_signAsync plain_jwt 0 demo_claims)) = Some tok \<and>
     jw_verifyAsync plain_jwt 0 tok = Some v \<and> field v ''role'' = Some (JStr ''ADMIN'')"
  using guards_fail_closed [where r = HostsDelete and q = "bearer (jw_signAsync plain_jwt 0 demo_claims)"
      and J = plain_jwt and now = 0]
  by (simp add: demo_guards del: route_metadata.simps) blast

lemma demo_login:
  "\<exists>r. login mem_users mem_bcrypt plain_jwt 0 (Some ''a@x.org'') (Some ''password'') [demo_user] = Inr r \<and>
     au_role (lr_user r) = ADMIN"
proof -
  have norm: "normalizeEmail (Some ''a@x.org'') = ''a@x.org''" by code_simp
  show ?thesis
    by (simp add: login_def validateCredentials_def users_findByEmailWithSecret_def norm mem_users_def demo_user_def
        Let_def verifyPassword_def mem_bcrypt_def toAuthUser_def toSafeUser_def)
qed

text \<open>
  Login end to end: whoever logs in owns the row of that address and knows its password; the
  token in an \<open>Authorization: Bearer\<close> header opens every route to an ADMIN, and to a VIEWER
  every route but lifecycle, rename and delete, which answer 403.
\<close>

theorem login_token_opens_routes:
  assumes "account_store D B" "jwt_signer J" "\<forall>u\<in>set t. us_id u \<noteq> []"
    and "login D B J now email password t = Inr r"
    and "rq_authorization q = Some (HStr (''Bearer '' @ lr_accessToken r))"
  shows "\<exists>row\<in>set t. us_email row = normalizeEmail email \<and>
           verifyPassword B (nullish password []) (us_passwordHash row) \<and>
           lr_user r = \<lparr>au_id = us_id row, au_email = us_email row, au_role = us_role row\<rparr> \<and>
           (\<forall>p. p \<notin> {AuthLogin, SetupStatusRoute, SetupCreateAdmin, Health} \<longrightarrow>
              app_guards J now (route_metadata p) q =
                (if us_role row = VIEWER \<and> p \<in> {HostsRename, HostsDelete} \<union> range ContainerActionRoute
                 then Inl (ForbiddenException ''This action requires one of: ADMIN'')
                 else Inr (Some \<lparr>an_id = JStr (us_id row), an_role = JStr (role_name (us_role row))\<rparr>)))"
proof -
  obtain row where row: "row \<in> set t" "us_email row = normalizeEmail email"
    "verifyPassword B (nullish password []) (us_passwordHash row)"
    "lr_user r = \<lparr>au_id = us_id row, au_email = us_email row, au_role = us_role row\<rparr>"
    "lr_accessToken r = jw_signAsync J now \<lparr>jp_sub = us_id row, jp_role = us_role row\<rparr>"
    by (rule login_claims [OF assms(1,4)])
  have "us_id row \<noteq> []" using assms(3) row(1) by blast
  then show ?thesis
    using row jwt_signer.signed_guards [OF assms(2) assms(5) [unfolded row(5)]] by (intro bexI [OF _ row(1)]) simp
qed

theorem login_token_opens_routes_witness:
  "\<exists>r. login mem_users mem_bcrypt plain_jwt 0 (Some ''a@x.org'') (Some ''password'') [demo_user] = Inr r \<and>
     app_guards plain_jwt 0 (route_metadata HostsDelete) (bearer (lr_accessToken r))
       = Inr (Some \<lparr>an_id = JStr ''u'', an_role = JStr ''ADMIN''\<rparr>)"
proof -
  obtain r where r: "login mem_users mem_bcrypt plain_jwt 0 (Some ''a@x.org'') (Some ''password'') [demo_user] = Inr r"
    using demo_login by blast
  have "\<exists>row\<in>set [demo_user]. app_guards plain_jwt 0 (route_metadata HostsDelete) (bearer (lr_accessToken r))
      = Inr (Some \<lparr>an_id = JStr (us_id row), an_role = JStr (role_name (us_role row))\<rparr>)"
    using login_token_opens_routes [OF mem_accounts.account_store_axioms plain.jwt_signer_axioms _ r,
        of "bearer (lr_accessToken r)"]
    by (auto simp: bearer_def demo_user_def)
  then show ?thesis using r by (simp add: demo_user_def)
qed

text \<open>
  The query parameter is not confined to the log stream: with no \<open>Authorization\<close> header, any
  URL that contains \<open>/logs\<close> anywhere, its query string included, lets \<open>access_token\<close> authenticate
  the request.
\<close>

theorem query_token_on_any_route:
  assumes "rq_authorization q = None" "rq_url q = Some (path @ ''/logs'' @ rest)"
    and "rq_access_token q = Some (HStr tok)" "js_trim tok \<noteq> []"
  shows "extractToken q = Some (js_trim tok)"
  using assms js_includes_append [of path "''/logs''" rest]
  by (simp add: extractToken_def fromAuthorizationHeader_def fromEventSourceQuery_def Let_def)

theorem query_token_on_any_route_witness:
  "extractToken \<lparr>rq_authorization = None, rq_url = Some (''/api/hosts/h?x='' @ ''/logs'' @ []),
                 rq_access_token = Some (HStr ''t'')\<rparr> = Some ''t''"
proof -
  have trim: "js_trim ''t'' = ''t''" by code_simp
  show ?thesis by (subst query_token_on_any_route [of _ "''/api/hosts/h?x=''" "[]" "''t''"]) (simp_all add: trim)
qed

text \<open>
  A deleted account: the profile answers 401, but the guards, which read the token alone, let its
  token through as before.
\<close>

lemma deleted_account_keeps_access:
  assumes "prisma_users D" "users_findById D (Some k) t = Inr x" "k \<notin> set (map us_id t)"
    and "jwt_signer J" "k \<noteq> []" "r \<notin> {AuthLogin, SetupStatusRoute, SetupCreateAdmin, Health}"
  shows "getProfile D (Some k) t = Inl (Http (UnauthorizedException ''Account no longer exists'')) \<and>
         app_guards J now (route_metadata r) (bearer (jw_signAsync J now \<lparr>jp_sub = k, jp_role = ADMIN\<rparr>))
           = Inr (Some \<lparr>an_id = JStr k, an_role = JStr ''ADMIN''\<rparr>)"
proof -
  have "x = None"
  proof (cases "pu_findUnique D (ByUserId k) t")
    case (Inl e)
    then show ?thesis using assms(2) by (simp add: users_findById_def safe_result_def split: if_splits)
  next
    case (Inr y)
    then have "y = None" using prisma_users.find_law [OF assms(1) Inr] assms(3) by (auto simp: find_None_iff)
    then show ?thesis using Inr assms(2) by (simp add: users_findById_def safe_result_def split: if_splits)
  qed
  moreover have "\<not> route_public r" using assms(6) public_routes by blast
  ultimately show ?thesis
    using jwt_signer.signed_activates [OF assms(4), of "bearer (jw_signAsync J now \<lparr>jp_sub = k, jp_role = ADMIN\<rparr>)"
        now "\<lparr>jp_sub = k, jp_role = ADMIN\<rparr>" now r] jwt_signer.fresh_law [OF assms(4)] assms(2,5)
    by (simp add: getProfile_def bearer_def app_guards_known)
qed

end
