(* ===== verification/ServerConfig.thy ===== *)
theory ServerConfig
  imports AuthApi ContainersApi
begin

section \<open>Configuration, request validation and health\<close>

text \<open>
  \<open>auth.config.ts\<close>, \<open>database.config.ts\<close>, \<open>resolveCorsOrigin\<close> of \<open>main.ts\<close>,
  \<open>health.controller.ts\<close>, the client options of \<open>redis.service.ts\<close>, and the login and setup
  routes with their DTOs. The environment is the function \<open>env\<close> (\<open>process.env\<close> and
  \<open>ConfigService.get\<close>), the address check of the validation library the parameter \<open>isEmail\<close>.
\<close>

type_synonym env = "string \<Rightarrow> string option"

subsection \<open>Token settings\<close>

record AuthEnv =
  ae_jwtSecret :: string
  ae_jwtExpiresIn :: string

definition MIN_SECRET_LENGTH :: nat where
  "MIN_SECRET_LENGTH = 32"

definition DEFAULT_EXPIRES_IN :: string where
  "DEFAULT_EXPIRES_IN = ''12h''"

definition js_digit :: "char \<Rightarrow> bool" where
  "js_digit c = (digit_value c \<noteq> None)"

text \<open>
  \<open>DURATION_PATTERN\<close>: \<open>/^\d+(\.\d+)?\s*(ms|s|m|h|d|w|y)?$/i\<close>, read from left to right. After the
  digits only a point can start the fraction, so no backtracking is needed.
\<close>

definition duration_units :: "string list" where
  "duration_units = [''ms'', ''s'', ''m'', ''h'', ''d'', ''w'', ''y'']"

fun skip_fraction :: "string \<Rightarrow> string" where
  "skip_fraction (p # d # r) = (if p = CHR ''.'' \<and> js_digit d then dropWhile js_digit r else p # d # r)"
| "skip_fraction s = s"

definition DURATION_PATTERN :: "string \<Rightarrow> bool" where
  "DURATION_PATTERN s =
     (takeWhile js_digit s \<noteq> [] \<and>
      js_toLowerCase (js_trimStart (skip_fraction (dropWhile js_digit s))) \<in> set ([] # duration_units))"

definition authConfig :: "env \<Rightarrow> string + AuthEnv" where
  "authConfig env =
     (let jwtSecret = nullish (env ''JWT_SECRET'') []
      in if jwtSecret = [] then Inl ''JWT_SECRET is required.''
         else if length jwtSecret < MIN_SECRET_LENGTH
         then Inl (''JWT_SECRET must be at least '' @ show_nat MIN_SECRET_LENGTH @ '' characters (got '' @
                   show_nat (length jwtSecret) @ '').'')
         else (let expiresIn = js_trim (nullish (env ''JWT_EXPIRES_IN'') DEFAULT_EXPIRES_IN)
               in if \<not> DURATION_PATTERN expiresIn
                  then Inl (''JWT_EXPIRES_IN must be a duration like \"900\", \"30m\" or \"12h\" (got \"'' @ expiresIn @ ''\").'')
                  else Inr \<lparr>ae_jwtSecret = jwtSecret, ae_jwtExpiresIn = expiresIn\<rparr>))"

subsection \<open>The database address\<close>

text \<open>\<open>encodeURIComponent\<close>: the characters outside the unreserved set are replaced by their UTF-8 bytes.\<close>

definition uri_unreserved :: "char \<Rightarrow> bool" where
  "uri_unreserved c =
     (let n = (of_char c :: nat)
      in 48 \<le> n \<and> n \<le> 57 \<or> 65 \<le> n \<and> n \<le> 90 \<or> 97 \<le> n \<and> n \<le> 122 \<or> c \<in> set ''-_.!~*()'' \<or> n = 39)"

definition hex_digit :: "nat \<Rightarrow> char" where
  "hex_digit d = (if d < 10 then char_of (48 + d) else char_of (55 + d))"

definition percent_byte :: "nat \<Rightarrow> string" where
  "percent_byte b = [CHR ''%'', hex_digit (b div 16), hex_digit (b mod 16)]"

definition encode_char :: "char \<Rightarrow> string" where
  "encode_char c =
     (let n = (of_char c :: nat)
      in if uri_unreserved c then [c]
         else if n < 128 then percent_byte n
         else percent_byte (192 + n div 64) @ percent_byte (128 + n mod 64))"

definition encodeURIComponent :: "string \<Rightarrow> string" where
  "encodeURIComponent s = concat (map encode_char s)"

text \<open>
  \<open>Number(s)\<close>: an empty or blank text is 0; decimal literals with fraction and exponent,
  \<open>Infinity\<close>, and unsigned hexadecimal, octal and binary integers; \<open>NaN\<close> for anything else. The
  literal's own digits stand for the number.
\<close>

definition digits_value :: "string \<Rightarrow> int" where
  "digits_value s = foldl (\<lambda>acc c. acc * 10 + int (nullish (digit_value c) 0)) 0 s"

definition radix_digit :: "char \<Rightarrow> nat option" where
  "radix_digit c =
     (let n = (of_char c :: nat)
      in if 48 \<le> n \<and> n \<le> 57 then Some (n - 48) else if 97 \<le> n \<and> n \<le> 102 then Some (n - 87)
         else if 65 \<le> n \<and> n \<le> 70 then Some (n - 55) else None)"

definition radix_literal :: "nat \<Rightarrow> string \<Rightarrow> js_number" where
  "radix_literal base s =
     (if s = [] \<or> (\<exists>c\<in>set s. case radix_digit c of None \<Rightarrow> True | Some d \<Rightarrow> base \<le> d) then NaN
      else js_int (foldl (\<lambda>acc c. acc * int base + int (nullish (radix_digit c) 0)) 0 s))"

fun signed_digits :: "string \<Rightarrow> int option" where
  "signed_digits [] = None"
| "signed_digits (c # s) =
     (let ds = (if c = CHR ''-'' \<or> c = CHR ''+'' then s else c # s)
      in if ds = [] \<or> \<not> list_all js_digit ds then None
         else Some (if c = CHR ''-'' then - digits_value ds else digits_value ds))"

definition decimal_literal :: "string \<Rightarrow> js_number" where
  "decimal_literal s =
     (let whole = takeWhile js_digit s; r = dropWhile js_digit s;
          (frac, r2) = (case r of c # q \<Rightarrow> if c = CHR ''.'' then (takeWhile js_digit q, dropWhile js_digit q) else ([], r)
                               | [] \<Rightarrow> ([], []));
          m = digits_value (whole @ frac)
      in if whole = [] \<and> frac = [] then NaN
         else (case r2 of
                 [] \<Rightarrow> Finite m (- int (length frac))
               | c # q \<Rightarrow> (if c = CHR ''e'' \<or> c = CHR ''E''
                            then (case signed_digits q of None \<Rightarrow> NaN | Some e \<Rightarrow> Finite m (e - int (length frac)))
                            else NaN)))"

fun negate_number :: "js_number \<Rightarrow> js_number" where
  "negate_number (Finite m e) = Finite (- m) e"
| "negate_number PosInf = NegInf"
| "negate_number NegInf = PosInf"
| "negate_number NaN = NaN"

definition unsigned_literal :: "string \<Rightarrow> js_number" where
  "unsigned_literal s = (if s = ''Infinity'' then PosInf else decimal_literal s)"

definition js_Number :: "string \<Rightarrow> js_number" where
  "js_Number text =
     (case js_trim text of
        [] \<Rightarrow> js_int 0
      | c # r \<Rightarrow>
          if c = CHR ''-'' then negate_number (unsigned_literal r)
          else if c = CHR ''+'' then unsigned_literal r
          else if c = CHR ''0'' \<and> r \<noteq> [] \<and> hd r \<in> set ''xX'' then radix_literal 16 (tl r)
          else if c = CHR ''0'' \<and> r \<noteq> [] \<and> hd r \<in> set ''oO'' then radix_literal 8 (tl r)
          else if c = CHR ''0'' \<and> r \<noteq> [] \<and> hd r \<in> set ''bB'' then radix_literal 2 (tl r)
          else unsigned_literal (c # r))"

record DatabaseEnv =
  de_url :: string
  de_host :: string
  de_port :: js_number
  de_user :: string
  de_password :: string
  de_name :: string

definition buildDatabaseUrl :: "string \<Rightarrow> js_number \<Rightarrow> string \<Rightarrow> string \<Rightarrow> string \<Rightarrow> string" where
  "buildDatabaseUrl host port user password name =
     ''postgresql://'' @ encodeURIComponent user @ '':'' @ encodeURIComponent password @ ''@'' @ host @ '':'' @
     number_to_string port @ ''/'' @ name @ ''?schema=public''"

definition databaseConfig :: "env \<Rightarrow> DatabaseEnv" where
  "databaseConfig env =
     (let host = nullish (env ''DATABASE_HOST'') ''localhost'';
          port = (case env ''DATABASE_PORT'' of None \<Rightarrow> js_int 5432 | Some p \<Rightarrow> js_Number p);
          user = nullish (env ''DATABASE_USER'') ''docksight'';
          password = nullish (env ''DATABASE_PASSWORD'') ''docksight'';
          name = nullish (env ''DATABASE_NAME'') ''docksight'';
          url = (case env ''DATABASE_URL'' of
                   Some u \<Rightarrow> if u \<noteq> [] then u else buildDatabaseUrl host port user password name
                 | None \<Rightarrow> buildDatabaseUrl host port user password name)
      in \<lparr>de_url = url, de_host = host, de_port = port, de_user = user, de_password = password, de_name = name\<rparr>)"

text \<open>\<open>config\<close> is \<open>ConfigService.get\<close>.\<close>

definition resolveDatabaseUrl :: "env \<Rightarrow> string + string" where
  "resolveDatabaseUrl config =
     (if truthy_str (config ''database.url'') then Inr (nullish (config ''database.url'') [])
      else if truthy_str (config ''DATABASE_URL'') then Inr (nullish (config ''DATABASE_URL'') [])
      else Inl ''DATABASE_URL is required (or set DATABASE_HOST/PORT/USER/PASSWORD/NAME).'')"

record redis_options =
  ro_host :: string
  ro_port :: js_number

definition redis_client_options :: "env \<Rightarrow> redis_options" where
  "redis_client_options config =
     \<lparr>ro_host = nullish (config ''REDIS_HOST'') ''localhost'',
      ro_port = (case config ''REDIS_PORT'' of None \<Rightarrow> js_int 6379 | Some p \<Rightarrow> js_Number p)\<rparr>"

subsection \<open>Origins\<close>

datatype cors_origin = CorsOff | CorsList "string list"

definition resolveCorsOrigin :: "string option \<Rightarrow> string option \<Rightarrow> cors_origin" where
  "resolveCorsOrigin configured NODE_ENV =
     (if configured \<noteq> None \<and> js_trim (nullish configured []) \<noteq> []
      then CorsList (filter (\<lambda>origin. length origin > 0) (map js_trim (js_split CHR '','' (nullish configured []))))
      else if NODE_ENV = Some ''production'' then CorsOff
      else CorsList [''http://localhost:2002'', ''http://127.0.0.1:2002''])"

subsection \<open>Health\<close>

text \<open>The outcome of \<open>SELECT 1\<close>; the reply or the exception's body, as \<open>(status, database)\<close>.\<close>

definition health_check :: "(prisma_error + unit) \<Rightarrow> nat \<times> string \<times> string" where
  "health_check query =
     (case query of
        Inl e \<Rightarrow> (503, ''error'', ''down'')
      | Inr u \<Rightarrow> (200, ''ok'', ''up''))"

subsection \<open>The login and setup routes\<close>

text \<open>The bodies the validation pipe lets through.\<close>

definition validateLogin :: "(string \<Rightarrow> bool) \<Rightarrow> json \<Rightarrow> (string \<times> string) option" where
  "validateLogin isEmail body =
     (case (field body ''email'', field body ''password'') of
        (Some (JStr e), Some (JStr p)) \<Rightarrow> if isEmail e \<and> p \<noteq> [] then Some (e, p) else None
      | _ \<Rightarrow> None)"

definition validateCreateAdmin :: "(string \<Rightarrow> bool) \<Rightarrow> json \<Rightarrow> (string \<times> string) option" where
  "validateCreateAdmin isEmail body =
     (case (field body ''email'', field body ''password'') of
        (Some (JStr e), Some (JStr p)) \<Rightarrow> if isEmail e \<and> 8 \<le> length p then Some (e, p) else None
      | _ \<Rightarrow> None)"

definition controller_login ::
  "(string \<Rightarrow> bool) \<Rightarrow> user_client \<Rightarrow> bcrypt \<Rightarrow> jwt \<Rightarrow> int \<Rightarrow> json \<Rightarrow> user_table \<Rightarrow> failure + LoginResult"
where
  "controller_login isEmail D B J now body t =
     (case validateLogin isEmail body of
        None \<Rightarrow> Inl (Http (BadRequestException ''Bad Request Exception''))
      | Some (e, p) \<Rightarrow> login D B J now (Some e) (Some p) t)"

definition controller_me :: "user_client \<Rightarrow> AuthenticatedUser \<Rightarrow> user_table \<Rightarrow> failure + AuthUser" where
  "controller_me D u t = getProfile D (as_string (Some (an_id u))) t"

definition controller_createAdmin ::
  "(string \<Rightarrow> bool) \<Rightarrow> user_client \<Rightarrow> bcrypt \<Rightarrow> json \<Rightarrow> user_table \<Rightarrow> user_table \<Rightarrow> user_table \<Rightarrow>
     failure + (AuthUser \<times> user_table)"
where
  "controller_createAdmin isEmail D B body t0 t1 t2 =
     (case validateCreateAdmin isEmail body of
        None \<Rightarrow> Inl (Http (BadRequestException ''Bad Request Exception''))
      | Some (e, p) \<Rightarrow> createFirstAdmin D B (Some e) (Some p) t0 t1 t2)"

subsection \<open>The duration pattern\<close>

lemma takeWhile_digits_append:
  assumes "list_all js_digit ds" "t = [] \<or> \<not> js_digit (hd t)"
  shows "takeWhile js_digit (ds @ t) = ds" "dropWhile js_digit (ds @ t) = t"
  using assms by (induction ds) (cases t; simp)+

lemma digit_char_facts:
  assumes "js_digit c" shows "\<not> js_space c" "c \<noteq> CHR ''.''" "js_lower_char c = c"
proof -
  have n: "48 \<le> (of_char c :: nat)" "(of_char c :: nat) \<le> 57"
    using assms by (auto simp: js_digit_def digit_value_def Let_def split: if_splits)
  then show "\<not> js_space c" by (auto simp: js_space_def)
  show "c \<noteq> CHR ''.''" using n by auto
  show "js_lower_char c = c" using n by (simp add: js_lower_char_def)
qed

lemma unit_no_digit:
  assumes "js_toLowerCase u \<in> set ([] # duration_units)" shows "u = [] \<or> \<not> js_digit (hd u) \<and> hd u \<noteq> CHR ''.''"
proof (cases u)
  case (Cons c r)
  have "js_lower_char c \<in> set ''mshdwy''" using assms Cons by (auto simp: js_toLowerCase_def duration_units_def)
  moreover have "\<not> js_digit d" if "d \<in> set ''mshdwy''" for d
    using that by (auto simp: js_digit_def digit_value_def)
  moreover have "js_lower_char (CHR ''.'') = CHR ''.''" by code_simp
  ultimately have "\<not> js_digit c" "c \<noteq> CHR ''.''" using digit_char_facts(3) by fastforce+
  then show ?thesis using Cons by simp
qed simp

text \<open>What the regular expression denotes.\<close>

definition duration_language :: "string \<Rightarrow> bool" where
  "duration_language s \<longleftrightarrow>
     (\<exists>ds fr ws u. s = ds @ fr @ ws @ u \<and> ds \<noteq> [] \<and> list_all js_digit ds \<and>
        (fr = [] \<or> (\<exists>f. fr = CHR ''.'' # f \<and> f \<noteq> [] \<and> list_all js_digit f)) \<and>
        list_all js_space ws \<and> js_toLowerCase u \<in> set ([] # duration_units))"

lemma skip_fraction_split:
  "\<exists>fr. s = fr @ skip_fraction s \<and> (fr = [] \<or> (\<exists>f. fr = CHR ''.'' # f \<and> f \<noteq> [] \<and> list_all js_digit f))"
proof (cases s rule: skip_fraction.cases)
  case (1 p d r)
  show ?thesis
  proof (cases "p = CHR ''.'' \<and> js_digit d")
    case True
    have "s = (CHR ''.'' # d # takeWhile js_digit r) @ skip_fraction s" using 1 True by simp
    moreover have "list_all js_digit (d # takeWhile js_digit r)"
      using True by (auto simp: list_all_iff dest: set_takeWhileD)
    ultimately show ?thesis by blast
  qed (use 1 in auto)
qed auto

lemma skip_fraction_fraction:
  assumes "fr = [] \<or> (\<exists>f. fr = CHR ''.'' # f \<and> f \<noteq> [] \<and> list_all js_digit f)"
    and "t = [] \<or> \<not> js_digit (hd t) \<and> hd t \<noteq> CHR ''.''"
  shows "skip_fraction (fr @ t) = t"
proof (cases "fr = []")
  case True
  then show ?thesis using assms(2) by (cases t rule: skip_fraction.cases) auto
next
  case False
  then obtain d f where "fr = CHR ''.'' # d # f" "js_digit d" "list_all js_digit f"
    using assms(1) by (metis list.pred_inject(2) neq_Nil_conv)
  then show ?thesis using takeWhile_digits_append(2) [of f t] assms(2) by auto
qed

lemma spaces_unit_start:
  assumes "list_all js_space ws" "js_toLowerCase u \<in> set ([] # duration_units)"
  shows "ws @ u = [] \<or> \<not> js_digit (hd (ws @ u)) \<and> hd (ws @ u) \<noteq> CHR ''.''"
proof (cases ws)
  case Nil
  then show ?thesis using unit_no_digit [OF assms(2)] by simp
next
  case (Cons c r)
  moreover have "\<not> js_space (CHR ''.'')" by code_simp
  ultimately show ?thesis using assms(1) digit_char_facts(1) [of c] by auto
qed

lemma trim_spaces_unit:
  assumes "list_all js_space ws" "js_toLowerCase u \<in> set ([] # duration_units)"
  shows "js_trimStart (ws @ u) = u"
proof -
  have "u = [] \<or> \<not> js_space (hd u)"
  proof (cases u)
    case (Cons c r)
    have low: "js_lower_char c \<in> set ''mshdwy''" using assms(2) Cons by (auto simp: js_toLowerCase_def duration_units_def)
    have "js_lower_char c = c" if "js_space c"
      using that by (auto simp: js_space_def js_lower_char_def)
    moreover have "\<not> js_space d" if "d \<in> set ''mshdwy''" for d
      using that by (auto simp: js_space_def)
    ultimately have "\<not> js_space c" using low by metis
    then show ?thesis using Cons by simp
  qed simp
  then have "dropWhile js_space u = u" by (cases u) auto
  then show ?thesis using assms(1) by (simp add: js_trimStart_def list_all_iff dropWhile_append2)
qed

subsection \<open>Decoding\<close>

definition hex_value :: "char \<Rightarrow> nat" where
  "hex_value c = nullish (radix_digit c) 0"

text \<open>\<open>decodeURIComponent\<close> on one- and two-byte sequences.\<close>

fun decodeURIComponent :: "string \<Rightarrow> string" where
  "decodeURIComponent [] = []"
| "decodeURIComponent (c # s) =
     (if c \<noteq> CHR ''%'' then c # decodeURIComponent s
      else (case s of
              h # l # r \<Rightarrow>
                (let b = hex_value h * 16 + hex_value l
                 in if b < 128 then char_of b # decodeURIComponent r
                    else (case r of
                            p # h' # l' # q \<Rightarrow>
                              char_of ((b - 192) * 64 + (hex_value h' * 16 + hex_value l' - 128)) # decodeURIComponent q
                          | _ \<Rightarrow> []))
            | _ \<Rightarrow> []))"

lemma hex_value_digit: "d < 16 \<Longrightarrow> hex_value (hex_digit d) = d"
  by (simp add: hex_value_def hex_digit_def radix_digit_def Let_def)

lemma hex_digit_plain: "d < 16 \<Longrightarrow> hex_digit d \<notin> set '':@/?#''"
proof -
  assume "d < 16"
  then have "d \<in> set [0..<16]" by simp
  moreover have "\<forall>d\<in>set [0..<16]. hex_digit d \<notin> set '':@/?#''" by code_simp
  ultimately show ?thesis by blast
qed

lemma percent_byte_plain: "b < 256 \<Longrightarrow> set (percent_byte b) \<inter> set '':@/?#'' = {}"
  using hex_digit_plain [of "b div 16"] hex_digit_plain [of "b mod 16"] by (auto simp: percent_byte_def)

lemma unreserved_plain: "uri_unreserved c \<Longrightarrow> c \<notin> set '':@/?#''"
  by (auto simp: uri_unreserved_def Let_def)

lemma encode_char_plain: "set (encode_char c) \<inter> set '':@/?#'' = {}"
proof -
  define n where "n = (of_char c :: nat)"
  have n: "n < 256" by (simp add: n_def)
  then have b: "192 + n div 64 < 256" "128 + n mod 64 < 256" by auto
  show ?thesis
    using unreserved_plain [of c] percent_byte_plain [OF n] percent_byte_plain [OF b(1)] percent_byte_plain [OF b(2)]
    by (auto simp: encode_char_def Let_def n_def)
qed

lemma decode_percent:
  assumes "b < 128" shows "decodeURIComponent (percent_byte b @ s) = char_of b # decodeURIComponent s"
proof -
  have "b div 16 * 16 + b mod 16 = b" by simp
  then show ?thesis using assms by (simp add: percent_byte_def hex_value_digit Let_def)
qed

lemma decode_percent2:
  assumes "192 \<le> b" "b < 256" "128 \<le> b'" "b' < 256"
  shows "decodeURIComponent (percent_byte b @ percent_byte b' @ s)
           = char_of ((b - 192) * 64 + (b' - 128)) # decodeURIComponent s"
proof -
  have "b div 16 * 16 + b mod 16 = b" "b' div 16 * 16 + b' mod 16 = b'" by simp_all
  then show ?thesis using assms by (simp add: percent_byte_def hex_value_digit Let_def)
qed

lemma decode_encode_char: "decodeURIComponent (encode_char c @ s) = c # decodeURIComponent s"
proof -
  define n where "n = (of_char c :: nat)"
  have n: "n < 256" and c: "c = char_of n" by (simp_all add: n_def)
  have pct: "\<not> uri_unreserved (CHR ''%'')" by code_simp
  show ?thesis
  proof (cases "uri_unreserved c")
    case True
    then have "c \<noteq> CHR ''%''" using pct by metis
    then show ?thesis using True by (simp add: encode_char_def)
  next
    case False
    show ?thesis
    proof (cases "n < 128")
      case True
      then show ?thesis using False decode_percent [OF True] c by (simp add: encode_char_def n_def [symmetric] Let_def)
    next
      case big: False
      have "192 + n div 64 < 256" "128 + n mod 64 < 256" using n by auto
      moreover have "n div 64 * 64 + n mod 64 = n" by simp
      ultimately show ?thesis
        using False big decode_percent2 [of "192 + n div 64" "128 + n mod 64" s] c mod_less [OF n]
        by (simp add: encode_char_def n_def [symmetric] Let_def)
    qed
  qed
qed

lemma decode_encode [simp]: "decodeURIComponent (encodeURIComponent s) = s"
  by (induction s) (simp_all add: encodeURIComponent_def decode_encode_char)

lemma encoded_plain: "set (encodeURIComponent s) \<inter> set '':@/?#'' = {}"
  using encode_char_plain by (fastforce simp: encodeURIComponent_def)

subsection \<open>Properties\<close>


text \<open>
  C39. The credentials survive the database address: whatever characters they contain, the
  encoded user and password contain no delimiter of the address and decode to what was configured.
\<close>

theorem database_url_roundtrip:
  assumes "env ''DATABASE_URL'' = None"
  shows "\<exists>a b rest. de_url (databaseConfig env) = ''postgresql://'' @ a @ '':'' @ b @ ''@'' @ rest \<and>
           set a \<inter> set '':@/?#'' = {} \<and> set b \<inter> set '':@/?#'' = {} \<and>
           decodeURIComponent a = nullish (env ''DATABASE_USER'') ''docksight'' \<and>
           decodeURIComponent b = nullish (env ''DATABASE_PASSWORD'') ''docksight''"
  by (rule exI [of _ "encodeURIComponent (nullish (env ''DATABASE_USER'') ''docksight'')"],
      rule exI [of _ "encodeURIComponent (nullish (env ''DATABASE_PASSWORD'') ''docksight'')"])
    (use assms encoded_plain in \<open>auto simp: databaseConfig_def buildDatabaseUrl_def Let_def\<close>)

theorem database_url_roundtrip_witness:
  "\<exists>a b rest. de_url (databaseConfig (\<lambda>k. None)) = ''postgresql://'' @ a @ '':'' @ b @ ''@'' @ rest \<and>
     decodeURIComponent b = ''docksight''"
  using database_url_roundtrip [of "\<lambda>k. None"] by auto

text \<open>The server never starts with a signing key under 32 characters or a malformed lifetime.\<close>

lemma authConfig_accepts:
  assumes "authConfig env = Inr e"
  shows "env ''JWT_SECRET'' = Some (ae_jwtSecret e) \<and> 32 \<le> length (ae_jwtSecret e) \<and> DURATION_PATTERN (ae_jwtExpiresIn e)"
  using assms
  by (cases "env ''JWT_SECRET''")
    (auto simp: authConfig_def MIN_SECRET_LENGTH_def Let_def split: if_splits)

end
