(* ===== verification/WebSession.thy ===== *)
theory WebSession
  imports ServerConfig
begin

section \<open>The web session\<close>

text \<open>
  \<open>services/tokenStorage.ts\<close>, \<open>services/api.ts\<close>, \<open>services/auth.service.ts\<close>, \<open>stores/auth.ts\<close>,
  \<open>stores/theme.ts\<close>, the gates of \<open>RequireAuth.tsx\<close> and \<open>App.tsx\<close>, and the forms of \<open>LoginPage.tsx\<close>
  and \<open>SetupPage.tsx\<close>. Replies are arbitrary JSON, as the type assertions of the code do not check
  them. Every \<open>await\<close> of a reply splits an operation in two: a request in flight is an
  \<open>inflight\<close> entry, and \<open>deliver\<close> runs the code after its \<open>await\<close> on whatever state it finds.
\<close>

subsection \<open>Text of a value\<close>

text \<open>\<open>String(v)\<close> and template insertion.\<close>

fun js_String :: "json \<Rightarrow> string" where
  "js_String JNull = ''null''"
| "js_String (JBool b) = (if b then ''true'' else ''false'')"
| "js_String (JNum n) = number_to_string n"
| "js_String (JStr s) = s"
| "js_String (JArr xs) = js_join '','' (map (\<lambda>x. if x = JNull then [] else js_String x) xs)"
| "js_String (JObj fs) = ''[object Object]''"

fun js_String_opt :: "json option \<Rightarrow> string" where
  "js_String_opt None = ''undefined''"
| "js_String_opt (Some v) = js_String v"

subsection \<open>Browser state\<close>

datatype AuthStatus = Loading | Unauthenticated | Authenticated | SetupRequired

text \<open>Who subscribed with \<open>onTokenChange\<close>: the auth store, or somebody else.\<close>

datatype token_listener = StoreListener | Subscriber nat

text \<open>
  \<open>localStorage\<close> (each call may throw), the module state of \<open>tokenStorage.ts\<close> and the auth store.
  \<open>cachedToken\<close> is \<open>None\<close> while undefined, \<open>Some JNull\<close> when null; \<open>heard\<close> records what other
  subscribers were told.
\<close>

record web =
  ls_token :: "string option"
  ls_get_throws :: bool
  ls_set_throws :: bool
  ls_remove_throws :: bool
  cachedToken :: "json option"
  listeners :: "token_listener list"
  heard :: "(nat \<times> json option) list"
  wb_status :: AuthStatus
  wb_user :: "json option"

definition web_init :: "string option \<Rightarrow> web" where
  "web_init stored =
     \<lparr>ls_token = stored, ls_get_throws = False, ls_set_throws = False, ls_remove_throws = False,
      cachedToken = None, listeners = [StoreListener], heard = [], wb_status = Loading, wb_user = Some JNull\<rparr>"

definition set_store :: "AuthStatus \<Rightarrow> json option \<Rightarrow> web \<Rightarrow> web" where
  "set_store s u w = w\<lparr>wb_status := s, wb_user := u\<rparr>"

subsection \<open>Token storage\<close>

fun tell :: "json option \<Rightarrow> token_listener \<Rightarrow> web \<Rightarrow> web" where
  "tell token StoreListener w =
     (if token = Some JNull \<and> wb_status w = Authenticated then set_store Unauthenticated (Some JNull) w else w)"
| "tell token (Subscriber k) w = w\<lparr>heard := heard w @ [(k, token)]\<rparr>"

definition notify :: "json option \<Rightarrow> web \<Rightarrow> web" where
  "notify token w = foldl (\<lambda>w l. tell token l w) w (listeners w)"

definition stored_token :: "web \<Rightarrow> json" where
  "stored_token w =
     (if ls_get_throws w then JNull else (case ls_token w of None \<Rightarrow> JNull | Some t \<Rightarrow> JStr t))"

definition getToken :: "web \<Rightarrow> json \<times> web" where
  "getToken w =
     (case cachedToken w of
        Some t \<Rightarrow> (t, w)
      | None \<Rightarrow> (stored_token w, w\<lparr>cachedToken := Some (stored_token w)\<rparr>))"

definition setToken :: "json option \<Rightarrow> web \<Rightarrow> web" where
  "setToken token w =
     (let w1 = w\<lparr>cachedToken := token\<rparr>;
          w2 = (if ls_set_throws w1 then w1 else w1\<lparr>ls_token := Some (js_String_opt token)\<rparr>)
      in notify token w2)"

definition clearToken :: "web \<Rightarrow> web" where
  "clearToken w =
     (let w1 = w\<lparr>cachedToken := Some JNull\<rparr>;
          w2 = (if ls_remove_throws w1 then w1 else w1\<lparr>ls_token := None\<rparr>)
      in notify (Some JNull) w2)"

definition hasToken :: "web \<Rightarrow> bool \<times> web" where
  "hasToken w = (let (t, w') = getToken w in (json_truthy (Some t), w'))"

definition onTokenChange :: "token_listener \<Rightarrow> web \<Rightarrow> web" where
  "onTokenChange l w = (if l \<in> set (listeners w) then w else w\<lparr>listeners := listeners w @ [l]\<rparr>)"

definition unsubscribe_token :: "token_listener \<Rightarrow> web \<Rightarrow> web" where
  "unsubscribe_token l w = w\<lparr>listeners := remove1 l (listeners w)\<rparr>"

subsection \<open>The API client\<close>

record ApiError =
  ap_message :: string
  ap_status :: nat
  ap_body :: json

definition drop_slash :: "string \<Rightarrow> string" where
  "drop_slash s = (if s \<noteq> [] \<and> last s = CHR ''/'' then butlast s else s)"

definition resolveBaseUrl :: "string option \<Rightarrow> string" where
  "resolveBaseUrl raw =
     (case raw of
        None \<Rightarrow> ''http://localhost:3000/api''
      | Some r \<Rightarrow> if js_trim r = [] then ''http://localhost:3000/api'' else drop_slash r)"

definition parseBody :: "(string \<Rightarrow> json option) \<Rightarrow> string \<Rightarrow> json" where
  "parseBody parse text =
     (if text = [] then JNull else (case parse text of Some v \<Rightarrow> v | None \<Rightarrow> JStr text))"

definition extractErrorMessage :: "json \<Rightarrow> nat \<Rightarrow> string" where
  "extractErrorMessage body st =
     (case field body ''message'' of
        Some (JStr m) \<Rightarrow> m
      | Some (JArr ms) \<Rightarrow> js_join '', '' (map js_String ms)
      | _ \<Rightarrow> ''Request failed with status '' @ show_nat st)"

datatype http_method = GET | POST | PATCH

record fetch_call =
  fc_method :: http_method
  fc_url :: string
  fc_headers :: "(string \<times> string) list"
  fc_body :: "json option"

text \<open>What \<open>fetch\<close> yields: a reply with status and text, or a rejection (\<open>None\<close>: not an \<open>Error\<close>).\<close>

datatype fetch_outcome = Response nat string | NetworkError "string option"

text \<open>\<open>request\<close> up to the \<open>fetch\<close>: the call, the token it carries, and the state.\<close>

definition request_send ::
  "string option \<Rightarrow> http_method \<Rightarrow> string \<Rightarrow> json option \<Rightarrow> bool \<Rightarrow> web \<Rightarrow> fetch_call \<times> json \<times> web"
where
  "request_send base method path body anonymous w =
     (let url = resolveBaseUrl base @ (if js_startsWith path ''/'' then path else ''/'' @ path);
          (token, w') = (if anonymous then (JNull, w) else getToken w);
          headers = [(''Accept'', ''application/json'')] @
                    (if body \<noteq> None then [(''Content-Type'', ''application/json'')] else []) @
                    (if json_truthy (Some token) then [(''Authorization'', ''Bearer '' @ js_String token)] else [])
      in (\<lparr>fc_method = method, fc_url = url, fc_headers = headers, fc_body = body\<rparr>, token, w'))"

text \<open>\<open>request\<close> after the \<open>fetch\<close>.\<close>

definition request_receive ::
  "(string \<Rightarrow> json option) \<Rightarrow> json \<Rightarrow> fetch_outcome \<Rightarrow> web \<Rightarrow> (ApiError + json) \<times> web"
where
  "request_receive parse token reply w =
     (case reply of
        NetworkError m \<Rightarrow>
          (Inl \<lparr>ap_message = nullish m ''Network request failed'', ap_status = 0, ap_body = JNull\<rparr>, w)
      | Response st text \<Rightarrow>
          (let parsed = parseBody parse text
           in if \<not> (200 \<le> st \<and> st \<le> 299)
              then (Inl \<lparr>ap_message = extractErrorMessage parsed st, ap_status = st, ap_body = parsed\<rparr>,
                    if st = 401 \<and> json_truthy (Some token) then clearToken w else w)
              else (Inr parsed, w)))"

definition apiGet :: "string option \<Rightarrow> string \<Rightarrow> bool \<Rightarrow> web \<Rightarrow> fetch_call \<times> json \<times> web" where
  "apiGet base path anonymous w = request_send base GET path None anonymous w"

definition apiPost :: "string option \<Rightarrow> string \<Rightarrow> json option \<Rightarrow> bool \<Rightarrow> web \<Rightarrow> fetch_call \<times> json \<times> web" where
  "apiPost base path body anonymous w = request_send base POST path (Some (json_nullish body (JObj []))) anonymous w"

definition apiPatch :: "string option \<Rightarrow> string \<Rightarrow> json option \<Rightarrow> bool \<Rightarrow> web \<Rightarrow> fetch_call \<times> json \<times> web" where
  "apiPatch base path body anonymous w = request_send base PATCH path (Some (json_nullish body (JObj []))) anonymous w"

subsection \<open>The operations of the auth store\<close>

text \<open>A request in flight, with the token it was sent with where the continuation reads it.\<close>

datatype inflight =
    BootSetup
  | BootMe json
  | SignIn
  | SetupCreate string string
  | ApiCall json

record session =
  ss_web :: web
  ss_inflight :: "inflight list"
  ss_sent :: "fetch_call list"

definition session_init :: "string option \<Rightarrow> session" where
  "session_init stored = \<lparr>ss_web = web_init stored, ss_inflight = [], ss_sent = []\<rparr>"

definition started :: "fetch_call \<Rightarrow> inflight \<Rightarrow> web \<Rightarrow> session \<Rightarrow> session" where
  "started call k w s = s\<lparr>ss_web := w, ss_inflight := ss_inflight s @ [k], ss_sent := ss_sent s @ [call]\<rparr>"

definition credentials :: "string \<Rightarrow> string \<Rightarrow> json" where
  "credentials email password = JObj [(''email'', JStr email), (''password'', JStr password)]"

text \<open>\<open>auth.service.ts\<close>\<close>

definition fetchSetupStatus :: "string option \<Rightarrow> session \<Rightarrow> session" where
  "fetchSetupStatus base s =
     (let (call, t, w) = apiGet base ''/setup/status'' True (ss_web s) in started call BootSetup w s)"

definition web_login :: "string option \<Rightarrow> string \<Rightarrow> string \<Rightarrow> session \<Rightarrow> session" where
  "web_login base email password s =
     (let (call, t, w) = apiPost base ''/auth/login'' (Some (credentials email password)) True (ss_web s)
      in started call SignIn w s)"

definition web_createFirstAdmin :: "string option \<Rightarrow> string \<Rightarrow> string \<Rightarrow> session \<Rightarrow> session" where
  "web_createFirstAdmin base email password s =
     (let (call, t, w) = apiPost base ''/setup/create-admin'' (Some (credentials email password)) True (ss_web s)
      in started call (SetupCreate email password) w s)"

text \<open>\<open>fetchCurrentUser\<close> inside \<open>bootstrap\<close>: without a token the user is null at once.\<close>

definition fetchCurrentUser :: "string option \<Rightarrow> session \<Rightarrow> session" where
  "fetchCurrentUser base s =
     (let (has, w) = hasToken (ss_web s)
      in if \<not> has then s\<lparr>ss_web := set_store Unauthenticated (Some JNull) w\<rparr>
         else (let (call, t, w') = apiGet base ''/auth/me'' False w in started call (BootMe t) w' s))"

definition signOut :: "web \<Rightarrow> web" where
  "signOut w = set_store Unauthenticated (Some JNull) (clearToken w)"

text \<open>The end of \<open>login\<close>: \<open>setToken(result.accessToken)\<close>, then the store takes \<open>result.user\<close>.\<close>

definition signed_in :: "json \<Rightarrow> web \<Rightarrow> web" where
  "signed_in v w = set_store Authenticated (field v ''user'') (setToken (field v ''accessToken'') w)"

text \<open>
  The continuation of a request. The first component is what the caller of \<open>signIn\<close> or
  \<open>completeSetup\<close> sees: an error, or \<open>Inr True\<close> when the operation is over. Reading a member of null
  throws.
\<close>

datatype thrown = ThrownApi ApiError | ThrownError string

definition type_error :: thrown where
  "type_error = ThrownError ''Cannot read properties of null''"

fun deliver ::
  "string option \<Rightarrow> (string \<Rightarrow> json option) \<Rightarrow> inflight \<Rightarrow> fetch_outcome \<Rightarrow> session \<Rightarrow> (thrown + bool) \<times> session"
where
  "deliver base parse BootSetup reply s =
     (let (r, w) = request_receive parse JNull reply (ss_web s);
          s' = s\<lparr>ss_web := w\<rparr>
      in case r of
           Inl e \<Rightarrow> (Inr True, s'\<lparr>ss_web := set_store Unauthenticated (Some JNull) w\<rparr>)
         | Inr v \<Rightarrow>
             if v = JNull then (Inr True, s'\<lparr>ss_web := set_store Unauthenticated (Some JNull) w\<rparr>)
             else if json_truthy (field v ''setupRequired'')
             then (Inr True, s'\<lparr>ss_web := set_store SetupRequired (Some JNull) w\<rparr>)
             else (Inr False, fetchCurrentUser base s'))"
| "deliver base parse (BootMe t) reply s =
     (let (r, w) = request_receive parse t reply (ss_web s)
      in (Inr True,
          s\<lparr>ss_web := (case r of
                         Inl e \<Rightarrow> set_store Unauthenticated (Some JNull) w
                       | Inr v \<Rightarrow> if json_truthy (Some v) then set_store Authenticated (Some v) w
                                  else set_store Unauthenticated (Some JNull) w)\<rparr>))"
| "deliver base parse SignIn reply s =
     (let (r, w) = request_receive parse JNull reply (ss_web s)
      in case r of
           Inl e \<Rightarrow> (Inl (ThrownApi e), s\<lparr>ss_web := w\<rparr>)
         | Inr v \<Rightarrow> if v = JNull then (Inl type_error, s\<lparr>ss_web := w\<rparr>)
                    else (Inr True, s\<lparr>ss_web := signed_in v w\<rparr>))"
| "deliver base parse (SetupCreate email password) reply s =
     (let (r, w) = request_receive parse JNull reply (ss_web s)
      in case r of
           Inl e \<Rightarrow> (Inl (ThrownApi e), s\<lparr>ss_web := w\<rparr>)
         | Inr v \<Rightarrow> (Inr False, web_login base email password (s\<lparr>ss_web := w\<rparr>)))"
| "deliver base parse (ApiCall t) reply s =
     (let (r, w) = request_receive parse t reply (ss_web s)
      in case r of Inl e \<Rightarrow> (Inl (ThrownApi e), s\<lparr>ss_web := w\<rparr>) | Inr v \<Rightarrow> (Inr True, s\<lparr>ss_web := w\<rparr>))"

datatype web_event =
    Bootstrap
  | SubmitLogin string string
  | SubmitSetup string string
  | SignOut
  | Call http_method string "json option"
  | Deliver nat fetch_outcome

definition drop_nth :: "nat \<Rightarrow> 'a list \<Rightarrow> 'a list" where
  "drop_nth i xs = take i xs @ drop (Suc i) xs"

fun web_step :: "string option \<Rightarrow> (string \<Rightarrow> json option) \<Rightarrow> web_event \<Rightarrow> session \<Rightarrow> session" where
  "web_step base parse Bootstrap s = fetchSetupStatus base s"
| "web_step base parse (SubmitLogin e p) s = web_login base e p s"
| "web_step base parse (SubmitSetup e p) s = web_createFirstAdmin base e p s"
| "web_step base parse SignOut s = s\<lparr>ss_web := signOut (ss_web s)\<rparr>"
| "web_step base parse (Call m path body) s =
     (let (call, t, w) = request_send base m path body False (ss_web s) in started call (ApiCall t) w s)"
| "web_step base parse (Deliver i reply) s =
     (if i < length (ss_inflight s)
      then snd (deliver base parse (ss_inflight s ! i) reply (s\<lparr>ss_inflight := drop_nth i (ss_inflight s)\<rparr>))
      else s)"

fun web_run :: "string option \<Rightarrow> (string \<Rightarrow> json option) \<Rightarrow> web_event list \<Rightarrow> session \<Rightarrow> session" where
  "web_run base parse [] s = s"
| "web_run base parse (e # es) s = web_run base parse es (web_step base parse e s)"

definition useIsAdmin :: "web \<Rightarrow> bool" where
  "useIsAdmin w =
     (case wb_user w of None \<Rightarrow> False | Some u \<Rightarrow> field u ''role'' = Some (JStr ''ADMIN''))"

subsection \<open>Gates and forms\<close>

datatype gate = Splash | Redirect string "string option" | Children

text \<open>\<open>RequireAuth\<close>: \<open>here\<close> is \<open>location.pathname\<close> with \<open>location.search\<close>.\<close>

definition RequireAuth :: "string \<Rightarrow> web \<Rightarrow> gate" where
  "RequireAuth here w =
     (case wb_status w of
        Loading \<Rightarrow> Splash
      | SetupRequired \<Rightarrow> Redirect ''/setup'' None
      | Unauthenticated \<Rightarrow> Redirect ''/login'' (Some here)
      | Authenticated \<Rightarrow> Children)"

definition AuthGate :: "web \<Rightarrow> gate" where
  "AuthGate w = (if wb_status w = Loading then Splash else Children)"

datatype page =
    PageLogin | PageSetup | PageRedirect string | PageDashboard | PageHosts | PageHostDetails string
  | PageContainers | PageImages | PageNetworks | PageVolumes | PageMetrics | PageSettings | PageNotFound

text \<open>\<open>App\<close> and \<open>AppRoutes\<close>: the page of a path, given as its segments.\<close>

fun AppRoutes :: "string list \<Rightarrow> page" where
  "AppRoutes [] = PageRedirect ''/dashboard''"
| "AppRoutes [p] =
     (if p = ''dashboard'' then PageDashboard else if p = ''hosts'' then PageHosts
      else if p = ''containers'' then PageContainers else if p = ''images'' then PageImages
      else if p = ''networks'' then PageNetworks else if p = ''volumes'' then PageVolumes
      else if p = ''metrics'' then PageMetrics else if p = ''settings'' then PageSettings else PageNotFound)"
| "AppRoutes [p, q] = (if p = ''hosts'' then PageHostDetails q else PageNotFound)"
| "AppRoutes ps = PageNotFound"

definition App :: "string list \<Rightarrow> string \<Rightarrow> web \<Rightarrow> gate + page" where
  "App path here w =
     (case AuthGate w of
        Children \<Rightarrow>
          if path = [''login''] then Inr PageLogin
          else if path = [''setup''] then Inr PageSetup
          else (case RequireAuth here w of Children \<Rightarrow> Inr (AppRoutes path) | g \<Rightarrow> Inl g)
      | g \<Rightarrow> Inl g)"

definition LoginPage_gate :: "web \<Rightarrow> gate" where
  "LoginPage_gate w =
     (if wb_status w = SetupRequired then Redirect ''/setup'' None
      else if wb_status w = Authenticated then Redirect ''/dashboard'' None else Children)"

fun submit_error :: "thrown \<Rightarrow> string" where
  "submit_error (ThrownApi e) = (if ap_status e = 0 then ''Cannot reach the DockSight server.'' else ap_message e)"
| "submit_error (ThrownError m) = m"

text \<open>\<open>handleSubmit\<close> once \<open>signIn\<close> has ended: the error shown, or where to navigate.\<close>

definition login_submitted :: "string option \<Rightarrow> (thrown + bool) \<Rightarrow> string + string" where
  "login_submitted from r =
     (case r of Inl e \<Rightarrow> Inl (submit_error e) | Inr d \<Rightarrow> Inr (nullish from ''/dashboard''))"

definition login_button_disabled :: "bool \<Rightarrow> string \<Rightarrow> string \<Rightarrow> bool" where
  "login_button_disabled submitting email password = (submitting \<or> email = [] \<or> password = [])"

definition SetupPage_gate :: "web \<Rightarrow> gate" where
  "SetupPage_gate w =
     (if wb_status w = Authenticated then Redirect ''/dashboard'' None
      else if wb_status w = Unauthenticated then Redirect ''/login'' None else Children)"

definition setup_tooShort :: "string \<Rightarrow> bool" where
  "setup_tooShort password = (length password > 0 \<and> length password < 8)"

definition setup_mismatch :: "string \<Rightarrow> string \<Rightarrow> bool" where
  "setup_mismatch password confirm = (length confirm > 0 \<and> confirm \<noteq> password)"

text \<open>\<open>handleSubmit\<close> of the setup form: an error, or the request that is sent.\<close>

definition setup_submit :: "string option \<Rightarrow> string \<Rightarrow> string \<Rightarrow> string \<Rightarrow> session \<Rightarrow> string + session" where
  "setup_submit base email password confirm s =
     (if password \<noteq> confirm then Inl ''Passwords do not match'' else Inr (web_createFirstAdmin base email password s))"

definition setup_submitted :: "(thrown + bool) \<Rightarrow> string + string" where
  "setup_submitted r =
     (case r of Inl e \<Rightarrow> Inl (submit_error e) | Inr d \<Rightarrow> Inr ''/dashboard'')"

definition setup_button_disabled :: "bool \<Rightarrow> string \<Rightarrow> string \<Rightarrow> string \<Rightarrow> bool" where
  "setup_button_disabled submitting email password confirm =
     (submitting \<or> email = [] \<or> length password < 8 \<or> password \<noteq> confirm)"

subsection \<open>The theme store\<close>

datatype Theme = Light | Dark

record theme_world =
  th_stored :: "string option"
  th_prefers_dark :: bool
  th_dark_class :: bool
  th_theme :: Theme

fun theme_name :: "Theme \<Rightarrow> string" where
  "theme_name Light = ''light''"
| "theme_name Dark = ''dark''"

definition readInitialTheme :: "theme_world \<Rightarrow> Theme" where
  "readInitialTheme t =
     (if th_stored t = Some ''light'' then Light else if th_stored t = Some ''dark'' then Dark
      else if th_prefers_dark t then Dark else Light)"

definition applyTheme :: "Theme \<Rightarrow> theme_world \<Rightarrow> theme_world" where
  "applyTheme theme t = t\<lparr>th_dark_class := (theme = Dark), th_stored := Some (theme_name theme)\<rparr>"

definition setTheme :: "Theme \<Rightarrow> theme_world \<Rightarrow> theme_world" where
  "setTheme theme t = (applyTheme theme t)\<lparr>th_theme := theme\<rparr>"

definition toggleTheme :: "theme_world \<Rightarrow> theme_world" where
  "toggleTheme t =
     (let new = (if th_theme t = Dark then Light else Dark) in (applyTheme new t)\<lparr>th_theme := new\<rparr>)"

subsection \<open>The state behind a request\<close>

text \<open>The store's listener keeps the store in line with a cleared token.\<close>

lemma tell_simps [simp]:
  "cachedToken (tell t l w) = cachedToken w" "ls_token (tell t l w) = ls_token w"
  "listeners (tell t l w) = listeners w" "ls_get_throws (tell t l w) = ls_get_throws w"
  "ls_set_throws (tell t l w) = ls_set_throws w" "ls_remove_throws (tell t l w) = ls_remove_throws w"
  by (cases l; simp add: set_store_def)+

lemma notify_simps [simp]:
  "cachedToken (notify t w) = cachedToken w" "ls_token (notify t w) = ls_token w"
  "listeners (notify t w) = listeners w" "ls_get_throws (notify t w) = ls_get_throws w"
  "ls_set_throws (notify t w) = ls_set_throws w" "ls_remove_throws (notify t w) = ls_remove_throws w"
proof -
  have "cachedToken (foldl (\<lambda>w l. tell t l w) w ls) = cachedToken w \<and>
        ls_token (foldl (\<lambda>w l. tell t l w) w ls) = ls_token w \<and>
        listeners (foldl (\<lambda>w l. tell t l w) w ls) = listeners w \<and>
        ls_get_throws (foldl (\<lambda>w l. tell t l w) w ls) = ls_get_throws w \<and>
        ls_set_throws (foldl (\<lambda>w l. tell t l w) w ls) = ls_set_throws w \<and>
        ls_remove_throws (foldl (\<lambda>w l. tell t l w) w ls) = ls_remove_throws w" for ls
    by (induction ls arbitrary: w) simp_all
  then show "cachedToken (notify t w) = cachedToken w" "ls_token (notify t w) = ls_token w"
    "listeners (notify t w) = listeners w" "ls_get_throws (notify t w) = ls_get_throws w"
    "ls_set_throws (notify t w) = ls_set_throws w" "ls_remove_throws (notify t w) = ls_remove_throws w"
    by (simp_all add: notify_def)
qed

definition guest_user :: "web \<Rightarrow> bool" where
  "guest_user w \<longleftrightarrow> (wb_status w \<noteq> Authenticated \<longrightarrow> wb_user w = Some JNull)"

lemma tell_guest: "guest_user w \<Longrightarrow> guest_user (tell t l w)"
  by (cases l) (auto simp: guest_user_def set_store_def)

lemma notify_guest: "guest_user w \<Longrightarrow> guest_user (notify t w)"
proof -
  have "guest_user w \<Longrightarrow> guest_user (foldl (\<lambda>w l. tell t l w) w ls)" for ls
    by (induction ls arbitrary: w) (simp_all add: tell_guest)
  then show "guest_user w \<Longrightarrow> guest_user (notify t w)" by (simp add: notify_def)
qed

lemma notify_null_status:
  assumes "StoreListener \<in> set (listeners w)"
  shows "wb_status (notify (Some JNull) w) = (if wb_status w = Authenticated then Unauthenticated else wb_status w)"
proof -
  have stay: "wb_status (foldl (\<lambda>w l. tell (Some JNull) l w) w ls) = wb_status w" if "wb_status w \<noteq> Authenticated" for w ls
    using that
  proof (induction ls arbitrary: w)
    case (Cons l ls)
    have "wb_status (tell (Some JNull) l w) = wb_status w" using Cons.prems by (cases l) simp_all
    then show ?case using Cons by simp
  qed simp
  have "wb_status (foldl (\<lambda>w l. tell (Some JNull) l w) w ls)
      = (if wb_status w = Authenticated then Unauthenticated else wb_status w)" if "StoreListener \<in> set ls" for w ls
    using that
  proof (induction ls arbitrary: w)
    case (Cons l ls)
    show ?case
    proof (cases l)
      case StoreListener
      then show ?thesis by (simp add: stay set_store_def)
    next
      case (Subscriber k)
      then show ?thesis using Cons by simp
    qed
  qed simp
  from this [OF assms] show ?thesis by (simp add: notify_def)
qed

text \<open>Memory and \<open>localStorage\<close> hold the same token, as long as the storage works.\<close>

definition token_mirror :: "web \<Rightarrow> bool" where
  "token_mirror w \<longleftrightarrow>
     (\<not> ls_get_throws w \<and> \<not> ls_set_throws w \<and> \<not> ls_remove_throws w \<longrightarrow>
        (case cachedToken w of
           None \<Rightarrow> True
         | Some t \<Rightarrow> t = JNull \<and> ls_token w = None \<or> ls_token w = Some (js_String t)))"

definition session_inv :: "web \<Rightarrow> bool" where
  "session_inv w \<longleftrightarrow> StoreListener \<in> set (listeners w) \<and> guest_user w \<and> token_mirror w"

lemma guest_frame [simp]:
  "guest_user (w\<lparr>cachedToken := c\<rparr>) = guest_user w" "guest_user (w\<lparr>ls_token := l\<rparr>) = guest_user w"
  by (simp_all add: guest_user_def)

lemma mirror_notify [simp]: "token_mirror (notify t w) = token_mirror w"
  by (simp add: token_mirror_def cong: option.case_cong)

lemma inv_set_store [simp]:
  "session_inv w \<Longrightarrow> s = Authenticated \<or> u = Some JNull \<Longrightarrow> session_inv (set_store s u w)"
  by (cases "cachedToken w") (auto simp: session_inv_def guest_user_def token_mirror_def set_store_def)

lemma inv_notify: "session_inv w \<Longrightarrow> session_inv (notify t w)"
  by (simp add: session_inv_def notify_guest)

lemma inv_clearToken [simp]: "session_inv w \<Longrightarrow> session_inv (clearToken w)"
  unfolding clearToken_def Let_def
  by (rule inv_notify) (simp add: session_inv_def token_mirror_def)

lemma inv_setToken [simp]: "session_inv w \<Longrightarrow> session_inv (setToken t w)"
  unfolding setToken_def Let_def
  by (rule inv_notify) (cases t; simp add: session_inv_def token_mirror_def)

lemma inv_getToken: "getToken w = (t, w') \<Longrightarrow> session_inv w \<Longrightarrow> session_inv w'"
  by (auto simp: session_inv_def getToken_def stored_token_def token_mirror_def guest_user_def split: option.splits)

lemma inv_hasToken: "hasToken w = (b, w') \<Longrightarrow> session_inv w \<Longrightarrow> session_inv w'"
  by (auto simp: hasToken_def split: prod.splits dest: inv_getToken)

lemma inv_send: "request_send b m p body an w = (c, t, w') \<Longrightarrow> session_inv w \<Longrightarrow> session_inv w'"
  by (cases an) (auto simp: request_send_def Let_def split: prod.splits dest: inv_getToken)

lemma inv_receive: "request_receive parse t reply w = (r, w') \<Longrightarrow> session_inv w \<Longrightarrow> session_inv w'"
  by (auto simp: request_receive_def Let_def split: fetch_outcome.splits if_splits)

lemma web_of_started [simp]: "ss_web (started c k w s) = w"
  by (simp add: started_def)

lemma inv_requests [simp]:
  assumes "session_inv (ss_web s)"
  shows "session_inv (ss_web (fetchSetupStatus base s))" "session_inv (ss_web (web_login base e p s))"
    "session_inv (ss_web (web_createFirstAdmin base e p s))"
  using assms
  by (auto simp: fetchSetupStatus_def web_login_def web_createFirstAdmin_def apiGet_def apiPost_def
      split: prod.splits dest: inv_send)

lemma inv_fetchCurrentUser [simp]:
  assumes "session_inv (ss_web s)" shows "session_inv (ss_web (fetchCurrentUser base s))"
proof -
  obtain has w where has: "hasToken (ss_web s) = (has, w)" by (cases "hasToken (ss_web s)")
  obtain call t w' where send: "apiGet base ''/auth/me'' False w = (call, t, w')" by (cases "apiGet base ''/auth/me'' False w")
  have "session_inv w" by (rule inv_hasToken [OF has assms])
  moreover from this have "session_inv w'" using send unfolding apiGet_def by (rule inv_send [rotated])
  ultimately show ?thesis by (simp add: fetchCurrentUser_def has send)
qed

lemma inv_deliver:
  assumes "session_inv (ss_web s)"
  shows "session_inv (ss_web (snd (deliver base parse k reply s)))"
proof (cases k)
  case BootSetup
  obtain r w where r: "request_receive parse JNull reply (ss_web s) = (r, w)" by (cases "request_receive parse JNull reply (ss_web s)")
  have "session_inv w" by (rule inv_receive [OF r assms])
  then show ?thesis using BootSetup r by (cases r) (simp_all add: Let_def)
next
  case (BootMe t)
  obtain r w where r: "request_receive parse t reply (ss_web s) = (r, w)" by (cases "request_receive parse t reply (ss_web s)")
  have "session_inv w" by (rule inv_receive [OF r assms])
  then show ?thesis using BootMe r by (cases r) simp_all
next
  case SignIn
  obtain r w where r: "request_receive parse JNull reply (ss_web s) = (r, w)" by (cases "request_receive parse JNull reply (ss_web s)")
  have "session_inv w" by (rule inv_receive [OF r assms])
  then show ?thesis using SignIn r by (cases r) (simp_all add: signed_in_def)
next
  case (SetupCreate e p)
  obtain r w where r: "request_receive parse JNull reply (ss_web s) = (r, w)" by (cases "request_receive parse JNull reply (ss_web s)")
  have "session_inv w" by (rule inv_receive [OF r assms])
  then show ?thesis using SetupCreate r by (cases r) simp_all
next
  case (ApiCall t)
  obtain r w where r: "request_receive parse t reply (ss_web s) = (r, w)" by (cases "request_receive parse t reply (ss_web s)")
  have "session_inv w" by (rule inv_receive [OF r assms])
  then show ?thesis using ApiCall r by (cases r) simp_all
qed

lemma inv_step:
  assumes "session_inv (ss_web s)" shows "session_inv (ss_web (web_step base parse e s))"
proof (cases e)
  case (Call m path body)
  obtain call t w where send: "request_send base m path body False (ss_web s) = (call, t, w)"
    by (cases "request_send base m path body False (ss_web s)")
  show ?thesis using Call send inv_send [OF send assms] by simp
next
  case (Deliver i reply)
  show ?thesis unfolding Deliver web_step.simps
    using assms inv_deliver [of "s\<lparr>ss_inflight := drop_nth i (ss_inflight s)\<rparr>"] by simp
qed (simp_all add: assms signOut_def)

lemma inv_run: "session_inv (ss_web s) \<Longrightarrow> session_inv (ss_web (web_run base parse es s))"
  by (induction es arbitrary: s) (simp_all add: inv_step)

lemma inv_init: "session_inv (ss_web (session_init stored))"
  by (simp add: session_init_def web_init_def session_inv_def guest_user_def token_mirror_def)


subsection \<open>Properties\<close>

text \<open>
  C16. Whatever the user does and whatever replies arrive in whatever order: the administrator controls
  and the user's data are there only while the session is authenticated, and, while the browser's
  storage works, a reload would find the token the page holds in memory.
\<close>

theorem session_consistent:
  assumes "w = ss_web (web_run base parse es (session_init stored))"
  shows "(useIsAdmin w \<longrightarrow> wb_status w = Authenticated) \<and>
         (wb_status w \<noteq> Authenticated \<longrightarrow> wb_user w = Some JNull) \<and>
         (\<forall>t. cachedToken w = Some t \<and> \<not> ls_get_throws w \<and> \<not> ls_set_throws w \<and> \<not> ls_remove_throws w \<longrightarrow>
            t = JNull \<and> ls_token w = None \<or> ls_token w = Some (js_String t))"
proof -
  have "session_inv w" unfolding assms by (rule inv_run [OF inv_init])
  then show ?thesis by (cases "cachedToken w") (auto simp: session_inv_def guest_user_def token_mirror_def useIsAdmin_def)
qed

theorem session_consistent_witness:
  "wb_status (ss_web (web_run None (\<lambda>t. None) [Bootstrap, SignOut] (session_init None))) = Unauthenticated \<and>
   \<not> useIsAdmin (ss_web (web_run None (\<lambda>t. None) [Bootstrap, SignOut] (session_init None)))"
proof -
  have st: "wb_status (ss_web (web_run None (\<lambda>t. None) [Bootstrap, SignOut] (session_init None))) = Unauthenticated"
    by (simp add: signOut_def set_store_def)
  show ?thesis using st session_consistent [OF refl, of None "\<lambda>t. None" "[Bootstrap, SignOut]" None] by simp
qed

text \<open>
  A rejected token ends the session: when a call that carried a token is answered 401, the token is
  gone from memory and storage, the session is no longer authenticated, and a page behind the
  gate becomes the login screen that remembers it. The call's token need not be the current one.
\<close>

theorem rejected_token_ends_session:
  assumes "s = web_run base parse es (session_init stored)"
    and "i < length (ss_inflight s)" "ss_inflight s ! i = ApiCall t" "json_truthy (Some t)"
    and "w = ss_web (web_step base parse (Deliver i (Response 401 text)) s)"
  shows "fst (getToken w) = JNull \<and> (\<not> ls_remove_throws w \<longrightarrow> ls_token w = None) \<and>
         wb_status w \<noteq> Authenticated \<and> \<not> useIsAdmin w \<and>
         (wb_status (ss_web s) = Authenticated \<longrightarrow> RequireAuth here w = Redirect ''/login'' (Some here))"
proof -
  have inv: "session_inv (ss_web s)" unfolding assms(1) by (rule inv_run [OF inv_init])
  have w: "w = clearToken (ss_web s)"
    using assms(2-5) by (simp add: request_receive_def Let_def)
  have "session_inv w" unfolding w using inv by simp
  moreover have "wb_status w = (if wb_status (ss_web s) = Authenticated then Unauthenticated else wb_status (ss_web s))"
    using inv unfolding w clearToken_def session_inv_def Let_def by (subst notify_null_status) simp_all
  moreover have "fst (getToken w) = JNull" "\<not> ls_remove_throws w \<longrightarrow> ls_token w = None"
    by (simp_all add: w clearToken_def Let_def getToken_def)
  ultimately show ?thesis
    by (auto simp: RequireAuth_def session_inv_def guest_user_def useIsAdmin_def)
qed

definition demo_events :: "web_event list" where
  "demo_events = [SubmitLogin ''a'' ''b'', Deliver 0 (Response 200 ''t''), Call GET ''/hosts'' None]"

definition demo_parse :: "string \<Rightarrow> json option" where
  "demo_parse text = Some (JObj [(''accessToken'', JStr ''tok''), (''user'', JObj [(''role'', JStr ''ADMIN'')])])"

lemma demo_session:
  "ss_inflight (web_run None demo_parse demo_events (session_init None)) = [ApiCall (JStr ''tok'')]"
  "wb_status (ss_web (web_run None demo_parse demo_events (session_init None))) = Authenticated"
  by (simp_all add: demo_events_def demo_parse_def session_init_def web_init_def web_login_def apiPost_def
      request_send_def started_def drop_nth_def request_receive_def parseBody_def signed_in_def setToken_def
      notify_def set_store_def getToken_def Let_def)

theorem rejected_token_ends_session_witness:
  "RequireAuth ''/hosts'' (ss_web (web_step None demo_parse (Deliver 0 (Response 401 []))
     (web_run None demo_parse demo_events (session_init None)))) = Redirect ''/login'' (Some ''/hosts'')"
  using rejected_token_ends_session [OF refl _ _ _ refl, of 0 None demo_parse demo_events None "JStr ''tok''" "[]" "''/hosts''"]
  by (simp add: demo_session del: web_step.simps)

definition LoginResult_json :: "LoginResult \<Rightarrow> json" where
  "LoginResult_json r =
     JObj [(''accessToken'', JStr (lr_accessToken r)),
           (''user'', JObj [(''id'', JStr (au_id (lr_user r))), (''email'', JStr (au_email (lr_user r))),
                          (''role'', JStr (role_name (au_role (lr_user r))))])]"

definition as_request :: "fetch_call \<Rightarrow> RequestWithUser" where
  "as_request c =
     \<lparr>rq_authorization = map_option HStr (map_of (fc_headers c) ''Authorization''), rq_url = Some (fc_url c),
      rq_access_token = None\<rparr>"


definition signing_in :: session where
  "signing_in = web_run None demo_parse [SubmitLogin ''a@x.org'' ''password''] (session_init None)"


text \<open>
  A setup whose account was created but whose login failed stays on the setup screen; the login
  screen sends back to it, and the server refuses a second setup.
\<close>

lemma setup_login_failure_strands:
  assumes "wb_status (ss_web s) = SetupRequired" "i < length (ss_inflight s)" "ss_inflight s ! i = SignIn"
    and "s' = web_step base parse (Deliver i (NetworkError m)) s"
  shows "wb_status (ss_web s') = SetupRequired \<and> LoginPage_gate (ss_web s') = Redirect ''/setup'' None \<and>
         SetupPage_gate (ss_web s') = Children"
  using assms by (simp add: request_receive_def LoginPage_gate_def SetupPage_gate_def)

end
