(* ===== verification/ProtocolTypes.thy ===== *)
theory ProtocolTypes
  imports Protocol
begin

section \<open>The protocol's types as predicates on JSON values\<close>

text \<open>
  \<open>packages/protocol/src\<close> and the browser's copies in \<open>apps/web/src/types/api.ts\<close> declare the
  shape of every message and reply as TypeScript types. A type is a \<open>shape\<close> here, \<open>conforms\<close>
  says which JSON values have it (extra properties are allowed, as in TypeScript's structural
  typing; an optional property may be missing).
\<close>

subsection \<open>Shapes\<close>

datatype shape =
    TString
  | TNumber
  | TBoolean
  | TNull
  | TUnknown
  | TNever
  | TLit string
  | TArray shape
  | TTuple "shape list"
  | TRecord shape
  | TObject "property_type list"
  | TUnion "shape list"
and property_type = Req string shape | Opt string shape

fun conforms :: "shape \<Rightarrow> json \<Rightarrow> bool" and property_ok :: "property_type \<Rightarrow> json \<Rightarrow> bool" where
  "conforms TString v = (case v of JStr s \<Rightarrow> True | _ \<Rightarrow> False)"
| "conforms TNumber v = (case v of JNum n \<Rightarrow> True | _ \<Rightarrow> False)"
| "conforms TBoolean v = (case v of JBool b \<Rightarrow> True | _ \<Rightarrow> False)"
| "conforms TNull v = (v = JNull)"
| "conforms TUnknown v = True"
| "conforms TNever v = False"
| "conforms (TLit s) v = (v = JStr s)"
| "conforms (TArray a) v = (case v of JArr ws \<Rightarrow> (\<forall>w\<in>set ws. conforms a w) | _ \<Rightarrow> False)"
| "conforms (TTuple as) v = (case v of JArr ws \<Rightarrow> list_all2 conforms as ws | _ \<Rightarrow> False)"
| "conforms (TRecord a) v = (case v of JObj fs \<Rightarrow> (\<forall>(k, w)\<in>set fs. conforms a w) | _ \<Rightarrow> False)"
| "conforms (TObject ps) v = (isJsonObject (Some v) \<and> (\<forall>p\<in>set ps. property_ok p v))"
| "conforms (TUnion as) v = (\<exists>a\<in>set as. conforms a v)"
| "property_ok (Req k a) v = (case field v k of None \<Rightarrow> False | Some w \<Rightarrow> conforms a w)"
| "property_ok (Opt k a) v = (case field v k of None \<Rightarrow> True | Some w \<Rightarrow> conforms a w)"

text \<open>The intersection \<open>A & B\<close> of two object types.\<close>

fun intersection :: "shape \<Rightarrow> shape \<Rightarrow> shape" where
  "intersection (TObject ps) (TObject qs) = TObject (ps @ qs)"
| "intersection a b = TNever"


lemma conforms_object [simp]:
  "conforms (TObject ps) (JObj fs) \<longleftrightarrow> (\<forall>p\<in>set ps. property_ok p (JObj fs))"
  by (simp add: isJsonObject_iff)

declare conforms.simps(11) [simp del]

lemma conforms_objectE:
  assumes "conforms (TObject ps) v"
  obtains fs where "v = JObj fs" "\<forall>p\<in>set ps. property_ok p v"
  using assms by (auto simp: conforms.simps(11) isJsonObject_iff)

text \<open>A required property of a value of an object type is there, with its type.\<close>

lemma object_field:
  "conforms (TObject ps) v \<Longrightarrow> Req k a \<in> set ps \<Longrightarrow> \<exists>w. field v k = Some w \<and> conforms a w"
  by (erule conforms_objectE, drule (1) bspec) (auto split: option.splits)

lemma conforms_TString: "conforms TString v \<Longrightarrow> \<exists>s. v = JStr s"
  by (cases v) simp_all

lemma object_string:
  "conforms (TObject ps) v \<Longrightarrow> Req k TString \<in> set ps \<Longrightarrow> \<exists>s. field v k = Some (JStr s)"
  by (drule (1) object_field) (blast dest: conforms_TString)

subsection \<open>Agents\<close>

definition JsonObject_type :: shape where
  "JsonObject_type = TRecord TUnknown"

definition AgentRegisterPayload_type :: shape where
  "AgentRegisterPayload_type =
     TObject [Req ''uuid'' TString, Req ''hostname'' TString, Req ''os'' TString,
              Req ''architecture'' TString, Req ''version'' TString]"

definition AgentRegisteredPayload_type :: shape where
  "AgentRegisteredPayload_type =
     TObject [Req ''id'' TString, Req ''uuid'' TString, Req ''status'' TString, Req ''message'' TString]"

definition AgentHeartbeatPayload_type :: shape where
  "AgentHeartbeatPayload_type = TObject [Req ''uuid'' TString]"

subsection \<open>Containers\<close>

definition ContainerListPayload_type :: shape where
  "ContainerListPayload_type = TUnion [TRecord TNever, TRecord TUnknown]"

definition ContainerPort_type :: shape where
  "ContainerPort_type =
     TObject [Req ''private'' TNumber, Req ''public'' TString, Req ''protocol'' TString, Opt ''ip'' TString]"

definition ContainerSummary_type :: shape where
  "ContainerSummary_type =
     TObject [Req ''id'' TString, Req ''name'' TString, Req ''image'' TString, Req ''status'' TString,
              Req ''state'' TString, Req ''ports'' (TArray ContainerPort_type), Req ''created'' TNumber]"

definition ContainerListedPayload_type :: shape where
  "ContainerListedPayload_type = TObject [Req ''containers'' (TArray ContainerSummary_type)]"

definition ContainerMount_type :: shape where
  "ContainerMount_type =
     TObject [Req ''source'' TString, Req ''target'' TString, Req ''mode'' TString]"

definition ContainerState_type :: shape where
  "ContainerState_type =
     TObject [Req ''status'' TString, Req ''running'' TBoolean, Req ''paused'' TBoolean,
              Req ''restarting'' TBoolean]"

definition ContainerNetwork_type :: shape where
  "ContainerNetwork_type =
     TObject [Req ''name'' TString, Req ''ip'' TString, Req ''gateway'' TString,
              Req ''dns'' (TArray TString)]"

definition ContainerInspect_type :: shape where
  "ContainerInspect_type =
     TObject [Req ''id'' TString, Req ''shortId'' TString, Req ''name'' TString, Req ''image'' TString,
              Req ''state'' ContainerState_type, Req ''created'' TString, Req ''startedAt'' TString,
              Req ''ports'' (TArray ContainerPort_type), Req ''mounts'' (TArray ContainerMount_type),
              Req ''networks'' (TArray ContainerNetwork_type), Req ''workingDir'' TString,
              Req ''cmd'' (TArray TString), Req ''restartPolicy'' TString,
              Req ''entrypoint'' (TArray TString), Req ''env'' (TArray TString)]"

definition ContainerAction_type :: shape where
  "ContainerAction_type =
     TUnion [TLit ''start'', TLit ''stop'', TLit ''restart'', TLit ''remove'', TLit ''pause'', TLit ''unpause'']"

definition ContainerCommandPayload_type :: shape where
  "ContainerCommandPayload_type = TObject [Req ''requestId'' TString, Req ''containerId'' TString]"

definition ContainerRemovePayload_type :: shape where
  "ContainerRemovePayload_type =
     intersection ContainerCommandPayload_type (TObject [Opt ''force'' TBoolean])"

definition ContainerInspectPayload_type :: shape where
  "ContainerInspectPayload_type = ContainerCommandPayload_type"

definition ContainerInspectedPayload_type :: shape where
  "ContainerInspectedPayload_type =
     TObject [Req ''requestId'' TString, Req ''container'' (TUnion [ContainerInspect_type, TNull]),
              Req ''ok'' TBoolean, Req ''error'' (TUnion [TString, TNull])]"

definition ContainerResultPayload_type :: shape where
  "ContainerResultPayload_type =
     TObject [Req ''requestId'' TString, Req ''action'' ContainerAction_type, Req ''containerId'' TString,
              Req ''ok'' TBoolean, Req ''message'' TString, Req ''error'' (TUnion [TString, TNull])]"

subsection \<open>Logs and metrics\<close>

definition LogsSubscribePayload_type :: shape where
  "LogsSubscribePayload_type =
     TObject [Req ''requestId'' TString, Req ''containerId'' TString, Opt ''tail'' TNumber,
              Opt ''follow'' TBoolean]"

definition LogsUnsubscribePayload_type :: shape where
  "LogsUnsubscribePayload_type = TObject [Req ''requestId'' TString]"

definition LogStreamName_type :: shape where
  "LogStreamName_type = TUnion [TLit ''stdout'', TLit ''stderr'']"

definition LogEntry_type :: shape where
  "LogEntry_type =
     TObject [Req ''timestamp'' TString, Req ''stream'' (TUnion [LogStreamName_type, TString]),
              Req ''message'' TString]"

definition LogsChunkPayload_type :: shape where
  "LogsChunkPayload_type =
     TObject [Req ''requestId'' TString, Req ''containerId'' TString, Req ''entries'' (TArray LogEntry_type)]"

definition HostCpuMetrics_type :: shape where
  "HostCpuMetrics_type =
     TObject [Req ''usagePercent'' TNumber, Req ''cores'' TNumber,
              Req ''loadAvg'' (TUnion [TTuple [TNumber, TNumber, TNumber], TNull])]"

definition HostMemoryMetrics_type :: shape where
  "HostMemoryMetrics_type =
     TObject [Req ''totalBytes'' TNumber, Req ''usedBytes'' TNumber, Req ''availableBytes'' TNumber,
              Req ''usagePercent'' TNumber]"

definition HostMetricsPayload_type :: shape where
  "HostMetricsPayload_type =
     TObject [Req ''uuid'' TString, Req ''collectedAt'' TString, Req ''cpu'' HostCpuMetrics_type,
              Req ''memory'' HostMemoryMetrics_type]"

subsection \<open>Messages\<close>

text \<open>\<open>MessageEnvelope<typeof T, P>\<close>, the message types it gives, and their unions.\<close>

definition MessageEnvelope_type :: "string \<Rightarrow> shape \<Rightarrow> shape" where
  "MessageEnvelope_type t p = TObject [Req ''type'' (TLit t), Req ''payload'' p]"

definition AgentRegisterMessage_type :: shape where
  "AgentRegisterMessage_type = MessageEnvelope_type AGENT_REGISTER AgentRegisterPayload_type"

definition AgentRegisteredMessage_type :: shape where
  "AgentRegisteredMessage_type = MessageEnvelope_type AGENT_REGISTERED AgentRegisteredPayload_type"

definition AgentHeartbeatMessage_type :: shape where
  "AgentHeartbeatMessage_type = MessageEnvelope_type AGENT_HEARTBEAT AgentHeartbeatPayload_type"

definition ContainerListMessage_type :: shape where
  "ContainerListMessage_type = MessageEnvelope_type CONTAINER_LIST ContainerListPayload_type"

definition ContainerListedMessage_type :: shape where
  "ContainerListedMessage_type = MessageEnvelope_type CONTAINER_LISTED ContainerListedPayload_type"

definition ContainerInspectMessage_type :: shape where
  "ContainerInspectMessage_type = MessageEnvelope_type CONTAINER_INSPECT ContainerInspectPayload_type"

definition ContainerInspectedMessage_type :: shape where
  "ContainerInspectedMessage_type = MessageEnvelope_type CONTAINER_INSPECTED ContainerInspectedPayload_type"

definition ContainerStartMessage_type :: shape where
  "ContainerStartMessage_type = MessageEnvelope_type CONTAINER_START ContainerCommandPayload_type"

definition ContainerRemoveMessage_type :: shape where
  "ContainerRemoveMessage_type = MessageEnvelope_type CONTAINER_REMOVE ContainerRemovePayload_type"

definition ContainerStopMessage_type :: shape where
  "ContainerStopMessage_type = MessageEnvelope_type CONTAINER_STOP ContainerCommandPayload_type"

definition ContainerRestartMessage_type :: shape where
  "ContainerRestartMessage_type = MessageEnvelope_type CONTAINER_RESTART ContainerCommandPayload_type"

definition ContainerPauseMessage_type :: shape where
  "ContainerPauseMessage_type = MessageEnvelope_type CONTAINER_PAUSE ContainerCommandPayload_type"

definition ContainerUnpauseMessage_type :: shape where
  "ContainerUnpauseMessage_type = MessageEnvelope_type CONTAINER_UNPAUSE ContainerCommandPayload_type"

definition ContainerResultMessage_type :: shape where
  "ContainerResultMessage_type = MessageEnvelope_type CONTAINER_RESULT ContainerResultPayload_type"

definition LogsSubscribeMessage_type :: shape where
  "LogsSubscribeMessage_type = MessageEnvelope_type LOGS_SUBSCRIBE LogsSubscribePayload_type"

definition LogsUnsubscribeMessage_type :: shape where
  "LogsUnsubscribeMessage_type = MessageEnvelope_type LOGS_UNSUBSCRIBE LogsUnsubscribePayload_type"

definition LogsChunkMessage_type :: shape where
  "LogsChunkMessage_type = MessageEnvelope_type LOGS_CHUNK LogsChunkPayload_type"

definition HostMetricsMessage_type :: shape where
  "HostMetricsMessage_type = MessageEnvelope_type METRICS_HOST HostMetricsPayload_type"

definition AgentMessage_types :: "shape list" where
  "AgentMessage_types = [AgentRegisterMessage_type, AgentRegisteredMessage_type, AgentHeartbeatMessage_type]"

definition ContainerMessage_types :: "shape list" where
  "ContainerMessage_types =
     [ContainerListMessage_type, ContainerListedMessage_type, ContainerInspectMessage_type,
      ContainerInspectedMessage_type, ContainerStartMessage_type, ContainerStopMessage_type,
      ContainerRestartMessage_type, ContainerResultMessage_type, ContainerRemoveMessage_type,
      ContainerPauseMessage_type, ContainerUnpauseMessage_type]"

definition LogsMessage_types :: "shape list" where
  "LogsMessage_types = [LogsSubscribeMessage_type, LogsUnsubscribeMessage_type, LogsChunkMessage_type]"

definition MetricsMessage_types :: "shape list" where
  "MetricsMessage_types = [HostMetricsMessage_type]"

subsection \<open>Directions\<close>

text \<open>
  The comments on the payload types say which side sends a message; no type is sent by both.
\<close>

definition agent_to_server :: "shape list" where
  "agent_to_server =
     [AgentRegisterMessage_type, AgentHeartbeatMessage_type, ContainerListedMessage_type,
      ContainerInspectedMessage_type, ContainerResultMessage_type, LogsChunkMessage_type,
      HostMetricsMessage_type]"

definition server_to_agent :: "shape list" where
  "server_to_agent =
     [AgentRegisteredMessage_type, ContainerListMessage_type, ContainerInspectMessage_type,
      ContainerStartMessage_type, ContainerStopMessage_type, ContainerRestartMessage_type,
      ContainerRemoveMessage_type, ContainerPauseMessage_type, ContainerUnpauseMessage_type,
      LogsSubscribeMessage_type, LogsUnsubscribeMessage_type]"

lemmas message_defs =
  AgentRegisterMessage_type_def AgentRegisteredMessage_type_def AgentHeartbeatMessage_type_def
  ContainerListMessage_type_def ContainerListedMessage_type_def ContainerInspectMessage_type_def
  ContainerInspectedMessage_type_def ContainerStartMessage_type_def ContainerRemoveMessage_type_def
  ContainerStopMessage_type_def ContainerRestartMessage_type_def ContainerPauseMessage_type_def
  ContainerUnpauseMessage_type_def ContainerResultMessage_type_def LogsSubscribeMessage_type_def
  LogsUnsubscribeMessage_type_def LogsChunkMessage_type_def HostMetricsMessage_type_def

lemmas payload_defs =
  AgentRegisterPayload_type_def AgentRegisteredPayload_type_def AgentHeartbeatPayload_type_def
  ContainerListPayload_type_def ContainerListedPayload_type_def ContainerCommandPayload_type_def
  ContainerRemovePayload_type_def ContainerInspectPayload_type_def ContainerInspectedPayload_type_def
  ContainerResultPayload_type_def LogsSubscribePayload_type_def LogsUnsubscribePayload_type_def
  LogsChunkPayload_type_def HostMetricsPayload_type_def

lemma envelope_conforms [simp]:
  "conforms (MessageEnvelope_type t p) (MessageEnvelope_json e) \<longleftrightarrow> env_type e = t \<and> conforms p (env_payload e)"
  by (auto simp: MessageEnvelope_type_def MessageEnvelope_json_def)

lemma envelope_conformsE:
  assumes "conforms (MessageEnvelope_type t p) v"
  obtains payload where "field v ''type'' = Some (JStr t)" "field v ''payload'' = Some payload" "conforms p payload"
  using assms unfolding MessageEnvelope_type_def
  by (elim conforms_objectE) (auto split: option.splits)

lemma record_conforms [simp]: "conforms (TRecord TUnknown) (JObj fs)"
  by auto

text \<open>A message that conforms passes the envelope guard.\<close>

lemma message_is_envelope:
  assumes "conforms (TUnion (agent_to_server @ server_to_agent)) v"
  shows "isMessageEnvelope v"
proof -
  obtain t p where tp: "conforms (MessageEnvelope_type t p) v"
    and p: "p = ContainerListPayload_type \<or> (\<exists>ps. p = TObject ps)"
    using assms by (auto simp: agent_to_server_def server_to_agent_def message_defs payload_defs)
  then obtain payload where "field v ''type'' = Some (JStr t)" "field v ''payload'' = Some payload"
    "conforms p payload"
    by (elim envelope_conformsE)
  moreover have "isJsonObject (Some payload)"
    using p calculation(3)
    by (auto simp: ContainerListPayload_type_def isJsonObject_iff split: json.splits elim: conforms_objectE)
  moreover have "isJsonObject (Some v)"
    using tp by (auto simp: MessageEnvelope_type_def isJsonObject_iff elim: conforms_objectE)
  ultimately show ?thesis by (simp add: isMessageEnvelope_def)
qed

subsection \<open>The browser's types\<close>

text \<open>\<open>apps/web/src/types/api.ts\<close>; \<open>Port\<close> and \<open>Container\<close> are the protocol's types.\<close>

definition HostStatus_type :: shape where
  "HostStatus_type = TUnion [TLit ''ONLINE'', TLit ''OFFLINE'', TLit ''UNKNOWN'', TString]"

definition web_HostCpuMetrics_type :: shape where
  "web_HostCpuMetrics_type =
     TObject [Req ''usagePercent'' TNumber, Req ''cores'' TNumber,
              Req ''loadAvg'' (TUnion [TTuple [TNumber, TNumber, TNumber], TNull])]"

definition web_HostMemoryMetrics_type :: shape where
  "web_HostMemoryMetrics_type =
     TObject [Req ''totalBytes'' TNumber, Req ''usedBytes'' TNumber, Req ''availableBytes'' TNumber,
              Req ''usagePercent'' TNumber]"

definition HostMetricsResponse_type :: shape where
  "HostMetricsResponse_type =
     TObject [Req ''hostId'' TString, Req ''cpu'' (TUnion [web_HostCpuMetrics_type, TNull]),
              Req ''memory'' (TUnion [web_HostMemoryMetrics_type, TNull]),
              Req ''collectedAt'' (TUnion [TString, TNull])]"

definition Host_type :: shape where
  "Host_type =
     TObject [Req ''id'' TString, Req ''uuid'' TString, Req ''hostname'' TString,
              Opt ''displayName'' TString, Req ''os'' TString, Req ''architecture'' TString,
              Req ''version'' TString, Req ''status'' HostStatus_type,
              Req ''lastSeen'' (TUnion [TString, TNull]), Req ''metrics'' HostMetricsResponse_type]"

definition HostContainersResponse_type :: shape where
  "HostContainersResponse_type =
     TObject [Req ''hostId'' TString, Req ''containers'' (TArray ContainerSummary_type),
              Req ''updatedAt'' (TUnion [TString, TNull])]"

definition web_ContainerAction_type :: shape where
  "web_ContainerAction_type =
     TUnion [TLit ''start'', TLit ''stop'', TLit ''restart'', TLit ''remove'', TLit ''pause'', TLit ''unpause'']"

definition ContainerActionResult_type :: shape where
  "ContainerActionResult_type =
     TObject [Req ''requestId'' TString, Req ''action'' web_ContainerAction_type, Req ''containerId'' TString,
              Req ''ok'' TBoolean, Req ''message'' TString, Req ''error'' (TUnion [TString, TNull])]"

definition web_ContainerMount_type :: shape where
  "web_ContainerMount_type =
     TObject [Req ''source'' TString, Req ''target'' TString, Req ''mode'' TString]"

definition ContainerStateDetails_type :: shape where
  "ContainerStateDetails_type =
     TObject [Req ''status'' TString, Req ''running'' TBoolean, Req ''paused'' TBoolean,
              Req ''restarting'' TBoolean]"

definition web_ContainerNetwork_type :: shape where
  "web_ContainerNetwork_type =
     TObject [Req ''name'' TString, Req ''ip'' TString, Req ''gateway'' TString,
              Req ''dns'' (TArray TString)]"

definition web_ContainerInspect_type :: shape where
  "web_ContainerInspect_type =
     TObject [Req ''id'' TString, Req ''shortId'' TString, Req ''name'' TString, Req ''image'' TString,
              Req ''state'' ContainerStateDetails_type, Req ''created'' TString, Req ''startedAt'' TString,
              Req ''ports'' (TArray ContainerPort_type), Req ''mounts'' (TArray web_ContainerMount_type),
              Req ''networks'' (TArray web_ContainerNetwork_type), Req ''workingDir'' TString,
              Req ''cmd'' (TArray TString), Req ''restartPolicy'' TString,
              Req ''entrypoint'' (TArray TString), Req ''env'' (TArray TString)]"

definition ContainerInspectResult_type :: shape where
  "ContainerInspectResult_type =
     TObject [Req ''requestId'' TString, Req ''container'' (TUnion [web_ContainerInspect_type, TNull]),
              Req ''ok'' TBoolean, Req ''error'' (TUnion [TString, TNull])]"

definition web_LogEntry_type :: shape where
  "web_LogEntry_type =
     TObject [Req ''timestamp'' TString, Req ''stream'' TString, Req ''message'' TString]"

text \<open>
  The browser's copies agree with the protocol: the same object types, and the same log entries under
  another name of their type.
\<close>

lemmas browser_copies =
  web_HostCpuMetrics_type_def web_HostMemoryMetrics_type_def web_ContainerAction_type_def
  web_ContainerMount_type_def ContainerStateDetails_type_def web_ContainerNetwork_type_def
  web_ContainerInspect_type_def HostCpuMetrics_type_def HostMemoryMetrics_type_def
  ContainerAction_type_def ContainerMount_type_def ContainerState_type_def ContainerNetwork_type_def
  ContainerInspect_type_def

lemma browser_copies_agree:
  "web_HostCpuMetrics_type = HostCpuMetrics_type" "web_HostMemoryMetrics_type = HostMemoryMetrics_type"
  "web_ContainerAction_type = ContainerAction_type" "web_ContainerInspect_type = ContainerInspect_type"
  "ContainerActionResult_type = ContainerResultPayload_type"
  "ContainerInspectResult_type = ContainerInspectedPayload_type"
  by (simp_all add: browser_copies ContainerActionResult_type_def ContainerResultPayload_type_def
      ContainerInspectResult_type_def ContainerInspectedPayload_type_def)

lemma log_entries_agree: "conforms web_LogEntry_type v = conforms LogEntry_type v"
  by (cases v) (auto simp: web_LogEntry_type_def LogEntry_type_def LogStreamName_type_def conforms.simps(11)
      isJsonObject_iff split: option.splits json.splits)

end
