(* ===== verification/GatewayTyping.thy ===== *)
theory GatewayTyping
  imports ProtocolTypes GatewayExample
begin

section \<open>The frames of the gateway have the protocol's types\<close>

text \<open>
  What the gateway sends: in every reachable state every frame on every socket is a message the
  protocol sends from server to agent, with the payload type the protocol gives it. One reply
  escapes: a registration that is turned down is answered with the uuid it came with, which may be
  any JSON value. What the gateway hands on of the frames of an agent that keeps to the protocol
  is typed too.
\<close>

subsection \<open>Frames sent\<close>

fun sent_ok :: "effect \<Rightarrow> bool" where
  "sent_ok (Sent s e) =
     (conforms (TUnion server_to_agent) (MessageEnvelope_json e) \<or>
      (\<exists>u. e = registered_envelope u ''Invalid registration payload'' \<and> \<not> conforms TString u))"
| "sent_ok e = True"

definition all_effects :: "(effect \<Rightarrow> bool) \<Rightarrow> gateway \<Rightarrow> bool" where
  "all_effects P g \<longleftrightarrow> (\<forall>e\<in>set (effects g). P e)"

lemma all_effects_init [simp]: "all_effects P (gateway_init t)"
  by (simp add: all_effects_def gateway_init_def)

lemma all_effects_cong: "effects g' = effects g \<Longrightarrow> all_effects P g' = all_effects P g"
  by (simp add: all_effects_def)

lemma all_effects_emit [simp]: "all_effects P (emit e g) \<longleftrightarrow> P e \<and> all_effects P g"
  by (auto simp: all_effects_def emit_def)

lemma all_effects_settle [simp]: "all_effects P (settle p s g) \<longleftrightarrow> P (Settled p s) \<and> all_effects P g"
  by (simp add: settle_def)

lemma all_effects_send [intro]: "P (Sent s e) \<Longrightarrow> all_effects P g \<Longrightarrow> all_effects P (send s e g)"
  by (simp add: send_def)

lemma all_effects_updates [simp]:
  "all_effects P (g\<lparr>sockets := a\<rparr>) = all_effects P g"
  "all_effects P (g\<lparr>socketsByUuid := b\<rparr>) = all_effects P g"
  "all_effects P (g\<lparr>pendingLists := c\<rparr>) = all_effects P g"
  "all_effects P (g\<lparr>pendingCommands := d\<rparr>) = all_effects P g"
  "all_effects P (g\<lparr>pendingInspects := e\<rparr>) = all_effects P g"
  "all_effects P (g\<lparr>logSubscribers := f\<rparr>) = all_effects P g"
  "all_effects P (g\<lparr>inventory := i\<rparr>) = all_effects P g"
  "all_effects P (g\<lparr>hostMetrics := h\<rparr>) = all_effects P g"
  "all_effects P (g\<lparr>agents := j\<rparr>) = all_effects P g"
  "all_effects P (g\<lparr>timers := k\<rparr>) = all_effects P g"
  "all_effects P (g\<lparr>registering := l\<rparr>) = all_effects P g"
  "all_effects P (g\<lparr>unhandled := m\<rparr>) = all_effects P g"
  "all_effects P (g\<lparr>uuidDraws := n1\<rparr>) = all_effects P g"
  "all_effects P (g\<lparr>nextTimer := n2\<rparr>) = all_effects P g"
  "all_effects P (g\<lparr>nextPromise := n3\<rparr>) = all_effects P g"
  by (simp_all add: all_effects_def)

lemma all_effects_small [simp]:
  "all_effects P (set_socket s c g) = all_effects P g"
  "all_effects P (clearTimeout t g) = all_effects P g"
  "all_effects P (reject_unhandled x g) = all_effects P g"
  "all_effects P (remember_inventory h u g) = all_effects P g"
  "all_effects P (drop_registering q g) = all_effects P g"
  "all_effects P (close_socket s g) = all_effects P g"
  "all_effects P (unsubscribeLogsForAgent u g) = all_effects P g"
  by (simp_all add: set_socket_def clearTimeout_def reject_unhandled_def remember_inventory_def
      drop_registering_def close_socket_def unsubscribeLogsForAgent_def
      all_effects_cong [of "dropSubscribers u es g" g for u es g])

subsection \<open>The frames of every operation\<close>

text \<open>\<open>tail\<close> and \<open>follow\<close> are always present: the gateway fills in the defaults.\<close>

lemma frame_types:
  "conforms (TUnion server_to_agent) (MessageEnvelope_json (createEnvelope CONTAINER_LIST (JObj [])))"
  "conforms (TUnion server_to_agent) (MessageEnvelope_json (createEnvelope AGENT_REGISTERED (AgentRegisteredPayload_json r)))"
  "conforms (TUnion server_to_agent) (MessageEnvelope_json (createEnvelope (COMMAND_TYPE a) (command_payload a rid c f)))"
  "conforms (TUnion server_to_agent) (MessageEnvelope_json (createEnvelope CONTAINER_INSPECT
     (JObj [(''requestId'', JStr rid), (''containerId'', JStr c)])))"
  "conforms (TUnion server_to_agent) (MessageEnvelope_json (createEnvelope LOGS_SUBSCRIBE
     (JObj [(''requestId'', JStr rid), (''containerId'', JStr c), (''tail'', JNum t), (''follow'', JBool w)])))"
  "conforms (TUnion server_to_agent) (MessageEnvelope_json (createEnvelope LOGS_UNSUBSCRIBE (JObj [(''requestId'', JStr rid)])))"
  "conforms (TUnion server_to_agent) (MessageEnvelope_json (registered_envelope (JStr u) m))"
  by (cases a; simp add: server_to_agent_def message_defs payload_defs createEnvelope_def message_type_defs
      command_payload_def AgentRegisteredPayload_json_def registered_envelope_def)+

text \<open>
  A policy on what becomes visible that typed frames and the settlements the gateway makes by
  itself satisfy: everything but the agents' answers keeps it.
\<close>

locale effect_policy =
  fixes P :: "effect \<Rightarrow> bool"
  assumes listed: "P (Settled p (ListResolved cs))"
    and command_rejected: "P (Settled p (CommandRejected m))"
    and inspect_rejected: "P (Settled p (InspectRejected m))"
    and typed_frame: "conforms (TUnion server_to_agent) (MessageEnvelope_json e) \<Longrightarrow> P (Sent s e)"
begin

lemmas frames =
  typed_frame [OF frame_types(1)] typed_frame [OF frame_types(2)] typed_frame [OF frame_types(3)]
  typed_frame [OF frame_types(4)] typed_frame [OF frame_types(5)] typed_frame [OF frame_types(6)]
  typed_frame [OF frame_types(7)]

lemma resolvePendingList_keeps [simp, intro]:
  "all_effects P g \<Longrightarrow> all_effects P (resolvePendingList u cs g)"
  by (simp add: resolvePendingList_def Let_def listed split: option.split)

lemma rejectCommands_keeps: "all_effects P g \<Longrightarrow> all_effects P (rejectCommands u m es g)"
  by (induction u m es g rule: rejectCommands.induct) (simp_all add: Let_def command_rejected)

lemma rejectInspects_keeps: "all_effects P g \<Longrightarrow> all_effects P (rejectInspects u m es g)"
  by (induction u m es g rule: rejectInspects.induct) (simp_all add: Let_def inspect_rejected)

lemma disconnect_keeps: "all_effects P g \<Longrightarrow> all_effects P (handleDisconnect rt s g)"
  by (auto simp: handleDisconnect_def Let_def rejectPendingCommandsForAgent_def rejectPendingInspectsForAgent_def
      rejectCommands_keeps rejectInspects_keeps split: option.split)

lemma connect_keeps: "all_effects P g \<Longrightarrow> all_effects P (handleConnection s g)"
  by (simp add: handleConnection_def)

lemma resume_keeps: "all_effects P g \<Longrightarrow> all_effects P (resumeRegister s r g)"
  unfolding resumeRegister_def Let_def
  by (intro all_effects_send frames) simp

lemma timer_keeps:
  assumes "all_effects P g"
  shows "all_effects P (fire_timer t g)"
proof (cases "map_get (timers g) t")
  case None
  then show ?thesis using assms by (simp add: fire_timer_def)
next
  case (Some cb)
  then show ?thesis
    using assms by (cases cb) (simp_all add: fire_timer_def Let_def listed command_rejected inspect_rejected)
qed

lemma request_list_keeps:
  "all_effects P g \<Longrightarrow> requestContainerList u h g = (rep, g') \<Longrightarrow> all_effects P g'"
  by (auto simp: requestContainerList_def Let_def newPromise_def setTimeout_def frames
      split: option.splits intro!: all_effects_send)

lemma command_keeps:
  "all_effects P g \<Longrightarrow> sendContainerCommand rt u h a c f g = (res, g') \<Longrightarrow> all_effects P g'"
  by (auto simp: sendContainerCommand_def Let_def newPromise_def setTimeout_def randomUUID_def frames
      split: option.splits intro!: all_effects_send)

lemma inspect_keeps:
  "all_effects P g \<Longrightarrow> inspectContainer rt u h c g = (res, g') \<Longrightarrow> all_effects P g'"
  by (auto simp: inspectContainer_def Let_def newPromise_def setTimeout_def randomUUID_def frames
      split: option.splits intro!: all_effects_send)

lemma start_logs_keeps:
  "all_effects P g \<Longrightarrow> startLogStream rt u h c tail follow sink g = (rid, g') \<Longrightarrow> all_effects P g'"
  by (auto simp: startLogStream_def Let_def randomUUID_def frames
      split: option.splits intro!: all_effects_send)

lemma stop_logs_keeps: "all_effects P g \<Longrightarrow> all_effects P (stopLogStream rid g)"
  by (auto simp: stopLogStream_def Let_def frames split: option.splits intro!: all_effects_send)

lemmas keeps = connect_keeps disconnect_keeps resume_keeps timer_keeps request_list_keeps command_keeps
  inspect_keeps start_logs_keeps stop_logs_keeps

text \<open>Frames that are not answers: heartbeats, reports, samples, and text that is not JSON.\<close>

lemma heartbeat_keeps: "all_effects P g \<Longrightarrow> all_effects P (handleHeartbeat rt now s p g)"
  by (auto simp: handleHeartbeat_def Let_def split: option.split sum.split)

lemma listed_keeps: "all_effects P g \<Longrightarrow> all_effects P (handleContainerListed now s p g)"
  by (auto simp: handleContainerListed_def Let_def)

lemma metrics_keeps: "all_effects P g \<Longrightarrow> all_effects P (handleHostMetrics rt now s p g)"
  by (auto simp: handleHostMetrics_def Let_def split: option.split)

lemma invalid_json_keeps:
  "all_effects P g \<Longrightarrow> all_effects P (send s (registered_envelope (JStr []) m) g)"
  by (intro all_effects_send frames)

end

interpretation sent: effect_policy sent_ok
  by unfold_locales auto

lemma register_sent_ok: "all_effects sent_ok g \<Longrightarrow> all_effects sent_ok (handleRegister rt now s p g)"
proof -
  assume g: "all_effects sent_ok g"
  let ?u = "json_nullish (field p ''uuid'') (JStr [])"
  have "sent_ok (Sent s (registered_envelope ?u ''Invalid registration payload''))"
  proof (cases "conforms TString ?u")
    case True
    then obtain u where "?u = JStr u" by (auto split: json.splits)
    then show ?thesis using sent.frames(7) by simp
  qed auto
  then show ?thesis
    using g by (auto simp: handleRegister_def simp del: sent_ok.simps split: option.split sum.split)
qed

lemma answers_sent_ok:
  "all_effects sent_ok g \<Longrightarrow> all_effects sent_ok (handleContainerResult p g)"
  "all_effects sent_ok g \<Longrightarrow> all_effects sent_ok (handleContainerInspected p g)"
  "all_effects sent_ok g \<Longrightarrow> all_effects sent_ok (handleLogsChunk p g)"
  by (simp_all add: handleContainerResult_def handleContainerInspected_def handleLogsChunk_def Let_def split: option.split)

lemma message_sent_ok: "all_effects sent_ok g \<Longrightarrow> all_effects sent_ok (handleMessage rt now s d g)"
  unfolding handleMessage_def dispatch_def
  by (auto split: option.split json.split
      intro: sent.invalid_json_keeps register_sent_ok sent.heartbeat_keeps sent.listed_keeps answers_sent_ok
        sent.metrics_keeps)

lemma step_sent_ok: "gateway_step rt g g' \<Longrightarrow> all_effects sent_ok g \<Longrightarrow> all_effects sent_ok g'"
  by (induction rule: gateway_step.induct) (auto intro: sent.keeps message_sent_ok)

text \<open>
  C6. Every frame the gateway sends, in any state it can reach, is a message that the protocol sends from
  server to agent, with exactly the fields and the types that the protocol declares for it. The one
  exception is the refusal of an invalid registration, which repeats the uuid it was sent: that frame is
  not of its declared type when this uuid was not a string.
\<close>

theorem sent_frames_conform:
  assumes "gateway_reachable rt t0 g" "Sent s e \<in> set (effects g)"
  shows "conforms (TUnion server_to_agent) (MessageEnvelope_json e) \<or>
         (\<exists>u. e = registered_envelope u ''Invalid registration payload'' \<and> \<not> conforms TString u)"
proof -
  have "all_effects sent_ok g"
    using assms(1) by (induction rule: gateway_reachable.induct) (auto intro: step_sent_ok)
  then show ?thesis using assms(2) by (force simp: all_effects_def)
qed

lemma demo_command_sent:
  "Sent 0 (createEnvelope CONTAINER_STOP (command_payload Stop ''r'' ''c1'' False)) \<in> set (effects demo_commanded)"
  by code_simp

theorem sent_frames_conform_witness:
  "conforms (TUnion server_to_agent)
     (MessageEnvelope_json (createEnvelope CONTAINER_STOP (command_payload Stop ''r'' ''c1'' False)))"
  using sent_frames_conform [OF demo_reachable_commanded demo_command_sent]
  by (simp add: registered_envelope_def createEnvelope_def message_type_defs del: conforms.simps)

text \<open>The exception occurs: a registration whose uuid is the number 5 and that names no host.\<close>

definition odd_registration :: json where
  "odd_registration = JObj [(''uuid'', JNum (js_int 5))]"

lemma refusal_repeats_any_uuid:
  "effects (handleRegister demo_rt 0 0 odd_registration demo_connected) =
     [Sent 0 (registered_envelope (JNum (js_int 5)) ''Invalid registration payload'')] \<and>
   \<not> conforms (TUnion server_to_agent)
      (MessageEnvelope_json (registered_envelope (JNum (js_int 5)) ''Invalid registration payload''))"
  by code_simp

end
