(* ===== verification/TypedAgents.thy ===== *)
theory TypedAgents
  imports GatewayTyping HostsApi
begin

section \<open>Agents that keep to the protocol, and the types the browser relies on\<close>

text \<open>
  The gateway copies most of an agent's answers unread, and TypeScript's types are gone at run time.
  This theory shows where they still hold: when every frame an agent sends has its declared type, then
  everything the gateway hands to the HTTP side, and every row of \<open>GET /hosts\<close>, has the type that
  \<open>apps/web/src/types/api.ts\<close> declares for it.
\<close>

subsection \<open>Replies as JSON\<close>

text \<open>\<open>JSON.stringify\<close> leaves out a property whose value is \<open>undefined\<close>.\<close>

definition optional :: "string \<Rightarrow> json option \<Rightarrow> (string \<times> json) list" where
  "optional k v = (case v of None \<Rightarrow> [] | Some w \<Rightarrow> [(k, w)])"

definition or_null :: "('a \<Rightarrow> json) \<Rightarrow> 'a option \<Rightarrow> json" where
  "or_null f v = (case v of None \<Rightarrow> JNull | Some x \<Rightarrow> f x)"

definition ContainerResultPayload_json :: "ContainerResultPayload \<Rightarrow> json" where
  "ContainerResultPayload_json r =
     JObj ([(''requestId'', JStr (res_requestId r))] @ optional ''action'' (res_action r) @
           optional ''containerId'' (res_containerId r) @
           [(''ok'', JBool (res_ok r)), (''message'', res_message r), (''error'', res_error r)])"

definition ContainerInspectedPayload_json :: "ContainerInspectedPayload \<Rightarrow> json" where
  "ContainerInspectedPayload_json r =
     JObj [(''requestId'', JStr (ins_requestId r)), (''container'', ins_container r),
           (''ok'', JBool (ins_ok r)), (''error'', ins_error r)]"

definition chunk_json :: "LogsChunkPayload \<Rightarrow> json" where
  "chunk_json p =
     JObj ([(''requestId'', JStr (chunk_requestId p))] @
           (case chunk_containerId p of None \<Rightarrow> [] | Some c \<Rightarrow> [(''containerId'', c)]) @
           [(''entries'', JArr (chunk_entries p))])"

definition HostMetricsDto_json :: "HostMetricsDto \<Rightarrow> json" where
  "HostMetricsDto_json d =
     JObj [(''hostId'', JStr (md_hostId d)), (''cpu'', or_null id (md_cpu d)),
           (''memory'', or_null id (md_memory d)), (''collectedAt'', or_null JStr (md_collectedAt d))]"

definition HostDto_json :: "HostDto \<Rightarrow> json" where
  "HostDto_json d =
     JObj [(''id'', JStr (hd_id d)), (''uuid'', JStr (hd_uuid d)), (''hostname'', JStr (hd_hostname d)),
           (''displayName'', JStr (hd_displayName d)), (''os'', JStr (hd_os d)),
           (''architecture'', JStr (hd_architecture d)), (''version'', JStr (hd_version d)),
           (''status'', JStr (hd_status d)), (''lastSeen'', or_null JStr (hd_lastSeen d)),
           (''metrics'', HostMetricsDto_json (hd_metrics d))]"

definition HostContainersDto_json :: "HostContainersDto \<Rightarrow> json" where
  "HostContainersDto_json d =
     JObj [(''hostId'', JStr (hc_hostId d)),
           (''containers'', JArr (map ContainerSummary_json (hc_containers d))),
           (''updatedAt'', or_null JStr (hc_updatedAt d))]"

subsection \<open>What is handed on\<close>

fun typed_effect :: "effect \<Rightarrow> bool" where
  "typed_effect (Sent s e) = conforms (TUnion server_to_agent) (MessageEnvelope_json e)"
| "typed_effect (Settled p (ListResolved cs)) =
     conforms (TArray ContainerSummary_type) (JArr (map ContainerSummary_json cs))"
| "typed_effect (Settled p (CommandResolved r)) =
     conforms ContainerActionResult_type (ContainerResultPayload_json r)"
| "typed_effect (Settled p (InspectResolved r)) =
     conforms ContainerInspectResult_type (ContainerInspectedPayload_json r)"
| "typed_effect (Settled p (CommandRejected m)) = True"
| "typed_effect (Settled p (InspectRejected m)) = True"
| "typed_effect (Chunk k c) = conforms LogsChunkPayload_type (chunk_json c)"

definition typed_snapshots :: "gateway \<Rightarrow> bool" where
  "typed_snapshots g \<longleftrightarrow>
     (\<forall>m\<in>snd ` set (met_byHostId (hostMetrics g)).
        conforms HostCpuMetrics_type (ms_cpu m) \<and> conforms HostMemoryMetrics_type (ms_memory m))"

text \<open>A frame of an agent that keeps to the protocol; text that is not JSON is no message.\<close>

definition typed_data :: "runtime \<Rightarrow> RawData \<Rightarrow> bool" where
  "typed_data rt data =
     (case rt_jsonParse rt (decodeRawData data) of
        None \<Rightarrow> True
      | Some v \<Rightarrow> conforms (TUnion agent_to_server) v)"

lemma port_conforms [simp]: "conforms ContainerPort_type (ContainerPort_json p)"
  by (cases "port_ip p") (simp_all add: ContainerPort_type_def ContainerPort_json_def)

lemma summary_conforms [simp]: "conforms ContainerSummary_type (ContainerSummary_json c)"
  by (simp add: ContainerSummary_type_def ContainerSummary_json_def)

interpretation typed: effect_policy typed_effect
  by unfold_locales (auto simp del: conforms.simps(12))

text \<open>A value that conforms to one of the payload types keeps its fields through \<open>??\<close>.\<close>

lemma object_not_null: "conforms (TObject ps) w \<Longrightarrow> json_nullish (Some w) d = w"
  by (auto elim: conforms_objectE)

lemma nullish_null: "json_nullish (Some w) JNull = w"
  by (cases w) simp_all

lemma result_typed:
  assumes p: "conforms ContainerResultPayload_type p" and g: "all_effects typed_effect g"
  shows "all_effects typed_effect (handleContainerResult p g)"
proof -
  note ok = p [unfolded ContainerResultPayload_type_def]
  obtain r where r: "field p ''requestId'' = Some (JStr r)"
    using object_string [OF ok, of "''requestId''"] by auto
  obtain a where a: "field p ''action'' = Some a" "conforms ContainerAction_type a"
    using object_field [OF ok, of "''action''" "ContainerAction_type"] by (auto simp del: conforms.simps)
  obtain c where c: "field p ''containerId'' = Some (JStr c)"
    using object_string [OF ok, of "''containerId''"] by auto
  obtain m where m: "field p ''message'' = Some (JStr m)"
    using object_string [OF ok, of "''message''"] by auto
  obtain e where e: "field p ''error'' = Some e" "conforms (TUnion [TString, TNull]) e"
    using object_field [OF ok, of "''error''" "(TUnion [TString, TNull])"] by (auto simp del: conforms.simps)
  have "conforms ContainerActionResult_type (ContainerResultPayload_json
          \<lparr>res_requestId = r, res_action = field p ''action'', res_containerId = field p ''containerId'',
           res_ok = ok, res_message = json_nullish (field p ''message'') (JStr ''''),
           res_error = json_nullish (field p ''error'') JNull\<rparr>)" for ok
    unfolding ContainerActionResult_type_def ContainerResultPayload_json_def a(1) c m e(1) nullish_null
    using a(2) e(2) by (simp add: optional_def browser_copies_agree del: conforms.simps(12))
  then show ?thesis
    using g by (simp add: handleContainerResult_def r Let_def split: option.split)
qed

lemma inspected_typed:
  assumes p: "conforms ContainerInspectedPayload_type p" and g: "all_effects typed_effect g"
  shows "all_effects typed_effect (handleContainerInspected p g)"
proof -
  note ok = p [unfolded ContainerInspectedPayload_type_def]
  obtain r where r: "field p ''requestId'' = Some (JStr r)"
    using object_string [OF ok, of "''requestId''"] by auto
  obtain c where c: "field p ''container'' = Some c" "conforms (TUnion [ContainerInspect_type, TNull]) c"
    using object_field [OF ok, of "''container''" "(TUnion [ContainerInspect_type, TNull])"] by (auto simp del: conforms.simps)
  obtain e where e: "field p ''error'' = Some e" "conforms (TUnion [TString, TNull]) e"
    using object_field [OF ok, of "''error''" "(TUnion [TString, TNull])"] by (auto simp del: conforms.simps)
  have "conforms ContainerInspectResult_type (ContainerInspectedPayload_json
          \<lparr>ins_requestId = r, ins_container = json_nullish (field p ''container'') JNull,
           ins_ok = ok, ins_error = json_nullish (field p ''error'') JNull\<rparr>)" for ok
    unfolding ContainerInspectResult_type_def ContainerInspectedPayload_json_def c(1) e(1) nullish_null
    using c(2) e(2) by (simp add: browser_copies_agree del: conforms.simps(12))
  then show ?thesis
    using g by (simp add: handleContainerInspected_def r Let_def split: option.split)
qed

lemma chunk_typed:
  assumes p: "conforms LogsChunkPayload_type p" and g: "all_effects typed_effect g"
  shows "all_effects typed_effect (handleLogsChunk p g)"
proof -
  note ok = p [unfolded LogsChunkPayload_type_def]
  obtain r where r: "field p ''requestId'' = Some (JStr r)"
    using object_string [OF ok, of "''requestId''"] by auto
  obtain c where c: "field p ''containerId'' = Some (JStr c)"
    using object_string [OF ok, of "''containerId''"] by auto
  obtain w where "field p ''entries'' = Some w" "conforms (TArray LogEntry_type) w"
    using object_field [OF ok, of "''entries''" "(TArray LogEntry_type)"] by (auto simp del: conforms.simps)
  then obtain es where es: "field p ''entries'' = Some (JArr es)" "\<forall>x\<in>set es. conforms LogEntry_type x"
    by (auto split: json.splits)
  have "conforms LogsChunkPayload_type (chunk_json
          \<lparr>chunk_requestId = r, chunk_containerId = field p ''containerId'',
           chunk_entries = (case field p ''entries'' of Some (JArr es) \<Rightarrow> es | _ \<Rightarrow> [])\<rparr>)"
    using c es by (simp add: LogsChunkPayload_type_def chunk_json_def)
  then show ?thesis
    using g by (simp add: handleLogsChunk_def r Let_def split: option.split)
qed

text \<open>A registration that conforms and is refused is refused with a uuid that is a string.\<close>

lemma register_typed:
  assumes p: "conforms AgentRegisterPayload_type p" and g: "all_effects typed_effect g"
  shows "all_effects typed_effect (handleRegister rt now s p g)"
proof -
  obtain u where u: "field p ''uuid'' = Some (JStr u)"
    using object_string [OF p [unfolded AgentRegisterPayload_type_def], of "''uuid''"] by auto
  have "all_effects typed_effect (send s (registered_envelope (JStr u) m) g)" for m
    using g by (intro all_effects_send typed.frames)
  then show ?thesis
    using g by (auto simp: handleRegister_def u split: option.split sum.split)
qed

text \<open>The seven messages an agent sends, with their payloads.\<close>

definition agent_payloads :: "(string \<times> shape) list" where
  "agent_payloads =
     [(AGENT_REGISTER, AgentRegisterPayload_type), (AGENT_HEARTBEAT, AgentHeartbeatPayload_type),
      (CONTAINER_LISTED, ContainerListedPayload_type), (CONTAINER_INSPECTED, ContainerInspectedPayload_type),
      (CONTAINER_RESULT, ContainerResultPayload_type), (LOGS_CHUNK, LogsChunkPayload_type),
      (METRICS_HOST, HostMetricsPayload_type)]"

lemma typed_message:
  assumes "conforms (TUnion agent_to_server) v"
  obtains t p payload where "isMessageEnvelope v" "field v ''type'' = Some (JStr t)"
    "field v ''payload'' = Some payload" "(t, p) \<in> set agent_payloads" "conforms p payload"
proof -
  have guard: "isMessageEnvelope v"
    using assms by (intro message_is_envelope) auto
  obtain t p where tp: "(t, p) \<in> set agent_payloads" "conforms (MessageEnvelope_type t p) v"
    using assms by (auto simp: agent_to_server_def message_defs agent_payloads_def)
  from tp(2) show thesis
    by (rule envelope_conformsE) (rule that [OF guard _ _ tp(1)])
qed

lemma list_memberE:
  assumes "(a, b) \<in> set ((c, d) # xs)"
  obtains "a = c" "b = d" | "(a, b) \<in> set xs"
  using assms by auto

lemma dispatch_simps:
  "dispatch rt now s AGENT_REGISTER p g = handleRegister rt now s p g"
  "dispatch rt now s AGENT_HEARTBEAT p g = handleHeartbeat rt now s p g"
  "dispatch rt now s CONTAINER_LISTED p g = handleContainerListed now s p g"
  "dispatch rt now s CONTAINER_RESULT p g = handleContainerResult p g"
  "dispatch rt now s CONTAINER_INSPECTED p g = handleContainerInspected p g"
  "dispatch rt now s LOGS_CHUNK p g = handleLogsChunk p g"
  "dispatch rt now s METRICS_HOST p g = handleHostMetrics rt now s p g"
  by (simp_all add: dispatch_def message_type_defs)

lemma message_typed:
  assumes "typed_data rt d" and g: "all_effects typed_effect g"
  shows "all_effects typed_effect (handleMessage rt now s d g)"
proof (cases "rt_jsonParse rt (decodeRawData d)")
  case None
  then show ?thesis using g by (simp add: handleMessage_def typed.invalid_json_keeps)
next
  case (Some v)
  then have "conforms (TUnion agent_to_server) v" using assms(1) by (simp add: typed_data_def)
  then obtain t p payload where m: "isMessageEnvelope v" "field v ''type'' = Some (JStr t)"
      "field v ''payload'' = Some payload" "(t, p) \<in> set agent_payloads" "conforms p payload"
    by (rule typed_message)
  have "all_effects typed_effect (dispatch rt now s t payload g)"
    using m(4,5) g unfolding agent_payloads_def
    by (elim list_memberE)
      (simp_all add: dispatch_simps register_typed typed.heartbeat_keeps typed.listed_keeps inspected_typed
        result_typed chunk_typed typed.metrics_keeps)
  then show ?thesis by (simp add: handleMessage_def Some m(1-3))
qed

subsection \<open>Samples\<close>

lemma typed_snapshots_cong: "met_byHostId (hostMetrics g') = met_byHostId (hostMetrics g) \<Longrightarrow> typed_snapshots g' = typed_snapshots g"
  by (simp add: typed_snapshots_def)

lemma set_map_set_subset: "set (map_set k v m) \<subseteq> insert (k, v) (set m)"
  by (induction m) auto

lemma metrics_snapshots:
  assumes p: "conforms HostMetricsPayload_type p" and g: "typed_snapshots g"
  shows "typed_snapshots (handleHostMetrics rt now s p g)"
proof -
  note ok = p [unfolded HostMetricsPayload_type_def]
  obtain c where c: "field p ''cpu'' = Some c" "conforms HostCpuMetrics_type c"
    using object_field [OF ok, of "''cpu''" HostCpuMetrics_type] by (auto simp del: conforms.simps)
  obtain w where w: "field p ''memory'' = Some w" "conforms HostMemoryMetrics_type w"
    using object_field [OF ok, of "''memory''" HostMemoryMetrics_type] by (auto simp del: conforms.simps)
  have cw: "json_nullish (Some c) JNull = c" "json_nullish (Some w) JNull = w"
    by (rule nullish_null)+
  have new: "typed_snapshots (g\<lparr>hostMetrics := snd (met_set d u
      (\<lparr>hm_collectedAt = x, hm_cpu = c, hm_memory = w\<rparr>, now) h (hostMetrics g))\<rparr>)" for d u x h
    using g set_map_set_subset c(2) w(2)
    by (fastforce simp: typed_snapshots_def met_set_def Let_def split: option.split)
  show ?thesis
    using g new by (simp add: handleHostMetrics_def c(1) w(1) cw Let_def del: json_nullish.simps split: option.split)
qed

subsection \<open>Runs with agents that keep to the protocol\<close>

definition samples :: "gateway \<Rightarrow> (string, HostMetricsSnapshot) js_map" where
  "samples g = met_byHostId (hostMetrics g)"

inductive typed_step :: "runtime \<Rightarrow> gateway \<Rightarrow> gateway \<Rightarrow> bool" for rt :: runtime where
  connect: "alive g \<Longrightarrow> sockets g s = fresh_socket \<Longrightarrow> typed_step rt g (handleConnection s g)"
| closing: "alive g \<Longrightarrow> typed_step rt g (close_socket s g)"
| disconnect: "alive g \<Longrightarrow> \<not> isOpen (sockets g s) \<Longrightarrow> typed_step rt g (handleDisconnect rt s g)"
| message: "alive g \<Longrightarrow> typed_data rt data \<Longrightarrow> typed_step rt g (handleMessage rt now s data g)"
| resume: "alive g \<Longrightarrow> k < length (registering g) \<Longrightarrow> registering g ! k = (s, r) \<Longrightarrow>
     typed_step rt g (resumeRegister s r (drop_registering k g))"
| timer: "alive g \<Longrightarrow> map_get (timers g) t = Some cb \<Longrightarrow> typed_step rt g (fire_timer t g)"
| request_list: "alive g \<Longrightarrow> requestContainerList u h g = (rep, g') \<Longrightarrow> typed_step rt g g'"
| command: "alive g \<Longrightarrow> sendContainerCommand rt u h a c f g = (res, g') \<Longrightarrow> typed_step rt g g'"
| inspect: "alive g \<Longrightarrow> inspectContainer rt u h c g = (res, g') \<Longrightarrow> typed_step rt g g'"
| start_logs: "alive g \<Longrightarrow> startLogStream rt u h c tail follow sink g = (rid, g') \<Longrightarrow> typed_step rt g g'"
| stop_logs: "alive g \<Longrightarrow> typed_step rt g (stopLogStream rid g)"

inductive typed_reachable :: "runtime \<Rightarrow> agent_table \<Rightarrow> gateway \<Rightarrow> bool" for rt :: runtime and t0 :: agent_table where
  start: "typed_reachable rt t0 (gateway_init t0)"
| step: "typed_reachable rt t0 g \<Longrightarrow> typed_step rt g g' \<Longrightarrow> typed_reachable rt t0 g'"

lemma typed_step_is_step: "typed_step rt g g' \<Longrightarrow> gateway_step rt g g'"
  by (induction rule: typed_step.induct) (auto intro: gateway_step.intros)

lemma typed_reachable_is_reachable: "typed_reachable rt t0 g \<Longrightarrow> gateway_reachable rt t0 g"
  by (induction rule: typed_reachable.induct) (auto intro: gateway_reachable.intros typed_step_is_step)

lemma samples_send [simp]: "samples (send s e g) = samples g"
  by (simp add: samples_def)

lemma samples_small [simp]:
  "samples (settle p x g) = samples g" "samples (emit ev g) = samples g" "samples (set_socket s c g) = samples g"
  "samples (remember_inventory h u g) = samples g" "samples (resolvePendingList u cs g) = samples g"
  "samples (clearTimeout t g) = samples g" "samples (reject_unhandled y g) = samples g"
  by (simp_all add: samples_def settle_def emit_def set_socket_def remember_inventory_def clearTimeout_def
      reject_unhandled_def)

lemma samples_updates [simp]:
  "samples (g\<lparr>socketsByUuid := b\<rparr>) = samples g" "samples (g\<lparr>pendingLists := c\<rparr>) = samples g"
  "samples (g\<lparr>pendingCommands := d\<rparr>) = samples g" "samples (g\<lparr>pendingInspects := e\<rparr>) = samples g"
  "samples (g\<lparr>logSubscribers := f\<rparr>) = samples g" "samples (g\<lparr>inventory := i\<rparr>) = samples g"
  "samples (g\<lparr>agents := j\<rparr>) = samples g" "samples (g\<lparr>timers := k\<rparr>) = samples g"
  "samples (g\<lparr>registering := l\<rparr>) = samples g" "samples (g\<lparr>uuidDraws := n1\<rparr>) = samples g"
  "samples (g\<lparr>nextTimer := n2\<rparr>) = samples g" "samples (g\<lparr>nextPromise := n3\<rparr>) = samples g"
  by (simp_all add: samples_def)

text \<open>Only a sample changes the samples.\<close>

lemma samples_operations:
  "samples (handleConnection s g) = samples g"
  "samples (close_socket s g) = samples g"
  "samples (handleDisconnect rt s g) = samples g"
  "samples (resumeRegister s r (drop_registering k g)) = samples g"
  "samples (fire_timer t g) = samples g"
  "requestContainerList u h g = (rep, g') \<Longrightarrow> samples g' = samples g"
  "sendContainerCommand rt u h a c f g = (res, g') \<Longrightarrow> samples g' = samples g"
  "inspectContainer rt u h c g = (res', g') \<Longrightarrow> samples g' = samples g"
  "startLogStream rt u h c tail follow sink g = (rid, g') \<Longrightarrow> samples g' = samples g"
  "samples (stopLogStream stopped g) = samples g"
  subgoal by (simp add: handleConnection_def)
  subgoal by (simp add: close_socket_def)
  subgoal by (simp add: samples_def handleDisconnect_def Let_def rejectPendingCommandsForAgent_def
      rejectPendingInspectsForAgent_def unsubscribeLogsForAgent_def split: option.split)
  subgoal by (simp add: resumeRegister_def Let_def drop_registering_def)
      (simp add: samples_def set_socket_def remember_inventory_def met_rememberHost_def)
  subgoal
  proof (cases "map_get (timers g) t")
    case (Some cb)
    then show ?thesis by (cases cb) (simp_all add: fire_timer_def Let_def)
  qed (simp add: fire_timer_def)
  subgoal by (auto simp: requestContainerList_def Let_def newPromise_def setTimeout_def split: option.splits)
  subgoal by (auto simp: sendContainerCommand_def Let_def newPromise_def setTimeout_def randomUUID_def split: option.splits)
  subgoal by (auto simp: inspectContainer_def Let_def newPromise_def setTimeout_def randomUUID_def split: option.splits)
  subgoal by (auto simp: startLogStream_def Let_def randomUUID_def split: option.splits)
  subgoal by (auto simp: stopLogStream_def Let_def split: option.split)
  done

lemma samples_handlers:
  "samples (handleRegister rt now s p g) = samples g"
  "samples (handleHeartbeat rt now s p g) = samples g"
  "samples (handleContainerListed now s p g) = samples g"
  "samples (handleContainerResult p g) = samples g"
  "samples (handleContainerInspected p g) = samples g"
  "samples (handleLogsChunk p g) = samples g"
  subgoal by (simp add: handleRegister_def split: option.split sum.split)
  subgoal by (simp add: handleHeartbeat_def Let_def split: option.split sum.split)
  subgoal by (simp add: handleContainerListed_def Let_def)
  subgoal by (simp add: handleContainerResult_def Let_def split: option.split)
  subgoal by (simp add: handleContainerInspected_def Let_def split: option.split)
  subgoal by (simp add: handleLogsChunk_def Let_def split: option.split)
  done

lemma typed_snapshots_samples: "samples g' = samples g \<Longrightarrow> typed_snapshots g' = typed_snapshots g"
  by (simp add: typed_snapshots_def samples_def)

lemma message_snapshots:
  assumes "typed_data rt d" and g: "typed_snapshots g"
  shows "typed_snapshots (handleMessage rt now s d g)"
proof (cases "rt_jsonParse rt (decodeRawData d)")
  case None
  then show ?thesis using g by (simp add: handleMessage_def typed_snapshots_samples [OF samples_send])
next
  case (Some v)
  then have "conforms (TUnion agent_to_server) v" using assms(1) by (simp add: typed_data_def)
  then obtain t p payload where m: "isMessageEnvelope v" "field v ''type'' = Some (JStr t)"
      "field v ''payload'' = Some payload" "(t, p) \<in> set agent_payloads" "conforms p payload"
    by (rule typed_message)
  have "typed_snapshots (dispatch rt now s t payload g)"
    using m(4,5) g unfolding agent_payloads_def
    by (elim list_memberE)
      (simp_all add: dispatch_simps metrics_snapshots typed_snapshots_samples [OF samples_handlers(1)]
        typed_snapshots_samples [OF samples_handlers(2)] typed_snapshots_samples [OF samples_handlers(3)]
        typed_snapshots_samples [OF samples_handlers(4)] typed_snapshots_samples [OF samples_handlers(5)]
        typed_snapshots_samples [OF samples_handlers(6)])
  then show ?thesis by (simp add: handleMessage_def Some m(1-3))
qed

lemma typed_step_effects: "typed_step rt g g' \<Longrightarrow> all_effects typed_effect g \<Longrightarrow> all_effects typed_effect g'"
  by (induction rule: typed_step.induct) (auto intro: typed.keeps message_typed)

lemma typed_step_snapshots: "typed_step rt g g' \<Longrightarrow> typed_snapshots g \<Longrightarrow> typed_snapshots g'"
proof (induction rule: typed_step.induct)
  case (message g data now s)
  then show ?case by (simp add: message_snapshots)
qed (simp_all add: typed_snapshots_samples [OF samples_operations(1)] typed_snapshots_samples [OF samples_operations(2)]
    typed_snapshots_samples [OF samples_operations(3)] typed_snapshots_samples [OF samples_operations(4)]
    typed_snapshots_samples [OF samples_operations(5)] typed_snapshots_samples [OF samples_operations(6)]
    typed_snapshots_samples [OF samples_operations(7)] typed_snapshots_samples [OF samples_operations(8)]
    typed_snapshots_samples [OF samples_operations(9)] typed_snapshots_samples [OF samples_operations(10)])

lemma typed_run:
  "typed_reachable rt t0 g \<Longrightarrow> all_effects typed_effect g \<and> typed_snapshots g"
proof (induction rule: typed_reachable.induct)
  case start
  show ?case by (simp add: typed_snapshots_def gateway_init_def host_metrics_init_def all_effects_def)
qed (auto intro: typed_step_effects typed_step_snapshots)

text \<open>
  C7. When agents keep to the protocol, the types hold everywhere: every frame the gateway sends, every
  list, command result and inspection it resolves a request with, and every log chunk it hands to a
  subscriber has the type declared for it by the protocol and by the browser.
\<close>

theorem typed_agents_typed_replies:
  assumes "typed_reachable rt t0 g" "e \<in> set (effects g)"
  shows "typed_effect e"
  using typed_run [OF assms(1)] assms(2) by (simp add: all_effects_def)

text \<open>A run with frames that carry every declared field: registration, a command, its answer, a sample.\<close>

definition full_registration :: json where
  "full_registration =
     JObj [(''uuid'', JStr ''u1''), (''hostname'', JStr ''box''), (''os'', JStr ''linux''),
           (''architecture'', JStr ''amd64''), (''version'', JStr ''1'')]"

definition full_result :: json where
  "full_result =
     JObj [(''requestId'', JStr ''r''), (''action'', JStr ''stop''), (''containerId'', JStr ''c1''),
           (''ok'', JBool True), (''message'', JStr ''stopped''), (''error'', JNull)]"

definition full_sample :: json where
  "full_sample =
     JObj [(''uuid'', JStr ''u1''), (''collectedAt'', JStr ''now''),
           (''cpu'', JObj [(''usagePercent'', JNum (js_int 7)), (''cores'', JNum (js_int 4)), (''loadAvg'', JNull)]),
           (''memory'', JObj [(''totalBytes'', JNum (js_int 8)), (''usedBytes'', JNum (js_int 2)),
                            (''availableBytes'', JNum (js_int 6)), (''usagePercent'', JNum (js_int 25))])]"

definition full_parse :: "string \<Rightarrow> json option" where
  "full_parse s =
     (if s = ''register'' then Some (demo_frame AGENT_REGISTER full_registration)
      else if s = ''result'' then Some (demo_frame CONTAINER_RESULT full_result)
      else if s = ''sample'' then Some (demo_frame METRICS_HOST full_sample)
      else None)"

definition full_rt :: runtime where
  "full_rt = demo_rt\<lparr>rt_jsonParse := full_parse\<rparr>"

definition full_registering :: gateway where
  "full_registering = handleMessage full_rt 1000 0 (RawBuffer ''register'') demo_connected"

definition full_registered :: gateway where
  "full_registered =
     resumeRegister 0 \<lparr>rgd_id = ''c'', rgd_uuid = ''u1'', rgd_status = ''ONLINE'', rgd_message = ''Registration successful''\<rparr>
       (drop_registering 0 full_registering)"

definition full_commanded :: gateway where
  "full_commanded = snd (sendContainerCommand full_rt ''u1'' ''c'' Stop ''c1'' False full_registered)"

definition full_answered :: gateway where
  "full_answered = handleMessage full_rt 2000 0 (RawBuffer ''result'') full_commanded"

definition full_sampled :: gateway where
  "full_sampled = handleMessage full_rt 3000 0 (RawBuffer ''sample'') full_answered"

lemma full_frames: "typed_data full_rt (RawBuffer ''register'')" "typed_data full_rt (RawBuffer ''result'')"
  "typed_data full_rt (RawBuffer ''sample'')"
  by code_simp+

lemma full_alive: "alive full_registering" "alive full_registered" "alive full_commanded" "alive full_answered"
  by code_simp+

lemma full_queue:
  "registering full_registering =
     [(0, \<lparr>rgd_id = ''c'', rgd_uuid = ''u1'', rgd_status = ''ONLINE'', rgd_message = ''Registration successful''\<rparr>)]"
  by code_simp

lemma full_reachable: "typed_reachable full_rt [] full_sampled"
proof -
  have "typed_reachable full_rt [] demo_connected"
    unfolding demo_connected_def
    by (rule typed_reachable.step [OF typed_reachable.start], rule typed_step.connect)
      (simp_all add: gateway_init_def alive_def)
  then have "typed_reachable full_rt [] full_registering"
    unfolding full_registering_def
    by (rule typed_reachable.step [OF _ typed_step.message [OF demo_alive(1) full_frames(1)]])
  then have "typed_reachable full_rt [] full_registered"
    unfolding full_registered_def
    by (rule typed_reachable.step) (rule typed_step.resume [OF full_alive(1)], simp_all add: full_queue)
  then have "typed_reachable full_rt [] full_commanded"
    unfolding full_commanded_def
    by (rule typed_reachable.step) (rule typed_step.command [OF full_alive(2)], rule prod.collapse [symmetric])
  then have "typed_reachable full_rt [] full_answered"
    unfolding full_answered_def
    by (rule typed_reachable.step [OF _ typed_step.message [OF full_alive(3) full_frames(2)]])
  then show ?thesis
    unfolding full_sampled_def
    by (rule typed_reachable.step [OF _ typed_step.message [OF full_alive(4) full_frames(3)]])
qed

definition full_settlement :: effect where
  "full_settlement =
     Settled 0 (CommandResolved \<lparr>res_requestId = ''r'', res_action = Some (JStr ''stop''),
       res_containerId = Some (JStr ''c1''), res_ok = True, res_message = JStr ''stopped'', res_error = JNull\<rparr>)"

lemma full_settled: "full_settlement \<in> set (effects full_sampled)"
  by code_simp

theorem typed_agents_typed_replies_witness: "typed_effect full_settlement"
  by (rule typed_agents_typed_replies [OF full_reachable full_settled])

subsection \<open>What the browser reads\<close>

lemma snapshot_typed:
  assumes "typed_snapshots g" "met_getByHostId h (hostMetrics g) = Some m"
  shows "conforms HostCpuMetrics_type (ms_cpu m)" "conforms HostMemoryMetrics_type (ms_memory m)"
proof -
  have "m \<in> snd ` set (met_byHostId (hostMetrics g))"
    using map_of_SomeD [OF assms(2) [unfolded met_getByHostId_def]] by force
  then show "conforms HostCpuMetrics_type (ms_cpu m)" "conforms HostMemoryMetrics_type (ms_memory m)"
    using assms(1) by (auto simp: typed_snapshots_def)
qed

lemma or_null_conforms:
  "(\<And>x. v = Some x \<Longrightarrow> conforms a (f x)) \<Longrightarrow> conforms (TUnion [a, TNull]) (or_null f v)"
  by (cases v) (simp_all add: or_null_def)

lemma metrics_dto_conforms:
  assumes "typed_snapshots g"
  shows "conforms HostMetricsResponse_type (HostMetricsDto_json (toMetricsDto h (met_getByHostId h' (hostMetrics g))))"
proof -
  let ?m = "met_getByHostId h' (hostMetrics g)"
  have "conforms (TUnion [web_HostCpuMetrics_type, TNull]) (or_null id (map_option ms_cpu ?m))"
    using snapshot_typed(1) [OF assms] by (intro or_null_conforms) (auto simp: browser_copies_agree)
  moreover have "conforms (TUnion [web_HostMemoryMetrics_type, TNull]) (or_null id (map_option ms_memory ?m))"
    using snapshot_typed(2) [OF assms] by (intro or_null_conforms) (auto simp: browser_copies_agree)
  moreover have "conforms (TUnion [TString, TNull]) (or_null JStr c)" for c
    by (intro or_null_conforms) simp
  ultimately show ?thesis
    by (simp add: HostMetricsResponse_type_def HostMetricsDto_json_def toMetricsDto_def del: conforms.simps(12))
qed

lemma host_dto_conforms:
  assumes "typed_snapshots g"
  shows "conforms Host_type (HostDto_json (toHostDto a (met_getByHostId h (hostMetrics g))))"
proof -
  have "conforms (TUnion [TString, TNull]) (or_null JStr c)" for c
    by (intro or_null_conforms) simp
  moreover have "conforms HostStatus_type (JStr s)" for s by (simp add: HostStatus_type_def)
  ultimately show ?thesis
    using metrics_dto_conforms [OF assms]
    by (simp add: Host_type_def HostDto_json_def toHostDto_def del: conforms.simps(12))
qed


lemma full_rows: "agents_findAll mem_agents [demo_host_row] = Inr [demo_host_row]"
  by code_simp

lemma full_list:
  "fst (listHosts mem_agents [demo_host_row] full_sampled) =
     Inr [toHostDto demo_host_row (met_getByHostId (ag_id demo_host_row) (hostMetrics full_sampled))]"
  by (simp add: listHosts_def full_rows Let_def rememberAgents_reads del: rememberAgents.simps)


subsection \<open>Frames that keep to the protocol do not end the process\<close>

lemma unhandled_small [simp]:
  "unhandled (send s e g) = unhandled g" "unhandled (settle p x g) = unhandled g"
  "unhandled (emit ev g) = unhandled g" "unhandled (clearTimeout t g) = unhandled g"
  "unhandled (set_socket s c g) = unhandled g" "unhandled (reject_unhandled y g) = unhandled g @ [y]"
  by (simp_all add: settle_def emit_def clearTimeout_def set_socket_def reject_unhandled_def send_def)

lemma unhandled_resolve [simp]: "unhandled (resolvePendingList u cs g) = unhandled g"
  by (simp add: resolvePendingList_def Let_def split: option.split)

definition database_fails :: "runtime \<Rightarrow> int \<Rightarrow> agent_table \<Rightarrow> prisma_error \<Rightarrow> bool" where
  "database_fails rt now t e \<longleftrightarrow>
     (\<exists>input. agents_register (rt_prisma rt) now input t = Inl e) \<or>
     (\<exists>u. agents_heartbeat (rt_prisma rt) now u t = Inl e)"

lemma typed_register_input:
  assumes "conforms AgentRegisterPayload_type p"
  shows "\<exists>input. register_input p = Some input"
proof -
  note ok = assms [unfolded AgentRegisterPayload_type_def]
  have "\<exists>s. field p k = Some (JStr s)"
    if "k \<in> {''uuid'', ''hostname'', ''os'', ''architecture'', ''version''}" for k
    using that by (intro object_string [OF ok]) auto
  then obtain u h os a v where "field p ''uuid'' = Some (JStr u)" "field p ''hostname'' = Some (JStr h)"
      "field p ''os'' = Some (JStr os)" "field p ''architecture'' = Some (JStr a)" "field p ''version'' = Some (JStr v)"
    by (metis insertI1 insertI2)
  then show ?thesis by (simp add: register_input_def)
qed

lemma unhandled_handlers:
  "unhandled (handleContainerListed now s p g) = unhandled g"
  "unhandled (handleContainerResult p g) = unhandled g"
  "unhandled (handleContainerInspected p g) = unhandled g"
  "unhandled (handleLogsChunk p g) = unhandled g"
  "unhandled (handleHostMetrics rt now s p g) = unhandled g"
  subgoal by (simp add: handleContainerListed_def Let_def)
  subgoal by (simp add: handleContainerResult_def Let_def split: option.split)
  subgoal by (simp add: handleContainerInspected_def Let_def split: option.split)
  subgoal by (simp add: handleLogsChunk_def Let_def split: option.split)
  subgoal by (simp add: handleHostMetrics_def Let_def split: option.split)
  done

lemma register_unhandled:
  assumes "conforms AgentRegisterPayload_type p" "unhandled (handleRegister rt now s p g) \<noteq> unhandled g"
  shows "\<exists>e. database_fails rt now (agents g) e"
  using assms(2) typed_register_input [OF assms(1)]
  by (auto simp: handleRegister_def database_fails_def split: if_splits sum.splits)

lemma heartbeat_unhandled:
  assumes "conforms AgentHeartbeatPayload_type p" "unhandled (handleHeartbeat rt now s p g) \<noteq> unhandled g"
  shows "\<exists>e. database_fails rt now (agents g) e"
proof -
  obtain u where "field p ''uuid'' = Some (JStr u)"
    using object_string [OF assms(1) [unfolded AgentHeartbeatPayload_type_def], of "''uuid''"] by auto
  then show ?thesis
    using assms(2)
    by (auto simp: handleHeartbeat_def database_fails_def set_socket_def Let_def split: if_splits sum.splits)
qed


definition failing_rt :: runtime where
  "failing_rt = full_rt\<lparr>rt_prisma := mem_agents\<lparr>pr_upsert := (\<lambda>w c d t. Inl (OtherPrismaError ''P1001''))\<rparr>\<rparr>"


end
