(* ===== verification/WebLogs.thy ===== *)
theory WebLogs
  imports WebSession TypedAgents
begin

section \<open>Container logs in the browser\<close>

text \<open>
  \<open>hooks/useContainerLogs.ts\<close> and \<open>components/LogsViewer.tsx\<close>: the reader of the event stream, the
  pause buffer, and what the log viewer shows. The text decoder is the platform's; the model starts
  from the decoded pieces of text. A line feed is \<open>CHR 0x0A\<close>. Entries are the JSON values the
  server sent; dates and local times are the parameters \<open>date\<close> and \<open>time\<close>.
\<close>

subsection \<open>The hook's state\<close>

datatype LogStreamStatus = Connecting | Live | Paused | Failed

definition MAX_ENTRIES :: nat where
  "MAX_ENTRIES = 5000"

record log_hook =
  lh_entries :: "json list"
  lh_status :: LogStreamStatus
  lh_error :: "string option"
  lh_paused :: bool
  lh_bufferedCount :: nat
  pausedRef :: bool
  bufferRef :: "json list"
  reconnectToken :: nat

definition log_hook_init :: log_hook where
  "log_hook_init =
     \<lparr>lh_entries = [], lh_status = Connecting, lh_error = None, lh_paused = False, lh_bufferedCount = 0,
      pausedRef = False, bufferRef = [], reconnectToken = 0\<rparr>"

text \<open>\<open>xs.slice(-n)\<close> for a positive \<open>n\<close>.\<close>

definition slice_last :: "nat \<Rightarrow> 'a list \<Rightarrow> 'a list" where
  "slice_last n xs = drop (length xs - n) xs"

definition logs_url :: "string option \<Rightarrow> string \<Rightarrow> string \<Rightarrow> nat \<Rightarrow> string" where
  "logs_url base hostId containerId tail =
     resolveBaseUrl base @ ''/containers/'' @ encodeURIComponent containerId @ ''/logs?hostId='' @
     encodeURIComponent hostId @ ''&tail='' @ show_nat tail @ ''&follow=true''"

text \<open>The effect that opens a stream: it resets the hook and sends the request.\<close>

definition reset_stream :: "log_hook \<Rightarrow> log_hook" where
  "reset_stream h =
     h\<lparr>lh_entries := [], lh_error := None, lh_status := Connecting, bufferRef := [], lh_bufferedCount := 0\<rparr>"

definition open_stream ::
  "string option \<Rightarrow> string option \<Rightarrow> string option \<Rightarrow> nat \<Rightarrow> web \<Rightarrow> log_hook \<Rightarrow> fetch_call option \<times> web \<times> log_hook"
where
  "open_stream base hostId containerId tail w h =
     (if \<not> truthy_str hostId \<or> \<not> truthy_str containerId then (None, w, h)
      else (let h' = reset_stream h;
                (token, w') = getToken w;
                headers = [(''Accept'', ''text/event-stream'')] @
                          (if json_truthy (Some token) then [(''Authorization'', ''Bearer '' @ js_String token)] else [])
            in (Some \<lparr>fc_method = GET, fc_url = logs_url base (nullish hostId []) (nullish containerId []) tail,
                      fc_headers = headers, fc_body = None\<rparr>, w', h')))"

definition pushEntries :: "json list \<Rightarrow> log_hook \<Rightarrow> log_hook" where
  "pushEntries new h =
     (if new = [] then h
      else if pausedRef h
      then (let b = slice_last MAX_ENTRIES (bufferRef h @ new) in h\<lparr>bufferRef := b, lh_bufferedCount := length b\<rparr>)
      else h\<lparr>lh_entries := slice_last MAX_ENTRIES (lh_entries h @ new), lh_status := Live\<rparr>)"

subsection \<open>Frames\<close>

abbreviation newline :: char where
  "newline \<equiv> CHR 0x0A"

text \<open>The event name and the data lines of a frame, read line by line.\<close>

fun frame_line :: "string \<Rightarrow> string \<times> string list \<Rightarrow> string \<times> string list" where
  "frame_line line (eventName, dataLines) =
     (if js_startsWith line ''event:'' then (js_trim (drop 6 line), dataLines)
      else if js_startsWith line ''data:'' then (eventName, dataLines @ [js_trim (drop 5 line)])
      else (eventName, dataLines))"

definition frame_entries :: "(string \<Rightarrow> json option) \<Rightarrow> string \<Rightarrow> json list" where
  "frame_entries parse frame =
     (let (eventName, dataLines) = foldl (\<lambda>acc line. frame_line line acc) (''message'', []) (js_split newline frame)
      in if eventName \<noteq> ''logs.chunk'' \<or> dataLines = [] then []
         else (case parse (js_join [newline] dataLines) of
                 None \<Rightarrow> []
               | Some payload \<Rightarrow> (case field payload ''entries'' of Some (JArr es) \<Rightarrow> es | _ \<Rightarrow> [])))"

definition handleFrame :: "(string \<Rightarrow> json option) \<Rightarrow> string \<Rightarrow> log_hook \<Rightarrow> log_hook" where
  "handleFrame parse frame h = pushEntries (frame_entries parse frame) h"

text \<open>The text up to the first blank line, and what follows it.\<close>

fun next_frame :: "string \<Rightarrow> (string \<times> string) option" where
  "next_frame (c # d # s) =
     (if c = newline \<and> d = newline then Some ([], s)
      else (case next_frame (d # s) of None \<Rightarrow> None | Some (frame, rest) \<Rightarrow> Some (c # frame, rest)))"
| "next_frame s = None"

lemma next_frame_split: "next_frame b = Some (f, r) \<Longrightarrow> b = f @ [newline, newline] @ r"
  by (induction b arbitrary: f r rule: next_frame.induct) (auto split: if_splits option.splits)

lemma next_frame_shorter [termination_simp]: "next_frame b = Some (f, r) \<Longrightarrow> length r < length b"
  by (drule next_frame_split) simp

text \<open>The inner loop: every complete frame of the buffer is handled, the rest stays.\<close>

function drain :: "(string \<Rightarrow> json option) \<Rightarrow> string \<Rightarrow> log_hook \<Rightarrow> string \<times> log_hook" where
  "drain parse buffer h =
     (case next_frame buffer of
        None \<Rightarrow> (buffer, h)
      | Some (frame, rest) \<Rightarrow> drain parse rest (handleFrame parse frame h))"
  by pat_completeness auto
termination by (relation "measure (\<lambda>(parse, buffer, h). length buffer)") (auto dest: next_frame_shorter)

declare drain.simps [simp del]

text \<open>One \<open>reader.read()\<close> that yields text.\<close>

definition read_chunk :: "(string \<Rightarrow> json option) \<Rightarrow> string \<Rightarrow> string \<times> log_hook \<Rightarrow> string \<times> log_hook" where
  "read_chunk parse text s = drain parse (fst s @ text) (snd s)"

text \<open>The reply to the request, and the end of the stream. \<open>aborted\<close> is the controller's signal.\<close>

datatype stream_reply = FetchFailed | StreamReply nat bool

definition stream_reply_received :: "bool \<Rightarrow> stream_reply \<Rightarrow> log_hook \<Rightarrow> bool \<times> log_hook" where
  "stream_reply_received aborted r h =
     (case r of
        FetchFailed \<Rightarrow>
          (False, if aborted then h else h\<lparr>lh_status := Failed, lh_error := Some ''Could not reach the log stream''\<rparr>)
      | StreamReply st has_body \<Rightarrow>
          if \<not> (200 \<le> st \<and> st \<le> 299) \<or> \<not> has_body
          then (False, h\<lparr>lh_status := Failed,
                         lh_error := Some (if st = 401 then ''Session expired - sign in again''
                                           else if st = 403 then ''Not permitted to read these logs''
                                           else ''Log stream failed ('' @ show_nat st @ '')'')\<rparr>)
          else (True, h\<lparr>lh_status := (if pausedRef h then Paused else Live)\<rparr>))"

definition stream_ended :: "bool \<Rightarrow> log_hook \<Rightarrow> log_hook" where
  "stream_ended aborted h =
     (if aborted then h else h\<lparr>lh_status := Failed, lh_error := Some ''Log stream disconnected''\<rparr>)"

subsection \<open>The controls\<close>

definition togglePause :: "log_hook \<Rightarrow> log_hook" where
  "togglePause h =
     (let new = (\<not> lh_paused h);
          h1 = (if \<not> new \<and> bufferRef h \<noteq> []
                then h\<lparr>bufferRef := [], lh_bufferedCount := 0,
                       lh_entries := slice_last MAX_ENTRIES (lh_entries h @ bufferRef h)\<rparr>
                else h)
      in h1\<lparr>lh_status := (if new then Paused else Live), lh_paused := new\<rparr>)"

text \<open>The effect that follows every change of \<open>paused\<close>.\<close>

definition sync_pausedRef :: "log_hook \<Rightarrow> log_hook" where
  "sync_pausedRef h = h\<lparr>pausedRef := lh_paused h\<rparr>"

definition log_clear :: "log_hook \<Rightarrow> log_hook" where
  "log_clear h = h\<lparr>lh_entries := [], bufferRef := [], lh_bufferedCount := 0\<rparr>"

definition reconnect :: "log_hook \<Rightarrow> log_hook" where
  "reconnect h = h\<lparr>reconnectToken := Suc (reconnectToken h)\<rparr>"

subsection \<open>Fragmentation\<close>

lemma drain_None: "next_frame b = None \<Longrightarrow> drain parse b h = (b, h)"
  by (subst drain.simps) simp

lemma drain_Some: "next_frame b = Some (f, r) \<Longrightarrow> drain parse b h = drain parse r (handleFrame parse f h)"
  by (subst drain.simps) simp

lemma next_frame_append:
  "next_frame a = Some (f, r) \<Longrightarrow> next_frame (a @ b) = Some (f, r @ b)"
  by (induction a arbitrary: f r rule: next_frame.induct) (auto split: if_splits option.splits)

lemma drain_append:
  "drain parse (a @ b) h = (case drain parse a h of (r, h') \<Rightarrow> drain parse (r @ b) h')"
proof (induction parse a h rule: drain.induct)
  case (1 parse a h)
  show ?case
  proof (cases "next_frame a")
    case None
    then show ?thesis by (simp add: drain_None)
  next
    case (Some p)
    obtain f r where p: "next_frame a = Some (f, r)" using Some by (cases p) simp
    show ?thesis using 1 [OF p refl] by (simp add: drain_Some [OF p] drain_Some [OF next_frame_append [OF p]])
  qed
qed

lemma drain_rest: "next_frame (fst (drain parse b h)) = None"
proof (induction parse b h rule: drain.induct)
  case (1 parse b h)
  then show ?case by (cases "next_frame b") (auto simp: drain_None drain_Some)
qed

lemma read_chunk_append: "read_chunk parse u (read_chunk parse t s) = read_chunk parse (t @ u) s"
  using drain_append [of parse "fst s @ t" u "snd s"] by (simp add: read_chunk_def split: prod.splits)

subsection \<open>The viewer\<close>

record LogEntry =
  le_timestamp :: string
  le_stream :: string
  le_message :: "string option"

datatype Level = LevelError | LevelWarn | LevelInfo | LevelDebug | LevelPlain

definition js_word_char :: "char \<Rightarrow> bool" where
  "js_word_char c =
     (let n = (of_char c :: nat)
      in 48 \<le> n \<and> n \<le> 57 \<or> 65 \<le> n \<and> n \<le> 90 \<or> 97 \<le> n \<and> n \<le> 122 \<or> n = 95)"

text \<open>
  \<open>/\b(w1|w2|...)\b/i\<close>, or without the final boundary: is there a match at the start of \<open>s\<close> or later;
  \<open>inside\<close> says whether the character before is a word character.
\<close>

definition word_match :: "bool \<Rightarrow> string \<Rightarrow> string \<Rightarrow> bool" where
  "word_match closed w s =
     (js_startsWith s w \<and> (closed \<longrightarrow> drop (length w) s = [] \<or> \<not> js_word_char (hd (drop (length w) s))))"

fun has_word :: "bool \<Rightarrow> string list \<Rightarrow> bool \<Rightarrow> string \<Rightarrow> bool" where
  "has_word closed ws inside [] = False"
| "has_word closed ws inside (c # s) =
     (\<not> inside \<and> list_ex (\<lambda>w. word_match closed w (c # s)) ws \<or> has_word closed ws (js_word_char c) s)"

definition detectLevel :: "LogEntry \<Rightarrow> Level" where
  "detectLevel entry =
     (let message = js_toLowerCase (nullish (le_message entry) [])
      in if has_word True [''error'', ''err'', ''fatal'', ''panic'', ''exception'', ''failed''] False message then LevelError
         else if has_word False [''warn'', ''warning'', ''deprecat''] False message then LevelWarn
         else if has_word True [''info'', ''notice''] False message then LevelInfo
         else if has_word True [''debug'', ''trace''] False message then LevelDebug
         else if le_stream entry = ''stderr'' then LevelError else LevelPlain)"

definition filter_entries :: "string \<Rightarrow> LogEntry list \<Rightarrow> LogEntry list" where
  "filter_entries query entries =
     (let value = js_toLowerCase (js_trim query)
      in if value = [] then entries
         else filter (\<lambda>e. case le_message e of None \<Rightarrow> False | Some m \<Rightarrow> js_includes (js_toLowerCase m) value) entries)"

text \<open>\<open>message\<close> goes into a template: a missing one reads \<open>undefined\<close>.\<close>

definition log_text :: "LogEntry list \<Rightarrow> string" where
  "log_text entries =
     js_join [newline] (map (\<lambda>e. le_timestamp e @ '' '' @ nullish (le_message e) ''undefined'') entries)"

text \<open>\<open>name.replace(/^\//, '')\<close>\<close>

fun strip_slash :: "string \<Rightarrow> string" where
  "strip_slash (c # s) = (if c = CHR ''/'' then s else c # s)"
| "strip_slash [] = []"

definition download_name :: "string \<Rightarrow> string" where
  "download_name containerName = strip_slash containerName @ ''-logs.txt''"

text \<open>\<open>handleScroll\<close>: follow the tail only within 40 pixels of the bottom.\<close>

definition at_bottom :: "int \<Rightarrow> int \<Rightarrow> int \<Rightarrow> bool" where
  "at_bottom scrollHeight scrollTop clientHeight = (scrollHeight - scrollTop - clientHeight < 40)"

definition formatLogTime :: "(string \<Rightarrow> int option) \<Rightarrow> (int \<Rightarrow> string) \<Rightarrow> string \<Rightarrow> string" where
  "formatLogTime date time timestamp =
     (case date timestamp of None \<Rightarrow> js_slice 12 timestamp | Some ms \<Rightarrow> time ms)"

text \<open>
  \<open>highlight\<close>: the message split at the occurrences of the query, each part with whether it is
  marked. \<open>find_ci\<close> is the first occurrence, letter case aside.
\<close>

fun find_ci :: "string \<Rightarrow> string \<Rightarrow> nat option" where
  "find_ci v [] = (if v = [] then Some 0 else None)"
| "find_ci v (c # s) =
     (if js_startsWith (js_toLowerCase (c # s)) (js_toLowerCase v) then Some 0
      else map_option Suc (find_ci v s))"

lemma find_ci_bound: "find_ci v s = Some i \<Longrightarrow> i + length v \<le> length s"
proof (induction v s arbitrary: i rule: find_ci.induct)
  case (2 v c s)
  show ?case
  proof (cases "js_startsWith (js_toLowerCase (c # s)) (js_toLowerCase v)")
    case True
    then have "length (js_toLowerCase v) \<le> length (js_toLowerCase (c # s))"
      by (auto simp: js_startsWith_iff simp del: length_js_toLowerCase)
    then show ?thesis using True 2(2) by simp
  next
    case False
    then show ?thesis using 2 by auto
  qed
qed (simp split: if_splits)

function split_ci :: "string \<Rightarrow> string \<Rightarrow> string list" where
  "split_ci v s =
     (if v = [] then [s]
      else (case find_ci v s of
              None \<Rightarrow> [s]
            | Some i \<Rightarrow> take i s # take (length v) (drop i s) # split_ci v (drop (i + length v) s)))"
  by pat_completeness auto
termination
proof (relation "measure (\<lambda>(v, s). length s)", goal_cases)
  case (2 v s i)
  then show ?case using find_ci_bound [of v s i] by (cases v) simp_all
qed simp

declare split_ci.simps [simp del]

definition highlight :: "string \<Rightarrow> string \<Rightarrow> (bool \<times> string) list" where
  "highlight message query =
     (let value = js_trim query
      in if value = [] then [(False, message)]
         else map (\<lambda>part. (js_toLowerCase part = js_toLowerCase value, part)) (split_ci value message))"

text \<open>What the viewer shows.\<close>

record log_line =
  ll_time :: string
  ll_level :: Level
  ll_parts :: "(bool \<times> string) list"

datatype log_body = Disconnected string | NoOutput | NoMatch string | LogLines "log_line list"

record logs_view =
  lv_label :: string
  lv_pulse :: bool
  lv_buffered :: "nat option"
  lv_pauseButton :: string
  lv_body :: log_body
  lv_footer :: string

fun status_label_of :: "LogStreamStatus \<Rightarrow> string" where
  "status_label_of Live = ''Streaming''"
| "status_label_of Paused = ''Paused''"
| "status_label_of Failed = ''Disconnected''"
| "status_label_of Connecting = ''Connecting...''"

definition entry_line :: "(string \<Rightarrow> int option) \<Rightarrow> (int \<Rightarrow> string) \<Rightarrow> string \<Rightarrow> LogEntry \<Rightarrow> log_line" where
  "entry_line date time query e =
     \<lparr>ll_time = formatLogTime date time (le_timestamp e), ll_level = detectLevel e,
      ll_parts = highlight (nullish (le_message e) []) query\<rparr>"

definition LogsViewer ::
  "(string \<Rightarrow> int option) \<Rightarrow> (int \<Rightarrow> string) \<Rightarrow> (json \<Rightarrow> LogEntry) \<Rightarrow> string \<Rightarrow> log_hook \<Rightarrow> logs_view"
where
  "LogsViewer date time as_entry query h =
     (let entries = map as_entry (lh_entries h);
          filtered = filter_entries query entries
      in \<lparr>lv_label = status_label_of (lh_status h),
          lv_pulse = (lh_status h = Live),
          lv_buffered = (if lh_paused h \<and> lh_bufferedCount h > 0 then Some (lh_bufferedCount h) else None),
          lv_pauseButton = (if lh_paused h then ''Resume'' else ''Pause''),
          lv_body =
            (if lh_status h = Failed then Disconnected (nullish (lh_error h) ''The agent closed the stream.'')
             else if filtered = [] then (if entries = [] then NoOutput else NoMatch query)
             else LogLines (map (entry_line date time query) filtered)),
          lv_footer =
            show_nat (length filtered) @ '' line'' @ (if length filtered = 1 then [] else ''s'') @
            (if query \<noteq> [] then '' of '' @ show_nat (length entries) else [])\<rparr>)"


subsection \<open>The frames of a text\<close>

function take_frames :: "string \<Rightarrow> string list \<times> string" where
  "take_frames b =
     (case next_frame b of
        None \<Rightarrow> ([], b)
      | Some (f, r) \<Rightarrow> (let (fs, rest) = take_frames r in (f # fs, rest)))"
  by pat_completeness auto
termination by (relation "measure length") (auto dest: next_frame_shorter)

declare take_frames.simps [simp del]

lemma take_frames_None: "next_frame b = None \<Longrightarrow> take_frames b = ([], b)"
  by (subst take_frames.simps) simp

lemma take_frames_Some:
  "next_frame b = Some (f, r) \<Longrightarrow> take_frames b = (f # fst (take_frames r), snd (take_frames r))"
  by (subst take_frames.simps) (simp split: prod.splits)

lemma drain_take_frames:
  "drain parse b h = (snd (take_frames b), foldl (\<lambda>h f. handleFrame parse f h) h (fst (take_frames b)))"
proof (induction parse b h rule: drain.induct)
  case (1 parse b h)
  show ?case
  proof (cases "next_frame b")
    case None
    then show ?thesis by (simp add: drain_None take_frames_None)
  next
    case (Some p)
    obtain f r where p: "next_frame b = Some (f, r)" using Some by (cases p) simp
    show ?thesis using 1 [OF p refl] by (simp add: drain_Some [OF p] take_frames_Some [OF p])
  qed
qed

lemma take_frames_append:
  "take_frames (a @ b) =
     (fst (take_frames a) @ fst (take_frames (snd (take_frames a) @ b)), snd (take_frames (snd (take_frames a) @ b)))"
proof (induction a rule: take_frames.induct)
  case (1 a)
  show ?case
  proof (cases "next_frame a")
    case None
    then show ?thesis by (simp add: take_frames_None)
  next
    case (Some p)
    obtain f r where p: "next_frame a = Some (f, r)" using Some by (cases p) simp
    show ?thesis using 1 [OF p refl] by (simp add: take_frames_Some [OF p] take_frames_Some [OF next_frame_append [OF p]])
  qed
qed

text \<open>The log entries a text contains.\<close>

definition text_entries :: "(string \<Rightarrow> json option) \<Rightarrow> string \<Rightarrow> json list" where
  "text_entries parse b = concat (map (frame_entries parse) (fst (take_frames b)))"

lemma text_entries_append:
  "text_entries parse (a @ b) = text_entries parse a @ text_entries parse (snd (take_frames a) @ b)"
  by (simp add: text_entries_def take_frames_append [of a b])

subsection \<open>Events of the viewer\<close>

datatype log_event =
    LogText string
  | LogTogglePause
  | LogClear
  | LogReply bool stream_reply
  | LogEnd bool
  | LogReopen

text \<open>The state is the text not yet framed and the hook; a change of \<open>paused\<close> runs its effect.\<close>

fun log_step :: "(string \<Rightarrow> json option) \<Rightarrow> log_event \<Rightarrow> string \<times> log_hook \<Rightarrow> string \<times> log_hook" where
  "log_step parse (LogText t) s = read_chunk parse t s"
| "log_step parse LogTogglePause (b, h) = (b, sync_pausedRef (togglePause h))"
| "log_step parse LogClear (b, h) = (b, log_clear h)"
| "log_step parse (LogReply aborted r) (b, h) = ([], snd (stream_reply_received aborted r h))"
| "log_step parse (LogEnd aborted) (b, h) = (b, stream_ended aborted h)"
| "log_step parse LogReopen (b, h) = ([], reset_stream h)"

fun log_run :: "(string \<Rightarrow> json option) \<Rightarrow> log_event list \<Rightarrow> string \<times> log_hook \<Rightarrow> string \<times> log_hook" where
  "log_run parse [] s = s"
| "log_run parse (e # es) s = log_run parse es (log_step parse e s)"

subsection \<open>Bounds\<close>

definition hook_ok :: "log_hook \<Rightarrow> bool" where
  "hook_ok h \<longleftrightarrow>
     length (lh_entries h) \<le> MAX_ENTRIES \<and> length (bufferRef h) \<le> MAX_ENTRIES \<and>
     lh_bufferedCount h = length (bufferRef h) \<and> pausedRef h = lh_paused h \<and>
     (\<not> lh_paused h \<longrightarrow> bufferRef h = [])"

lemma length_slice_last: "length (slice_last n xs) = min n (length xs)"
  by (auto simp: slice_last_def)

lemma slice_last_all: "length xs \<le> n \<Longrightarrow> slice_last n xs = xs"
  by (simp add: slice_last_def)

lemma hook_ok_push: "hook_ok h \<Longrightarrow> hook_ok (pushEntries es h)"
  by (auto simp: pushEntries_def hook_ok_def length_slice_last Let_def)

lemma hook_ok_frames: "hook_ok h \<Longrightarrow> hook_ok (foldl (\<lambda>h f. handleFrame parse f h) h fs)"
  by (induction fs arbitrary: h) (simp_all add: handleFrame_def hook_ok_push)

lemma paused_frames: "lh_paused (foldl (\<lambda>h f. handleFrame parse f h) h fs) = lh_paused h"
  by (induction fs arbitrary: h) (simp_all add: handleFrame_def pushEntries_def Let_def)

lemma hook_ok_step: "hook_ok (snd s) \<Longrightarrow> hook_ok (snd (log_step parse e s))"
proof (cases e)
  case (LogText t)
  moreover assume "hook_ok (snd s)"
  ultimately show ?thesis by (simp add: read_chunk_def drain_take_frames hook_ok_frames)
qed (cases s; auto simp: hook_ok_def sync_pausedRef_def togglePause_def log_clear_def stream_reply_received_def
       stream_ended_def reset_stream_def length_slice_last Let_def split: stream_reply.splits)+

lemma hook_ok_run: "hook_ok (snd s) \<Longrightarrow> hook_ok (snd (log_run parse es s))"
  by (induction es arbitrary: s) (simp_all add: hook_ok_step)

lemma hook_ok_init: "hook_ok log_hook_init"
  by (simp add: hook_ok_def log_hook_init_def)

subsection \<open>Order\<close>

definition shown :: "log_hook \<Rightarrow> json list" where
  "shown h = lh_entries h @ bufferRef h"

lemma shown_push:
  assumes "hook_ok h" "length (shown h @ es) \<le> MAX_ENTRIES"
  shows "shown (pushEntries es h) = shown h @ es"
  using assms by (auto simp: shown_def pushEntries_def hook_ok_def slice_last_all Let_def)

lemma shown_frames:
  assumes "hook_ok h" "length (shown h @ concat (map (frame_entries parse) fs)) \<le> MAX_ENTRIES"
  shows "shown (foldl (\<lambda>h f. handleFrame parse f h) h fs) = shown h @ concat (map (frame_entries parse) fs)"
  using assms
proof (induction fs arbitrary: h)
  case (Cons f fs)
  have "shown (handleFrame parse f h) = shown h @ frame_entries parse f"
    using Cons.prems by (simp add: handleFrame_def shown_push)
  then show ?case using Cons hook_ok_push [of h "frame_entries parse f"] by (simp add: handleFrame_def)
qed simp

text \<open>The texts of a run that only reads, pauses and resumes.\<close>

fun texts :: "log_event list \<Rightarrow> string" where
  "texts [] = []"
| "texts (LogText t # es) = t @ texts es"
| "texts (e # es) = texts es"

fun reads_or_pauses :: "log_event \<Rightarrow> bool" where
  "reads_or_pauses (LogText t) = True"
| "reads_or_pauses LogTogglePause = True"
| "reads_or_pauses e = False"

lemma shown_run:
  assumes "hook_ok h" "next_frame b = None" "list_all reads_or_pauses es"
    and "length (shown h @ text_entries parse (b @ texts es)) \<le> MAX_ENTRIES"
  shows "shown (snd (log_run parse es (b, h))) = shown h @ text_entries parse (b @ texts es) \<and>
         fst (log_run parse es (b, h)) = snd (take_frames (b @ texts es))"
  using assms
proof (induction es arbitrary: b h)
  case Nil
  then show ?case by (simp add: take_frames_None text_entries_def)
next
  case (Cons e es)
  consider t where "e = LogText t" | "e = LogTogglePause" using Cons.prems(3) by (cases e) auto
  then show ?case
  proof cases
    case (1 t)
    let ?h = "foldl (\<lambda>h f. handleFrame parse f h) h (fst (take_frames (b @ t)))" and ?b = "snd (take_frames (b @ t))"
    have split: "text_entries parse (b @ t @ texts es) = text_entries parse (b @ t) @ text_entries parse (?b @ texts es)"
      using text_entries_append [of parse "b @ t"] by simp
    have shown: "shown ?h = shown h @ text_entries parse (b @ t)"
      using shown_frames [OF Cons.prems(1), of parse "fst (take_frames (b @ t))"] Cons.prems(4) split 1
      by (simp add: text_entries_def)
    have rest: "snd (take_frames (b @ t @ texts es)) = snd (take_frames (?b @ texts es))"
      using take_frames_append [of "b @ t" "texts es"] by simp
    have "shown (snd (log_run parse es (?b, ?h))) = shown ?h @ text_entries parse (?b @ texts es) \<and>
        fst (log_run parse es (?b, ?h)) = snd (take_frames (?b @ texts es))"
    proof (rule Cons.IH)
      show "hook_ok ?h" by (rule hook_ok_frames [OF Cons.prems(1)])
      show "next_frame ?b = None" using drain_rest [of parse "b @ t" h] by (simp add: drain_take_frames)
      show "list_all reads_or_pauses es" using Cons.prems(3) by simp
      show "length (shown ?h @ text_entries parse (?b @ texts es)) \<le> MAX_ENTRIES"
        using Cons.prems(4) shown split 1 by simp
    qed
    then show ?thesis using 1 shown split rest by (simp add: read_chunk_def drain_take_frames)
  next
    case 2
    let ?h = "sync_pausedRef (togglePause h)"
    have "hook_ok ?h" using hook_ok_step [of "(b, h)" parse LogTogglePause] Cons.prems(1) by simp
    moreover have "shown ?h = shown h"
      using Cons.prems(1,4) by (auto simp: shown_def sync_pausedRef_def togglePause_def hook_ok_def slice_last_all Let_def)
    ultimately show ?thesis using Cons.IH [of ?h b] Cons.prems 2 by simp
  qed
qed


subsection \<open>The wire format\<close>

lemma js_split_join:
  assumes "ls \<noteq> []" "\<forall>l\<in>set ls. sep \<notin> set l" shows "js_split sep (js_join [sep] ls) = ls"
  using assms
proof (induction ls rule: list_nonempty_induct)
  case (single l)
  then show ?case by (simp add: js_split_word)
next
  case (cons l ls)
  have app: "js_split sep (w @ sep # s) = w # js_split sep s" if "sep \<notin> set w" for w s
    using that by (induction w) auto
  obtain k ks where "ls = k # ks" using cons by (cases ls) auto
  then show ?case using cons app [of l] by simp
qed

lemma next_frame_lines:
  assumes "ls \<noteq> []" "\<forall>l\<in>set ls. l \<noteq> [] \<and> newline \<notin> set l"
  shows "next_frame (js_join [newline] ls @ [newline, newline] @ r) = Some (js_join [newline] ls, r)"
proof -
  have word: "next_frame (w @ d # s) = (case next_frame (last w # d # s) of
      None \<Rightarrow> None | Some (f, x) \<Rightarrow> Some (butlast w @ f, x))" if "w \<noteq> []" "newline \<notin> set w" for w d s
    using that
  proof (induction w rule: list_nonempty_induct)
    case (single c)
    then show ?case by (auto split: option.splits)
  next
    case (cons c w)
    then obtain k ks where "w = k # ks" by (cases w) auto
    then show ?case using cons by (auto split: option.splits)
  qed
  show ?thesis using assms
  proof (induction ls rule: list_nonempty_induct)
    case (single l)
    have "last l \<noteq> newline" using single by (metis last_in_set list.set_intros(1))
    then show ?case using word [of l newline "newline # r"] single by simp
  next
    case (cons l ls)
    obtain k ks where ls: "ls = k # ks" using cons by (cases ls) auto
    obtain c cs where k: "k = c # cs" "c \<noteq> newline" using cons ls by (cases k) auto
    have "last l \<noteq> newline" using cons by (metis last_in_set list.set_intros(1))
    have head: "js_join [newline] ls = c # drop 1 (js_join [newline] ls)"
      using k by (cases ks) (simp_all add: ls)
    have IH: "next_frame (js_join [newline] ls @ [newline, newline] @ r) = Some (js_join [newline] ls, r)"
      using cons by simp
    have "next_frame (newline # js_join [newline] ls @ [newline, newline] @ r)
        = Some (newline # js_join [newline] ls, r)"
      using IH k(2) by (subst (1) head, subst (asm) (1) head) simp
    then have "next_frame (last l # newline # js_join [newline] ls @ [newline, newline] @ r)
        = Some (last l # newline # js_join [newline] ls, r)"
      using \<open>last l \<noteq> newline\<close> by simp
    moreover have "js_join [newline] (l # ls) = l @ newline # js_join [newline] ls" using ls by simp
    moreover have "butlast l @ [last l] = l" using cons by simp
    ultimately show ?case
      using word [of l newline "js_join [newline] ls @ [newline, newline] @ r"] cons
      by (simp del: js_join.simps)
  qed
qed

text \<open>
  How a message of the log route looks on the wire (server-sent events): its type, a running number,
  and its data (\<open>chunk_json\<close>) as one line of JSON.
\<close>

definition sse_lines :: "(json \<Rightarrow> string) \<Rightarrow> nat \<Rightarrow> LogsChunkPayload \<Rightarrow> string list" where
  "sse_lines stringify n p =
     [''event: logs.chunk'', ''id: '' @ show_nat n, ''data: '' @ stringify (chunk_json p)]"

definition sse_message :: "(json \<Rightarrow> string) \<Rightarrow> nat \<Rightarrow> LogsChunkPayload \<Rightarrow> string" where
  "sse_message stringify n p = js_join [newline] (sse_lines stringify n p) @ [newline, newline]"

text \<open>What \<open>JSON.stringify\<close> promises of a payload: one line without outer blanks that parses back.\<close>

definition one_line_json :: "(json \<Rightarrow> string) \<Rightarrow> (string \<Rightarrow> json option) \<Rightarrow> LogsChunkPayload \<Rightarrow> bool" where
  "one_line_json stringify parse p \<longleftrightarrow>
     parse (stringify (chunk_json p)) = Some (chunk_json p) \<and> newline \<notin> set (stringify (chunk_json p)) \<and>
     js_trim ('' '' @ stringify (chunk_json p)) = stringify (chunk_json p)"

lemma show_nat_no_newline: "newline \<notin> set (show_nat n)"
proof
  assume "newline \<in> set (show_nat n)"
  then have "digit_value newline \<noteq> None" using show_nat_digit_values by blast
  then show False by (simp add: digit_value_def)
qed

lemma sse_lines_ok:
  assumes "one_line_json stringify parse p"
  shows "\<forall>l\<in>set (sse_lines stringify n p). l \<noteq> [] \<and> newline \<notin> set l"
  using assms show_nat_no_newline [of n] by (auto simp: sse_lines_def one_line_json_def)

lemma event_line: "js_trim '' logs.chunk'' = ''logs.chunk''"
  by code_simp

lemma sse_entries:
  assumes "one_line_json stringify parse p"
  shows "frame_entries parse (js_join [newline] (sse_lines stringify n p)) = chunk_entries p"
proof -
  have lines: "js_split newline (js_join [newline] (sse_lines stringify n p)) = sse_lines stringify n p"
    using sse_lines_ok [OF assms] by (intro js_split_join) (auto simp: sse_lines_def)
  have "field (chunk_json p) ''entries'' = Some (JArr (chunk_entries p))"
    by (cases "chunk_containerId p") (simp_all add: chunk_json_def)
  then show ?thesis
    using assms event_line unfolding frame_entries_def lines
    by (simp add: sse_lines_def one_line_json_def js_startsWith_def)
qed

lemma sse_text_entries:
  assumes "\<forall>m\<in>set ms. one_line_json stringify parse (snd m)"
  shows "text_entries parse (concat (map (\<lambda>(n, p). sse_message stringify n p) ms)) = concat (map (chunk_entries \<circ> snd) ms)"
using assms
proof (induction ms)
  case Nil
  then show ?case by (simp add: text_entries_def take_frames_None)
next
  case (Cons m ms)
  obtain n p where m: "m = (n, p)" by (cases m) simp
  have p: "one_line_json stringify parse p" using Cons.prems m by simp
  let ?rest = "concat (map (\<lambda>(n, p). sse_message stringify n p) ms)"
  have "next_frame (sse_message stringify n p @ ?rest) = Some (js_join [newline] (sse_lines stringify n p), ?rest)"
    using next_frame_lines [OF _ sse_lines_ok [OF p], of n ?rest] by (simp add: sse_message_def sse_lines_def)
  then have "text_entries parse (sse_message stringify n p @ ?rest) = chunk_entries p @ text_entries parse ?rest"
    by (simp add: text_entries_def take_frames_Some sse_entries [OF p])
  then show ?case using Cons m by simp
qed

subsection \<open>Properties\<close>

text \<open>
  How the network cuts the stream does not matter: reading its text in any pieces leaves the hook
  and the unread text as if it had come in one.
\<close>

theorem fragmentation_irrelevant:
  assumes "next_frame b = None"
  shows "foldl (\<lambda>s t. read_chunk parse t s) (b, h) ts = read_chunk parse (concat ts) (b, h)"
  using assms
proof (induction ts arbitrary: b h)
  case Nil
  then show ?case by (simp add: read_chunk_def drain_None)
next
  case (Cons t ts)
  have "next_frame (fst (read_chunk parse t (b, h))) = None" by (simp add: read_chunk_def drain_rest)
  then show ?case using Cons.IH [of "fst (read_chunk parse t (b, h))" "snd (read_chunk parse t (b, h))"]
    by (simp add: read_chunk_append)
qed

theorem fragmentation_irrelevant_witness:
  "foldl (\<lambda>s t. read_chunk (\<lambda>t. Some (JObj [(''entries'', JArr [JStr t])])) t s) ([], log_hook_init)
     [''data: x'' @ [newline], [newline], ''data''] =
   read_chunk (\<lambda>t. Some (JObj [(''entries'', JArr [JStr t])])) (''data: x'' @ [newline] @ [newline] @ ''data'') ([], log_hook_init)"
  using fragmentation_irrelevant [of "[]" "\<lambda>t. Some (JObj [(''entries'', JArr [JStr t])])" log_hook_init
      "[''data: x'' @ [newline], [newline], ''data'']"] by simp

text \<open>
  The viewer's memory is bounded: after any events it holds at most 5000 shown and 5000 buffered
  entries, the buffered count it displays is the length of the buffer, and nothing is buffered
  unless it is paused.
\<close>

theorem log_window_bounded:
  "let h = snd (log_run parse es ([], log_hook_init))
   in length (lh_entries h) \<le> 5000 \<and> length (bufferRef h) \<le> 5000 \<and> lh_bufferedCount h = length (bufferRef h) \<and>
      (\<not> lh_paused h \<longrightarrow> bufferRef h = [])"
  using hook_ok_run [of "([], log_hook_init)" parse es] hook_ok_init
  by (simp add: hook_ok_def MAX_ENTRIES_def Let_def)

theorem log_window_bounded_witness:
  "bufferRef (snd (log_run (\<lambda>t. None) [LogTogglePause, LogText ''x'', LogTogglePause] ([], log_hook_init))) = []"
proof -
  have "\<not> lh_paused (snd (log_run (\<lambda>t. None) [LogTogglePause, LogText ''x'', LogTogglePause] ([], log_hook_init)))"
    by (simp add: read_chunk_def drain_None sync_pausedRef_def togglePause_def Let_def log_hook_init_def)
  then show ?thesis
    using log_window_bounded [of "\<lambda>t. None" "[LogTogglePause, LogText ''x'', LogTogglePause]"] by (simp only: Let_def) blast
qed


definition demo_chunk :: LogsChunkPayload where
  "demo_chunk = \<lparr>chunk_requestId = ''r'', chunk_containerId = None, chunk_entries = [JStr ''a'']\<rparr>"

definition demo_log_events :: "log_event list" where
  "demo_log_events =
     [LogText (take 9 (sse_message (\<lambda>v. ''1'') 0 demo_chunk)), LogTogglePause,
      LogText (drop 9 (sse_message (\<lambda>v. ''1'') 0 demo_chunk)), LogTogglePause]"


text \<open>
  A disconnected viewer that is paused and resumed claims to stream: the error is no longer shown and
  the offer to reconnect is gone, although no stream is open.
\<close>

theorem resume_hides_disconnect:
  assumes "lh_status h = Failed" "\<not> lh_paused h"
  shows "let h' = sync_pausedRef (togglePause (sync_pausedRef (togglePause h)))
         in lh_status h' = Live \<and> lv_label (LogsViewer date time as_entry query h') = ''Streaming''"
  using assms by (simp add: togglePause_def sync_pausedRef_def LogsViewer_def Let_def)

subsection \<open>The reading loop ends\<close>

lemma next_frame_None: "next_frame b = None \<longleftrightarrow> \<not> js_includes b [newline, newline]"
  by (induction b rule: next_frame.induct) (auto simp: js_startsWith_def split: option.splits)

lemma next_frame_first: "next_frame b = Some (f, r) \<Longrightarrow> next_frame f = None"
proof (induction b arbitrary: f r rule: next_frame.induct)
  case (1 c d s)
  show ?case
  proof (cases "next_frame (d # s)")
    case None
    with 1 show ?thesis by (auto split: if_splits)
  next
    case (Some p)
    obtain g r' where g: "next_frame (d # s) = Some (g, r')" using Some by (cases p) simp
    have "g = [] \<or> (\<exists>k. g = d # k)" using next_frame_split [OF g] by (cases g) auto
    with 1 g show ?thesis by (auto split: if_splits)
  qed
qed simp_all

text \<open>
  C37. The loop that cuts the stream into frames ends with every complete frame handled, once and in
  order: the buffered text is the handled frames, each followed by its blank line, and an incomplete rest,
  which is what stays buffered. No step is taken without two characters consumed.
\<close>

theorem reading_handles_complete_frames:
  "\<exists>fs rest. fst s @ text = concat (map (\<lambda>f. f @ [newline, newline]) fs) @ rest
     \<and> list_all (\<lambda>f. \<not> js_includes f [newline, newline]) fs \<and> \<not> js_includes rest [newline, newline]
     \<and> read_chunk parse text s = (rest, foldl (\<lambda>h f. handleFrame parse f h) (snd s) fs)
     \<and> 2 * length fs \<le> length (fst s @ text)"
proof -
  have "b = concat (map (\<lambda>f. f @ [newline, newline]) (fst (take_frames b))) @ snd (take_frames b)
      \<and> list_all (\<lambda>f. next_frame f = None) (fst (take_frames b)) \<and> next_frame (snd (take_frames b)) = None
      \<and> 2 * length (fst (take_frames b)) \<le> length b" for b
  proof (induction b rule: take_frames.induct)
    case (1 b)
    show ?case
    proof (cases "next_frame b")
      case None
      then show ?thesis by (simp add: take_frames_None)
    next
      case (Some p)
      obtain f r where p: "next_frame b = Some (f, r)" using Some by (cases p) simp
      have "r = concat (map (\<lambda>f. f @ [newline, newline]) (fst (take_frames r))) @ snd (take_frames r)" using 1 [OF p refl] by blast
      then show ?thesis
        unfolding take_frames_Some [OF p] using 1 [OF p refl] next_frame_split [OF p] next_frame_first [OF p] by simp
    qed
  qed
  from this [of "fst s @ text"] show ?thesis
    by (intro exI [of _ "fst (take_frames (fst s @ text))"] exI [of _ "snd (take_frames (fst s @ text))"])
      (simp add: read_chunk_def drain_take_frames next_frame_None)
qed

end
