(* ===== verification/WebFormat.thy ===== *)
theory WebFormat
  imports WebSession HostsApi Complex_Main
begin

section \<open>Texts and samples of the dashboard\<close>

text \<open>
  \<open>lib/format.ts\<close>, \<open>lib/status.ts\<close>, \<open>lib/ports.ts\<close>, \<open>lib/host-name.ts\<close>, \<open>lib/metrics.ts\<close>,
  \<open>hooks/useHostMetrics.ts\<close> and the types of \<open>types/api.ts\<close> they read. Parsing and printing dates is the
  platform's: \<open>date v\<close> is \<open>new Date(v).getTime()\<close> (\<open>None\<close> for \<open>NaN\<close>), \<open>show_date\<close>, \<open>relative\<close>
  print. Arithmetic is exact. Dashes and ellipses of the
  labels are written in ASCII.
\<close>

subsection \<open>The rows\<close>

record HostMetricsResponse =
  hm_hostId :: string
  hm_cpu :: "json option"
  hm_memory :: "json option"
  hm_collectedAt :: "string option"

record Host =
  ho_id :: string
  ho_uuid :: string
  ho_hostname :: string
  ho_displayName :: "string option"
  ho_os :: string
  ho_architecture :: string
  ho_version :: string
  ho_status :: string
  ho_lastSeen :: "string option"
  ho_metrics :: "HostMetricsResponse option"

text \<open>The reply of \<open>GET /hosts\<close>, as the page reads it.\<close>

definition host_of_dto :: "HostDto \<Rightarrow> Host" where
  "host_of_dto d =
     \<lparr>ho_id = hd_id d, ho_uuid = hd_uuid d, ho_hostname = hd_hostname d, ho_displayName = Some (hd_displayName d),
      ho_os = hd_os d, ho_architecture = hd_architecture d, ho_version = hd_version d, ho_status = hd_status d,
      ho_lastSeen = hd_lastSeen d,
      ho_metrics = Some \<lparr>hm_hostId = md_hostId (hd_metrics d), hm_cpu = md_cpu (hd_metrics d),
                         hm_memory = md_memory (hd_metrics d), hm_collectedAt = md_collectedAt (hd_metrics d)\<rparr>\<rparr>"

subsection \<open>Upper case\<close>

text \<open>\<open>toUpperCase\<close> on code units below 256 (the two whose upper case lies outside stay).\<close>

definition js_upper_char :: "char \<Rightarrow> string" where
  "js_upper_char c =
     (let n = (of_char c :: nat)
      in if 97 \<le> n \<and> n \<le> 122 \<or> 224 \<le> n \<and> n \<le> 254 \<and> n \<noteq> 247 then [char_of (n - 32)]
         else if n = 223 then ''SS'' else [c])"

definition js_toUpperCase :: "string \<Rightarrow> string" where
  "js_toUpperCase s = concat (map js_upper_char s)"

subsection \<open>Dates\<close>

definition formatDateTime :: "(string \<Rightarrow> int option) \<Rightarrow> (int \<Rightarrow> string) \<Rightarrow> string option \<Rightarrow> string" where
  "formatDateTime date show_date v =
     (if \<not> truthy_str v then ''Never''
      else (case date (nullish v []) of None \<Rightarrow> nullish v [] | Some ms \<Rightarrow> show_date ms))"

text \<open>\<open>Math.round\<close>\<close>

definition js_round :: "rat \<Rightarrow> int" where
  "js_round x = \<lfloor>x + 1 / 2\<rfloor>"

text \<open>Units with how many of them make the next one; \<open>None\<close> is infinity.\<close>

definition RELATIVE_STEPS :: "(string \<times> rat option) list" where
  "RELATIVE_STEPS =
     [(''second'', Some 60), (''minute'', Some 60), (''hour'', Some 24), (''day'', Some 30), (''month'', Some 12),
      (''year'', None)]"

text \<open>The loop, with the return after it.\<close>

fun relative_loop :: "(string \<times> rat option) list \<Rightarrow> rat \<Rightarrow> int \<times> string" where
  "relative_loop [] delta = (js_round delta, ''year'')"
| "relative_loop ((u, next) # steps) delta =
     (case next of
        None \<Rightarrow> (js_round delta, u)
      | Some n \<Rightarrow> if \<bar>delta\<bar> < n then (js_round delta, u) else relative_loop steps (delta / n))"

definition formatRelativeTime ::
  "(string \<Rightarrow> int option) \<Rightarrow> (int \<times> string \<Rightarrow> string) \<Rightarrow> int \<Rightarrow> string option \<Rightarrow> string"
where
  "formatRelativeTime date relative now v =
     (if \<not> truthy_str v then ''Never''
      else (case date (nullish v []) of
              None \<Rightarrow> nullish v []
            | Some ms \<Rightarrow>
                (let delta = of_int (ms - now) / 1000
                 in if delta > 0 then ''just now'' else relative (relative_loop RELATIVE_STEPS delta))))"

subsection \<open>Names, sizes and monograms\<close>

definition shortId :: "nat \<Rightarrow> string \<Rightarrow> string" where
  "shortId n key = (if key = [] then ''-'' else if length key > n then js_slice n key else key)"

text \<open>\<open>parts.slice(-2)\<close>\<close>

definition last_two :: "'a list \<Rightarrow> 'a list" where
  "last_two xs = drop (length xs - 2) xs"

definition shortImage :: "string \<Rightarrow> string" where
  "shortImage img =
     (if img = [] then ''-''
      else if js_includes img ''/'' then js_join ''/'' (last_two (js_split CHR ''/'' img)) else img)"

text \<open>The whole part of a logarithm: how often \<open>b\<close> divides.\<close>

fun ilog :: "nat \<Rightarrow> nat \<Rightarrow> nat" where
  "ilog b n = (if b < 2 \<or> n < b then 0 else Suc (ilog b (n div b)))"

declare ilog.simps [simp del]

definition byte_units :: "string list" where
  "byte_units = [''B'', ''KB'', ''MB'', ''GB'', ''TB'']"

text \<open>
  \<open>Math.floor(Math.log(x) / Math.log(1024))\<close> of a positive number: below one, the smallest power of 1024
  that brings it to one, negated.
\<close>

definition floor_log1024 :: "rat \<Rightarrow> int" where
  "floor_log1024 x =
     (if 1 \<le> x then int (ilog 1024 (nat \<lfloor>x\<rfloor>)) else - int (Suc (ilog 1024 (nat (\<lceil>1 / x\<rceil> - 1)))))"

text \<open>\<open>toFixed(1)\<close>\<close>

definition toFixed1 :: "rat \<Rightarrow> string" where
  "toFixed1 x = (let tenths = js_round (10 * x) in show_int (tenths div 10) @ ''.'' @ show_int (tenths mod 10))"

text \<open>The size of a finite number; the index of the unit may be negative, and then there is none.\<close>

definition formatBytes :: "rat \<Rightarrow> string" where
  "formatBytes bytes =
     (if bytes \<le> 0 then ''0 B''
      else (let exponent = min (floor_log1024 bytes) (int (length byte_units) - 1);
                x = bytes / (if 0 \<le> exponent then 1024 ^ nat exponent else 1 / 1024 ^ nat (- exponent))
            in (if x \<ge> 10 \<or> exponent = 0 then show_int (js_round x) else toFixed1 x) @ '' '' @
               (if exponent < 0 then ''undefined'' else byte_units ! nat exponent)))"

definition formatPercent :: "rat \<Rightarrow> string" where
  "formatPercent v = show_int (js_round v) @ ''%''"

definition osLabel :: "string \<Rightarrow> string" where
  "osLabel os =
     (let v = js_toLowerCase os
      in if js_startsWith v ''win'' then ''Windows''
         else if js_includes v ''darwin'' \<or> js_includes v ''mac'' then ''macOS''
         else if js_includes v ''linux'' then ''Linux''
         else if os \<noteq> [] then os else ''Unknown'')"

fun split_on :: "(char \<Rightarrow> bool) \<Rightarrow> string \<Rightarrow> string list" where
  "split_on P [] = [[]]"
| "split_on P (c # s) =
     (if P c then [] # split_on P s else (case split_on P s of [] \<Rightarrow> [[c]] | w # ws \<Rightarrow> (c # w) # ws))"

definition initialsFor :: "string option \<Rightarrow> string" where
  "initialsFor email =
     (let local = hd (js_split CHR ''@'' (nullish email []))
      in if local = [] then ''??''
         else (let parts = filter (\<lambda>p. p \<noteq> []) (split_on (\<lambda>c. c \<in> set ''._-'') local)
               in js_toUpperCase (case parts of
                    p # q # rest \<Rightarrow> [hd p, hd q]
                  | _ \<Rightarrow> js_slice 2 local)))"

definition formatPorts :: "ContainerPort list option \<Rightarrow> string" where
  "formatPorts ports =
     (case ports of
        None \<Rightarrow> ''-''
      | Some [] \<Rightarrow> ''-''
      | Some ps \<Rightarrow> js_join '', '' (map (\<lambda>p. if port_public p \<noteq> []
                                            then port_public p @ '':'' @ number_to_string (port_private p)
                                            else number_to_string (port_private p)) ps))"

subsection \<open>Status\<close>

datatype StatusTone = Success | Warning | Danger | Neutral

definition statusTone :: "string option \<Rightarrow> StatusTone" where
  "statusTone st =
     (let v = js_toLowerCase (js_trim (nullish st []))
      in if v = ''online'' \<or> v = ''running'' \<or> v = ''healthy'' \<or> v = ''up'' \<or> js_startsWith v ''up '' then Success
         else if v = ''restarting'' \<or> v = ''paused'' \<or> v = ''created'' \<or> v = ''unknown'' \<or> v = ''degraded'' \<or> v = ''connecting''
         then Warning
         else if v = ''offline'' \<or> v = ''dead'' \<or> v = ''error'' \<or> v = ''removing'' \<or> js_startsWith v ''exited'' then Danger
         else Neutral)"

definition statusLabel :: "string option \<Rightarrow> string" where
  "statusLabel st =
     (case js_trim (nullish st []) of
        [] \<Rightarrow> ''Unknown''
      | c # r \<Rightarrow> js_toUpperCase [c] @ js_toLowerCase r)"

text \<open>The badge of a status: its tone, whether it pulses, and its label.\<close>

definition StatusBadge :: "string \<Rightarrow> bool \<Rightarrow> string option \<Rightarrow> StatusTone \<times> bool \<times> string" where
  "StatusBadge st live label =
     (let tone = statusTone (Some st) in (tone, live \<and> tone = Success, nullish label (statusLabel (Some st))))"

subsection \<open>Host names\<close>

definition hostDisplayName :: "Host \<Rightarrow> string" where
  "hostDisplayName h =
     (if js_trim (nullish (ho_displayName h) []) \<noteq> [] then js_trim (nullish (ho_displayName h) []) else ho_hostname h)"

definition hostInventoryLabel :: "Host \<Rightarrow> string" where
  "hostInventoryLabel h =
     (let label = hostDisplayName h
      in if label = ho_hostname h then ho_hostname h else label @ '' ('' @ ho_hostname h @ '')'')"

definition web_DISPLAY_NAME_MAX :: nat where
  "web_DISPLAY_NAME_MAX = 64"

definition validateHostDisplayName :: "string \<Rightarrow> string option" where
  "validateHostDisplayName v =
     (let name = js_trim v
      in if name = [] then Some ''Display name must not be empty''
         else if length name > web_DISPLAY_NAME_MAX
         then Some (''Display name must be at most '' @ show_nat web_DISPLAY_NAME_MAX @ '' characters'')
         else None)"

subsection \<open>Renaming a host\<close>

text \<open>\<open>renameHost\<close> of \<open>services/hosts.ts\<close>.\<close>

definition renameHost :: "string option \<Rightarrow> string \<Rightarrow> string \<Rightarrow> web \<Rightarrow> fetch_call \<times> json \<times> web" where
  "renameHost base hostId displayName w =
     apiPatch base (''/hosts/'' @ encodeURIComponent hostId) (Some (JObj [(''displayName'', JStr displayName)])) False w"

text \<open>\<open>onSubmit\<close> of \<open>RenameHostDialog\<close>: the message under the field, or the request that is sent.\<close>

definition rename_submit :: "string option \<Rightarrow> Host \<Rightarrow> string \<Rightarrow> web \<Rightarrow> string + (fetch_call \<times> json \<times> web)" where
  "rename_submit base h v w =
     (case validateHostDisplayName v of
        Some invalid \<Rightarrow> Inl invalid
      | None \<Rightarrow> Inr (renameHost base (ho_id h) (js_trim v) w))"

text \<open>
  \<open>useRenameHost\<close> on success: the updated host replaces the fields of its entry in the cached list
  (\<open>None\<close>: nothing cached), and the toast names it.
\<close>

definition spread_host :: "Host \<Rightarrow> Host \<Rightarrow> Host" where
  "spread_host h updated =
     updated\<lparr>ho_displayName := (case ho_displayName updated of None \<Rightarrow> ho_displayName h | Some n \<Rightarrow> Some n),
             ho_metrics := (case ho_metrics updated of None \<Rightarrow> ho_metrics h | Some m \<Rightarrow> Some m)\<rparr>"

definition rename_cached :: "Host \<Rightarrow> Host list option \<Rightarrow> Host list option" where
  "rename_cached updated current =
     (case current of
        None \<Rightarrow> None
      | Some hosts \<Rightarrow> Some (map (\<lambda>h. if ho_id h = ho_id updated then spread_host h updated else h) hosts))"

definition rename_toast :: "Host \<Rightarrow> string \<times> string" where
  "rename_toast updated = (''Host renamed'', nullish (ho_displayName updated) (ho_hostname updated))"

subsection \<open>Host resources\<close>

record HostResources =
  hr_hasData :: bool
  hr_cpuPercent :: "json option"
  hr_cpuCores :: "json option"
  hr_loadAvg :: "json option"
  hr_memoryPercent :: "json option"
  hr_memoryUsedBytes :: "json option"
  hr_memoryTotalBytes :: "json option"
  hr_memoryAvailableBytes :: "json option"
  hr_collectedAt :: "string option"
  hr_cpuSeries :: "json option list"
  hr_memorySeries :: "json option list"

definition js_zero :: "json option" where
  "js_zero = Some (JNum (js_int 0))"

definition EMPTY_HOST_RESOURCES :: HostResources where
  "EMPTY_HOST_RESOURCES =
     \<lparr>hr_hasData = False, hr_cpuPercent = js_zero, hr_cpuCores = js_zero, hr_loadAvg = Some JNull,
      hr_memoryPercent = js_zero, hr_memoryUsedBytes = js_zero, hr_memoryTotalBytes = js_zero,
      hr_memoryAvailableBytes = js_zero, hr_collectedAt = None, hr_cpuSeries = [], hr_memorySeries = []\<rparr>"

text \<open>\<open>v.k\<close> for a \<open>v\<close> that may be missing.\<close>

definition opt_field :: "json option \<Rightarrow> string \<Rightarrow> json option" where
  "opt_field v k = (case v of None \<Rightarrow> None | Some x \<Rightarrow> field x k)"

definition toHostResources :: "HostMetricsResponse option \<Rightarrow> HostResources" where
  "toHostResources metrics =
     (case metrics of
        None \<Rightarrow> EMPTY_HOST_RESOURCES
      | Some m \<Rightarrow>
          if \<not> json_truthy (hm_cpu m) \<or> \<not> json_truthy (hm_memory m) then EMPTY_HOST_RESOURCES
          else \<lparr>hr_hasData = True, hr_cpuPercent = opt_field (hm_cpu m) ''usagePercent'',
                hr_cpuCores = opt_field (hm_cpu m) ''cores'', hr_loadAvg = opt_field (hm_cpu m) ''loadAvg'',
                hr_memoryPercent = opt_field (hm_memory m) ''usagePercent'',
                hr_memoryUsedBytes = opt_field (hm_memory m) ''usedBytes'',
                hr_memoryTotalBytes = opt_field (hm_memory m) ''totalBytes'',
                hr_memoryAvailableBytes = opt_field (hm_memory m) ''availableBytes'',
                hr_collectedAt = hm_collectedAt m, hr_cpuSeries = [], hr_memorySeries = []\<rparr>)"

definition STALE_METRICS_MS :: int where
  "STALE_METRICS_MS = 45000"

definition isStale :: "(string \<Rightarrow> int option) \<Rightarrow> string option \<Rightarrow> int \<Rightarrow> bool" where
  "isStale date collectedAt now =
     (if \<not> truthy_str collectedAt then True
      else (case date (nullish collectedAt []) of None \<Rightarrow> True | Some ms \<Rightarrow> now - ms > STALE_METRICS_MS))"

subsection \<open>The history of a host\<close>

definition HISTORY_LENGTH :: nat where
  "HISTORY_LENGTH = 24"

record Sample =
  sa_collectedAt :: string
  sa_cpu :: "json option"
  sa_memory :: "json option"

record metrics_hook =
  mh_hostRef :: "string option"
  mh_history :: "Sample list"

text \<open>A render with another host resets the history.\<close>

definition metrics_render :: "string option \<Rightarrow> metrics_hook \<Rightarrow> metrics_hook" where
  "metrics_render hostId h =
     (if mh_hostRef h \<noteq> hostId then h\<lparr>mh_hostRef := hostId, mh_history := []\<rparr> else h)"

text \<open>The effect on new query data.\<close>

definition metrics_data :: "HostMetricsResponse option \<Rightarrow> metrics_hook \<Rightarrow> metrics_hook" where
  "metrics_data reply h =
     (case reply of
        None \<Rightarrow> h
      | Some m \<Rightarrow>
          if \<not> json_truthy (hm_cpu m) \<or> \<not> json_truthy (hm_memory m) \<or> \<not> truthy_str (hm_collectedAt m) then h
          else (let sample = \<lparr>sa_collectedAt = nullish (hm_collectedAt m) [],
                              sa_cpu = opt_field (hm_cpu m) ''usagePercent'',
                              sa_memory = opt_field (hm_memory m) ''usagePercent''\<rparr>;
                    previous = mh_history h
                in if previous \<noteq> [] \<and> sa_collectedAt (last previous) = sa_collectedAt sample then h
                   else h\<lparr>mh_history := drop (length (previous @ [sample]) - HISTORY_LENGTH) (previous @ [sample])\<rparr>))"

definition metrics_resources :: "HostMetricsResponse option \<Rightarrow> metrics_hook \<Rightarrow> HostResources" where
  "metrics_resources reply h =
     (toHostResources reply)\<lparr>hr_cpuSeries := map sa_cpu (mh_history h), hr_memorySeries := map sa_memory (mh_history h)\<rparr>"


subsection \<open>The unit of a size\<close>

text \<open>Less than one byte has a unit that does not exist.\<close>

lemma formatBytes_below_one: "formatBytes (1 / 2) = ''512 undefined''"
  by code_simp


lemma ilog_bounds:
  "2 \<le> b \<Longrightarrow> 0 < n \<Longrightarrow> b ^ ilog b n \<le> n \<and> n < b ^ Suc (ilog b n)"
proof (induction b n rule: ilog.induct)
  case (1 b n)
  show ?case
  proof (cases "n < b")
    case True
    then show ?thesis using 1(3) by (simp add: ilog.simps)
  next
    case False
    then have IH: "b ^ ilog b (n div b) \<le> n div b" "n div b < b ^ Suc (ilog b (n div b))"
      using 1 by (simp_all add: div_greater_zero_iff)
    have "ilog b n = Suc (ilog b (n div b))" using False 1(2) by (subst ilog.simps) simp
    then show ?thesis using IH 1(2) by (simp add: div_less_iff_less_mult less_eq_div_iff_mult_less_eq mult.commute)
  qed
qed

subsection \<open>Relative times\<close>

lemma js_round_neg: "x \<le> 0 \<Longrightarrow> js_round x \<le> 0"
  unfolding js_round_def by (subst floor_le_iff) simp

lemma js_round_bound:
  assumes "\<bar>x\<bar> < of_int n" "x \<le> 0" shows "- n \<le> js_round x"
  unfolding js_round_def using assms by (subst le_floor_iff) simp

text \<open>How many of a unit make the next one.\<close>

definition unit_limit :: "string \<Rightarrow> int" where
  "unit_limit u = (if u = ''second'' \<or> u = ''minute'' then 60 else if u = ''hour'' then 24 else if u = ''day'' then 30 else 12)"

lemma relative_loop_bounds:
  assumes "delta \<le> 0" "relative_loop RELATIVE_STEPS delta = (n, u)"
  shows "n \<le> 0 \<and> (u = ''year'' \<or> - unit_limit u \<le> n)"
proof -
  have scaled: "delta / 60 \<le> 0" "delta / 3600 \<le> 0" "delta / 86400 \<le> 0" "delta / 2592000 \<le> 0" "delta / 31104000 \<le> 0"
    using assms(1) by simp_all
  consider "\<bar>delta\<bar> < of_int 60" "(n, u) = (js_round delta, ''second'')"
    | "\<bar>delta / 60\<bar> < of_int 60" "(n, u) = (js_round (delta / 60), ''minute'')"
    | "\<bar>delta / 3600\<bar> < of_int 24" "(n, u) = (js_round (delta / 3600), ''hour'')"
    | "\<bar>delta / 86400\<bar> < of_int 30" "(n, u) = (js_round (delta / 86400), ''day'')"
    | "\<bar>delta / 2592000\<bar> < of_int 12" "(n, u) = (js_round (delta / 2592000), ''month'')"
    | "(n, u) = (js_round (delta / 31104000), ''year'')"
    using assms(2) by (auto simp: RELATIVE_STEPS_def split: if_splits)
  then show ?thesis
    by cases (use assms(1) scaled js_round_neg js_round_bound in \<open>auto simp: unit_limit_def\<close>)
qed

subsection \<open>Properties\<close>

text \<open>
  The rename dialog and the server agree: the dialog refuses a name exactly when the server would
  answer 400 to it, and what it sends otherwise is a body the server accepts as the trimmed name.
\<close>

theorem rename_dialog_agrees_with_server:
  "case rename_submit base h v w of
     Inl m \<Rightarrow> validateUpdateHost (JObj [(''displayName'', JStr v)]) = None
   | Inr (c, t, w') \<Rightarrow>
       validateUpdateHost (JObj [(''displayName'', JStr v)]) = Some (js_trim v) \<and>
       fc_method c = PATCH \<and> fc_body c = Some (JObj [(''displayName'', JStr (js_trim v))]) \<and>
       validateUpdateHost (JObj [(''displayName'', JStr (js_trim v))]) = Some (js_trim v)"
  by (auto simp: rename_submit_def validateHostDisplayName_def validateUpdateHost_def web_DISPLAY_NAME_MAX_def
      HOST_DISPLAY_NAME_MAX_LENGTH_def renameHost_def apiPatch_def request_send_def Let_def split: option.splits prod.splits if_splits)

text \<open>The collection times of the samples in a sequence of replies.\<close>

definition sample_times :: "HostMetricsResponse option list \<Rightarrow> string list" where
  "sample_times rs =
     concat (map (\<lambda>r. case r of
        None \<Rightarrow> []
      | Some m \<Rightarrow> if json_truthy (hm_cpu m) \<and> json_truthy (hm_memory m) \<and> truthy_str (hm_collectedAt m)
                 then [nullish (hm_collectedAt m) []] else []) rs)"

lemma remdups_adj_snoc:
  "remdups_adj (xs @ [x]) = (if xs \<noteq> [] \<and> last xs = x then remdups_adj xs else remdups_adj xs @ [x])"
  by (induction xs rule: remdups_adj.induct) auto

lemma sample_times_snoc: "sample_times (rs @ [r]) = sample_times rs @ sample_times [r]"
  by (simp add: sample_times_def)

lemma last_drop_nonempty: "n < length xs \<Longrightarrow> last (drop n xs) = last xs \<and> drop n xs \<noteq> []"
  by simp

lemma history_step:
  fixes acc :: "string list"
  assumes "map sa_collectedAt (mh_history h) = drop (length acc - 24) acc" "r = Some m"
    and "json_truthy (hm_cpu m)" "json_truthy (hm_memory m)" "hm_collectedAt m = Some c" "c \<noteq> []"
  shows "map sa_collectedAt (mh_history (metrics_data r h))
           = (let acc' = (if acc \<noteq> [] \<and> last acc = c then acc else acc @ [c]) in drop (length acc' - 24) acc')"
proof -
  have len: "length (mh_history h) = min 24 (length acc)" using arg_cong [OF assms(1), of length] by auto
  have nonempty: "mh_history h \<noteq> [] \<longleftrightarrow> acc \<noteq> []" using len by (cases "mh_history h"; cases acc) auto
  have lst: "sa_collectedAt (last (mh_history h)) = last acc" if "acc \<noteq> []"
    using assms(1) that nonempty last_drop_nonempty [of "length acc - 24" acc] last_map [of "mh_history h" sa_collectedAt]
    by (cases acc) auto
  show ?thesis
  proof (cases "acc \<noteq> [] \<and> last acc = c")
    case True
    then have "metrics_data r h = h" using assms nonempty lst by (simp add: metrics_data_def)
    then show ?thesis using True assms(1) by (simp add: Let_def)
  next
    case False
    let ?s = "\<lparr>sa_collectedAt = c, sa_cpu = opt_field (hm_cpu m) ''usagePercent'', sa_memory = opt_field (hm_memory m) ''usagePercent''\<rparr>"
    have "\<not> (mh_history h \<noteq> [] \<and> sa_collectedAt (last (mh_history h)) = c)" using False nonempty lst by auto
    then have "mh_history (metrics_data r h) = drop (length (mh_history h @ [?s]) - 24) (mh_history h @ [?s])"
      using assms(2-6) by (auto simp: metrics_data_def HISTORY_LENGTH_def Let_def)
    then have "map sa_collectedAt (mh_history (metrics_data r h))
        = drop (length (mh_history h @ [?s]) - 24) (map sa_collectedAt (mh_history h) @ [c])"
      by (simp only: drop_map [symmetric] map_append) simp
    also have "\<dots> = drop (length (acc @ [c]) - 24) (acc @ [c])"
      using len assms(1) by (auto simp: min_def Suc_diff_le [symmetric])
    finally show ?thesis using False by (auto simp: Let_def)
  qed
qed

text \<open>
  The charted history of a host is the last 24 of the samples the polls returned, with a sample
  returned by several successive polls counted once.
\<close>

theorem history_is_recent_samples:
  "map sa_collectedAt (mh_history (foldl (\<lambda>h r. metrics_data r h) \<lparr>mh_hostRef = k, mh_history = []\<rparr> rs))
     = (let ts = remdups_adj (sample_times rs) in drop (length ts - 24) ts)"
proof (induction rs rule: rev_induct)
  case Nil
  then show ?case by (simp add: sample_times_def)
next
  case (snoc r rs)
  let ?h = "foldl (\<lambda>h r. metrics_data r h) \<lparr>mh_hostRef = k, mh_history = []\<rparr> rs"
  let ?ts = "remdups_adj (sample_times rs)"
  have IH: "map sa_collectedAt (mh_history ?h) = drop (length ?ts - 24) ?ts" using snoc by (simp add: Let_def)
  show ?case
  proof (cases "sample_times [r]")
    case Nil
    then have "metrics_data r ?h = ?h"
      by (auto simp: sample_times_def metrics_data_def split: option.splits if_splits)
    then show ?thesis using IH Nil sample_times_snoc [of rs r] by (simp add: Let_def)
  next
    case (Cons c cs)
    then obtain m where m: "r = Some m" "json_truthy (hm_cpu m)" "json_truthy (hm_memory m)" "hm_collectedAt m = Some c"
      "c \<noteq> []" "cs = []"
      by (auto simp: sample_times_def split: option.splits if_splits)
    have "remdups_adj (sample_times (rs @ [r])) = (if ?ts \<noteq> [] \<and> last ?ts = c then ?ts else ?ts @ [c])"
      using Cons m(6) sample_times_snoc [of rs r] remdups_adj_snoc [of "sample_times rs" c] by simp
    then show ?thesis using history_step [OF IH m(1-5)] by (simp add: Let_def)
  qed
qed

end
