(* ===== verification/WebTables.thy ===== *)
theory WebTables
  imports WebFormat
begin

section \<open>Inventory, tables and cards\<close>

text \<open>
  \<open>hooks/useHostInventory.ts\<close>, \<open>components/ui/pagination.tsx\<close> and \<open>components/ContainerTable.tsx\<close>.
  A component is a function from its properties and state to what it shows: the texts, which controls
  are disabled, and what each control does. Style classes and icons are left out.
\<close>

subsection \<open>The inventory of all hosts\<close>

record ContainerRow = ContainerSummary +
  cr_hostId :: "string option"
  cr_hostname :: "string option"

definition container_row :: "ContainerSummary \<Rightarrow> string option \<Rightarrow> string option \<Rightarrow> ContainerRow" where
  "container_row c hostId hostname =
     \<lparr>c_id = c_id c, c_name = c_name c, c_image = c_image c, c_status = c_status c, c_state = c_state c,
      c_ports = c_ports c, c_created = c_created c, cr_hostId = hostId, cr_hostname = hostname\<rparr>"

text \<open>One query of \<open>useQueries\<close>: \<open>data?.containers\<close> and the flags the hook reads.\<close>

record query_result =
  qr_containers :: "ContainerSummary list option"
  qr_isLoading :: bool
  qr_isFetching :: bool
  qr_isError :: bool

record HostInventoryEntry =
  hi_hostId :: string
  hi_containers :: "ContainerSummary list"
  hi_total :: nat
  hi_running :: nat
  hi_isLoading :: bool
  hi_isError :: bool

definition isRunningState :: "string option \<Rightarrow> bool" where
  "isRunningState st = (js_toLowerCase (nullish st []) = ''running'')"

definition inventory_entry :: "Host \<Rightarrow> query_result \<Rightarrow> HostInventoryEntry" where
  "inventory_entry h r =
     (let containers = nullish (qr_containers r) []
      in \<lparr>hi_hostId = ho_id h, hi_containers = containers, hi_total = length containers,
          hi_running = length (filter (\<lambda>c. isRunningState (Some (c_state c))) containers),
          hi_isLoading = qr_isLoading r, hi_isError = qr_isError r\<rparr>)"

text \<open>The loop that fills the map; there is one result per host.\<close>

fun fill_inventory ::
  "Host list \<Rightarrow> query_result list \<Rightarrow> (string, HostInventoryEntry) js_map \<Rightarrow> (string, HostInventoryEntry) js_map"
where
  "fill_inventory (h # hs) (r # rs) m = fill_inventory hs rs (map_set (ho_id h) (inventory_entry h r) m)"
| "fill_inventory hs rs m = m"

definition inventory_byHostId :: "Host list \<Rightarrow> query_result list \<Rightarrow> (string, HostInventoryEntry) js_map" where
  "inventory_byHostId hosts results = fill_inventory hosts results []"

definition inventory_all :: "Host list \<Rightarrow> query_result list \<Rightarrow> ContainerRow list" where
  "inventory_all hosts results =
     concat (map (\<lambda>(h, r). map (\<lambda>c. container_row c (Some (ho_id h)) (Some (hostInventoryLabel h)))
                              (nullish (qr_containers r) [])) (zip hosts results))"

definition inventory_isLoading :: "query_result list \<Rightarrow> bool" where
  "inventory_isLoading results = list_ex qr_isLoading results"

definition inventory_isFetching :: "query_result list \<Rightarrow> bool" where
  "inventory_isFetching results = list_ex qr_isFetching results"

subsection \<open>Pagination\<close>

datatype page_entry = PageNumber nat | Gap

definition buildPages :: "nat \<Rightarrow> nat \<Rightarrow> page_entry list" where
  "buildPages page pageCount =
     (if pageCount \<le> 7 then map PageNumber [1..<Suc pageCount]
      else (let start = max 2 (page - 1);
                end' = min (pageCount - 1) (page + 1)
            in [PageNumber 1] @ (if start > 2 then [Gap] else []) @
               map PageNumber [start..<Suc end'] @
               (if end' < pageCount - 1 then [Gap] else []) @ [PageNumber pageCount]))"

record pagination_view =
  pv_first :: nat
  pv_last :: nat
  pv_total :: nat
  pv_label :: string
  pv_previousDisabled :: bool
  pv_pages :: "(page_entry \<times> bool) list"
  pv_nextDisabled :: bool

text \<open>Each page button comes with whether it is the current one.\<close>

definition Pagination :: "nat \<Rightarrow> nat \<Rightarrow> nat \<Rightarrow> nat \<Rightarrow> string \<Rightarrow> pagination_view" where
  "Pagination page pageCount items pageSize label =
     \<lparr>pv_first = (if items = 0 then 0 else (page - 1) * pageSize + 1),
      pv_last = min (page * pageSize) items, pv_total = items, pv_label = label,
      pv_previousDisabled = (page \<le> 1),
      pv_pages = map (\<lambda>e. (e, e = PageNumber page)) (buildPages page pageCount),
      pv_nextDisabled = (page \<ge> pageCount)\<rparr>"

subsection \<open>The container table\<close>

datatype StatusFilter = FilterAll | FilterRunning | FilterExited | FilterPaused | FilterRestarting

fun filter_key :: "StatusFilter \<Rightarrow> string" where
  "filter_key FilterAll = ''all''"
| "filter_key FilterRunning = ''running''"
| "filter_key FilterExited = ''exited''"
| "filter_key FilterPaused = ''paused''"
| "filter_key FilterRestarting = ''restarting''"

definition PAGE_SIZE :: nat where
  "PAGE_SIZE = 10"

record tally =
  ta_running :: nat
  ta_exited :: nat
  ta_paused :: nat
  ta_restarting :: nat

definition row_state :: "'a ContainerSummary_scheme \<Rightarrow> string" where
  "row_state c = js_toLowerCase (c_state c)"

definition tally_one :: "tally \<Rightarrow> ContainerRow \<Rightarrow> tally" where
  "tally_one t c =
     (let state = row_state c
      in if state = ''running'' then t\<lparr>ta_running := Suc (ta_running t)\<rparr>
         else if state = ''exited'' then t\<lparr>ta_exited := Suc (ta_exited t)\<rparr>
         else if state = ''paused'' then t\<lparr>ta_paused := Suc (ta_paused t)\<rparr>
         else if state = ''restarting'' then t\<lparr>ta_restarting := Suc (ta_restarting t)\<rparr>
         else t)"

definition tally_counts :: "ContainerRow list \<Rightarrow> tally" where
  "tally_counts cs = foldl tally_one \<lparr>ta_running = 0, ta_exited = 0, ta_paused = 0, ta_restarting = 0\<rparr> cs"

definition row_passes :: "StatusFilter \<Rightarrow> string \<Rightarrow> ContainerRow \<Rightarrow> bool" where
  "row_passes f v c =
     (if f \<noteq> FilterAll \<and> row_state c \<noteq> filter_key f then False
      else if v = [] then True
      else js_includes (js_toLowerCase (c_name c)) v \<or> js_includes (js_toLowerCase (c_image c)) v \<or>
           js_includes (js_toLowerCase (c_id c)) v \<or> js_includes (js_toLowerCase (nullish (cr_hostname c) [])) v)"

definition filter_rows :: "StatusFilter \<Rightarrow> string \<Rightarrow> ContainerRow list \<Rightarrow> ContainerRow list" where
  "filter_rows f query cs = filter (row_passes f (js_toLowerCase (js_trim query))) cs"

record table_state =
  ts_query :: string
  ts_filter :: StatusFilter
  ts_page :: nat

definition table_init :: table_state where
  "table_init = \<lparr>ts_query = [], ts_filter = FilterAll, ts_page = 1\<rparr>"

text \<open>A change of the query or the filter, with the effect that goes back to the first page.\<close>

definition set_query :: "string \<Rightarrow> table_state \<Rightarrow> table_state" where
  "set_query q s = (if q = ts_query s then s else s\<lparr>ts_query := q, ts_page := 1\<rparr>)"

definition set_filter :: "StatusFilter \<Rightarrow> table_state \<Rightarrow> table_state" where
  "set_filter f s = (if f = ts_filter s then s else s\<lparr>ts_filter := f, ts_page := 1\<rparr>)"

definition set_page :: "nat \<Rightarrow> table_state \<Rightarrow> table_state" where
  "set_page p s = s\<lparr>ts_page := p\<rparr>"

definition clear_filters :: "table_state \<Rightarrow> table_state" where
  "clear_filters s = set_filter FilterAll (set_query [] s)"

definition page_count :: "'a list \<Rightarrow> nat" where
  "page_count rows = max 1 ((length rows + PAGE_SIZE - 1) div PAGE_SIZE)"

definition current_page :: "nat \<Rightarrow> 'a list \<Rightarrow> nat" where
  "current_page page rows = min page (page_count rows)"

text \<open>\<open>rows.slice((p - 1) * PAGE_SIZE, p * PAGE_SIZE)\<close>\<close>

definition page_rows :: "nat \<Rightarrow> 'a list \<Rightarrow> 'a list" where
  "page_rows p rows = drop ((p - 1) * PAGE_SIZE) (take (p * PAGE_SIZE) rows)"

subsection \<open>Rows\<close>

text \<open>
  \<open>new Date(created * 1000)\<close> in milliseconds, and what \<open>toISOString\<close> makes of it: \<open>None\<close> is the
  \<open>RangeError\<close> of a time outside the range of dates.
\<close>

definition trunc_div :: "int \<Rightarrow> int \<Rightarrow> int" where
  "trunc_div a b = (if a < 0 then - ((- a) div b) else a div b)"

fun created_ms :: "js_number \<Rightarrow> int option" where
  "created_ms (Finite m e) =
     (let ms = (if e \<ge> 0 then m * 10 ^ nat e * 1000 else trunc_div (m * 1000) (10 ^ nat (- e)))
      in if \<bar>ms\<bar> \<le> 8640000000000000 then Some ms else None)"
| "created_ms n = None"

definition created_text :: "(string \<Rightarrow> int option) \<Rightarrow> (int \<Rightarrow> string) \<Rightarrow> ContainerRow \<Rightarrow> string option" where
  "created_text date show_date c =
     (case created_ms (c_created c) of
        None \<Rightarrow> None
      | Some ms \<Rightarrow> Some (formatDateTime date show_date (Some (toISOString ms))))"

record icon_action =
  ia_label :: string
  ia_disabled :: bool
  ia_loading :: bool
  ia_title :: string
  ia_action :: ContainerAction

definition NEEDS_ADMIN :: string where
  "NEEDS_ADMIN = ''Requires the ADMIN role''"

text \<open>\<open>busyKey\<close> is \<open>id:action\<close>; a container id contains no colon.\<close>

definition row_busy :: "string option \<Rightarrow> ContainerRow \<Rightarrow> bool" where
  "row_busy busyKey c = (case busyKey of None \<Rightarrow> False | Some k \<Rightarrow> js_startsWith k (c_id c @ '':''))"

definition busy_action :: "string option \<Rightarrow> string option" where
  "busy_action busyKey =
     (case busyKey of
        None \<Rightarrow> None
      | Some k \<Rightarrow> (case js_split CHR '':'' k of a # b # r \<Rightarrow> Some b | _ \<Rightarrow> None))"

definition IconAction :: "string \<Rightarrow> bool \<Rightarrow> bool \<Rightarrow> string option \<Rightarrow> ContainerAction \<Rightarrow> icon_action" where
  "IconAction label disabled loading title action =
     \<lparr>ia_label = label, ia_disabled = disabled, ia_loading = loading, ia_title = nullish title label, ia_action = action\<rparr>"

definition row_actions :: "string option \<Rightarrow> bool \<Rightarrow> bool \<Rightarrow> ContainerRow \<Rightarrow> icon_action list" where
  "row_actions busyKey canManage has_onAction c =
     (let running = (row_state c = ''running'');
          paused = (row_state c = ''paused'');
          rowBusy = row_busy busyKey c;
          busyAction = busy_action busyKey;
          title = (if canManage then None else Some NEEDS_ADMIN)
      in [IconAction ''Start'' (running \<or> paused \<or> rowBusy \<or> \<not> has_onAction \<or> \<not> canManage)
            (rowBusy \<and> busyAction = Some ''start'') title Start,
          IconAction ''Stop'' (\<not> running \<or> rowBusy \<or> \<not> has_onAction \<or> \<not> canManage)
            (rowBusy \<and> busyAction = Some ''stop'') title Stop,
          IconAction ''Restart'' (\<not> running \<or> rowBusy \<or> \<not> has_onAction \<or> \<not> canManage)
            (rowBusy \<and> busyAction = Some ''restart'') title Restart])"

datatype menu_effect = DoInspect | DoViewLogs | DoAction ContainerAction | DoCopy string

datatype menu_entry = MenuItem string bool menu_effect | MenuSeparator | MenuNote string

definition RowMenuItems :: "bool \<Rightarrow> bool \<Rightarrow> ContainerRow \<Rightarrow> menu_entry list" where
  "RowMenuItems canManage has_onAction c =
     (let running = (row_state c = ''running''); paused = (row_state c = ''paused'')
      in [MenuItem ''Inspect'' False DoInspect, MenuItem ''Logs'' False DoViewLogs] @
         (if has_onAction
          then [MenuSeparator,
                MenuItem ''Start'' (running \<or> \<not> canManage) (DoAction Start),
                MenuItem ''Stop'' (\<not> running \<or> \<not> canManage) (DoAction Stop),
                MenuItem ''Restart'' (\<not> running \<or> \<not> canManage) (DoAction Restart)] @
               (if running then [MenuItem ''Pause'' (\<not> canManage) (DoAction Pause)] else []) @
               (if paused then [MenuItem ''Unpause'' (\<not> canManage) (DoAction Unpause)] else []) @
               (if \<not> canManage then [MenuNote NEEDS_ADMIN] else [])
          else []) @
         [MenuSeparator, MenuItem ''Copy container ID'' False (DoCopy (c_id c)),
          MenuItem ''Copy image'' False (DoCopy (c_image c)), MenuSeparator,
          MenuItem ''Delete'' (\<not> has_onAction \<or> \<not> canManage) (DoAction Remove)])"

record row_view =
  rv_tone :: StatusTone
  rv_pulse :: bool
  rv_name :: string
  rv_host :: "string option option"
  rv_image :: string
  rv_shortId :: string
  rv_ports :: string
  rv_link :: "string option"
  rv_created :: string
  rv_badge :: "StatusTone \<times> bool \<times> string"
  rv_status :: "string option"
  rv_actions :: "icon_action list"
  rv_menu :: "menu_entry list"

text \<open>The link of the ports cell: \<open>http://localhost:\<close> and the first mapping's public port.\<close>

definition ports_link :: "ContainerRow \<Rightarrow> string option" where
  "ports_link c =
     (if formatPorts (Some (c_ports c)) = ''-'' then None
      else Some (''http://localhost:'' @ (case c_ports c of [] \<Rightarrow> ''undefined'' | p # ps \<Rightarrow> port_public p)))"

text \<open>A row; \<open>None\<close> when rendering it throws.\<close>

definition container_row_view ::
  "(string \<Rightarrow> int option) \<Rightarrow> (int \<Rightarrow> string) \<Rightarrow> string option \<Rightarrow> bool \<Rightarrow> bool \<Rightarrow> bool \<Rightarrow> ContainerRow \<Rightarrow> row_view option"
where
  "container_row_view date show_date busyKey showHostColumn canManage has_onAction c =
     (case created_text date show_date c of
        None \<Rightarrow> None
      | Some created \<Rightarrow>
          Some \<lparr>rv_tone = statusTone (Some (c_state c)), rv_pulse = (row_state c = ''running''), rv_name = c_name c,
                rv_host = (if showHostColumn then Some (cr_hostname c) else None), rv_image = c_image c,
                rv_shortId = shortId 12 (c_id c), rv_ports = formatPorts (Some (c_ports c)), rv_link = ports_link c,
                rv_created = created, rv_badge = StatusBadge (c_state c) (row_state c = ''running'') None,
                rv_status = (if c_status c = [] then None else Some (c_status c)),
                rv_actions = row_actions busyKey canManage has_onAction c,
                rv_menu = RowMenuItems canManage has_onAction c\<rparr>)"

fun all_or_none :: "'a option list \<Rightarrow> 'a list option" where
  "all_or_none [] = Some []"
| "all_or_none (x # xs) =
     (case x of None \<Rightarrow> None | Some v \<Rightarrow> (case all_or_none xs of None \<Rightarrow> None | Some vs \<Rightarrow> Some (v # vs)))"

datatype table_body =
    TableEmpty string string
  | TableNoMatch
  | TableRows "row_view list" pagination_view

record table_view =
  tv_chips :: "(StatusFilter \<times> string \<times> nat \<times> bool) list"
  tv_columns :: nat
  tv_body :: table_body

definition filter_chips :: "StatusFilter \<Rightarrow> ContainerRow list \<Rightarrow> (StatusFilter \<times> string \<times> nat \<times> bool) list" where
  "filter_chips f cs =
     (let counts = tally_counts cs
      in [(FilterAll, ''All'', length cs, f = FilterAll),
          (FilterRunning, ''Running'', ta_running counts, f = FilterRunning),
          (FilterExited, ''Exited'', ta_exited counts, f = FilterExited),
          (FilterPaused, ''Paused'', ta_paused counts, f = FilterPaused),
          (FilterRestarting, ''Restarting'', ta_restarting counts, f = FilterRestarting)])"

definition ContainerTable ::
  "(string \<Rightarrow> int option) \<Rightarrow> (int \<Rightarrow> string) \<Rightarrow> string option \<Rightarrow> bool \<Rightarrow> bool \<Rightarrow> bool \<Rightarrow> string \<Rightarrow> string \<Rightarrow>
     ContainerRow list \<Rightarrow> table_state \<Rightarrow> table_view option"
where
  "ContainerTable date show_date busyKey showHostColumn canManage has_onAction emptyTitle emptyDescription cs s =
     (let filtered = filter_rows (ts_filter s) (ts_query s) cs;
          page = current_page (ts_page s) filtered;
          chips = filter_chips (ts_filter s) cs;
          columns = (if showHostColumn then 9 else 8)
      in if cs = []
         then Some \<lparr>tv_chips = chips, tv_columns = columns, tv_body = TableEmpty emptyTitle emptyDescription\<rparr>
         else if filtered = [] then Some \<lparr>tv_chips = chips, tv_columns = columns, tv_body = TableNoMatch\<rparr>
         else (case all_or_none (map (container_row_view date show_date busyKey showHostColumn canManage has_onAction)
                                     (page_rows page filtered)) of
                 None \<Rightarrow> None
               | Some rows \<Rightarrow>
                   Some \<lparr>tv_chips = chips, tv_columns = columns,
                         tv_body = TableRows rows
                           (Pagination page (page_count filtered) (length filtered) PAGE_SIZE ''containers'')\<rparr>))"

text \<open>\<open>ContextMenu\<close>: the menu is kept inside the window.\<close>

definition context_menu_position :: "int \<Rightarrow> int \<Rightarrow> int \<Rightarrow> int \<Rightarrow> int \<times> int" where
  "context_menu_position x y innerWidth innerHeight = (min x (innerWidth - 230), min y (innerHeight - 340))"


subsection \<open>Counting and paging\<close>

lemma tally_fold:
  "ta_running (foldl tally_one t cs) = ta_running t + length (filter (\<lambda>c. row_state c = ''running'') cs)"
  "ta_exited (foldl tally_one t cs) = ta_exited t + length (filter (\<lambda>c. row_state c = ''exited'') cs)"
  "ta_paused (foldl tally_one t cs) = ta_paused t + length (filter (\<lambda>c. row_state c = ''paused'') cs)"
  "ta_restarting (foldl tally_one t cs) = ta_restarting t + length (filter (\<lambda>c. row_state c = ''restarting'') cs)"
  by (induction cs arbitrary: t) (simp_all add: tally_one_def Let_def)

lemma tally_counts_filter:
  "ta_running (tally_counts cs) = length (filter (\<lambda>c. row_state c = ''running'') cs)"
  "ta_exited (tally_counts cs) = length (filter (\<lambda>c. row_state c = ''exited'') cs)"
  "ta_paused (tally_counts cs) = length (filter (\<lambda>c. row_state c = ''paused'') cs)"
  "ta_restarting (tally_counts cs) = length (filter (\<lambda>c. row_state c = ''restarting'') cs)"
  by (simp_all add: tally_counts_def tally_fold)

lemma blank_trim [simp]: "js_toLowerCase (js_trim []) = []"
  by (simp add: js_trim_def js_trimStart_def js_toLowerCase_def)

lemma filter_rows_state:
  "f \<noteq> FilterAll \<Longrightarrow> filter_rows f [] cs = filter (\<lambda>c. row_state c = filter_key f) cs"
  by (auto simp: filter_rows_def row_passes_def intro!: filter_cong split: if_splits)

lemma filter_rows_all: "filter_rows FilterAll [] cs = cs"
  by (simp add: filter_rows_def row_passes_def)

lemma page_count_bounds:
  "1 \<le> page_count rows" "length rows \<le> page_count rows * PAGE_SIZE"
  by (auto simp: page_count_def PAGE_SIZE_def)

lemma page_rows_length: "length (page_rows p rows) \<le> PAGE_SIZE"
  by (cases p) (auto simp: page_rows_def PAGE_SIZE_def)

lemma pages_upto: "concat (map (\<lambda>p. page_rows p rows) [1..<Suc n]) = take (n * PAGE_SIZE) rows"
proof (induction n)
  case (Suc n)
  have "concat (map (\<lambda>p. page_rows p rows) [1..<Suc (Suc n)])
      = concat (map (\<lambda>p. page_rows p rows) [1..<Suc n]) @ page_rows (Suc n) rows" by simp
  also have "\<dots> = take (n * PAGE_SIZE) rows @ drop (n * PAGE_SIZE) (take (Suc n * PAGE_SIZE) rows)"
    using Suc by (simp add: page_rows_def)
  also have "\<dots> = take (Suc n * PAGE_SIZE) rows"
    by (metis append_take_drop_id min.absorb1 le_add2 mult_Suc take_take)
  finally show ?case .
qed simp

subsection \<open>Page numbers\<close>

text \<open>The numbers among the entries, and the gap between neighbours.\<close>

fun page_numbers :: "page_entry list \<Rightarrow> nat list" where
  "page_numbers [] = []"
| "page_numbers (PageNumber n # es) = n # page_numbers es"
| "page_numbers (Gap # es) = page_numbers es"

lemma page_numbers_append [simp]: "page_numbers (a @ b) = page_numbers a @ page_numbers b"
  by (induction a rule: page_numbers.induct) simp_all

lemma page_numbers_map [simp]: "page_numbers (map PageNumber ns) = ns"
  by (induction ns) simp_all

fun gaps_hide :: "page_entry list \<Rightarrow> bool" where
  "gaps_hide (PageNumber a # Gap # PageNumber b # es) = (Suc a < b \<and> gaps_hide (PageNumber b # es))"
| "gaps_hide (PageNumber a # PageNumber b # es) = (b = Suc a \<and> gaps_hide (PageNumber b # es))"
| "gaps_hide [PageNumber a] = True"
| "gaps_hide es = False"

lemma gaps_hide_range:
  "a \<le> b \<Longrightarrow> gaps_hide (map PageNumber [a..<Suc b] @ es) = gaps_hide (PageNumber b # es)"
proof (induction "b - a" arbitrary: a)
  case 0
  then show ?case by simp
next
  case (Suc k)
  then have "Suc a \<le> b" by simp
  then have "[a..<Suc b] = a # Suc a # [Suc (Suc a)..<Suc b]" by (simp add: upt_rec)
  moreover have "gaps_hide (map PageNumber [Suc a..<Suc b] @ es) = gaps_hide (PageNumber b # es)"
    using Suc \<open>Suc a \<le> b\<close> by (simp del: upt_Suc)
  moreover have "[Suc a..<Suc b] = Suc a # [Suc (Suc a)..<Suc b]" using \<open>Suc a \<le> b\<close> by (simp add: upt_rec)
  ultimately show ?case by simp
qed

subsection \<open>Properties\<close>

text \<open>
  C29. Paging loses and repeats nothing: the pages 1 to the page count, one after the other, are the
  filtered rows; no page has more than ten; and the page shown is one of them even after the
  list has shrunk.
\<close>

theorem pages_partition_rows:
  assumes "1 \<le> page"
  shows "concat (map (\<lambda>p. page_rows p rows) [1..<Suc (page_count rows)]) = rows \<and>
         (\<forall>p. length (page_rows p rows) \<le> 10) \<and>
         1 \<le> current_page page rows \<and> current_page page rows \<le> page_count rows"
  using assms page_count_bounds [of rows] page_rows_length [of _ rows] pages_upto [of rows "page_count rows"]
  by (simp add: current_page_def PAGE_SIZE_def del: upt_Suc)

theorem pages_partition_rows_witness:
  "1 \<le> current_page 3 [True] \<and> current_page 3 [True] \<le> page_count [True]"
  using pages_partition_rows [of 3 "[True]"] by simp

text \<open>
  The page buttons: for a current page within the count, the numbers shown are increasing, start at
  1, end at the count and include the current page, and a gap stands exactly where at least one
  page is left out.
\<close>

theorem page_buttons:
  assumes "1 \<le> page" "page \<le> pageCount"
  shows "sorted_wrt (<) (page_numbers (buildPages page pageCount)) \<and>
         hd (page_numbers (buildPages page pageCount)) = 1 \<and>
         last (page_numbers (buildPages page pageCount)) = pageCount \<and>
         page \<in> set (page_numbers (buildPages page pageCount)) \<and> gaps_hide (buildPages page pageCount)"
proof (cases "pageCount \<le> 7")
  case True
  have "gaps_hide (map PageNumber [1..<Suc pageCount] @ []) = gaps_hide [PageNumber pageCount]"
    using assms by (intro gaps_hide_range) simp
  then show ?thesis using True assms by (simp add: buildPages_def hd_append del: upt_Suc)
next
  case False
  define s e where "s = max 2 (page - 1)" and "e = min (pageCount - 1) (page + 1)"
  have se: "s \<le> e" "2 \<le> s" "e < pageCount" using False assms by (auto simp: s_def e_def)
  let ?tail = "(if e < pageCount - 1 then [Gap] else []) @ [PageNumber pageCount]"
  have build: "buildPages page pageCount
      = PageNumber 1 # (if s > 2 then [Gap] else []) @ map PageNumber [s..<Suc e] @ ?tail"
    using False by (simp add: buildPages_def Let_def s_def e_def)
  have numbers: "page_numbers (buildPages page pageCount) = 1 # [s..<Suc e] @ [pageCount]"
    unfolding build by simp
  have tail: "gaps_hide (PageNumber e # ?tail)" using se by auto
  have range: "gaps_hide (map PageNumber [s..<Suc e] @ ?tail)"
    using gaps_hide_range [OF se(1), of ?tail] tail by (simp del: upt_Suc)
  have head: "map PageNumber [s..<Suc e] @ ?tail = PageNumber s # map PageNumber [Suc s..<Suc e] @ ?tail"
    using se(1) by (simp add: upt_conv_Cons del: upt_Suc)
  have "gaps_hide (buildPages page pageCount)"
    unfolding build using range se(2) by (subst head, subst (asm) head) auto
  moreover have "page \<in> set (1 # [s..<Suc e] @ [pageCount])" using assms se by (auto simp: s_def e_def)
  ultimately show ?thesis unfolding numbers using se
    by (auto simp: sorted_wrt_append strict_sorted_iff simp del: upt_Suc)
qed

theorem page_buttons_witness: "gaps_hide (buildPages 5 12)"
  using page_buttons [of 5 12] by simp

text \<open>
  Somebody who is not an administrator cannot start a lifecycle command from a row: every icon
  and every menu entry that would send one is disabled.
\<close>

theorem viewers_cannot_act:
  "(\<forall>a\<in>set (row_actions busyKey False has_onAction c). ia_disabled a) \<and>
   (\<forall>label disabled action. MenuItem label disabled (DoAction action) \<in> set (RowMenuItems False has_onAction c) \<longrightarrow> disabled)"
  by (auto simp: row_actions_def RowMenuItems_def IconAction_def Let_def)

text \<open>
  The chips tell the truth: the number on a status chip is the number of rows that choosing it shows,
  as long as nothing is searched for.
\<close>

theorem chip_counts_match_filters:
  assumes "(f, label, n, active) \<in> set (filter_chips g cs)"
  shows "n = length (filter_rows f [] cs)"
  using assms
  by (auto simp: filter_chips_def Let_def filter_rows_state filter_rows_all tally_counts_filter)

definition demo_row_c :: ContainerRow where
  "demo_row_c = \<lparr>c_id = ''c'', c_name = ''web'', c_image = ''i'', c_status = [], c_state = ''Paused'', c_ports = [],
               c_created = js_int 0, cr_hostId = Some ''h'', cr_hostname = None\<rparr>"

theorem chip_counts_match_filters_witness: "1 = length (filter_rows FilterPaused [] [demo_row_c])"
proof (rule chip_counts_match_filters)
  have "row_state demo_row_c = ''paused''" by (simp add: row_state_def demo_row_c_def) code_simp
  then show "(FilterPaused, ''Paused'', 1, True) \<in> set (filter_chips FilterPaused [demo_row_c])"
    by (simp add: filter_chips_def tally_counts_def tally_one_def Let_def)
qed

text \<open>
  One container whose creation time lies outside the range of dates takes the whole table down, although
  the server's parser lets it through.
\<close>

theorem far_created_breaks_table:
  assumes "c \<in> set (page_rows (current_page (ts_page s) (filter_rows (ts_filter s) (ts_query s) cs))
                     (filter_rows (ts_filter s) (ts_query s) cs))"
    and "c_created c = js_int k" "8640000000000 < k"
  shows "ContainerTable date show_date busyKey showHost canManage has_onAction title desc cs s = None"
proof -
  have none: "all_or_none xs = None" if "None \<in> set xs" for xs :: "row_view option list"
    using that by (induction xs) (auto split: option.splits)
  let ?f = "filter_rows (ts_filter s) (ts_query s) cs"
  have "?f \<noteq> []" using assms(1) by (auto simp: page_rows_def)
  moreover from this have "cs \<noteq> []" by (auto simp: filter_rows_def)
  moreover have "container_row_view date show_date busyKey showHost canManage has_onAction c = None"
    using assms(2,3) by (simp add: container_row_view_def created_text_def)
  then have "all_or_none (map (container_row_view date show_date busyKey showHost canManage has_onAction)
      (page_rows (current_page (ts_page s) ?f) ?f)) = None"
    using assms(1) by (intro none) (metis image_eqI list.set_map)
  ultimately show ?thesis by (simp add: ContainerTable_def Let_def)
qed

text \<open>The start entry of the menu stays enabled on a paused container, whose start icon is disabled.\<close>

lemma paused_start_enabled_in_menu:
  assumes "row_state c = ''paused''"
  shows "MenuItem ''Start'' False (DoAction Start) \<in> set (RowMenuItems True True c) \<and>
         ia_disabled (hd (row_actions busyKey True True c))"
  using assms by (simp add: RowMenuItems_def row_actions_def IconAction_def Let_def)

text \<open>A port that is not published links to a server that does not exist.\<close>

lemma unpublished_port_link:
  assumes "c_ports c = [p]" "port_public p = []"
  shows "ports_link c = Some ''http://localhost:'' \<or> formatPorts (Some (c_ports c)) = ''-''"
  using assms by (simp add: ports_link_def)

end
