(* ===== verification/WebCommands.thy ===== *)
theory WebCommands
  imports WebTables WebLogs ServerConfig ContainersApi
begin

section \<open>Commands, confirmations and notifications\<close>

text \<open>
  \<open>components/ToastProvider.tsx\<close>, \<open>components/ConfirmProvider.tsx\<close>, \<open>hooks/useContainerCommands.ts\<close>,
  \<open>hooks/useContainerAction.ts\<close> and the calls of \<open>services/hosts.ts\<close>. A promise of \<open>confirm\<close> is a
  number, its settlement an entry of \<open>cp_settled\<close>. \<open>run\<close> awaits the confirmation and the reply: its
  three parts are \<open>run_start\<close>, \<open>run_confirmed\<close> and \<open>run_replied\<close>.
\<close>

subsection \<open>Toasts\<close>

datatype ToastTone = ToastSuccess | ToastError | ToastInfo

record Toast =
  to_id :: string
  to_title :: string
  to_description :: "string option"
  to_tone :: ToastTone

text \<open>The list, and the timers that will dismiss, by the id they dismiss.\<close>

record toasts =
  tt_toasts :: "Toast list"
  tt_timers :: "string list"

definition toast_dismiss :: "string \<Rightarrow> toasts \<Rightarrow> toasts" where
  "toast_dismiss i s = s\<lparr>tt_toasts := filter (\<lambda>t. to_id t \<noteq> i) (tt_toasts s)\<rparr>"

text \<open>\<open>i\<close> is the drawn uuid.\<close>

definition toast_push :: "string \<Rightarrow> string \<Rightarrow> string option \<Rightarrow> ToastTone \<Rightarrow> toasts \<Rightarrow> toasts" where
  "toast_push i title description tone s =
     s\<lparr>tt_toasts := tt_toasts s @ [\<lparr>to_id = i, to_title = title, to_description = description, to_tone = tone\<rparr>],
       tt_timers := tt_timers s @ [i]\<rparr>"

definition toast_timeout :: "string \<Rightarrow> toasts \<Rightarrow> toasts" where
  "toast_timeout i s = (if i \<in> set (tt_timers s) then toast_dismiss i (s\<lparr>tt_timers := remove1 i (tt_timers s)\<rparr>) else s)"

text \<open>What one notification shows: its title, its description unless empty, and the icon of its tone.\<close>

datatype toast_icon = CheckCircle | AlertTriangle | InfoIcon

fun TONE_ICON :: "ToastTone \<Rightarrow> toast_icon" where
  "TONE_ICON ToastSuccess = CheckCircle"
| "TONE_ICON ToastError = AlertTriangle"
| "TONE_ICON ToastInfo = InfoIcon"

definition toast_view :: "toasts \<Rightarrow> (toast_icon \<times> string \<times> string option) list" where
  "toast_view s =
     map (\<lambda>t. (TONE_ICON (to_tone t), to_title t, if truthy_str (to_description t) then to_description t else None)) (tt_toasts s)"

subsection \<open>The confirmation dialog\<close>

record ConfirmToggle =
  ct_label :: string
  ct_description :: "string option"
  ct_defaultChecked :: "bool option"

record ConfirmRequest =
  cq_title :: string
  cq_description :: string
  cq_confirmLabel :: string
  cq_cancelLabel :: "string option"
  cq_toggle :: "ConfirmToggle option"

record ConfirmResult =
  cf_confirmed :: bool
  cf_toggled :: bool

record confirm_provider =
  cp_request :: "ConfirmRequest option"
  cp_toggled :: bool
  resolveRef :: "nat option"
  cp_next :: nat
  cp_settled :: "(nat \<times> ConfirmResult) list"

definition confirm_init :: confirm_provider where
  "confirm_init = \<lparr>cp_request = None, cp_toggled = False, resolveRef = None, cp_next = 0, cp_settled = []\<rparr>"

definition cancelled :: ConfirmResult where
  "cancelled = \<lparr>cf_confirmed = False, cf_toggled = False\<rparr>"

definition resolve_open :: "ConfirmResult \<Rightarrow> confirm_provider \<Rightarrow> confirm_provider" where
  "resolve_open r s =
     (case resolveRef s of None \<Rightarrow> s | Some p \<Rightarrow> s\<lparr>cp_settled := cp_settled s @ [(p, r)]\<rparr>)"

definition confirm_settle :: "ConfirmResult \<Rightarrow> confirm_provider \<Rightarrow> confirm_provider" where
  "confirm_settle r s = (resolve_open r s)\<lparr>resolveRef := None, cp_request := None\<rparr>"

definition confirm :: "ConfirmRequest \<Rightarrow> confirm_provider \<Rightarrow> nat \<times> confirm_provider" where
  "confirm new s =
     (let s1 = resolve_open cancelled s;
          toggle = (case cq_toggle new of None \<Rightarrow> False | Some t \<Rightarrow> nullish (ct_defaultChecked t) False)
      in (cp_next s1,
          s1\<lparr>cp_toggled := toggle, cp_request := Some new, resolveRef := Some (cp_next s1), cp_next := Suc (cp_next s1)\<rparr>))"

text \<open>
  What the user can do while the dialog is open: confirm, cancel (the button, the backdrop, Escape),
  and tick the box when there is one.
\<close>

datatype dialog_event = PressConfirm | PressCancel | ClickBackdrop | PressEscape | SetToggle bool

fun dialog_step :: "dialog_event \<Rightarrow> confirm_provider \<Rightarrow> confirm_provider" where
  "dialog_step PressConfirm s =
     (if cp_request s = None then s else confirm_settle \<lparr>cf_confirmed = True, cf_toggled = cp_toggled s\<rparr> s)"
| "dialog_step PressCancel s = (if cp_request s = None then s else confirm_settle cancelled s)"
| "dialog_step ClickBackdrop s = (if cp_request s = None then s else confirm_settle cancelled s)"
| "dialog_step PressEscape s = (if cp_request s = None then s else confirm_settle cancelled s)"
| "dialog_step (SetToggle b) s =
     (case cp_request s of
        None \<Rightarrow> s
      | Some q \<Rightarrow> if cq_toggle q = None then s else s\<lparr>cp_toggled := b\<rparr>)"

text \<open>
  What the open dialog shows: title, description, the box (its label, its description unless empty,
  whether it is ticked), and the labels of the two buttons.
\<close>

definition confirm_view ::
  "confirm_provider \<Rightarrow> (string \<times> string \<times> (string \<times> string option \<times> bool) option \<times> string \<times> string) option"
where
  "confirm_view s =
     (case cp_request s of
        None \<Rightarrow> None
      | Some q \<Rightarrow>
          Some (cq_title q, cq_description q,
                map_option (\<lambda>t. (ct_label t, if truthy_str (ct_description t) then ct_description t else None, cp_toggled s)) (cq_toggle q),
                nullish (cq_cancelLabel q) ''Cancel'', cq_confirmLabel q))"

subsection \<open>Calls of the host service\<close>

definition fetchHosts :: "string option \<Rightarrow> web \<Rightarrow> fetch_call \<times> json \<times> web" where
  "fetchHosts base w = apiGet base ''/hosts'' False w"

definition fetchHostMetrics :: "string option \<Rightarrow> string \<Rightarrow> web \<Rightarrow> fetch_call \<times> json \<times> web" where
  "fetchHostMetrics base hostId w = apiGet base (''/hosts/'' @ hostId @ ''/metrics'') False w"

definition fetchHostContainers :: "string option \<Rightarrow> string \<Rightarrow> web \<Rightarrow> fetch_call \<times> json \<times> web" where
  "fetchHostContainers base hostId w = apiGet base (''/hosts/'' @ hostId @ ''/containers'') False w"

definition action_body :: "string \<Rightarrow> ContainerAction \<Rightarrow> bool \<Rightarrow> json" where
  "action_body hostId action force =
     (if action = Remove then JObj [(''hostId'', JStr hostId), (''force'', JBool force)]
      else JObj [(''hostId'', JStr hostId)])"

definition runContainerAction ::
  "string option \<Rightarrow> string \<Rightarrow> string \<Rightarrow> ContainerAction \<Rightarrow> bool \<Rightarrow> web \<Rightarrow> fetch_call \<times> json \<times> web"
where
  "runContainerAction base containerId hostId action force w =
     apiPost base (''/containers/'' @ encodeURIComponent containerId @ ''/'' @ action_name action)
       (Some (action_body hostId action force)) False w"

definition web_inspectContainer :: "string option \<Rightarrow> string \<Rightarrow> string \<Rightarrow> web \<Rightarrow> fetch_call \<times> json \<times> web" where
  "web_inspectContainer base containerId hostId w =
     apiGet base (''/containers/'' @ encodeURIComponent containerId @ ''/inspect?hostId='' @ encodeURIComponent hostId) False w"

subsection \<open>Running a command\<close>

fun PAST_TENSE :: "ContainerAction \<Rightarrow> string" where
  "PAST_TENSE Start = ''started''"
| "PAST_TENSE Stop = ''stopped''"
| "PAST_TENSE Restart = ''restarted''"
| "PAST_TENSE Remove = ''deleted''"
| "PAST_TENSE Pause = ''paused''"
| "PAST_TENSE Unpause = ''resumed''"

fun VERB :: "ContainerAction \<Rightarrow> string" where
  "VERB Start = ''start''"
| "VERB Stop = ''stop''"
| "VERB Restart = ''restart''"
| "VERB Remove = ''delete''"
| "VERB Pause = ''pause''"
| "VERB Unpause = ''resume''"

text \<open>A command that waits for its confirmation, or for its reply; and the state of the hook.\<close>

record command =
  cm_container :: ContainerRow
  cm_hostId :: string
  cm_action :: ContainerAction
  cm_force :: bool

record commands =
  co_busyKey :: "string option"
  co_confirm :: confirm_provider
  co_toasts :: toasts
  co_asking :: "(nat \<times> command) list"
  co_running :: "command list"
  co_sent :: "(command \<times> fetch_call) list"
  co_web :: web

definition remove_request :: "ContainerRow \<Rightarrow> ConfirmRequest" where
  "remove_request c =
     (let name = strip_slash (c_name c);
          running = (c_state c = ''running'')
      in \<lparr>cq_title = ''Delete '' @ name @ ''?'',
          cq_description = (if running then ''This container is running. Deleting it cannot be undone.''
                            else ''This cannot be undone.''),
          cq_confirmLabel = ''Delete'', cq_cancelLabel = None,
          cq_toggle = (if running
                       then Some \<lparr>ct_label = ''Force delete'',
                                  ct_description = Some ''Kill the container first. Without this, Docker refuses to delete a running container.'',
                                  ct_defaultChecked = None\<rparr>
                       else None)\<rparr>)"

text \<open>From \<open>setBusyKey\<close> to the request.\<close>

definition run_send :: "string option \<Rightarrow> command \<Rightarrow> commands \<Rightarrow> commands" where
  "run_send base cmd s =
     (let (call, t, w) = runContainerAction base (c_id (cm_container cmd)) (cm_hostId cmd) (cm_action cmd) (cm_force cmd) (co_web s)
      in s\<lparr>co_busyKey := Some (c_id (cm_container cmd) @ '':'' @ action_name (cm_action cmd)),
           co_running := co_running s @ [cmd], co_sent := co_sent s @ [(cmd, call)], co_web := w\<rparr>)"

definition run_start :: "string option \<Rightarrow> string option \<Rightarrow> ContainerRow \<Rightarrow> ContainerAction \<Rightarrow> commands \<Rightarrow> commands" where
  "run_start base fallbackHostId c action s =
     (let hostId = (case cr_hostId c of None \<Rightarrow> fallbackHostId | Some h \<Rightarrow> Some h)
      in if \<not> truthy_str hostId then s
         else (let cmd = \<lparr>cm_container = c, cm_hostId = nullish hostId [], cm_action = action, cm_force = False\<rparr>
               in if action = Remove
                  then (let (p, cp) = confirm (remove_request c) (co_confirm s)
                        in s\<lparr>co_confirm := cp, co_asking := co_asking s @ [(p, cmd)]\<rparr>)
                  else run_send base cmd s))"

text \<open>The continuation of \<open>await confirm(...)\<close> for a settled promise.\<close>

definition run_confirmed :: "string option \<Rightarrow> nat \<Rightarrow> commands \<Rightarrow> commands" where
  "run_confirmed base p s =
     (case (map_of (co_asking s) p, map_of (cp_settled (co_confirm s)) p) of
        (Some cmd, Some answer) \<Rightarrow>
          (let s' = s\<lparr>co_asking := filter (\<lambda>a. fst a \<noteq> p) (co_asking s)\<rparr>
           in if \<not> cf_confirmed answer then s' else run_send base (cmd\<lparr>cm_force := cf_toggled answer\<rparr>) s')
      | _ \<Rightarrow> s)"

text \<open>
  The reply of the server, or the error it ends with (\<open>None\<close>: not an \<open>Error\<close>). The result says
  whether the command succeeded; \<open>onSettled\<close> runs exactly then. A middle dot separates the name.
\<close>

definition success_toast :: "command \<Rightarrow> json \<Rightarrow> string \<Rightarrow> toasts \<Rightarrow> toasts" where
  "success_toast cmd result i s =
     toast_push i (''Container '' @ PAST_TENSE (cm_action cmd))
       (Some (strip_slash (c_name (cm_container cmd)) @ '' '' @ [CHR 0xB7] @ '' '' @ js_String_opt (field result ''message''))) ToastSuccess s"

definition failure_toast :: "command \<Rightarrow> string option \<Rightarrow> string \<Rightarrow> toasts \<Rightarrow> toasts" where
  "failure_toast cmd description i s =
     toast_push i (''Could not '' @ VERB (cm_action cmd) @ '' container'') description ToastError s"

text \<open>\<open>result.error ?? result.message\<close>; a reply without content is \<open>null\<close>, and reading \<open>ok\<close> of it throws.\<close>

definition failure_description :: "json \<Rightarrow> string option" where
  "failure_description result =
     (if result = JNull then Some ''Cannot read properties of null (reading 'ok')''
      else (case json_nullish (field result ''error'') (json_nullish (field result ''message'') JNull) of
              JNull \<Rightarrow> None
            | v \<Rightarrow> Some (js_String v)))"

definition run_replied :: "command \<Rightarrow> (string option + json) \<Rightarrow> string \<Rightarrow> commands \<Rightarrow> bool \<times> commands" where
  "run_replied cmd reply i s =
     (let s' = s\<lparr>co_busyKey := None, co_running := remove1 cmd (co_running s)\<rparr>
      in case reply of
           Inr result \<Rightarrow>
             if json_truthy (field result ''ok'')
             then (True, s'\<lparr>co_toasts := success_toast cmd result i (co_toasts s)\<rparr>)
             else (False, s'\<lparr>co_toasts := failure_toast cmd (failure_description result) i (co_toasts s)\<rparr>)
         | Inl m \<Rightarrow>
             (False, s'\<lparr>co_toasts := failure_toast cmd (Some (nullish m (''Failed to '' @ VERB (cm_action cmd) @ '' container''))) i (co_toasts s)\<rparr>))"

text \<open>\<open>useContainerAction\<close>: the query keys dropped and refreshed after a reply.\<close>

definition containersQueryKey :: "string \<Rightarrow> string list" where
  "containersQueryKey hostId = [''hosts'', hostId, ''containers'']"

definition containerInspectQueryKey :: "string \<Rightarrow> string \<Rightarrow> string list" where
  "containerInspectQueryKey hostId containerId = [''hosts'', hostId, ''containers'', containerId, ''inspect'']"

definition action_removes :: "command \<Rightarrow> json \<Rightarrow> string list list" where
  "action_removes cmd result =
     (if cm_action cmd = Remove \<and> json_truthy (field result ''ok'')
      then [containerInspectQueryKey (cm_hostId cmd) (c_id (cm_container cmd))] else [])"

definition action_invalidates :: "command \<Rightarrow> string list list" where
  "action_invalidates cmd = [containersQueryKey (cm_hostId cmd)]"

subsection \<open>The hook as a state machine\<close>

text \<open>
  What happens while a page that uses the hook is open: the user chooses an action on a row, answers
  the dialog or dismisses a toast; an awaited confirmation continues; a reply arrives; a toast times
  out.
\<close>

datatype command_event =
    Choose "string option" ContainerRow ContainerAction
  | InDialog dialog_event
  | Continue nat
  | Reply command "string option + json" string
  | ToastDismissed string
  | ToastTimeout string

fun command_step :: "string option \<Rightarrow> command_event \<Rightarrow> commands \<Rightarrow> commands" where
  "command_step base (Choose fallbackHostId c action) s = run_start base fallbackHostId c action s"
| "command_step base (InDialog e) s = s\<lparr>co_confirm := dialog_step e (co_confirm s)\<rparr>"
| "command_step base (Continue p) s = run_confirmed base p s"
| "command_step base (Reply cmd reply i) s = (if cmd \<in> set (co_running s) then snd (run_replied cmd reply i s) else s)"
| "command_step base (ToastDismissed i) s = s\<lparr>co_toasts := toast_dismiss i (co_toasts s)\<rparr>"
| "command_step base (ToastTimeout i) s = s\<lparr>co_toasts := toast_timeout i (co_toasts s)\<rparr>"

definition commands_init :: "web \<Rightarrow> commands" where
  "commands_init w =
     \<lparr>co_busyKey = None, co_confirm = confirm_init, co_toasts = \<lparr>tt_toasts = [], tt_timers = []\<rparr>,
      co_asking = [], co_running = [], co_sent = [], co_web = w\<rparr>"

inductive commands_reachable :: "string option \<Rightarrow> commands \<Rightarrow> bool" for base where
  start: "commands_reachable base (commands_init w)"
| step: "commands_reachable base s \<Longrightarrow> commands_reachable base (command_step base e s)"

inductive_cases commands_reachableE: "commands_reachable base s"

text \<open>
  The invariant of the dialog: promises are settled at most once and in the past, and the dialog is
  shown exactly while a promise is open.
\<close>

definition confirm_inv :: "confirm_provider \<Rightarrow> bool" where
  "confirm_inv s \<longleftrightarrow>
     distinct (map fst (cp_settled s)) \<and>
     (\<forall>p\<in>set (map fst (cp_settled s)). p < cp_next s) \<and>
     (\<forall>p. resolveRef s = Some p \<longrightarrow> p < cp_next s \<and> p \<notin> set (map fst (cp_settled s))) \<and>
     (resolveRef s = None \<longleftrightarrow> cp_request s = None) \<and>
     (\<forall>q. cp_request s = Some q \<longrightarrow> cp_toggled s \<longrightarrow> cq_toggle q \<noteq> None)"

lemma confirm_inv_init [simp]: "confirm_inv confirm_init"
  by (simp add: confirm_inv_def confirm_init_def)

lemma resolve_open_inv_parts:
  assumes "confirm_inv s"
  shows "distinct (map fst (cp_settled (resolve_open r s)))"
    "\<forall>p\<in>set (map fst (cp_settled (resolve_open r s))). p < cp_next s"
    "cp_next (resolve_open r s) = cp_next s"
  using assms by (auto simp: confirm_inv_def resolve_open_def split: option.splits)

lemma confirm_settle_inv: "confirm_inv s \<Longrightarrow> confirm_inv (confirm_settle r s)"
  using resolve_open_inv_parts [of s r] by (simp add: confirm_settle_def confirm_inv_def [of "c\<lparr>resolveRef := None, cp_request := None\<rparr>" for c])

lemma confirm_confirm_inv: "confirm_inv s \<Longrightarrow> confirm_inv (snd (confirm q s))"
  using resolve_open_inv_parts [of s cancelled]
  by (auto simp: confirm_def Let_def nullish_def dest: less_SucI split: option.splits
      simp: confirm_inv_def [of "c\<lparr>cp_toggled := b, cp_request := d, resolveRef := f, cp_next := h\<rparr>" for b c d f h])

lemma dialog_step_inv: "confirm_inv s \<Longrightarrow> confirm_inv (dialog_step e s)"
  by (cases e) (auto simp: confirm_settle_inv, auto simp: confirm_inv_def split: option.splits)

lemma confirm_inv_fresh: "confirm_inv s \<Longrightarrow> cp_next s \<notin> fst ` set (cp_settled s)"
  by (auto simp: confirm_inv_def)

subsection \<open>Deletions are confirmed\<close>

text \<open>The confirmed answers whose continuation has run, and the deletions requested.\<close>

definition used_confirmations :: "commands \<Rightarrow> (nat \<times> ConfirmResult) list" where
  "used_confirmations s =
     filter (\<lambda>(p, a). cf_confirmed a \<and> p \<notin> fst ` set (co_asking s)) (cp_settled (co_confirm s))"

definition sent_removals :: "commands \<Rightarrow> (command \<times> fetch_call) list" where
  "sent_removals s = filter (\<lambda>(cmd, call). cm_action cmd = Remove) (co_sent s)"

definition asked_ok :: "commands \<Rightarrow> nat \<times> command \<Rightarrow> bool" where
  "asked_ok s a \<longleftrightarrow>
     cm_action (snd a) = Remove \<and> fst a < cp_next (co_confirm s) \<and>
     (resolveRef (co_confirm s) = Some (fst a) \<longrightarrow> cp_request (co_confirm s) = Some (remove_request (cm_container (snd a)))) \<and>
     (\<forall>answer. (fst a, answer) \<in> set (cp_settled (co_confirm s)) \<longrightarrow> cf_toggled answer \<longrightarrow>
        c_state (cm_container (snd a)) = ''running'')"

definition commands_inv :: "commands \<Rightarrow> bool" where
  "commands_inv s \<longleftrightarrow>
     confirm_inv (co_confirm s) \<and> distinct (map fst (co_asking s)) \<and> (\<forall>a\<in>set (co_asking s). asked_ok s a) \<and>
     (\<forall>p. resolveRef (co_confirm s) = Some p \<longrightarrow> p \<in> fst ` set (co_asking s)) \<and>
     (\<forall>x\<in>set (co_sent s). cm_force (fst x) \<longrightarrow> cm_action (fst x) = Remove \<and> c_state (cm_container (fst x)) = ''running'') \<and>
     length (sent_removals s) = length (used_confirmations s)"

lemma remove_request_toggle: "cq_toggle (remove_request c) \<noteq> None \<longleftrightarrow> c_state c = ''running''"
  by (simp add: remove_request_def Let_def)

lemma run_send_simps [simp]:
  "co_confirm (run_send base cmd s) = co_confirm s" "co_asking (run_send base cmd s) = co_asking s"
  "co_toasts (run_send base cmd s) = co_toasts s" "co_running (run_send base cmd s) = co_running s @ [cmd]"
  "co_busyKey (run_send base cmd s) = Some (c_id (cm_container cmd) @ '':'' @ action_name (cm_action cmd))"
  by (simp_all add: run_send_def split_beta)

lemma run_send_sent: "\<exists>call. co_sent (run_send base cmd s) = co_sent s @ [(cmd, call)]"
  by (simp add: run_send_def split_beta)

text \<open>Only the confirmations, the questions and what was sent matter.\<close>

lemma commands_inv_cong:
  "\<lbrakk>co_confirm s' = co_confirm s; co_asking s' = co_asking s; co_sent s' = co_sent s; commands_inv s\<rbrakk> \<Longrightarrow> commands_inv s'"
  by (simp add: commands_inv_def asked_ok_def sent_removals_def used_confirmations_def)

lemma run_send_other_inv:
  assumes "commands_inv s" "cm_action cmd \<noteq> Remove" "\<not> cm_force cmd"
  shows "commands_inv (run_send base cmd s)"
proof -
  obtain call where "co_sent (run_send base cmd s) = co_sent s @ [(cmd, call)]" using run_send_sent by blast
  with assms show ?thesis by (simp add: commands_inv_def asked_ok_def sent_removals_def used_confirmations_def)
qed

lemma filter_remove_key:
  "\<lbrakk>distinct (map fst xs); (p, a) \<in> set xs; P a; p \<in> A\<rbrakk> \<Longrightarrow>
     length (filter (\<lambda>(q, b). P b \<and> q \<notin> A - {p}) xs) = Suc (length (filter (\<lambda>(q, b). P b \<and> q \<notin> A) xs))"
proof (induction xs)
  case (Cons x xs)
  show ?case
  proof (cases "x = (p, a)")
    case True
    with Cons.prems have "p \<notin> fst ` set xs" by simp
    then have "filter (\<lambda>(q, b). P b \<and> q \<notin> A - {p}) xs = filter (\<lambda>(q, b). P b \<and> q \<notin> A) xs"
      by (intro filter_cong) (auto simp: image_iff)
    with True Cons.prems show ?thesis by simp
  next
    case False
    with Cons.prems have "fst x \<noteq> p" by (auto simp: image_iff)
    with False Cons show ?thesis by (cases x) auto
  qed
qed simp

lemma filter_keep_key:
  "\<lbrakk>distinct (map fst xs); (p, a) \<in> set xs; \<not> P a\<rbrakk> \<Longrightarrow>
     filter (\<lambda>(q, b). P b \<and> q \<notin> A - {p}) xs = filter (\<lambda>(q, b). P b \<and> q \<notin> A) xs"
  by (intro filter_cong refl) (auto dest: eq_key_imp_eq_value)

lemma open_not_settled: "\<lbrakk>confirm_inv s; resolveRef s = Some p\<rbrakk> \<Longrightarrow> (p, a) \<notin> set (cp_settled s)"
  unfolding confirm_inv_def by (metis fst_conv image_eqI set_map)

lemma keys_after_removal: "fst ` set (filter (\<lambda>a. fst a \<noteq> p) xs) = fst ` set xs - {p}"
  by auto

lemma asked_ok_run_send [simp]: "asked_ok (run_send base cmd s) a = asked_ok s a"
  by (simp add: asked_ok_def)

lemma run_confirmed_inv:
  assumes inv: "commands_inv s"
  shows "commands_inv (run_confirmed base p s)"
proof (cases "map_of (co_asking s) p = None \<or> map_of (cp_settled (co_confirm s)) p = None")
  case True
  then show ?thesis using inv by (auto simp: run_confirmed_def split: option.splits)
next
  case False
  then obtain cmd answer where cmd: "map_of (co_asking s) p = Some cmd" and ans: "map_of (cp_settled (co_confirm s)) p = Some answer"
    by auto
  let ?s = "s\<lparr>co_asking := filter (\<lambda>a. fst a \<noteq> p) (co_asking s)\<rparr>"
  have asked: "(p, cmd) \<in> set (co_asking s)" and settled: "(p, answer) \<in> set (cp_settled (co_confirm s))"
    using cmd ans by (auto dest: map_of_SomeD)
  have dist: "distinct (map fst (cp_settled (co_confirm s)))" using inv by (simp add: commands_inv_def confirm_inv_def)
  have keys: "p \<in> fst ` set (co_asking s)" using asked by force
  have open_other: "resolveRef (co_confirm s) \<noteq> Some p"
    using inv settled open_not_settled by (auto simp: commands_inv_def)
  have ok: "asked_ok s (p, cmd)" using inv asked by (simp add: commands_inv_def)
  have same: "asked_ok ?s a = asked_ok s a" for a by (simp add: asked_ok_def)
  have rest: "\<forall>a\<in>set (co_asking ?s). asked_ok ?s a" "distinct (map fst (co_asking ?s))" "confirm_inv (co_confirm ?s)"
    using inv by (auto simp: commands_inv_def same distinct_map_filter)
  have keys_s: "fst ` set (co_asking ?s) = fst ` set (co_asking s) - {p}" by auto
  then have "\<forall>q. resolveRef (co_confirm ?s) = Some q \<longrightarrow> q \<in> fst ` set (co_asking ?s)"
    unfolding keys_s using inv open_other by (auto simp: commands_inv_def)
  note rest = this rest
  show ?thesis
  proof (cases "cf_confirmed answer")
    case False
    have "used_confirmations ?s = used_confirmations s"
      using filter_keep_key [OF dist settled, of cf_confirmed "fst ` set (co_asking s)"] False
      by (simp add: used_confirmations_def keys_after_removal del: set_filter)
    with inv rest False cmd ans show ?thesis by (simp add: run_confirmed_def commands_inv_def sent_removals_def)
  next
    case True
    let ?cmd = "cmd\<lparr>cm_force := cf_toggled answer\<rparr>"
    obtain call where sent: "co_sent (run_send base ?cmd ?s) = co_sent s @ [(?cmd, call)]" using run_send_sent [of base ?cmd ?s] by auto
    have "length (used_confirmations ?s) = Suc (length (used_confirmations s))"
      using filter_remove_key [OF dist settled, of cf_confirmed "fst ` set (co_asking s)"] True keys
      by (simp add: used_confirmations_def keys_after_removal del: set_filter)
    with inv rest sent True cmd ans ok settled show ?thesis
      by (simp add: run_confirmed_def commands_inv_def sent_removals_def used_confirmations_def same asked_ok_def [of s "(p, cmd)"])
  qed
qed

lemma confirm_facts:
  "fst (confirm q s) = cp_next s" "cp_request (snd (confirm q s)) = Some q"
  "resolveRef (snd (confirm q s)) = Some (cp_next s)" "cp_next (snd (confirm q s)) = Suc (cp_next s)"
  "cp_settled (snd (confirm q s)) = cp_settled s @ (case resolveRef s of None \<Rightarrow> [] | Some p \<Rightarrow> [(p, cancelled)])"
  by (simp_all add: confirm_def Let_def resolve_open_def split: option.splits)

lemma cancelled_simps [simp]: "\<not> cf_confirmed cancelled" "\<not> cf_toggled cancelled"
  by (simp_all add: cancelled_def)

lemma ask_removal_inv:
  assumes inv: "commands_inv s" and cmd: "cm_action cmd = Remove" "cm_container cmd = c"
  shows "commands_inv (s\<lparr>co_confirm := snd (confirm (remove_request c) (co_confirm s)),
                          co_asking := co_asking s @ [(cp_next (co_confirm s), cmd)]\<rparr>)" (is "commands_inv ?s'")
proof -
  let ?cp = "co_confirm s"
  have cp: "confirm_inv ?cp" using inv by (simp add: commands_inv_def)
  have fresh: "cp_next ?cp \<notin> fst ` set (co_asking s)" "cp_next ?cp \<notin> fst ` set (cp_settled ?cp)"
    using inv confirm_inv_fresh [OF cp] by (auto simp: commands_inv_def asked_ok_def)
  have "filter (\<lambda>(p, a). cf_confirmed a \<and> p \<notin> fst ` set (co_asking ?s')) (cp_settled (co_confirm ?s')) =
      filter (\<lambda>(p, a). cf_confirmed a \<and> p \<notin> fst ` set (co_asking s)) (cp_settled ?cp)"
  proof -
    have "filter (\<lambda>(p, a). cf_confirmed a \<and> p \<notin> fst ` set (co_asking ?s')) (cp_settled ?cp) =
        filter (\<lambda>(p, a). cf_confirmed a \<and> p \<notin> fst ` set (co_asking s)) (cp_settled ?cp)"
      using fresh(2) by (intro filter_cong) (auto simp: image_iff)
    then show ?thesis by (auto simp: confirm_facts split: option.splits)
  qed
  then have used: "used_confirmations ?s' = used_confirmations s" by (simp add: used_confirmations_def)
  have new: "asked_ok ?s' (cp_next ?cp, cmd)"
    using fresh(2) cmd by (auto simp: asked_ok_def confirm_facts image_iff split: option.splits)
  have old: "asked_ok ?s' a" if "a \<in> set (co_asking s)" for a
  proof -
    have "asked_ok s a" using inv that by (simp add: commands_inv_def)
    then show ?thesis by (auto simp: asked_ok_def confirm_facts split: option.splits)
  qed
  have "\<forall>a\<in>set (co_asking ?s'). asked_ok ?s' a" using old new by auto
  moreover have "confirm_inv (co_confirm ?s')" using confirm_confirm_inv [OF cp] by simp
  ultimately show ?thesis
    using inv used fresh(1) by (simp add: commands_inv_def confirm_facts sent_removals_def)
qed

lemma run_start_inv: "commands_inv s \<Longrightarrow> commands_inv (run_start base fallbackHostId c action s)"
  by (auto simp: run_start_def Let_def split_beta confirm_facts intro!: run_send_other_inv ask_removal_inv)

lemma confirm_settle_facts:
  "resolveRef (confirm_settle r s) = None" "cp_next (confirm_settle r s) = cp_next s"
  "cp_settled (confirm_settle r s) = cp_settled s @ (case resolveRef s of None \<Rightarrow> [] | Some p \<Rightarrow> [(p, r)])"
  by (simp_all add: confirm_settle_def resolve_open_def split: option.splits)

lemma dialog_settle_inv:
  assumes inv: "commands_inv s" and r: "\<And>q. cf_toggled r \<Longrightarrow> cp_request (co_confirm s) = Some q \<Longrightarrow> cq_toggle q \<noteq> None"
  shows "commands_inv (s\<lparr>co_confirm := confirm_settle r (co_confirm s)\<rparr>)" (is "commands_inv ?s'")
proof -
  have used: "used_confirmations ?s' = used_confirmations s"
    using inv by (auto simp: used_confirmations_def confirm_settle_facts commands_inv_def split: option.splits)
  have "asked_ok ?s' a" if "a \<in> set (co_asking s)" for a
  proof -
    have ok: "asked_ok s a" using inv that by (simp add: commands_inv_def)
    have "c_state (cm_container (snd a)) = ''running''"
      if opened: "resolveRef (co_confirm s) = Some (fst a)" and t: "cf_toggled r"
    proof -
      have "cp_request (co_confirm s) = Some (remove_request (cm_container (snd a)))"
        using ok opened by (simp add: asked_ok_def)
      from r [OF t this] show ?thesis by (simp only: remove_request_toggle)
    qed
    with ok show ?thesis by (auto simp: asked_ok_def confirm_settle_facts split: option.splits)
  qed
  moreover have "confirm_inv (co_confirm ?s')" using inv confirm_settle_inv by (simp add: commands_inv_def)
  ultimately show ?thesis
    using inv used by (simp add: commands_inv_def confirm_settle_facts sent_removals_def)
qed

lemma dialog_commands_inv:
  assumes inv: "commands_inv s"
  shows "commands_inv (command_step base (InDialog e) s)"
proof (cases e)
  case (SetToggle b)
  have "confirm_inv (dialog_step e (co_confirm s))" using inv dialog_step_inv by (simp add: commands_inv_def)
  with SetToggle inv show ?thesis
    by (auto simp: commands_inv_def asked_ok_def used_confirmations_def sent_removals_def split: option.splits)
next
  case PressConfirm
  have "commands_inv (s\<lparr>co_confirm := confirm_settle \<lparr>cf_confirmed = True, cf_toggled = cp_toggled (co_confirm s)\<rparr> (co_confirm s)\<rparr>)"
    by (rule dialog_settle_inv [OF inv]) (use inv in \<open>simp add: commands_inv_def confirm_inv_def\<close>)
  with PressConfirm inv show ?thesis by simp
qed (use inv dialog_settle_inv [OF inv, of cancelled] in simp_all)

lemma run_replied_keeps:
  "co_confirm (snd (run_replied cmd reply i s)) = co_confirm s" "co_asking (snd (run_replied cmd reply i s)) = co_asking s"
  "co_sent (snd (run_replied cmd reply i s)) = co_sent s"
  by (simp_all add: run_replied_def Let_def split: sum.splits)

lemma command_step_inv: "commands_inv s \<Longrightarrow> commands_inv (command_step base e s)"
proof (cases e)
  case (InDialog d)
  then show "commands_inv s \<Longrightarrow> ?thesis" by (simp only: dialog_commands_inv)
next
  case (Reply cmd reply i)
  then show "commands_inv s \<Longrightarrow> ?thesis" by (simp add: commands_inv_cong [OF run_replied_keeps])
qed (auto simp: run_start_inv run_confirmed_inv intro: commands_inv_cong [rotated 3])

lemma commands_inv_init: "commands_inv (commands_init w)"
  by (simp add: commands_inv_def commands_init_def sent_removals_def used_confirmations_def confirm_init_def [THEN arg_cong [of _ _ resolveRef]]
      confirm_init_def [THEN arg_cong [of _ _ cp_settled]])

lemma commands_reachable_inv: "commands_reachable base s \<Longrightarrow> commands_inv s"
  by (induction rule: commands_reachable.induct) (auto simp: commands_inv_init command_step_inv)

subsection \<open>Properties\<close>


definition demo_container :: "string \<Rightarrow> string \<Rightarrow> ContainerRow" where
  "demo_container i st =
     \<lparr>c_id = i, c_name = ''/web'', c_image = ''nginx'', c_status = ''Up'', c_state = st, c_ports = [], c_created = js_int 0,
      cr_hostId = Some ''h1'', cr_hostname = None\<rparr>"

definition demo_deletion :: commands where
  "demo_deletion =
     foldl (\<lambda>s e. command_step None e s) (commands_init (web_init None))
       [Choose None (demo_container ''c1'' ''running'') Remove, InDialog (SetToggle True), InDialog PressConfirm, Continue 0]"

lemma demo_deletion_reachable: "commands_reachable None demo_deletion"
  unfolding demo_deletion_def foldl.simps by (intro commands_reachable.intros)


text \<open>
  The request of a command is one the server's validation accepts, with the host, the container
  and the force flag the command has: the path decodes to the container id, and the body passes the
  validation of its route.
\<close>

theorem command_accepted_by_server:
  assumes "hostId \<noteq> []"
  shows "fc_method (fst (runContainerAction base i hostId action force w)) = POST
    \<and> fc_url (fst (runContainerAction base i hostId action force w)) =
        resolveBaseUrl base @ ''/containers/'' @ encodeURIComponent i @ ''/'' @ action_name action
    \<and> decodeURIComponent (encodeURIComponent i) = i
    \<and> (\<exists>body. fc_body (fst (runContainerAction base i hostId action force w)) = Some body \<and>
         (if action = Remove then validateRemoveBody body = Some (hostId, Some force)
          else validateActionBody body = Some hostId \<and> field body ''force'' = None))"
  using assms
  by (auto simp: runContainerAction_def apiPost_def request_send_def action_body_def Let_def js_startsWith_def
      validateRemoveBody_def validateActionBody_def split_beta)

theorem command_accepted_by_server_witness:
  "\<exists>body. fc_body (fst (runContainerAction None ''c/1'' ''h1'' Remove True (web_init None))) = Some body \<and>
     validateRemoveBody body = Some (''h1'', Some True)"
  using command_accepted_by_server [of "''h1''" None "''c/1''" Remove True "web_init None"] by simp

text \<open>The key of a command marks its own row, and no row of another id.\<close>

lemma append_separator_eq: "\<lbrakk>j @ x # a = k @ x # b; x \<notin> set j; x \<notin> set k\<rbrakk> \<Longrightarrow> j = k"
proof (induction j arbitrary: k)
  case Nil
  then show ?case by (cases k) auto
next
  case (Cons y j)
  then show ?case by (cases k) auto
qed

lemma row_busy_key:
  assumes "CHR '':'' \<notin> set i" "CHR '':'' \<notin> set (c_id c)"
  shows "row_busy (Some (i @ CHR '':'' # a)) c \<longleftrightarrow> i = c_id c"
  using assms append_separator_eq [of i "CHR '':''" a "c_id c"] by (auto simp: row_busy_def js_startsWith_iff)

text \<open>
  There is one busy key for all rows: while a command runs on one row, starting a command on
  another row enables the controls of the first again, whose command is still running.
\<close>

theorem second_command_frees_first_row:
  assumes "cmd \<in> set (co_running s)" "CHR '':'' \<notin> set (c_id (cm_container cmd))"
    and "CHR '':'' \<notin> set (c_id c)" "c_id c \<noteq> c_id (cm_container cmd)" "action \<noteq> Remove" "truthy_str (cr_hostId c)"
  shows "cmd \<in> set (co_running (command_step base (Choose fallbackHostId c action) s))
    \<and> row_busy (co_busyKey (command_step base (Choose fallbackHostId c action) s)) c
    \<and> \<not> row_busy (co_busyKey (command_step base (Choose fallbackHostId c action) s)) (cm_container cmd)"
  using assms by (auto simp: run_start_def Let_def row_busy_key split: option.splits)

theorem second_command_frees_first_row_witness:
  "\<exists>cmd (s' :: commands). cm_action cmd = Stop \<and> cmd \<in> set (co_running s') \<and> \<not> row_busy (co_busyKey s') (cm_container cmd)"
proof -
  let ?a = "demo_container ''c1'' ''running''" and ?b = "demo_container ''c2'' ''running''"
  let ?cmd = "\<lparr>cm_container = ?a, cm_hostId = ''h1'', cm_action = Stop, cm_force = False\<rparr>"
  let ?s = "run_start None None ?a Stop (commands_init (web_init None))"
  have "?cmd \<in> set (co_running ?s)" by (simp add: run_start_def demo_container_def nullish_def)
  from second_command_frees_first_row [OF this, of ?b Stop None None]
  have "?cmd \<in> set (co_running (command_step None (Choose None ?b Stop) ?s)) \<and>
      \<not> row_busy (co_busyKey (command_step None (Choose None ?b Stop) ?s)) (cm_container ?cmd)"
    by (simp add: demo_container_def)
  moreover have "cm_action ?cmd = Stop" by simp
  ultimately show ?thesis by blast
qed

end
