(* ===== verification/WebCharts.thy ===== *)
theory WebCharts
  imports WebFormat
begin

section \<open>Charts\<close>

text \<open>
  \<open>components/charts/TimeSeriesChart.tsx\<close> and \<open>components/charts/Sparkline.tsx\<close>. Coordinates are exact
  rationals; a path is the list of its commands, whose coordinates \<open>toFixed(2)\<close> rounds to hundredths. A
  chart is drawn with a positive \<open>yMax\<close> if any, and is as wide as it is shown (the pointer is over it).
\<close>

subsection \<open>Scales\<close>

datatype series_color = Series1 | Series2

record Series =
  sr_key :: string
  sr_label :: string
  sr_values :: "rat list"
  sr_color :: series_color

definition chart_width :: rat where
  "chart_width = 560"

text \<open>\<open>PADDING\<close>: top, right, bottom and left.\<close>

definition pad_top :: rat where
  "pad_top = 12"

definition pad_right :: rat where
  "pad_right = 12"

definition pad_bottom :: rat where
  "pad_bottom = 22"

definition pad_left :: rat where
  "pad_left = 46"


definition plotWidth :: rat where
  "plotWidth = chart_width - pad_left - pad_right"

definition plotHeight :: "rat \<Rightarrow> rat" where
  "plotHeight height = height - pad_top - pad_bottom"

text \<open>\<open>10 ** Math.floor(Math.log10(value))\<close>, for a value of at least one (the only ones it is called with).\<close>

definition magnitude :: "rat \<Rightarrow> rat" where
  "magnitude v = 10 ^ ilog 10 (nat \<lfloor>v\<rfloor>)"

definition niceCeil :: "rat \<Rightarrow> rat" where
  "niceCeil v =
     (let normalized = v / magnitude v;
          step = (if normalized \<le> 1 then 1 else if normalized \<le> 2 then 2 else if normalized \<le> 5 then 5 else 10)
      in step * magnitude v)"

definition dataMax :: "Series list \<Rightarrow> rat option \<Rightarrow> rat" where
  "dataMax series yMax = fold max (concat (map sr_values series) @ [nullish yMax 0]) 1"

definition chart_max :: "Series list \<Rightarrow> rat option \<Rightarrow> rat" where
  "chart_max series yMax = nullish yMax (niceCeil (dataMax series yMax))"

definition chart_ticks :: "Series list \<Rightarrow> rat option \<Rightarrow> rat list" where
  "chart_ticks series yMax = [0, chart_max series yMax / 2, chart_max series yMax]"

definition pointCount :: "Series list \<Rightarrow> nat" where
  "pointCount series = (case series of [] \<Rightarrow> 0 | e # es \<Rightarrow> length (sr_values e))"

definition xAt :: "nat \<Rightarrow> nat \<Rightarrow> rat" where
  "xAt points index = pad_left + of_nat index / of_nat (points - 1) * plotWidth"

definition yAt :: "rat \<Rightarrow> rat \<Rightarrow> rat \<Rightarrow> rat" where
  "yAt height ymax v = pad_top + plotHeight height - min v ymax / ymax * plotHeight height"

subsection \<open>The pointer\<close>

text \<open>\<open>left\<close> and \<open>shown\<close> are the left edge and the width of the drawing on the screen.\<close>

definition handleMove :: "nat \<Rightarrow> rat \<Rightarrow> rat \<Rightarrow> rat \<Rightarrow> int" where
  "handleMove points left shown clientX =
     (let relative = (clientX - left) / shown * chart_width;
          ratio = (relative - pad_left) / plotWidth;
          index = js_round (ratio * of_nat (points - 1))
      in min (int points - 1) (max 0 index))"

subsection \<open>What is drawn\<close>

datatype path_command = MoveTo rat rat | LineTo rat rat | ClosePath

definition fixed2 :: "rat \<Rightarrow> rat" where
  "fixed2 x = of_int (js_round (100 * x)) / 100"

definition path_of :: "(rat \<times> rat) list \<Rightarrow> path_command list" where
  "path_of points =
     (case map (\<lambda>(x, y). (fixed2 x, fixed2 y)) points of
        [] \<Rightarrow> []
      | (x, y) # ps \<Rightarrow> MoveTo x y # map (\<lambda>(x, y). LineTo x y) ps)"

definition series_line :: "rat \<Rightarrow> rat \<Rightarrow> nat \<Rightarrow> Series \<Rightarrow> path_command list" where
  "series_line height ymax points e =
     path_of (map (\<lambda>(i, v). (xAt points i, yAt height ymax v)) (enumerate 0 (sr_values e)))"

definition series_area :: "rat \<Rightarrow> rat \<Rightarrow> nat \<Rightarrow> Series \<Rightarrow> path_command list" where
  "series_area height ymax points e =
     series_line height ymax points e @
     [LineTo (xAt points (points - 1)) (yAt height ymax 0), LineTo (xAt points 0) (yAt height ymax 0), ClosePath]"

text \<open>\<open>values[i] ?? 0\<close>\<close>

definition value_at :: "rat list \<Rightarrow> nat \<Rightarrow> rat" where
  "value_at vs i = (if i < length vs then vs ! i else 0)"

datatype text_anchor = AnchorStart | AnchorMiddle | AnchorEnd

record chart_view =
  tv_label :: string
  tv_grid :: "(rat \<times> bool \<times> string) list"
  tv_xLabels :: "(rat \<times> text_anchor \<times> string) list"
  tv_areas :: "path_command list list"
  tv_lines :: "path_command list list"
  tv_crosshair :: "rat option"
  tv_markers :: "(rat \<times> rat) list"
  tv_tooltipShown :: bool
  tv_tooltipLeft :: bool
  tv_tooltip :: "string \<times> (string \<times> string) list"

definition default_xLabel :: "nat \<Rightarrow> nat \<Rightarrow> string" where
  "default_xLabel index n = ''-'' @ show_int (int n - 1 - int index) @ ''s''"

text \<open>The chart; \<open>None\<close> is the box that says there are not enough samples yet.\<close>

definition TimeSeriesChart ::
  "Series list \<Rightarrow> (rat \<Rightarrow> string) \<Rightarrow> (nat \<Rightarrow> nat \<Rightarrow> string) \<Rightarrow> rat \<Rightarrow> rat option \<Rightarrow> nat option \<Rightarrow> chart_view option"
where
  "TimeSeriesChart series format xLabel height yMax hoverIndex =
     (let n = pointCount series;
          ymax = chart_max series yMax;
          active = nullish hoverIndex (n - 1);
          tooltipX = xAt n active
      in if n < 2 then None
         else Some
           \<lparr>tv_label = js_join '' and '' (map sr_label series) @ '' over time'',
            tv_grid = map (\<lambda>t. (yAt height ymax t, t \<noteq> 0, format t)) (chart_ticks series yMax),
            tv_xLabels = map (\<lambda>i. (xAt n i, if i = 0 then AnchorStart else if i = n - 1 then AnchorEnd else AnchorMiddle, xLabel i n))
                           [0, (n - 1) div 2, n - 1],
            tv_areas = map (series_area height ymax n) series,
            tv_lines = map (series_line height ymax n) series,
            tv_crosshair = (if hoverIndex = None then None else Some tooltipX),
            tv_markers = map (\<lambda>e. (tooltipX, yAt height ymax (value_at (sr_values e) active))) series,
            tv_tooltipShown = (hoverIndex \<noteq> None),
            tv_tooltipLeft = (tooltipX > chart_width * (6 / 10)),
            tv_tooltip = (xLabel active n, map (\<lambda>e. (sr_label e, format (value_at (sr_values e) active))) series)\<rparr>)"

definition ChartLegend :: "Series list \<Rightarrow> string list" where
  "ChartLegend series = (if length series < 2 then [] else map sr_label series)"

subsection \<open>Sparklines\<close>

definition list_min :: "rat list \<Rightarrow> rat" where
  "list_min vs = foldl min (hd vs) vs"

definition list_max :: "rat list \<Rightarrow> rat" where
  "list_max vs = foldl max (hd vs) vs"

definition spark_points :: "rat list \<Rightarrow> rat \<Rightarrow> (rat \<times> rat) list" where
  "spark_points vs height =
     (let lo = list_min vs;
          range = (if list_max vs - lo = 0 then 1 else list_max vs - lo);
          step = 100 / of_nat (length vs - 1)
      in map (\<lambda>(i, v). (of_nat i * step, height - (v - lo) / range * (height - 4) - 2)) (enumerate 0 vs))"

text \<open>The line and the area under it; nothing for fewer than two values.\<close>

definition Sparkline :: "rat list \<Rightarrow> rat \<Rightarrow> (path_command list \<times> path_command list) option" where
  "Sparkline vs height =
     (if length vs < 2 then None
      else (let line = path_of (spark_points vs height)
            in Some (line, line @ [LineTo 100 height, LineTo 0 height, ClosePath])))"

subsection \<open>Meters\<close>

datatype meter_color = MeterPrimary | MeterDanger | MeterWarning | MeterSuccess

text \<open>A value that is not a number (\<open>None\<close>) stays one.\<close>

definition meter_percent :: "rat option \<Rightarrow> rat \<Rightarrow> rat option" where
  "meter_percent v full = map_option (\<lambda>x. min 100 (max 0 (x / full * 100))) v"

definition meter_color :: "bool \<Rightarrow> rat option \<Rightarrow> meter_color" where
  "meter_color primary percent =
     (if primary then MeterPrimary
      else (case percent of
              None \<Rightarrow> MeterSuccess
            | Some p \<Rightarrow> if p \<ge> 85 then MeterDanger else if p \<ge> 65 then MeterWarning else MeterSuccess))"

definition show_rounded :: "rat option \<Rightarrow> string" where
  "show_rounded v = (case v of None \<Rightarrow> ''NaN'' | Some x \<Rightarrow> show_int (js_round x))"

record meter_view =
  me_label :: "(string \<times> string) option"
  me_now :: string
  me_width :: "rat option"
  me_color :: meter_color

definition Meter :: "rat option \<Rightarrow> rat \<Rightarrow> string option \<Rightarrow> bool \<Rightarrow> meter_view" where
  "Meter v full label primary =
     (let percent = meter_percent v full
      in \<lparr>me_label = (if truthy_str label then Some (nullish label [], show_rounded percent @ ''%'') else None),
          me_now = show_rounded percent, me_width = percent, me_color = meter_color primary percent\<rparr>)"

subsection \<open>The scale fits the data\<close>

lemma magnitude_bounds:
  assumes "1 \<le> v"
  shows "0 < magnitude v" "magnitude v \<le> v" "v < 10 * magnitude v"
proof -
  let ?n = "nat \<lfloor>v\<rfloor>"
  have n: "of_nat ?n \<le> v" "v < of_nat ?n + 1" "0 < ?n"
    using assms floor_correct [of v] by auto
  have pow: "10 ^ ilog 10 ?n \<le> ?n" "Suc ?n \<le> 10 ^ Suc (ilog 10 ?n)" using ilog_bounds [of 10 ?n] n(3) by auto
  show "0 < magnitude v" by (simp add: magnitude_def)
  have mag: "magnitude v = of_nat (10 ^ ilog 10 ?n)" by (simp add: magnitude_def)
  have "(of_nat (10 ^ ilog 10 ?n) :: rat) \<le> of_nat ?n" using pow(1) by (simp only: of_nat_le_iff)
  then show "magnitude v \<le> v" using n(1) unfolding mag by (rule order_trans)
  have "(of_nat (Suc ?n) :: rat) \<le> of_nat (10 * 10 ^ ilog 10 ?n)" using pow(2) by (simp only: of_nat_le_iff power_Suc)
  then have "of_nat ?n + 1 \<le> 10 * magnitude v" unfolding mag by simp
  then show "v < 10 * magnitude v" using n(2) by linarith
qed

lemma niceCeil_bounds:
  assumes "1 \<le> v"
  shows "v \<le> niceCeil v" "2 * niceCeil v < 5 * v"
proof -
  note m = magnitude_bounds [OF assms]
  have scale: "v / magnitude v \<le> k \<longleftrightarrow> v \<le> k * magnitude v" for k using m(1) by (simp add: divide_le_eq)
  show "v \<le> niceCeil v" "2 * niceCeil v < 5 * v"
    using m by (auto simp: niceCeil_def Let_def scale)
qed

lemma fold_max_bounds: "x \<le> fold max vs x \<and> (v \<in> set vs \<longrightarrow> v \<le> fold max vs x)" for x v :: rat
proof (induction vs arbitrary: x)
  case (Cons w ws)
  from Cons.IH [of "max w x"] show ?case by auto
qed simp

lemma dataMax_bounds: "1 \<le> dataMax series yMax" "e \<in> set series \<Longrightarrow> v \<in> set (sr_values e) \<Longrightarrow> v \<le> dataMax series yMax"
  using fold_max_bounds [of 1 "concat (map sr_values series) @ [nullish yMax 0]" v]
  unfolding dataMax_def by auto

lemma xAt_plot:
  assumes "2 \<le> n" "i < n" shows "pad_left \<le> xAt n i" "xAt n i \<le> chart_width - pad_right"
proof -
  have "0 \<le> (of_nat i / of_nat (n - 1) :: rat)" "(of_nat i / of_nat (n - 1) :: rat) \<le> 1"
    using assms by (simp_all add: divide_le_eq)
  note frac = this
  have "0 \<le> plotWidth" "pad_left + plotWidth = chart_width - pad_right"
    by (simp_all add: plotWidth_def chart_width_def pad_left_def pad_right_def)
  then show "pad_left \<le> xAt n i" "xAt n i \<le> chart_width - pad_right"
    using mult_right_mono [OF frac(2)] mult_nonneg_nonneg [OF frac(1)] by (fastforce simp: xAt_def)+
qed

lemma yAt_plot:
  assumes "0 < ymax" "0 \<le> v" "v \<le> ymax" "0 \<le> plotHeight height"
  shows "yAt height ymax v = pad_top + plotHeight height - v / ymax * plotHeight height"
    "pad_top \<le> yAt height ymax v" "yAt height ymax v \<le> pad_top + plotHeight height"
proof -
  have frac: "0 \<le> v / ymax" "v / ymax \<le> 1" using assms by (simp_all add: divide_le_eq)
  show eq: "yAt height ymax v = pad_top + plotHeight height - v / ymax * plotHeight height"
    using assms by (simp add: yAt_def min_def)
  show "pad_top \<le> yAt height ymax v" unfolding eq using mult_right_mono [OF frac(2) assms(4)] by simp
  show "yAt height ymax v \<le> pad_top + plotHeight height" unfolding eq using mult_nonneg_nonneg [OF frac(1) assms(4)] by simp
qed


definition demo_series :: "Series list" where
  "demo_series = [\<lparr>sr_key = ''in'', sr_label = ''Network in'', sr_values = [0, 3, 7], sr_color = Series1\<rparr>]"


text \<open>
  The pointer selects the sample it is over: wherever it is, the selected index is one of the samples,
  and over the place where sample \<open>i\<close> is drawn it is \<open>i\<close>, whatever the size of the drawing on the screen.
\<close>

theorem pointer_selects_sample:
  assumes "2 \<le> n" "i < n" "0 < shown"
  shows "0 \<le> handleMove n left shown clientX \<and> handleMove n left shown clientX < int n \<and>
    handleMove n left shown (left + xAt n i / chart_width * shown) = int i"
proof -
  have "plotWidth \<noteq> 0" "(of_nat (n - 1) :: rat) \<noteq> 0"
    using assms(1) by (simp_all add: plotWidth_def chart_width_def pad_left_def pad_right_def)
  moreover have "(left + xAt n i / chart_width * shown - left) / shown * chart_width = xAt n i"
    using assms(3) by (simp add: chart_width_def)
  ultimately have "handleMove n left shown (left + xAt n i / chart_width * shown) = min (int n - 1) (max 0 (js_round (of_nat i)))"
    by (simp add: handleMove_def xAt_def Let_def)
  moreover have "js_round (of_nat i) = int i" by (simp add: js_round_def floor_eq_iff)
  ultimately show ?thesis using assms by (simp add: handleMove_def Let_def)
qed

theorem pointer_selects_sample_witness:
  "handleMove 40 100 280 (100 + xAt 40 7 / chart_width * 280) = 7"
  using pointer_selects_sample [of 40 7 280 100] by simp

end
