(* ===== verification/WebPages.thy ===== *)
theory WebPages
  imports WebCommands WebCharts
begin

section \<open>Cards and pages\<close>

text \<open>
  \<open>components/HostCard.tsx\<close>, \<open>components/HostSelect.tsx\<close>, \<open>components/RenameHostDialog.tsx\<close>, and the pages
  \<open>HostsPage.tsx\<close>, \<open>DashboardPage.tsx\<close> and \<open>ContainersPage.tsx\<close>: what each shows for the state of its
  queries, and what its controls do. A field of the metrics that is not a number counts as \<open>NaN\<close>. Dashes
  and ellipses are written in ASCII.
\<close>

subsection \<open>Numbers of a reply\<close>

fun js_rat :: "js_number \<Rightarrow> rat option" where
  "js_rat (Finite m e) = Some (if 0 \<le> e then of_int m * 10 ^ nat e else of_int m / 10 ^ nat (- e))"
| "js_rat n = None"

fun json_num :: "json option \<Rightarrow> rat option" where
  "json_num (Some (JNum n)) = js_rat n"
| "json_num (Some JNull) = Some 0"
| "json_num (Some (JBool b)) = Some (if b then 1 else 0)"
| "json_num v = None"

text \<open>\<open>formatBytes\<close> of a field: only finite numbers have a size.\<close>

fun formatBytes_field :: "json option \<Rightarrow> string" where
  "formatBytes_field (Some (JNum n)) = (case js_rat n of None \<Rightarrow> ''0 B'' | Some x \<Rightarrow> formatBytes x)"
| "formatBytes_field v = ''0 B''"

definition dot :: string where
  "dot = '' '' @ [CHR 0xB7] @ '' ''"

subsection \<open>The rename dialog\<close>

record rename_dialog =
  rd_open :: bool
  rd_value :: string
  rd_localError :: "string option"
  rd_pending :: bool
  rd_apiError :: "string option"

definition rename_open :: "Host \<Rightarrow> rename_dialog" where
  "rename_open h = \<lparr>rd_open = True, rd_value = hostDisplayName h, rd_localError = None, rd_pending = False, rd_apiError = None\<rparr>"

text \<open>
  What can happen to the dialog. The input and both buttons are disabled while a rename is pending, so
  typing, submitting and cancelling only happen otherwise; Escape and the backdrop check it themselves.
\<close>

datatype rename_event =
    RenameTyped string
  | RenameSubmit
  | RenameEscape
  | RenameBackdrop
  | RenameCancel
  | RenameSaved
  | RenameFailed "string option"

definition rename_close :: "rename_dialog \<Rightarrow> rename_dialog" where
  "rename_close d = (if rd_pending d then d else d\<lparr>rd_open := False\<rparr>)"

fun rename_step :: "rename_event \<Rightarrow> rename_dialog \<Rightarrow> rename_dialog" where
  "rename_step (RenameTyped s) d =
     (if rd_pending d then d else d\<lparr>rd_value := s, rd_localError := None, rd_apiError := None\<rparr>)"
| "rename_step RenameSubmit d =
     (if rd_pending d then d
      else (case validateHostDisplayName (rd_value d) of
              Some invalid \<Rightarrow> d\<lparr>rd_localError := Some invalid\<rparr>
            | None \<Rightarrow> d\<lparr>rd_localError := None, rd_pending := True, rd_apiError := None\<rparr>))"
| "rename_step RenameEscape d = rename_close d"
| "rename_step RenameBackdrop d = rename_close d"
| "rename_step RenameCancel d = rename_close d"
| "rename_step RenameSaved d = (if rd_pending d then d\<lparr>rd_pending := False, rd_open := False\<rparr> else d)"
| "rename_step (RenameFailed m) d = (if rd_pending d then d\<lparr>rd_pending := False, rd_apiError := m\<rparr> else d)"

definition rename_error :: "rename_dialog \<Rightarrow> string option" where
  "rename_error d = (case rd_localError d of None \<Rightarrow> rd_apiError d | Some e \<Rightarrow> Some e)"

record rename_view =
  rn_hostname :: string
  rn_value :: string
  rn_error :: "string option"
  rn_disabled :: bool
  rn_save :: string

definition rename_view :: "Host \<Rightarrow> rename_dialog \<Rightarrow> rename_view" where
  "rename_view h d =
     \<lparr>rn_hostname = ho_hostname h, rn_value = rd_value d,
      rn_error = (if truthy_str (rename_error d) then rename_error d else None),
      rn_disabled = rd_pending d, rn_save = (if rd_pending d then ''Saving...'' else ''Save'')\<rparr>"

subsection \<open>The card of a host\<close>

datatype card_effect = OpenHost string | RefreshInventory | StartRename

record host_card =
  hv_label :: string
  hv_subtitle :: string
  hv_badge :: "StatusTone \<times> bool \<times> string"
  hv_menu :: "(string \<times> card_effect option) list"
  hv_stats :: "(string \<times> string) list"
  hv_runningAccent :: bool
  hv_stale :: bool
  hv_sampled :: string
  hv_meters :: "(meter_view \<times> string \<times> meter_view) option"
  hv_buttons :: "(string \<times> card_effect option) list"
  hv_dialog :: bool

definition card_count :: "bool \<Rightarrow> nat option \<Rightarrow> string" where
  "card_count loading n = (if loading then ''-'' else (case n of None \<Rightarrow> ''-'' | Some k \<Rightarrow> show_nat k))"

definition HostCard ::
  "(string \<Rightarrow> int option) \<Rightarrow> (int \<times> string \<Rightarrow> string) \<Rightarrow> int \<Rightarrow> bool \<Rightarrow> bool \<Rightarrow> Host \<Rightarrow> nat option \<Rightarrow> nat option \<Rightarrow> bool option \<Rightarrow>
     host_card"
where
  "HostCard date relative now isAdmin renaming h containerCount runningCount countsLoading =
     (let loading = nullish countsLoading False;
          resources = toHostResources (ho_metrics h);
          stale = (hr_hasData resources \<and> isStale date (hr_collectedAt resources) now)
      in \<lparr>hv_label = hostDisplayName h,
          hv_subtitle = ho_hostname h @ dot @ osLabel (ho_os h) @ dot @ ho_architecture h @ dot @ ''Docker '' @ ho_version h,
          hv_badge = StatusBadge (ho_status h) True None,
          hv_menu = [(''Open host'', Some (OpenHost (ho_id h))), (''Refresh inventory'', Some RefreshInventory)] @
                    (if isAdmin then [(''Rename'', Some StartRename)] else []) @ [(''Disconnect agent'', None)],
          hv_stats = [(''Containers'', card_count loading containerCount), (''Running'', card_count loading runningCount),
                      (''Last seen'', formatRelativeTime date relative now (ho_lastSeen h)), (''Agent'', js_slice 8 (ho_uuid h))],
          hv_runningAccent = (\<not> loading \<and> nullish runningCount 0 > 0),
          hv_stale = stale,
          hv_sampled = (if hr_hasData resources
                        then (if stale then ''Stale'' @ dot else []) @ formatRelativeTime date relative now (hr_collectedAt resources)
                        else ''Awaiting agent''),
          hv_meters = (if hr_hasData resources
                       then Some (Meter (json_num (hr_cpuPercent resources)) 100
                                    (Some (''CPU'' @ dot @ js_String_opt (hr_cpuCores resources) @ '' cores'')) False,
                                  formatBytes_field (hr_memoryUsedBytes resources) @ '' / '' @
                                    formatBytes_field (hr_memoryTotalBytes resources),
                                  Meter (json_num (hr_memoryPercent resources)) 100 None False)
                       else None),
          hv_buttons = [(''Open'', Some (OpenHost (ho_id h))), (''Refresh'', Some RefreshInventory), (''Disconnect'', None)],
          hv_dialog = (isAdmin \<and> renaming)\<rparr>)"

subsection \<open>Choosing a host\<close>

record host_select =
  hs_label :: string
  hs_tone :: "StatusTone option"
  hs_items :: "(StatusTone \<times> string \<times> string) list"

definition HostSelect :: "Host list \<Rightarrow> string option \<Rightarrow> host_select" where
  "HostSelect hosts chosen =
     (let selected = find (\<lambda>h. Some (ho_id h) = chosen) hosts
      in \<lparr>hs_label = (case selected of None \<Rightarrow> ''Select host'' | Some h \<Rightarrow> hostDisplayName h),
          hs_tone = map_option (\<lambda>h. statusTone (Some (ho_status h))) selected,
          hs_items = map (\<lambda>h. (statusTone (Some (ho_status h)), hostDisplayName h, ho_id h)) hosts\<rparr>)"

subsection \<open>Bodies of pages\<close>

record hosts_query =
  hq_data :: "Host list option"
  hq_isLoading :: bool
  hq_isFetching :: bool
  hq_error :: "string option option"

text \<open>\<open>hq_error\<close>: \<open>None\<close> without an error, \<open>Some None\<close> for something thrown that is not an \<open>Error\<close>.\<close>

definition hq_hosts :: "hosts_query \<Rightarrow> Host list" where
  "hq_hosts q = nullish (hq_data q) []"

definition ErrorNotice :: "string option \<Rightarrow> string \<Rightarrow> string \<times> string" where
  "ErrorNotice e label = (''Could not load '' @ label, nullish e (''Failed to load '' @ label))"

text \<open>\<open>EmptyHosts\<close>: its title, its description and the command it offers.\<close>

definition EmptyHosts :: "string \<times> string \<times> string" where
  "EmptyHosts =
     (''No hosts connected'',
      ''Run the DockSight agent on a Docker host and point it at this server. Registered agents appear here automatically.'',
      ''docksight-agent --server ws://localhost:3000'')"

datatype 'a page_body =
    Skeleton nat
  | LoadError "string \<times> string"
  | NoHosts "string \<times> string \<times> string"
  | NoMatch string string
  | Body 'a

subsection \<open>The hosts page\<close>

datatype HostFilter = HostsAll | HostsOnline | HostsOffline

definition host_passes :: "HostFilter \<Rightarrow> string \<Rightarrow> Host \<Rightarrow> bool" where
  "host_passes f query h =
     (if f = HostsOnline \<and> ho_status h \<noteq> ''ONLINE'' then False
      else if f = HostsOffline \<and> ho_status h = ''ONLINE'' then False
      else (let v = js_toLowerCase (js_trim query)
            in if v = [] then True
               else js_includes (js_toLowerCase (hostDisplayName h)) v \<or> js_includes (js_toLowerCase (ho_hostname h)) v \<or>
                    js_includes (js_toLowerCase (ho_os h)) v \<or> js_includes (js_toLowerCase (ho_architecture h)) v \<or>
                    js_includes (js_toLowerCase (ho_version h)) v))"

definition host_chips :: "Host list \<Rightarrow> (HostFilter \<times> string \<times> nat) list" where
  "host_chips hosts =
     [(HostsAll, ''All'', length hosts),
      (HostsOnline, ''Online'', length (filter (\<lambda>h. ho_status h = ''ONLINE'') hosts)),
      (HostsOffline, ''Offline'', length (filter (\<lambda>h. ho_status h \<noteq> ''ONLINE'') hosts))]"

text \<open>The card of a host on a page; nobody is renaming at first.\<close>

definition page_card ::
  "(string \<Rightarrow> int option) \<Rightarrow> (int \<times> string \<Rightarrow> string) \<Rightarrow> int \<Rightarrow> bool \<Rightarrow> (string, HostInventoryEntry) js_map \<Rightarrow> Host \<Rightarrow> host_card"
where
  "page_card date relative now isAdmin byHostId h =
     (let entry = map_get byHostId (ho_id h)
      in HostCard date relative now isAdmin False h (map_option hi_total entry) (map_option hi_running entry)
           (map_option hi_isLoading entry))"

record hosts_page =
  hp_refreshing :: bool
  hp_chips :: "(HostFilter \<times> string \<times> nat) list"
  hp_body :: "host_card list page_body"

definition HostsPage ::
  "(string \<Rightarrow> int option) \<Rightarrow> (int \<times> string \<Rightarrow> string) \<Rightarrow> int \<Rightarrow> bool \<Rightarrow> hosts_query \<Rightarrow> query_result list \<Rightarrow> HostFilter \<Rightarrow> string \<Rightarrow>
     hosts_page"
where
  "HostsPage date relative now isAdmin q results f query =
     (let hosts = hq_hosts q;
          filtered = filter (host_passes f query) hosts
      in \<lparr>hp_refreshing = (hq_isFetching q \<or> inventory_isFetching results),
          hp_chips = host_chips hosts,
          hp_body =
            (if hq_isLoading q then Skeleton 6
             else (case hq_error q of
                     Some e \<Rightarrow> LoadError (ErrorNotice e ''hosts'')
                   | None \<Rightarrow>
                       if hosts = [] then NoHosts EmptyHosts
                       else if filtered = []
                       then NoMatch ''No hosts match your filters'' ''Try a different search term or clear the status filter.''
                       else Body (map (page_card date relative now isAdmin (inventory_byHostId hosts results)) filtered)))\<rparr>)"

subsection \<open>The dashboard\<close>

definition reporting :: "Host list \<Rightarrow> HostResources list" where
  "reporting hosts = filter hr_hasData (map (\<lambda>h. toHostResources (ho_metrics h)) hosts)"

text \<open>A sum with \<open>NaN\<close> in it is \<open>NaN\<close>.\<close>

definition add_num :: "rat option \<Rightarrow> rat option \<Rightarrow> rat option" where
  "add_num a b = (case (a, b) of (Some x, Some y) \<Rightarrow> Some (x + y) | _ \<Rightarrow> None)"

definition fleetCpu :: "HostResources list \<Rightarrow> rat option" where
  "fleetCpu rs =
     (if rs = [] then Some 0
      else map_option (\<lambda>x. x / of_nat (length rs)) (foldl (\<lambda>t r. add_num t (json_num (hr_cpuPercent r))) (Some 0) rs))"

definition dashboard_tiles :: "hosts_query \<Rightarrow> query_result list \<Rightarrow> (string \<times> string \<times> string) list" where
  "dashboard_tiles q results =
     (let hosts = hq_hosts q;
          online = length (filter (\<lambda>h. ho_status h = ''ONLINE'') hosts);
          rows = inventory_all hosts results;
          running = length (filter (\<lambda>c. js_toLowerCase (c_state c) = ''running'') rows);
          loading = inventory_isLoading results;
          rs = reporting hosts
      in [(''Hosts'', if hq_isLoading q then ''-'' else show_nat (length hosts),
           show_nat online @ '' online'' @ dot @ show_nat (length hosts - online) @ '' offline''),
          (''Containers'', if loading then ''-'' else show_nat (length rows), ''Across all connected hosts''),
          (''Running'', if loading then ''-'' else show_nat running, show_nat (length rows - running) @ '' not running''),
          (''Avg. host CPU'', if rs \<noteq> [] then show_rounded (fleetCpu rs) @ ''%'' else ''-'',
           if rs \<noteq> [] then ''Across '' @ show_nat (length rs) @ '' reporting host'' @ (if length rs = 1 then [] else ''s'')
           else ''No host is reporting metrics'')])"

text \<open>The drawers of a page with a table: which container is inspected, and whose logs are shown.\<close>

record page_drawers =
  dr_inspecting :: "ContainerRow option"
  dr_viewingLogs :: "ContainerRow option"

datatype drawer_event = OpenInspect ContainerRow | OpenLogs ContainerRow | InspectToLogs ContainerRow | CloseInspect | CloseLogs

fun drawer_step :: "drawer_event \<Rightarrow> page_drawers \<Rightarrow> page_drawers" where
  "drawer_step (OpenInspect c) d = d\<lparr>dr_inspecting := Some c\<rparr>"
| "drawer_step (OpenLogs c) d = d\<lparr>dr_viewingLogs := Some c\<rparr>"
| "drawer_step (InspectToLogs c) d = d\<lparr>dr_inspecting := None, dr_viewingLogs := Some c\<rparr>"
| "drawer_step CloseInspect d = d\<lparr>dr_inspecting := None\<rparr>"
| "drawer_step CloseLogs d = d\<lparr>dr_viewingLogs := None\<rparr>"

text \<open>A drawer is shown for a container that knows its host; the pair is the host and the container.\<close>

definition shown_drawer :: "ContainerRow option \<Rightarrow> (string \<times> ContainerRow) option" where
  "shown_drawer r =
     (case r of
        None \<Rightarrow> None
      | Some c \<Rightarrow> if truthy_str (cr_hostId c) then Some (nullish (cr_hostId c) [], c) else None)"

text \<open>A table section: the skeleton, a notice, or the table (\<open>Body None\<close> when rendering it throws).\<close>

type_synonym table_section = "table_view option page_body"

record dashboard_page =
  dp_refreshing :: bool
  dp_tiles :: "(string \<times> string \<times> string) list"
  dp_hosts :: "host_card list page_body"
  dp_containers :: table_section
  dp_inspect :: "(string \<times> ContainerRow) option"
  dp_logs :: "(string \<times> ContainerRow) option"

definition DashboardPage ::
  "(string \<Rightarrow> int option) \<Rightarrow> (int \<Rightarrow> string) \<Rightarrow> (int \<times> string \<Rightarrow> string) \<Rightarrow> int \<Rightarrow> bool \<Rightarrow> hosts_query \<Rightarrow> query_result list \<Rightarrow>
     string option \<Rightarrow> table_state \<Rightarrow> page_drawers \<Rightarrow> dashboard_page"
where
  "DashboardPage date show_date relative now isAdmin q results busyKey ts drawers =
     (let hosts = hq_hosts q
      in \<lparr>dp_refreshing = (hq_isFetching q \<or> inventory_isFetching results),
          dp_tiles = dashboard_tiles q results,
          dp_hosts =
            (if hq_isLoading q then Skeleton 3
             else (case hq_error q of
                     Some e \<Rightarrow> LoadError (ErrorNotice e ''hosts'')
                   | None \<Rightarrow>
                       if hosts = [] then NoHosts EmptyHosts
                       else Body (map (page_card date relative now isAdmin (inventory_byHostId hosts results)) (take 6 hosts)))),
          dp_containers =
            (if inventory_isLoading results then Skeleton 6
             else if hosts = []
             then NoMatch ''No containers to show'' ''Connect an agent first - container inventory is pulled live from each host.''
             else Body (ContainerTable date show_date busyKey True isAdmin True ''No containers running''
                          ''Once this host reports containers over the agent connection they show up here.''
                          (inventory_all hosts results) ts)),
          dp_inspect = shown_drawer (dr_inspecting drawers), dp_logs = shown_drawer (dr_viewingLogs drawers)\<rparr>)"

subsection \<open>The containers page\<close>

record containers_page =
  cp_refreshing :: bool
  cp_body :: table_section
  cp_inspect :: "(string \<times> ContainerRow) option"
  cp_logs :: "(string \<times> ContainerRow) option"

definition ContainersPage ::
  "(string \<Rightarrow> int option) \<Rightarrow> (int \<Rightarrow> string) \<Rightarrow> bool \<Rightarrow> hosts_query \<Rightarrow> query_result list \<Rightarrow> string option \<Rightarrow> table_state \<Rightarrow>
     page_drawers \<Rightarrow> containers_page"
where
  "ContainersPage date show_date isAdmin q results busyKey ts drawers =
     (let hosts = hq_hosts q
      in \<lparr>cp_refreshing = (hq_isFetching q \<or> inventory_isFetching results),
          cp_body =
            (if hq_isLoading q \<or> inventory_isLoading results then Skeleton 8
             else (case hq_error q of
                     Some e \<Rightarrow> LoadError (ErrorNotice e ''containers'')
                   | None \<Rightarrow>
                       if hosts = [] then NoHosts EmptyHosts
                       else Body (ContainerTable date show_date busyKey True isAdmin True ''No containers running''
                                    ''None of the connected hosts reported a container yet.''
                                    (inventory_all hosts results) ts))),
          cp_inspect = shown_drawer (dr_inspecting drawers), cp_logs = shown_drawer (dr_viewingLogs drawers)\<rparr>)"

subsection \<open>The tiles agree with the cards\<close>

lemma fill_inventory_other:
  "k \<notin> set (map ho_id hosts) \<Longrightarrow> map_get (fill_inventory hosts results m) k = map_get m k"
  by (induction hosts results m rule: fill_inventory.induct) (auto simp: map_get_set)

lemma fill_inventory_entries:
  assumes "distinct (map ho_id hosts)" "length results = length hosts"
  shows "map (\<lambda>h. map_get (fill_inventory hosts results m) (ho_id h)) hosts =
    map (\<lambda>(h, r). Some (inventory_entry h r)) (zip hosts results)"
  using assms
proof (induction hosts results m rule: fill_inventory.induct)
  case (1 h hs r rs m)
  then show ?case by (simp add: fill_inventory_other map_get_set)
qed auto

lemma inventory_entries:
  assumes "distinct (map ho_id hosts)" "length results = length hosts"
  shows "map (\<lambda>h. map_get (inventory_byHostId hosts results) (ho_id h)) hosts =
    map (\<lambda>(h, r). Some (inventory_entry h r)) (zip hosts results)"
  using fill_inventory_entries [OF assms] by (simp add: inventory_byHostId_def)

text \<open>A state of a row is that of its summary.\<close>

lemma container_row_state [simp]: "c_state (container_row c h n) = c_state c"
  by (simp add: container_row_def)

text \<open>
  C24. The tiles of the dashboard agree with the cards of the hosts page: the totals and the running counts
  of the cards of all hosts add up to the number of rows of the container table and to the number of
  those that run, which are what the tiles show.
\<close>

theorem tiles_agree_with_cards:
  assumes "distinct (map ho_id hosts)" "length results = length hosts" "hq_data q = Some hosts"
    and "\<not> inventory_isLoading results"
  shows "map (\<lambda>(label, v, hint). (label, v)) (take 2 (drop 1 (dashboard_tiles q results))) =
    [(''Containers'', show_nat (sum_list (map (\<lambda>h. nullish (map_option hi_total (map_get (inventory_byHostId hosts results) (ho_id h))) 0) hosts))),
     (''Running'', show_nat (sum_list (map (\<lambda>h. nullish (map_option hi_running (map_get (inventory_byHostId hosts results) (ho_id h))) 0) hosts)))]
    \<and> length (inventory_all hosts results) =
        sum_list (map (\<lambda>h. nullish (map_option hi_total (map_get (inventory_byHostId hosts results) (ho_id h))) 0) hosts)"
proof -
  have entries: "map (\<lambda>h. nullish (map_option f (map_get (inventory_byHostId hosts results) (ho_id h))) (0::nat)) hosts =
      map (\<lambda>(h, r). f (inventory_entry h r)) (zip hosts results)" for f :: "HostInventoryEntry \<Rightarrow> nat"
    using arg_cong [OF inventory_entries [OF assms(1,2)], of "map (\<lambda>e. nullish (map_option f e) 0)"]
    by (simp add: comp_def split_beta nullish_def)
  have totals: "sum_list (map (\<lambda>(h, r). hi_total (inventory_entry h r)) (zip hosts results)) = length (inventory_all hosts results)"
    by (induction "zip hosts results") (auto simp: inventory_all_def inventory_entry_def length_concat comp_def split_beta Let_def)
  have running: "sum_list (map (\<lambda>(h, r). hi_running (inventory_entry h r)) zs) =
      length (filter (\<lambda>c. js_toLowerCase (c_state c) = ''running'')
        (concat (map (\<lambda>(h, r). map (\<lambda>c. container_row c (Some (ho_id h)) (Some (hostInventoryLabel h))) (nullish (qr_containers r) [])) zs)))"
    for zs by (induction zs) (auto simp: inventory_entry_def isRunningState_def nullish_def comp_def Let_def)
  show ?thesis
    unfolding entries using totals running [of "zip hosts results"] assms(3,4)
    by (simp add: dashboard_tiles_def hq_hosts_def nullish_def inventory_all_def Let_def)
qed

definition demo_host :: Host where
  "demo_host = \<lparr>ho_id = ''h'', ho_uuid = ''u'', ho_hostname = ''web'', ho_displayName = None, ho_os = ''linux'',
     ho_architecture = ''x64'', ho_version = ''27'', ho_status = ''ONLINE'', ho_lastSeen = None, ho_metrics = None\<rparr>"

definition demo_reply :: query_result where
  "demo_reply = \<lparr>qr_containers = Some [\<lparr>c_id = ''c'', c_name = ''/web'', c_image = ''nginx'', c_status = [], c_state = ''running'',
     c_ports = [], c_created = js_int 0\<rparr>], qr_isLoading = False, qr_isFetching = False, qr_isError = False\<rparr>"

theorem tiles_agree_with_cards_witness:
  "length (inventory_all [demo_host] [demo_reply]) =
     nullish (map_option hi_total (map_get (inventory_byHostId [demo_host] [demo_reply]) ''h'')) 0"
  using tiles_agree_with_cards [of "[demo_host]" "[demo_reply]"
      "\<lparr>hq_data = Some [demo_host], hq_isLoading = False, hq_isFetching = False, hq_error = None\<rparr>"]
  by (simp add: inventory_isLoading_def demo_reply_def demo_host_def)

subsection \<open>The rename dialog saves what it shows\<close>

text \<open>Once closed, the dialog is gone.\<close>

definition rename_run :: "rename_event list \<Rightarrow> rename_dialog \<Rightarrow> rename_dialog" where
  "rename_run es d = foldl (\<lambda>d e. if rd_open d then rename_step e d else d) d es"

definition rename_ok :: "rename_dialog \<Rightarrow> bool" where
  "rename_ok d \<longleftrightarrow>
     (rd_pending d \<longrightarrow> rd_open d \<and> rd_localError d = None \<and> rd_apiError d = None \<and> validateHostDisplayName (rd_value d) = None)"

lemma rename_step_ok: "rename_ok d \<Longrightarrow> rd_open d \<Longrightarrow> rename_ok (rename_step e d)"
  by (cases e) (auto simp: rename_ok_def rename_close_def split: option.splits)

lemma rename_run_ok: "rename_ok d \<Longrightarrow> rename_ok (rename_run es d)"
  by (induction es arbitrary: d) (simp_all add: rename_run_def rename_step_ok)

lemma valid_name_accepted:
  "validateHostDisplayName v = None \<Longrightarrow> validateUpdateHost (JObj [(''displayName'', JStr v)]) = Some (js_trim v)"
  by (simp add: validateHostDisplayName_def validateUpdateHost_def web_DISPLAY_NAME_MAX_def HOST_DISPLAY_NAME_MAX_LENGTH_def
      Let_def split: if_splits)

text \<open>
  Whatever the user does in the rename dialog: while a rename is being saved the dialog stays open,
  shows no error, and the name in its field is the one being saved, which the server accepts; a failure
  leaves the dialog open with that name and the message.
\<close>

theorem rename_dialog_saves_what_it_shows:
  assumes "d = rename_run es (rename_open h)" "rd_pending d"
  shows "rd_open d \<and> rn_error (rename_view h d) = None \<and> rn_disabled (rename_view h d) \<and>
    validateUpdateHost (JObj [(''displayName'', JStr (rn_value (rename_view h d)))]) = Some (js_trim (rd_value d)) \<and>
    (m \<noteq> [] \<longrightarrow> rd_open (rename_step (RenameFailed (Some m)) d) \<and> rn_value (rename_view h (rename_step (RenameFailed (Some m)) d)) = rd_value d \<and>
       rn_error (rename_view h (rename_step (RenameFailed (Some m)) d)) = Some m)"
proof -
  have "rename_ok d" unfolding assms(1) by (rule rename_run_ok) (simp add: rename_ok_def rename_open_def)
  with assms(2) show ?thesis by (auto simp: rename_ok_def rename_view_def rename_error_def valid_name_accepted)
qed

theorem rename_dialog_saves_what_it_shows_witness:
  "rd_open (rename_run [RenameTyped '' Db '', RenameSubmit, RenameEscape] (rename_open demo_host))"
proof -
  have "validateHostDisplayName '' Db '' = None" by code_simp
  then have "rd_pending (rename_run [RenameTyped '' Db '', RenameSubmit, RenameEscape] (rename_open demo_host))"
    by (simp add: rename_run_def rename_open_def rename_close_def)
  from rename_dialog_saves_what_it_shows [OF refl this, of "''Failed''"] show ?thesis by simp
qed


lemma demo_rename:
  "\<exists>dto t' g'. hosts_controller_rename mem_agents ''h1'' (JObj [(''displayName'', JStr ''Db'')]) [demo_row] (gateway_init []) = (Inr dto, t', g')"
proof -
  have v: "validateUpdateHost (JObj [(''displayName'', JStr ''Db'')]) = Some ''Db''" by code_simp
  have u: "agents_updateDisplayName mem_agents ''h1'' ''Db'' [demo_row] =
      Inr (Some (demo_row\<lparr>ag_displayName := Some ''Db''\<rparr>), [demo_row\<lparr>ag_displayName := Some ''Db''\<rparr>])"
    by (simp add: agents_updateDisplayName_def agents_findById_def mem_agents_def mem_update_def demo_row_def
        apply_agent_data_def no_change_def nullish_def replace_row_def Let_def)
  show ?thesis by (simp add: hosts_controller_rename_def hosts_updateDisplayName_def v u or_not_found_def Let_def)
qed


subsection \<open>The average of the fleet\<close>

lemma fleet_sum:
  assumes "\<forall>r\<in>set rs. \<exists>x. json_num (hr_cpuPercent r) = Some x \<and> lo \<le> x \<and> x \<le> hi"
  shows "\<exists>y. foldl (\<lambda>t r. add_num t (json_num (hr_cpuPercent r))) (Some t) rs = Some (t + y) \<and>
    of_nat (length rs) * lo \<le> y \<and> y \<le> of_nat (length rs) * hi"
  using assms
proof (induction rs arbitrary: t)
  case (Cons r rs)
  then obtain x where x: "json_num (hr_cpuPercent r) = Some x" "lo \<le> x" "x \<le> hi" by auto
  from Cons obtain y where y: "foldl (\<lambda>t r. add_num t (json_num (hr_cpuPercent r))) (Some (t + x)) rs = Some (t + x + y)"
    "of_nat (length rs) * lo \<le> y" "y \<le> of_nat (length rs) * hi" by fastforce
  then show ?case using x by (intro exI [of _ "x + y"]) (simp add: add_num_def add.assoc distrib_right)
qed simp

text \<open>
  The average lies between the smallest and the largest value reported, so the tile never shows more than
  100 per cent when no host reports more.
\<close>

theorem fleet_average_bounds:
  assumes "rs \<noteq> []" "\<forall>r\<in>set rs. \<exists>x. json_num (hr_cpuPercent r) = Some x \<and> lo \<le> x \<and> x \<le> hi"
  shows "\<exists>x. fleetCpu rs = Some x \<and> lo \<le> x \<and> x \<le> hi"
proof -
  obtain y where y: "foldl (\<lambda>t r. add_num t (json_num (hr_cpuPercent r))) (Some 0) rs = Some y"
    "of_nat (length rs) * lo \<le> y" "y \<le> of_nat (length rs) * hi"
    using fleet_sum [OF assms(2), of 0] by auto
  have "(0::rat) < of_nat (length rs)" using assms(1) by simp
  with y assms(1) show ?thesis
    by (simp add: fleetCpu_def pos_le_divide_eq pos_divide_le_eq mult.commute)
qed

end
