(* ===== verification/WebSamples.thy ===== *)
theory WebSamples
  imports WebCharts "HOL-Library.Word"
begin

unbundle bit_operations_syntax

section \<open>Sample data\<close>

text \<open>
  \<open>lib/mock.ts\<close>, the data of the pages that have no endpoint yet, and \<open>components/ContainerMetrics.tsx\<close>,
  which charts it. The generator works on 32-bit integers: \<open>^\<close>, \<open><<\<close> and \<open>Math.imul\<close> on a signed number and
  \<open>>>>\<close> on an unsigned one are the same words. Its state is passed from draw to draw; the quotients of a
  draw are exact. Bullets and dashes are written in ASCII.
\<close>

subsection \<open>The generator\<close>

definition hash :: "string \<Rightarrow> 32 word" where
  "hash seed = foldl (\<lambda>h c. (h XOR of_nat (of_char c)) * 16777619) 2166136261 seed"

definition pseudoRandom :: "string \<Rightarrow> 32 word" where
  "pseudoRandom seed = (if hash seed = 0 then 1 else hash seed)"

definition next_state :: "32 word \<Rightarrow> 32 word" where
  "next_state s0 =
     (let s1 = s0 XOR push_bit 13 s0;
          s2 = s1 XOR drop_bit 17 s1
      in s2 XOR push_bit 5 s2)"

definition rand :: "32 word \<Rightarrow> rat \<times> 32 word" where
  "rand s = (of_nat (unat (next_state s)) / 4294967295, next_state s)"

definition between :: "rat \<Rightarrow> rat \<Rightarrow> 32 word \<Rightarrow> rat \<times> 32 word" where
  "between lo hi s = (let (r, s') = rand s in (lo + r * (hi - lo), s'))"

text \<open>A bound of \<open>None\<close> is infinity. The samples are drawn from the newest to the oldest.\<close>

definition clamp :: "rat \<Rightarrow> rat option \<Rightarrow> rat \<Rightarrow> rat" where
  "clamp lo hi v = (case hi of None \<Rightarrow> max lo v | Some h \<Rightarrow> min h (max lo v))"

fun walk_back :: "nat \<Rightarrow> rat \<Rightarrow> rat \<Rightarrow> rat \<Rightarrow> rat option \<Rightarrow> 32 word \<Rightarrow> rat list \<times> 32 word" where
  "walk_back 0 v volatility lo hi s = ([], s)"
| "walk_back (Suc n) v volatility lo hi s =
     (let (d, s1) = between (- volatility) volatility s;
          v' = clamp lo hi (v + d);
          (vs, s2) = walk_back n v' volatility lo hi s1
      in (v' # vs, s2))"

definition walk :: "rat \<Rightarrow> nat \<Rightarrow> rat \<Rightarrow> rat \<Rightarrow> rat option \<Rightarrow> 32 word \<Rightarrow> rat list \<times> 32 word" where
  "walk current points volatility lo hi s =
     (let (vs, s') = walk_back (points - 1) current volatility lo hi s in (rev (current # vs), s'))"

subsection \<open>The metrics of a container\<close>

record MockContainerMetrics =
  mk_cpuPercent :: rat
  mk_cpuSeries :: "rat list"
  mk_memoryPercent :: rat
  mk_memoryUsedBytes :: rat
  mk_memoryLimitBytes :: rat
  mk_memorySeries :: "rat list"
  mk_networkInSeries :: "rat list"
  mk_networkOutSeries :: "rat list"
  mk_networkInBytes :: rat
  mk_networkOutBytes :: rat
  mk_diskReadSeries :: "rat list"
  mk_diskWriteSeries :: "rat list"
  mk_diskReadBytes :: rat
  mk_diskWriteBytes :: rat

definition mockContainerMetrics :: "string \<Rightarrow> nat \<Rightarrow> MockContainerMetrics" where
  "mockContainerMetrics containerId points =
     (let (cpuPercent, s1) = between 1 64 (pseudoRandom (''metrics:'' @ containerId));
          (limits, s2) = between 1 8 s1;
          memoryLimitBytes = 512 * 1024 ^ 2 * of_int \<lceil>limits\<rceil>;
          (memoryPercent, s3) = between 12 79 s2;
          (ni, s4) = between 40 900 s3;
          (no, s5) = between 20 600 s4;
          (dr, s6) = between 5 220 s5;
          (dw, s7) = between 2 140 s6;
          networkIn = ni * 1024; networkOut = no * 1024; diskRead = dr * 1024; diskWrite = dw * 1024;
          (cpuSeries, s8) = walk cpuPercent points 9 0 (Some 100) s7;
          (memorySeries, s9) = walk memoryPercent points 3 1 (Some 99) s8;
          (networkInSeries, s10) = walk networkIn points (networkIn * (4 / 10)) 0 None s9;
          (networkOutSeries, s11) = walk networkOut points (networkOut * (4 / 10)) 0 None s10;
          (diskReadSeries, s12) = walk diskRead points (diskRead * (1 / 2)) 0 None s11;
          (diskWriteSeries, s13) = walk diskWrite points (diskWrite * (1 / 2)) 0 None s12
      in \<lparr>mk_cpuPercent = cpuPercent, mk_cpuSeries = cpuSeries, mk_memoryPercent = memoryPercent,
          mk_memoryUsedBytes = memoryLimitBytes * memoryPercent / 100, mk_memoryLimitBytes = memoryLimitBytes,
          mk_memorySeries = memorySeries, mk_networkInSeries = networkInSeries, mk_networkOutSeries = networkOutSeries,
          mk_networkInBytes = networkIn, mk_networkOutBytes = networkOut, mk_diskReadSeries = diskReadSeries,
          mk_diskWriteSeries = diskWriteSeries, mk_diskReadBytes = diskRead, mk_diskWriteBytes = diskWrite\<rparr>)"

subsection \<open>Gaps of the inspection\<close>

record MockEnvVar =
  ev_key :: string
  ev_value :: string
  ev_masked :: bool

definition env_var :: "string \<Rightarrow> string \<Rightarrow> MockEnvVar" where
  "env_var k v = \<lparr>ev_key = k, ev_value = v, ev_masked = False\<rparr>"

definition mockEnvVars :: "string \<Rightarrow> MockEnvVar list" where
  "mockEnvVars containerId =
     (let (r1, s1) = rand (pseudoRandom (''env:'' @ containerId));
          (port, s2) = between 3000 9000 s1;
          (r2, s3) = rand s2
      in [env_var ''PATH'' ''/usr/local/sbin:/usr/local/bin:/usr/bin:/bin'',
          env_var ''NODE_ENV'' (if r1 > 1 / 2 then ''production'' else ''staging''),
          env_var ''PORT'' (show_int \<lfloor>port\<rfloor>),
          env_var ''LOG_LEVEL'' (if r2 > 6 / 10 then ''debug'' else ''info''),
          (env_var ''DATABASE_URL'' ''postgres://********@db:5432/app'')\<lparr>ev_masked := True\<rparr>,
          env_var ''TZ'' ''UTC''])"

text \<open>The gateway and the name servers of a network.\<close>

definition mockNetworkDetails :: "string \<Rightarrow> string \<times> string list" where
  "mockNetworkDetails networkName =
     (let (octet, s) = between 17 32 (pseudoRandom (''net:'' @ networkName))
      in (''172.'' @ show_int \<lfloor>octet\<rfloor> @ ''.0.1'', [''127.0.0.11'']))"

subsection \<open>Images, networks and volumes\<close>

record MockImage =
  im_id :: string
  im_repository :: string
  im_tag :: string
  im_sizeBytes :: rat
  im_created :: string
  im_containers :: int

record MockNetwork =
  nw_id :: string
  nw_name :: string
  nw_driver :: string
  nw_scope :: string
  nw_subnet :: string
  nw_gateway :: string
  nw_attached :: int

record MockVolume =
  vo_name :: string
  vo_driver :: string
  vo_mountpoint :: string
  vo_sizeBytes :: rat
  vo_created :: string
  vo_inUse :: bool

definition IMAGE_REPOS :: "string list" where
  "IMAGE_REPOS =
     [''nginx'', ''postgres'', ''redis'', ''node'', ''grafana/grafana'', ''traefik'', ''rabbitmq'', ''ghcr.io/docksight/agent'']"

definition image_tags :: "string list" where
  "image_tags = [''latest'', ''1.27-alpine'', ''16'', ''7.2'', ''22-slim'']"

text \<open>\<open>toString(16)\<close>, and \<open>padStart(n, '0')\<close>.\<close>

fun show_hex :: "nat \<Rightarrow> string" where
  "show_hex n =
     (let d = (if n mod 16 < 10 then char_of (48 + n mod 16) else char_of (87 + n mod 16))
      in if n < 16 then [d] else show_hex (n div 16) @ [d])"

declare show_hex.simps [simp del]

definition padStart :: "nat \<Rightarrow> string \<Rightarrow> string" where
  "padStart n s = replicate (n - length s) CHR ''0'' @ s"

definition daysAgo :: "int \<Rightarrow> int \<Rightarrow> string" where
  "daysAgo now days = toISOString (now - days * 86400000)"

text \<open>The draws of one image are its size, its age and how many containers use it.\<close>

fun mock_image_list :: "int \<Rightarrow> string \<Rightarrow> nat \<Rightarrow> string list \<Rightarrow> 32 word \<Rightarrow> MockImage list" where
  "mock_image_list now hostId index [] s = []"
| "mock_image_list now hostId index (repository # rs) s =
     (let (mb, s1) = between 12 1100 s;
          (days, s2) = between 1 240 s1;
          (n, s3) = between 0 4 s2
      in \<lparr>im_id = ''sha256:'' @ concat (replicate 8 (padStart 8 (show_hex (unat (hash (hostId @ repository)))))),
          im_repository = repository, im_tag = image_tags ! (index mod 5), im_sizeBytes = mb * 1024 ^ 2,
          im_created = daysAgo now \<lfloor>days\<rfloor>, im_containers = \<lfloor>n\<rfloor>\<rparr> # mock_image_list now hostId (Suc index) rs s3)"

definition mockImages :: "int \<Rightarrow> string \<Rightarrow> MockImage list" where
  "mockImages now hostId = mock_image_list now hostId 0 IMAGE_REPOS (pseudoRandom (''images:'' @ hostId))"

definition network_names :: "string list" where
  "network_names = [''bridge'', ''host'', ''none'', ''docksight_default'', ''edge-proxy'']"

fun mock_network_list :: "string \<Rightarrow> nat \<Rightarrow> string list \<Rightarrow> 32 word \<Rightarrow> MockNetwork list" where
  "mock_network_list hostId index [] s = []"
| "mock_network_list hostId index (name # ns) s =
     (let (n, s1) = between 0 6 s;
          bare = (name = ''host'' \<or> name = ''none'');
          net = ''172.'' @ show_nat (17 + index)
      in \<lparr>nw_id = padStart 12 (show_hex (unat (hash (hostId @ name)))), nw_name = name,
          nw_driver = (if name = ''host'' then ''host'' else if name = ''none'' then ''null'' else ''bridge''),
          nw_scope = ''local'', nw_subnet = (if bare then ''-'' else net @ ''.0.0/16''),
          nw_gateway = (if bare then ''-'' else net @ ''.0.1''), nw_attached = \<lfloor>n\<rfloor>\<rparr> # mock_network_list hostId (Suc index) ns s1)"

definition mockNetworks :: "string \<Rightarrow> MockNetwork list" where
  "mockNetworks hostId = mock_network_list hostId 0 network_names (pseudoRandom (''networks:'' @ hostId))"

definition volume_names :: "string list" where
  "volume_names = [''pgdata'', ''redis-data'', ''grafana-storage'', ''app-uploads'', ''letsencrypt'']"

fun mock_volume_list :: "int \<Rightarrow> string list \<Rightarrow> 32 word \<Rightarrow> MockVolume list" where
  "mock_volume_list now [] s = []"
| "mock_volume_list now (name # ns) s =
     (let (mb, s1) = between 4 8600 s;
          (days, s2) = between 1 400 s1;
          (r, s3) = rand s2
      in \<lparr>vo_name = name, vo_driver = ''local'', vo_mountpoint = ''/var/lib/docker/volumes/'' @ name @ ''/_data'',
          vo_sizeBytes = mb * 1024 ^ 2, vo_created = daysAgo now \<lfloor>days\<rfloor>, vo_inUse = (r > 1 / 4)\<rparr> # mock_volume_list now ns s3)"

definition mockVolumes :: "int \<Rightarrow> string \<Rightarrow> MockVolume list" where
  "mockVolumes now hostId = mock_volume_list now volume_names (pseudoRandom (''volumes:'' @ hostId))"

subsection \<open>The metrics view\<close>

text \<open>A tile: label, value, hint, and whether it warns.\<close>

type_synonym tile = "string \<times> string \<times> string \<times> bool"

definition secondsAgo :: "nat \<Rightarrow> nat \<Rightarrow> string" where
  "secondsAgo index n = ''-'' @ show_int ((int n - int index - 1) * 5) @ ''s''"

datatype chart_card_body =
    ChartTable "string list" "(string \<times> string list) list"
  | ChartDrawn "chart_view option"

record chart_card =
  cc_title :: string
  cc_toggle :: string
  cc_latest :: string
  cc_legend :: "string list"
  cc_body :: chart_card_body

definition ChartCard ::
  "string \<Rightarrow> Series list \<Rightarrow> (rat \<Rightarrow> string) \<Rightarrow> rat option \<Rightarrow> (nat \<Rightarrow> nat \<Rightarrow> string) \<Rightarrow> bool \<Rightarrow> nat option \<Rightarrow> chart_card"
where
  "ChartCard title series format yMax xLabel showTable hoverIndex =
     (let first = (case series of [] \<Rightarrow> [] | e # es \<Rightarrow> sr_values e);
          latest = (if first = [] then 0 else last first)
      in \<lparr>cc_title = title, cc_toggle = (if showTable then ''Chart'' else ''Table''), cc_latest = format latest,
          cc_legend = ChartLegend series,
          cc_body =
            (if showTable
             then ChartTable (''Time'' # map sr_label series)
                    (map (\<lambda>i. (xLabel i (length first), map (\<lambda>e. format (value_at (sr_values e) i)) series)) [0..<length first])
             else ChartDrawn (TimeSeriesChart series format xLabel 180 yMax hoverIndex))\<rparr>)"

definition one_series :: "string \<Rightarrow> string \<Rightarrow> rat list \<Rightarrow> series_color \<Rightarrow> Series" where
  "one_series k label vs color = \<lparr>sr_key = k, sr_label = label, sr_values = vs, sr_color = color\<rparr>"

definition metrics_notice :: "string option \<Rightarrow> string" where
  "metrics_notice containerName =
     ''Live container statistics are not in the agent protocol yet - these series are generated client-side'' @
     (if truthy_str containerName then '' for '' @ nullish containerName [] else []) @ ''.''"

definition metrics_tiles :: "MockContainerMetrics \<Rightarrow> tile list" where
  "metrics_tiles m =
     [(''CPU'', formatPercent (mk_cpuPercent m), ''of host cores'', False),
      (''Memory'', formatBytes (mk_memoryUsedBytes m), ''of '' @ formatBytes (mk_memoryLimitBytes m) @ '' limit'',
       mk_memoryPercent m > 85),
      (''Network I/O'', formatBytes (mk_networkInBytes m) @ ''/s'', formatBytes (mk_networkOutBytes m) @ ''/s out'', False),
      (''Disk I/O'', formatBytes (mk_diskReadBytes m) @ ''/s'', formatBytes (mk_diskWriteBytes m) @ ''/s write'', False)]"

text \<open>Each card keeps whether it shows its table, and where the pointer is.\<close>

definition metrics_cards :: "MockContainerMetrics \<Rightarrow> (nat \<Rightarrow> bool) \<Rightarrow> (nat \<Rightarrow> nat option) \<Rightarrow> chart_card list" where
  "metrics_cards m showTable hover =
     [ChartCard ''CPU usage'' [one_series ''cpu'' ''CPU'' (mk_cpuSeries m) Series1] (\<lambda>v. formatPercent v) (Some 100) secondsAgo
        (showTable 0) (hover 0),
      ChartCard ''Memory usage'' [one_series ''memory'' ''Memory'' (mk_memorySeries m) Series1] (\<lambda>v. formatPercent v) (Some 100)
        secondsAgo (showTable 1) (hover 1),
      ChartCard ''Network throughput''
        [one_series ''in'' ''Network in'' (mk_networkInSeries m) Series1, one_series ''out'' ''Network out'' (mk_networkOutSeries m) Series2]
        formatBytes None secondsAgo (showTable 2) (hover 2),
      ChartCard ''Disk I/O''
        [one_series ''read'' ''Disk read'' (mk_diskReadSeries m) Series1, one_series ''write'' ''Disk write'' (mk_diskWriteSeries m) Series2]
        formatBytes None secondsAgo (showTable 3) (hover 3)]"

definition ContainerMetrics ::
  "string \<Rightarrow> string option \<Rightarrow> (nat \<Rightarrow> bool) \<Rightarrow> (nat \<Rightarrow> nat option) \<Rightarrow> string \<times> tile list \<times> chart_card list"
where
  "ContainerMetrics containerId containerName showTable hover =
     (let m = mockContainerMetrics containerId 40
      in (metrics_notice containerName, metrics_tiles m, metrics_cards m showTable hover))"

subsection \<open>The generator never stops\<close>

lemma xor_push_zero:
  fixes x :: "32 word"
  assumes "x XOR push_bit k x = 0" "0 < k"
  shows "x = 0"
proof -
  have same: "bit x n = (k \<le> n \<and> n < 32 \<and> bit x (n - k))" for n
  proof -
    have "bit x n = bit (push_bit k x) n"
      using arg_cong [OF assms(1), of "\<lambda>w. bit w n"] by (auto simp: bit_xor_iff)
    then show ?thesis by (auto simp: bit_push_bit_iff)
  qed
  have "\<not> bit x n" for n
  proof (induction n rule: less_induct)
    case (less n)
    show ?case using same [of n] less [of "n - k"] assms(2) by auto
  qed
  then show ?thesis by (simp add: bit_eq_iff)
qed

lemma xor_drop_zero:
  fixes x :: "32 word"
  assumes "x XOR drop_bit k x = 0" "0 < k"
  shows "x = 0"
proof -
  have same: "bit x n = bit x (k + n)" for n
    using arg_cong [OF assms(1), of "\<lambda>w. bit w n"] by (auto simp: bit_xor_iff bit_drop_bit_eq)
  have "\<not> bit x n" for n
  proof (induction "32 - n" arbitrary: n rule: less_induct)
    case less
    show ?case
    proof (cases "n < 32")
      case True
      then show ?thesis using same [of n] less [of "k + n"] assms(2) by auto
    qed (auto dest: bit_imp_le_length)
  qed
  then show ?thesis by (simp add: bit_eq_iff)
qed

lemma next_state_nonzero: "s \<noteq> 0 \<Longrightarrow> next_state s \<noteq> 0"
  unfolding next_state_def Let_def by (metis xor_push_zero xor_drop_zero zero_less_numeral)

lemma pseudoRandom_nonzero: "pseudoRandom seed \<noteq> 0"
  by (simp add: pseudoRandom_def)

lemma rand_bounds:
  assumes "s \<noteq> 0" "rand s = (r, s')"
  shows "0 < r" "r \<le> 1" "s' \<noteq> 0"
proof -
  have s': "s' = next_state s" "r = of_nat (unat s') / 4294967295" using assms(2) by (auto simp: rand_def)
  show nz: "s' \<noteq> 0" using next_state_nonzero [OF assms(1)] s'(1) by simp
  then have "0 < unat s'" by (simp add: unat_gt_0)
  then have pos: "(0 :: rat) < of_nat (unat s')" by (simp only: of_nat_0_less_iff)
  have "unat s' < 2 ^ 32" using unsigned_less [of s'] by simp
  then have "unat s' \<le> 4294967295" by simp
  then have le: "(of_nat (unat s') :: rat) \<le> of_nat 4294967295" by (simp only: of_nat_le_iff)
  show "0 < r" unfolding s'(2) using pos by (rule divide_pos_pos) simp
  show "r \<le> 1" unfolding s'(2) using le by simp
qed

lemma between_bounds:
  assumes "s \<noteq> 0" "between lo hi s = (v, s')" "lo < hi"
  shows "lo < v" "v \<le> hi" "s' \<noteq> 0"
proof -
  obtain r where r: "rand s = (r, s')" and v: "v = lo + r * (hi - lo)"
    using assms(2) by (cases "rand s") (auto simp: between_def)
  note b = rand_bounds [OF assms(1) r]
  show "lo < v" using b(1) assms(3) by (simp add: v)
  have "r * (hi - lo) \<le> 1 * (hi - lo)" using b(2) assms(3) by (intro mult_right_mono) auto
  then show "v \<le> hi" by (simp add: v)
  show "s' \<noteq> 0" by (rule b(3))
qed

subsection \<open>A walk\<close>

definition in_range :: "rat \<Rightarrow> rat option \<Rightarrow> rat \<Rightarrow> bool" where
  "in_range lo hi v \<longleftrightarrow> lo \<le> v \<and> (case hi of None \<Rightarrow> True | Some h \<Rightarrow> v \<le> h)"

lemma clamp_in_range: "in_range lo hi v \<Longrightarrow> in_range lo hi (clamp lo hi w)"
  by (auto simp: in_range_def clamp_def split: option.splits)

lemma clamp_close: "in_range lo hi v \<Longrightarrow> \<bar>w - v\<bar> \<le> d \<Longrightarrow> \<bar>clamp lo hi w - v\<bar> \<le> d"
  by (auto simp: in_range_def clamp_def split: option.splits)

lemma walk_back_shape:
  assumes "in_range lo hi v" "s \<noteq> 0" "0 < d" "walk_back n v d lo hi s = (vs, s')"
  shows "length vs = n \<and> list_all (in_range lo hi) vs \<and> successively (\<lambda>a b. \<bar>b - a\<bar> \<le> d) (v # vs) \<and> s' \<noteq> 0"
  using assms
proof (induction n arbitrary: v s vs)
  case (Suc n)
  obtain x s1 where x: "between (- d) d s = (x, s1)" by (cases "between (- d) d s")
  let ?v = "clamp lo hi (v + x)"
  obtain ws where ws: "walk_back n ?v d lo hi s1 = (ws, s')" "vs = ?v # ws"
    using Suc.prems(4) x by (cases "walk_back n ?v d lo hi s1") auto
  have b: "- d < x" "x \<le> d" "s1 \<noteq> 0" using between_bounds [OF Suc.prems(2) x] Suc.prems(3) by auto
  have range: "in_range lo hi ?v" using Suc.prems(1) by (rule clamp_in_range)
  have "\<bar>v + x - v\<bar> \<le> d" using b(1,2) by (simp add: abs_le_iff)
  then have "\<bar>?v - v\<bar> \<le> d" by (rule clamp_close [OF Suc.prems(1)])
  with Suc.IH [OF range b(3) Suc.prems(3) ws(1)] range ws(2) show ?case by simp
qed auto

lemma walk_shape:
  assumes "in_range lo hi v" "s \<noteq> 0" "0 < d" "walk v points d lo hi s = (vs, s')"
  shows "length vs = max 1 points" "last vs = v" "vs \<noteq> []" "list_all (in_range lo hi) vs"
    "successively (\<lambda>a b. \<bar>b - a\<bar> \<le> d) vs" "s' \<noteq> 0"
proof -
  obtain ws where ws: "walk_back (points - 1) v d lo hi s = (ws, s')" "vs = rev (v # ws)"
    using assms(4) by (cases "walk_back (points - 1) v d lo hi s") (auto simp: walk_def)
  note shape = walk_back_shape [OF assms(1-3) ws(1)]
  show "length vs = max 1 points" "last vs = v" "vs \<noteq> []" "list_all (in_range lo hi) vs" "s' \<noteq> 0"
    using shape ws(2) assms(1) by auto
  have "successively (\<lambda>a b. \<bar>b - a\<bar> \<le> d) (rev (v # ws)) = successively (\<lambda>a b. \<bar>a - b\<bar> \<le> d) (v # ws)"
    by (simp only: successively_rev)
  then show "successively (\<lambda>a b. \<bar>b - a\<bar> \<le> d) vs" using shape ws(2) by (simp add: abs_minus_commute)
qed

lemma between_cases: "s \<noteq> 0 \<Longrightarrow> lo < hi \<Longrightarrow> \<exists>v s'. between lo hi s = (v, s') \<and> lo < v \<and> v \<le> hi \<and> s' \<noteq> 0"
  using between_bounds by (cases "between lo hi s") blast

lemma walk_cases:
  assumes "in_range lo hi v" "s \<noteq> 0" "0 < d"
  shows "\<exists>vs s'. walk v points d lo hi s = (vs, s') \<and> length vs = max 1 points \<and> last vs = v \<and> vs \<noteq> [] \<and>
    list_all (in_range lo hi) vs \<and> successively (\<lambda>a b. \<bar>b - a\<bar> \<le> d) vs \<and> s' \<noteq> 0"
  using walk_shape [OF assms] by (cases "walk v points d lo hi s") blast

text \<open>A rate in kilobytes, walking by a share of itself.\<close>

lemma io_walk:
  assumes "0 < x" "0 < k" "s \<noteq> 0"
  shows "\<exists>vs s'. walk (x * 1024) points (x * 1024 * k) 0 None s = (vs, s') \<and> length vs = max 1 points \<and>
    last vs = x * 1024 \<and> list_all (in_range 0 None) vs \<and> s' \<noteq> 0"
  using walk_cases [of 0 None "x * 1024" s "x * 1024 * k" points] assms by (auto simp: in_range_def)

lemma in_range_mono:
  "list_all (in_range lo hi) vs \<Longrightarrow> (\<And>v. in_range lo hi v \<Longrightarrow> in_range lo' hi' v) \<Longrightarrow> list_all (in_range lo' hi') vs"
  by (auto simp: list_all_iff)

text \<open>The numbers of a container: seven draws, each inside its interval.\<close>

lemma metrics_draws:
  assumes "s \<noteq> 0"
  shows "\<exists>cpu s1 lim s2 mem s3 ni s4 no s5 dr s6 dw s7.
    between 1 64 s = (cpu, s1) \<and> between 1 8 s1 = (lim, s2) \<and> between 12 79 s2 = (mem, s3) \<and> between 40 900 s3 = (ni, s4) \<and>
    between 20 600 s4 = (no, s5) \<and> between 5 220 s5 = (dr, s6) \<and> between 2 140 s6 = (dw, s7) \<and>
    1 < cpu \<and> cpu \<le> 64 \<and> 1 < lim \<and> 12 < mem \<and> mem \<le> 79 \<and> 40 < ni \<and> 20 < no \<and> 5 < dr \<and> 2 < dw \<and> s7 \<noteq> 0"
proof -
  obtain cpu s1 where 1: "between 1 64 s = (cpu, s1)" "1 < cpu" "cpu \<le> 64" "s1 \<noteq> 0" using between_cases [OF assms, of 1 64] by auto
  obtain lim s2 where 2: "between 1 8 s1 = (lim, s2)" "1 < lim" "s2 \<noteq> 0" using between_cases [OF 1(4), of 1 8] by auto
  obtain mem s3 where 3: "between 12 79 s2 = (mem, s3)" "12 < mem" "mem \<le> 79" "s3 \<noteq> 0" using between_cases [OF 2(3), of 12 79] by auto
  obtain ni s4 where 4: "between 40 900 s3 = (ni, s4)" "40 < ni" "s4 \<noteq> 0" using between_cases [OF 3(4), of 40 900] by auto
  obtain no s5 where 5: "between 20 600 s4 = (no, s5)" "20 < no" "s5 \<noteq> 0" using between_cases [OF 4(3), of 20 600] by auto
  obtain dr s6 where 6: "between 5 220 s5 = (dr, s6)" "5 < dr" "s6 \<noteq> 0" using between_cases [OF 5(3), of 5 220] by auto
  obtain dw s7 where 7: "between 2 140 s6 = (dw, s7)" "2 < dw" "s7 \<noteq> 0" using between_cases [OF 6(3), of 2 140] by auto
  show ?thesis using 1 2 3 4 5 6 7 by blast
qed

text \<open>
  The sample charts agree with the numbers beside them: every series has the number of points asked
  for (one at least) and ends on the number the tile shows, percentages stay between 0 and 100 and move
  by at most 9 (processor) or 3 (memory) points a step, and the memory in use is below its limit.
\<close>

theorem sample_metrics_consistent:
  "let m = mockContainerMetrics i points
   in 1 < mk_cpuPercent m \<and> mk_cpuPercent m \<le> 64 \<and> 12 < mk_memoryPercent m \<and> mk_memoryPercent m \<le> 79 \<and>
      0 < mk_memoryUsedBytes m \<and> mk_memoryUsedBytes m < mk_memoryLimitBytes m \<and>
      map (\<lambda>f. last (f m)) [mk_cpuSeries, mk_memorySeries, mk_networkInSeries, mk_networkOutSeries, mk_diskReadSeries, mk_diskWriteSeries] =
        [mk_cpuPercent m, mk_memoryPercent m, mk_networkInBytes m, mk_networkOutBytes m, mk_diskReadBytes m, mk_diskWriteBytes m] \<and>
      list_all (\<lambda>f. length (f m) = max 1 points \<and> list_all (in_range 0 None) (f m))
        [mk_cpuSeries, mk_memorySeries, mk_networkInSeries, mk_networkOutSeries, mk_diskReadSeries, mk_diskWriteSeries] \<and>
      list_all (in_range 0 (Some 100)) (mk_cpuSeries m @ mk_memorySeries m) \<and>
      successively (\<lambda>a b. \<bar>b - a\<bar> \<le> 9) (mk_cpuSeries m) \<and> successively (\<lambda>a b. \<bar>b - a\<bar> \<le> 3) (mk_memorySeries m)"
proof -
  obtain cpu s1 lim s2 mem s3 ni s4 no s5 dr s6 dw s7 where draws: "between 1 64 (pseudoRandom (''metrics:'' @ i)) = (cpu, s1)"
    "between 1 8 s1 = (lim, s2)" "between 12 79 s2 = (mem, s3)" "between 40 900 s3 = (ni, s4)" "between 20 600 s4 = (no, s5)"
    "between 5 220 s5 = (dr, s6)" "between 2 140 s6 = (dw, s7)"
    and cpu: "1 < cpu" "cpu \<le> 64" and lim: "1 < lim" and mem: "12 < mem" "mem \<le> 79"
    and rates: "0 < ni" "0 < no" "0 < dr" "0 < dw" and s7: "s7 \<noteq> 0"
    using metrics_draws [OF pseudoRandom_nonzero [of "''metrics:'' @ i"]] by force
  obtain c s8 where c: "walk cpu points 9 0 (Some 100) s7 = (c, s8)" "length c = max 1 points" "last c = cpu" "s8 \<noteq> 0"
    "list_all (in_range 0 (Some 100)) c" "successively (\<lambda>a b. \<bar>b - a\<bar> \<le> 9) c"
    using walk_cases [of 0 "Some 100" cpu s7 9 points] cpu s7 by (auto simp: in_range_def)
  obtain m s9 where m: "walk mem points 3 1 (Some 99) s8 = (m, s9)" "length m = max 1 points" "last m = mem" "s9 \<noteq> 0"
    "list_all (in_range 1 (Some 99)) m" "successively (\<lambda>a b. \<bar>b - a\<bar> \<le> 3) m"
    using walk_cases [of 1 "Some 99" mem s8 3 points] mem c(4) by (auto simp: in_range_def)
  obtain n1 s10 where n1: "walk (ni * 1024) points (ni * 1024 * (4 / 10)) 0 None s9 = (n1, s10)" "length n1 = max 1 points"
    "last n1 = ni * 1024" "list_all (in_range 0 None) n1" "s10 \<noteq> 0" using io_walk [of ni "4 / 10" s9 points] rates m(4) by auto
  obtain n2 s11 where n2: "walk (no * 1024) points (no * 1024 * (4 / 10)) 0 None s10 = (n2, s11)" "length n2 = max 1 points"
    "last n2 = no * 1024" "list_all (in_range 0 None) n2" "s11 \<noteq> 0" using io_walk [of no "4 / 10" s10 points] rates n1(5) by auto
  obtain d1 s12 where d1: "walk (dr * 1024) points (dr * 1024 * (1 / 2)) 0 None s11 = (d1, s12)" "length d1 = max 1 points"
    "last d1 = dr * 1024" "list_all (in_range 0 None) d1" "s12 \<noteq> 0" using io_walk [of dr "1 / 2" s11 points] rates n2(5) by auto
  obtain d2 s13 where d2: "walk (dw * 1024) points (dw * 1024 * (1 / 2)) 0 None s12 = (d2, s13)" "length d2 = max 1 points"
    "last d2 = dw * 1024" "list_all (in_range 0 None) d2" "s13 \<noteq> 0" using io_walk [of dw "1 / 2" s12 points] rates d1(5) by auto
  have ranges: "list_all (in_range 0 None) c" "list_all (in_range 0 None) m" "list_all (in_range 0 (Some 100)) m"
    using c(5) m(5) by (auto elim!: in_range_mono simp: in_range_def)
  have limit: "0 < (rat_of_int \<lceil>lim\<rceil>)" using lim by (simp add: less_ceiling_iff)
  have run: "mockContainerMetrics i points =
      \<lparr>mk_cpuPercent = cpu, mk_cpuSeries = c, mk_memoryPercent = mem,
       mk_memoryUsedBytes = 512 * 1024 ^ 2 * of_int \<lceil>lim\<rceil> * mem / 100, mk_memoryLimitBytes = 512 * 1024 ^ 2 * of_int \<lceil>lim\<rceil>,
       mk_memorySeries = m, mk_networkInSeries = n1, mk_networkOutSeries = n2, mk_networkInBytes = ni * 1024,
       mk_networkOutBytes = no * 1024, mk_diskReadSeries = d1, mk_diskWriteSeries = d2, mk_diskReadBytes = dr * 1024,
       mk_diskWriteBytes = dw * 1024\<rparr>"
    unfolding mockContainerMetrics_def Let_def
    by (simp only: draws c(1) m(1) n1(1) n2(1) d1(1) d2(1) prod.case)
  show ?thesis
    unfolding run Let_def using cpu mem limit c m n1 n2 d1 d2 ranges by simp
qed

end
