(* ===== verification/WebInventory.thy ===== *)
theory WebInventory
  imports WebPages WebSamples
begin

section \<open>Pages about one host\<close>

text \<open>
  \<open>features/metrics/MetricsPage.tsx\<close>, \<open>features/inventory/InventoryTables.tsx\<close> and \<open>InventoryPages.tsx\<close>: the
  chosen host, and what is shown for it. The effect that chooses a host runs after every render in which
  the list of hosts or the choice changed; \<open>select_host\<close> is what it leaves.
\<close>

subsection \<open>The chosen host\<close>

definition select_host :: "Host list \<Rightarrow> string option \<Rightarrow> string option" where
  "select_host hosts hostId =
     (if hosts = [] then None
      else if \<not> truthy_str hostId \<or> \<not> list_ex (\<lambda>h. Some (ho_id h) = hostId) hosts then Some (ho_id (hd hosts))
      else hostId)"

subsection \<open>The metrics page\<close>

definition HOST_METRICS_POLL_MS :: nat where
  "HOST_METRICS_POLL_MS = 10000"

text \<open>A series with something in it that is not a number draws no line.\<close>

definition field_sparkline :: "json option list \<Rightarrow> (path_command list \<times> path_command list) option" where
  "field_sparkline vs = (case all_or_none (map json_num vs) of None \<Rightarrow> None | Some xs \<Rightarrow> Sparkline xs 28)"

definition host_tiles :: "HostResources \<Rightarrow> ContainerSummary list \<Rightarrow> (string \<times> string \<times> string) list" where
  "host_tiles r containers =
     [(''Host CPU'', if hr_hasData r then show_rounded (json_num (hr_cpuPercent r)) @ ''%'' else ''-'',
       if hr_hasData r then js_String_opt (hr_cpuCores r) @ '' cores'' else ''Awaiting agent sample''),
      (''Host memory'', if hr_hasData r then show_rounded (json_num (hr_memoryPercent r)) @ ''%'' else ''-'',
       if hr_hasData r then formatBytes_field (hr_memoryUsedBytes r) @ '' of '' @ formatBytes_field (hr_memoryTotalBytes r)
       else ''Awaiting agent sample''),
      (''Containers'', show_nat (length containers),
       show_nat (length (filter (\<lambda>c. c_state c = ''running'') containers)) @ '' running''),
      (''Sampling'', show_nat (HOST_METRICS_POLL_MS div 1000) @ ''s'', ''Agent push interval'')]"

definition select_container :: "ContainerSummary list \<Rightarrow> string option \<Rightarrow> ContainerSummary option" where
  "select_container cs chosen =
     (case find (\<lambda>c. Some (c_id c) = chosen) cs of
        Some c \<Rightarrow> Some c
      | None \<Rightarrow> (case cs of [] \<Rightarrow> None | c # r \<Rightarrow> Some c))"

text \<open>The entry of a container in the list: name, numbers, sparkline, and whether it is the chosen one.\<close>

definition container_button ::
  "ContainerSummary option \<Rightarrow> ContainerSummary \<Rightarrow> string \<times> string \<times> (path_command list \<times> path_command list) option \<times> bool"
where
  "container_button selected c =
     (let m = mockContainerMetrics (c_id c) 12
      in (strip_slash (c_name c),
          show_int (js_round (mk_cpuPercent m)) @ ''% CPU'' @ dot @ formatBytes (mk_memoryUsedBytes m),
          Sparkline (mk_cpuSeries m) 18, Some (c_id c) = map_option c_id selected))"

record metrics_body =
  mb_tiles :: "(string \<times> string \<times> string) list"
  mb_cpuLine :: "(path_command list \<times> path_command list) option"
  mb_memoryLine :: "(path_command list \<times> path_command list) option"
  mb_containers :: "(string \<times> string \<times> (path_command list \<times> path_command list) option \<times> bool) list"
  mb_chart :: "(string \<times> tile list \<times> chart_card list) option"

record metrics_page =
  mp_select :: "host_select option"
  mp_body :: "metrics_body page_body"

text \<open>
  \<open>containers\<close> is the reply for the chosen host, \<open>resources\<close> what \<open>useHostMetrics\<close> returns for it. Without
  containers a notice takes the place of list and charts.
\<close>

definition MetricsPage ::
  "hosts_query \<Rightarrow> string option \<Rightarrow> ContainerSummary list option \<Rightarrow> HostResources \<Rightarrow> string option \<Rightarrow>
     (nat \<Rightarrow> bool) \<Rightarrow> (nat \<Rightarrow> nat option) \<Rightarrow> metrics_page"
where
  "MetricsPage q hostId reply resources selectedContainerId showTable hover =
     (let hosts = hq_hosts q;
          containers = nullish reply [];
          selected = select_container containers selectedContainerId
      in \<lparr>mp_select = (if hosts = [] then None else Some (HostSelect hosts hostId)),
          mp_body =
            (if hq_isLoading q then Skeleton 3
             else (case hq_error q of
                     Some e \<Rightarrow> LoadError (ErrorNotice e ''hosts'')
                   | None \<Rightarrow>
                       if hosts = [] then NoHosts EmptyHosts
                       else Body
                         \<lparr>mb_tiles = host_tiles resources containers, mb_cpuLine = field_sparkline (hr_cpuSeries resources),
                          mb_memoryLine = field_sparkline (hr_memorySeries resources),
                          mb_containers = map (container_button selected) containers,
                          mb_chart = (case selected of
                                        None \<Rightarrow> None
                                      | Some c \<Rightarrow> Some (ContainerMetrics (c_id c) (Some (strip_slash (c_name c))) showTable hover))\<rparr>))\<rparr>)"

subsection \<open>Images, networks and volumes\<close>

definition MockNotice :: "string \<Rightarrow> string" where
  "MockNotice what = what @ '' are not exposed by the DockSight API yet - this table renders placeholder rows.''"

definition image_passes :: "string \<Rightarrow> MockImage \<Rightarrow> bool" where
  "image_passes query i = js_includes (js_toLowerCase (im_repository i @ '':'' @ im_tag i)) (js_toLowerCase query)"

text \<open>The first \<open>sha256:\<close> is taken out; in these identifiers it is at the start and nowhere else.\<close>

definition drop_sha :: "string \<Rightarrow> string" where
  "drop_sha i = (if js_startsWith i ''sha256:'' then drop 7 i else i)"

definition image_row ::
  "(string \<Rightarrow> int option) \<Rightarrow> (int \<times> string \<Rightarrow> string) \<Rightarrow> int \<Rightarrow> MockImage \<Rightarrow> string list"
where
  "image_row date relative now i =
     [im_repository i, im_tag i, shortId 12 (drop_sha (im_id i)), formatBytes (im_sizeBytes i),
      formatRelativeTime date relative now (Some (im_created i)),
      if im_containers i > 0 then show_int (im_containers i) @ '' container'' @ (if im_containers i = 1 then [] else ''s'')
      else ''Unused'']"

text \<open>A table: its headers and its rows; \<open>None\<close> when no image matches.\<close>

definition ImagesTable ::
  "(string \<Rightarrow> int option) \<Rightarrow> (int \<times> string \<Rightarrow> string) \<Rightarrow> int \<Rightarrow> string \<Rightarrow> string \<Rightarrow> (string list \<times> string list list) option"
where
  "ImagesTable date relative now hostId query =
     (let filtered = filter (image_passes query) (mockImages now hostId)
      in if filtered = [] then None
         else Some ([''Repository'', ''Tag'', ''Image ID'', ''Size'', ''Created'', ''In use''],
                    map (image_row date relative now) filtered))"

definition NetworksTable :: "string \<Rightarrow> string list \<times> string list list" where
  "NetworksTable hostId =
     ([''Name'', ''Driver'', ''Scope'', ''Subnet'', ''Gateway'', ''Containers''],
      map (\<lambda>n. [nw_name n, nw_driver n, nw_scope n, nw_subnet n, nw_gateway n, show_int (nw_attached n)]) (mockNetworks hostId))"

definition VolumesTable ::
  "(string \<Rightarrow> int option) \<Rightarrow> (int \<times> string \<Rightarrow> string) \<Rightarrow> int \<Rightarrow> string \<Rightarrow> string list \<times> string list list"
where
  "VolumesTable date relative now hostId =
     ([''Name'', ''Driver'', ''Mount point'', ''Size'', ''Created'', ''Status''],
      map (\<lambda>v. [vo_name v, vo_driver v, vo_mountpoint v, formatBytes (vo_sizeBytes v),
                formatRelativeTime date relative now (Some (vo_created v)), if vo_inUse v then ''In use'' else ''Dangling''])
        (mockVolumes now hostId))"

text \<open>The shell of these pages; nothing is shown before a host is chosen.\<close>

definition HostScopedPage ::
  "hosts_query \<Rightarrow> string option \<Rightarrow> (string \<Rightarrow> 'a) \<Rightarrow> host_select option \<times> 'a option page_body"
where
  "HostScopedPage q hostId render =
     (let hosts = hq_hosts q
      in (if hosts = [] then None else Some (HostSelect hosts hostId),
          if hq_isLoading q then Skeleton 3
          else (case hq_error q of
                  Some e \<Rightarrow> LoadError (ErrorNotice e ''hosts'')
                | None \<Rightarrow>
                    if hosts = [] then NoHosts EmptyHosts
                    else Body (if truthy_str hostId then Some (render (nullish hostId [])) else None))))"

definition ImagesPage ::
  "(string \<Rightarrow> int option) \<Rightarrow> (int \<times> string \<Rightarrow> string) \<Rightarrow> int \<Rightarrow> string \<Rightarrow> hosts_query \<Rightarrow> string option \<Rightarrow>
     host_select option \<times> (string list \<times> string list list) option option page_body"
where
  "ImagesPage date relative now query q hostId = HostScopedPage q hostId (\<lambda>h. ImagesTable date relative now h query)"

definition NetworksPage :: "hosts_query \<Rightarrow> string option \<Rightarrow> host_select option \<times> (string list \<times> string list list) option page_body" where
  "NetworksPage q hostId = HostScopedPage q hostId NetworksTable"

definition VolumesPage ::
  "(string \<Rightarrow> int option) \<Rightarrow> (int \<times> string \<Rightarrow> string) \<Rightarrow> int \<Rightarrow> hosts_query \<Rightarrow> string option \<Rightarrow>
     host_select option \<times> (string list \<times> string list list) option page_body"
where
  "VolumesPage date relative now q hostId = HostScopedPage q hostId (VolumesTable date relative now)"

subsection \<open>Properties\<close>

text \<open>
  The choice of a host settles: whatever was chosen before and however the list of hosts changed, one
  run of the effect leaves a choice that further runs keep, nothing exactly when there are no hosts, and
  otherwise one the selector shows as a host of the list; a choice that is still in the list is kept.
\<close>

theorem host_choice_settles:
  assumes "list_all (\<lambda>h. ho_id h \<noteq> []) hosts"
  shows "select_host hosts (select_host hosts c) = select_host hosts c \<and>
    (select_host hosts c = None) = (hosts = []) \<and>
    (hs_tone (HostSelect hosts (select_host hosts c)) = None) = (hosts = []) \<and>
    (c \<in> Some ` ho_id ` set hosts \<longrightarrow> select_host hosts c = c)"
proof (cases hosts)
  case Nil
  then show ?thesis by (simp add: select_host_def HostSelect_def)
next
  case (Cons h hs)
  have found: "find (\<lambda>h. Some (ho_id h) = select_host hosts c) hosts \<noteq> None"
    using Cons by (auto simp: select_host_def list_ex_iff find_None_iff)
  moreover have "select_host hosts c \<noteq> None" using Cons by (auto simp: select_host_def)
  moreover have "select_host hosts (select_host hosts c) = select_host hosts c"
    using assms Cons by (auto simp: select_host_def list_ex_iff)
  moreover have "c \<in> Some ` ho_id ` set hosts \<Longrightarrow> select_host hosts c = c"
    using assms by (auto simp: select_host_def list_ex_iff list_all_iff)
  ultimately show ?thesis using Cons by (auto simp: HostSelect_def Let_def)
qed

theorem host_choice_settles_witness:
  "select_host [demo_host] (select_host [demo_host] (Some ''gone'')) = select_host [demo_host] (Some ''gone'')
   \<and> select_host [demo_host] (Some ''h'') = Some ''h''"
  using host_choice_settles [of "[demo_host]" "Some ''gone''"] host_choice_settles [of "[demo_host]" "Some ''h''"]
  by (simp add: demo_host_def)

end
