(* ===== verification/WebDetails.thy ===== *)
theory WebDetails
  imports WebInventory
begin

section \<open>Details of a container\<close>

text \<open>
  \<open>components/ContainerInspectDrawer.tsx\<close>, \<open>components/ContainerLogsDrawer.tsx\<close> and
  \<open>components/ui/data-list.tsx\<close>. The lists an agent may send as \<open>null\<close> (Go's empty slices) are
  options; a view is an option where rendering throws on one. Bullets and dashes are written in ASCII.
\<close>

subsection \<open>Lists of data\<close>

text \<open>An item shows its label and value, and a copy button when there is something to copy.\<close>

type_synonym data_item = "string \<times> string \<times> string option"

definition data_item :: "string \<Rightarrow> string \<Rightarrow> string option \<Rightarrow> data_item" where
  "data_item label v copy = (label, v, if truthy_str copy then copy else None)"

datatype mini_table = MiniEmpty string | MiniRows "string list" "string list list"

definition MiniTable :: "string list \<Rightarrow> string list list \<Rightarrow> string \<Rightarrow> mini_table" where
  "MiniTable headers rows notice = (if rows = [] then MiniEmpty notice else MiniRows headers rows)"

subsection \<open>What an inspection returns\<close>

record ContainerMount =
  mo_source :: string
  mo_target :: string
  mo_mode :: string

record ContainerStateDetails =
  sd_status :: string
  sd_running :: bool
  sd_paused :: bool
  sd_restarting :: bool

record ContainerNetwork =
  ne_name :: string
  ne_ip :: string
  ne_gateway :: string
  ne_dns :: "string list option"

record ContainerInspect =
  in_id :: string
  in_name :: string
  in_image :: string
  in_state :: ContainerStateDetails
  in_created :: string
  in_startedAt :: string
  in_ports :: "ContainerPort list"
  in_mounts :: "ContainerMount list"
  in_networks :: "ContainerNetwork list"
  in_workingDir :: string
  in_cmd :: "string list option"
  in_restartPolicy :: string
  in_entrypoint :: "string list option"
  in_env :: "string list option"

text \<open>The query: its data (\<open>container\<close> and \<open>error\<close> of the reply), its flags, and what it failed with.\<close>

record inspect_query =
  iq_data :: "(ContainerInspect option \<times> string option) option"
  iq_isLoading :: bool
  iq_isFetching :: bool
  iq_error :: "string option option"

definition iq_details :: "inspect_query \<Rightarrow> ContainerInspect option" where
  "iq_details q = (case iq_data q of None \<Rightarrow> None | Some (c, e) \<Rightarrow> c)"

definition iq_message :: "inspect_query \<Rightarrow> string option" where
  "iq_message q =
     (case iq_error q of
        Some (Some m) \<Rightarrow> Some m
      | _ \<Rightarrow> (case iq_data q of None \<Rightarrow> None | Some (c, e) \<Rightarrow> e))"

subsection \<open>Environment variables\<close>

definition secret_words :: "string list" where
  "secret_words =
     [''pass'', ''database_url'', ''db_url'', ''key'', ''token'', ''secret'', ''auth'', ''cred'', ''private'', ''certificate'',
      ''cert'', ''ssh'', ''rsa'', ''pem'', ''pfx'', ''p12'', ''p7b'', ''p7c'', ''p7m'', ''p7s'', ''p7r'', ''p7t'', ''p7u'', ''p7v'',
      ''p7w'', ''p7x'', ''p7y'', ''p7z'']"

definition hideValue :: "string \<Rightarrow> bool" where
  "hideValue k = list_ex (js_includes (js_toLowerCase k)) secret_words"

definition env_key :: "string \<Rightarrow> string" where
  "env_key entry = hd (js_split CHR ''='' entry)"

definition env_value :: "string \<Rightarrow> string option" where
  "env_value entry = (case js_split CHR ''='' entry of k # v # rest \<Rightarrow> Some v | _ \<Rightarrow> None)"

definition masked_value :: string where
  "masked_value = ''************''"

definition env_copy :: "string \<Rightarrow> string" where
  "env_copy entry = env_key entry @ ''='' @ nullish (env_value entry) ''undefined''"

text \<open>A row: the name, the value shown, and what the copy button copies.\<close>

definition env_row :: "bool \<Rightarrow> string \<Rightarrow> string \<times> string \<times> string" where
  "env_row revealed entry =
     (env_key entry,
      if hideValue (env_key entry) \<and> \<not> revealed then masked_value else nullish (env_value entry) [],
      env_copy entry)"

definition EnvironmentSection :: "bool \<Rightarrow> string list \<Rightarrow> string \<times> string \<times> (string \<times> string \<times> string) list" where
  "EnvironmentSection revealed env =
     (''Environment variables ('' @ show_nat (length env) @ '')'', if revealed then ''Hide values'' else ''Show values'',
      map (env_row revealed) env)"

subsection \<open>The inspection drawer\<close>

record drawer_button =
  db_label :: string
  db_disabled :: bool
  db_title :: "string option"
  db_action :: "ContainerAction option"

definition lifecycle_button :: "bool \<Rightarrow> ContainerAction \<Rightarrow> string \<Rightarrow> bool \<Rightarrow> drawer_button" where
  "lifecycle_button canManage action label disabled =
     \<lparr>db_label = label, db_disabled = disabled, db_title = (if canManage then None else Some NEEDS_ADMIN),
      db_action = Some action\<rparr>"

definition drawer_paused :: "ContainerInspect option \<Rightarrow> ContainerRow \<Rightarrow> bool" where
  "drawer_paused details c = (case details of None \<Rightarrow> c_state c = ''paused'' | Some d \<Rightarrow> sd_paused (in_state d))"

definition drawer_running :: "ContainerInspect option \<Rightarrow> ContainerRow \<Rightarrow> bool" where
  "drawer_running details c = (case details of None \<Rightarrow> c_state c = ''running'' | Some d \<Rightarrow> sd_running (in_state d))"

definition drawer_buttons :: "ContainerInspect option \<Rightarrow> ContainerRow \<Rightarrow> string option \<Rightarrow> bool \<Rightarrow> bool \<Rightarrow> bool \<Rightarrow> drawer_button list" where
  "drawer_buttons details c busyKey canManage has_onAction has_onViewLogs =
     (let paused = drawer_paused details c;
          running = drawer_running details c;
          blocked = (row_busy busyKey c \<or> \<not> has_onAction \<or> \<not> canManage)
      in [\<lparr>db_label = ''Open logs'', db_disabled = (\<not> has_onViewLogs), db_title = None, db_action = None\<rparr>,
          lifecycle_button canManage Start ''Start'' (running \<or> paused \<or> blocked),
          lifecycle_button canManage Stop ''Stop'' (\<not> running \<or> blocked),
          lifecycle_button canManage Restart ''Restart'' (\<not> running \<or> blocked)] @
         (if running \<and> \<not> paused then [lifecycle_button canManage Pause ''Pause'' blocked] else []) @
         (if paused then [lifecycle_button canManage Unpause ''Unpause'' blocked] else []) @
         [lifecycle_button canManage Remove ''Delete'' blocked])"

definition RuntimeFlag :: "string \<Rightarrow> bool \<Rightarrow> string" where
  "RuntimeFlag label active = label @ '': '' @ (if active then ''yes'' else ''no'')"

definition moment :: "(string \<Rightarrow> int option) \<Rightarrow> (int \<Rightarrow> string) \<Rightarrow> (int \<times> string \<Rightarrow> string) \<Rightarrow> int \<Rightarrow> string \<Rightarrow> string" where
  "moment date show_date relative now v =
     formatDateTime date show_date (Some v) @ dot @ formatRelativeTime date relative now (Some v)"

definition general_items ::
  "(string \<Rightarrow> int option) \<Rightarrow> (int \<Rightarrow> string) \<Rightarrow> (int \<times> string \<Rightarrow> string) \<Rightarrow> int \<Rightarrow> ContainerInspect \<Rightarrow> data_item list"
where
  "general_items date show_date relative now d =
     [data_item ''Name'' (strip_slash (in_name d)) None,
      data_item ''Container ID'' (shortId 20 (in_id d)) (Some (in_id d)),
      data_item ''Image'' (in_image d) (Some (in_image d)),
      data_item ''Status'' (snd (snd (StatusBadge (sd_status (in_state d)) (sd_running (in_state d)) None))) None,
      data_item ''Restart policy'' (if in_restartPolicy d = [] then ''no'' else in_restartPolicy d) None,
      data_item ''Created'' (moment date show_date relative now (in_created d)) None,
      data_item ''Started'' (if in_startedAt d = [] then ''Never started'' else moment date show_date relative now (in_startedAt d)) None]"

text \<open>\<open>xs?.length > 0 ? xs.join(' ') : 'None'\<close>\<close>

definition joined_words :: "string list option \<Rightarrow> string" where
  "joined_words ws = (case ws of None \<Rightarrow> ''None'' | Some [] \<Rightarrow> ''None'' | Some xs \<Rightarrow> js_join '' '' xs)"

definition configuration_items :: "ContainerInspect \<Rightarrow> data_item list" where
  "configuration_items d =
     [data_item ''Working directory'' (if in_workingDir d = [] then ''/'' else in_workingDir d) None,
      data_item ''Entrypoint'' (joined_words (in_entrypoint d)) (map_option (js_join '' '') (in_entrypoint d)),
      data_item ''Command'' (joined_words (in_cmd d)) (map_option (js_join '' '') (in_cmd d))]"

definition ports_table :: "ContainerPort list \<Rightarrow> string \<times> mini_table" where
  "ports_table ps =
     (''Ports ('' @ show_nat (length ps) @ '')'',
      MiniTable [''Container port'', ''Host port'', ''Protocol'']
        (map (\<lambda>p. [number_to_string (port_private p), if port_public p = [] then ''Not published'' else port_public p,
                  port_protocol p]) ps) ''No published ports'')"

definition mounts_table :: "ContainerMount list \<Rightarrow> string \<times> mini_table" where
  "mounts_table ms =
     (''Volumes ('' @ show_nat (length ms) @ '')'',
      MiniTable [''Source'', ''Destination'', ''Mode'']
        (map (\<lambda>m. [if mo_source m = [] then ''anonymous'' else mo_source m, mo_target m, if mo_mode m = [] then ''rw'' else mo_mode m]) ms)
        ''No mounts'')"

definition network_row :: "ContainerNetwork \<Rightarrow> string list option" where
  "network_row n =
     map_option (\<lambda>dns. [ne_name n, if ne_ip n = [] then ''-'' else ne_ip n, ne_gateway n, js_join '', '' dns]) (ne_dns n)"

definition networks_table :: "ContainerNetwork list \<Rightarrow> (string \<times> mini_table) option" where
  "networks_table ns =
     map_option (\<lambda>rows. (''Networks ('' @ show_nat (length ns) @ '')'',
                         MiniTable [''Network'', ''IP address'', ''Gateway'', ''DNS''] rows ''No networks attached''))
       (all_or_none (map network_row ns))"

record inspect_details =
  id_general :: "data_item list"
  id_flags :: "string list"
  id_configuration :: "data_item list"
  id_environment :: "string \<times> string \<times> (string \<times> string \<times> string) list"
  id_ports :: "string \<times> mini_table"
  id_mounts :: "string \<times> mini_table"
  id_networks :: "string \<times> mini_table"

definition details_view ::
  "(string \<Rightarrow> int option) \<Rightarrow> (int \<Rightarrow> string) \<Rightarrow> (int \<times> string \<Rightarrow> string) \<Rightarrow> int \<Rightarrow> bool \<Rightarrow> ContainerInspect \<Rightarrow> inspect_details option"
where
  "details_view date show_date relative now revealed d =
     (case (in_env d, networks_table (in_networks d)) of
        (Some env, Some networks) \<Rightarrow>
          Some \<lparr>id_general = general_items date show_date relative now d,
                id_flags = [RuntimeFlag ''Running'' (sd_running (in_state d)), RuntimeFlag ''Paused'' (sd_paused (in_state d)),
                            RuntimeFlag ''Restarting'' (sd_restarting (in_state d))],
                id_configuration = configuration_items d,
                id_environment = EnvironmentSection revealed env,
                id_ports = ports_table (in_ports d), id_mounts = mounts_table (in_mounts d), id_networks = networks\<rparr>
      | _ \<Rightarrow> None)"

datatype drawer_body = InspectSkeleton | InspectFailed string | InspectDetails inspect_details

record inspect_drawer =
  sv_title :: string
  sv_subtitle :: string
  sv_badge :: "StatusTone \<times> bool \<times> string"
  sv_refreshDisabled :: bool
  sv_buttons :: "drawer_button list"
  sv_copies :: "string list"
  sv_body :: drawer_body

text \<open>The drawer of a container; \<open>None\<close> when rendering throws.\<close>

definition ContainerInspectDrawer ::
  "(string \<Rightarrow> int option) \<Rightarrow> (int \<Rightarrow> string) \<Rightarrow> (int \<times> string \<Rightarrow> string) \<Rightarrow> int \<Rightarrow> bool \<Rightarrow> inspect_query \<Rightarrow> ContainerRow \<Rightarrow>
     string option \<Rightarrow> bool \<Rightarrow> bool \<Rightarrow> bool \<Rightarrow> inspect_drawer option"
where
  "ContainerInspectDrawer date show_date relative now revealed q c busyKey canManage has_onAction has_onViewLogs =
     (let details = iq_details q;
          message = iq_message q;
          body = (if iq_isLoading q then Some InspectSkeleton
                  else (case details of
                          None \<Rightarrow> Some (InspectFailed (nullish message ''The agent returned no inspect payload.''))
                        | Some d \<Rightarrow>
                            if truthy_str message then Some (InspectFailed (nullish message []))
                            else map_option InspectDetails (details_view date show_date relative now revealed d)))
      in map_option (\<lambda>b.
           \<lparr>sv_title = (case details of None \<Rightarrow> c_name c | Some d \<Rightarrow> strip_slash (in_name d)),
            sv_subtitle = shortId 12 (case details of None \<Rightarrow> c_id c | Some d \<Rightarrow> in_id d) @ dot @ c_image c,
            sv_badge = StatusBadge (case details of None \<Rightarrow> c_state c | Some d \<Rightarrow> sd_status (in_state d)) True None,
            sv_refreshDisabled = iq_isFetching q,
            sv_buttons = drawer_buttons details c busyKey canManage has_onAction has_onViewLogs,
            sv_copies = [case details of None \<Rightarrow> c_id c | Some d \<Rightarrow> in_id d,
                         case details of None \<Rightarrow> c_image c | Some d \<Rightarrow> in_image d],
            sv_body = b\<rparr>) body)"

text \<open>\<open>handleRemove\<close>: the drawer closes when the command reports success.\<close>

definition handleRemove :: "bool \<Rightarrow> page_drawers \<Rightarrow> page_drawers" where
  "handleRemove removed d = (if removed then drawer_step CloseInspect d else d)"

text \<open>The drawer with the logs of a container: its title and subtitle.\<close>

definition ContainerLogsDrawer :: "ContainerRow option \<Rightarrow> (string \<times> string) option" where
  "ContainerLogsDrawer r =
     map_option (\<lambda>c. (''Logs'' @ dot @ strip_slash (c_name c), shortId 12 (c_id c) @ dot @ c_image c)) r"

subsection \<open>Properties\<close>

lemma length_js_split: "length (js_split sep s) = Suc (length (filter (\<lambda>c. c = sep) s))"
  by (induction s) (auto split: list.splits)

text \<open>
  The copy button of an environment variable copies the variable exactly when its entry contains one
  equals sign: a value with another one in it is cut off there, and an entry without one is copied as
  undefined.
\<close>

theorem env_copy_exact: "env_copy entry = entry \<longleftrightarrow> length (filter (\<lambda>c. c = CHR ''='') entry) = 1"
proof -
  have count: "length (js_split CHR ''='' entry) = Suc (length (filter (\<lambda>c. c = CHR ''='') entry))" by (rule length_js_split)
  have join: "js_join ''='' (js_split CHR ''='' entry) = entry" by (rule js_join_split)
  consider k where "js_split CHR ''='' entry = [k]" | k v where "js_split CHR ''='' entry = [k, v]"
    | k v w ws where "js_split CHR ''='' entry = k # v # w # ws"
    using js_split_not_Nil [of "CHR ''=''" entry] by (metis neq_Nil_conv)
  then show ?thesis
  proof cases
    case (1 k)
    with join have "entry = k" by simp
    with 1 count show ?thesis by (auto simp: env_copy_def env_key_def env_value_def nullish_def dest: arg_cong [of _ _ length])
  next
    case (2 k v)
    with join count show ?thesis by (simp add: env_copy_def env_key_def env_value_def nullish_def)
  next
    case (3 k v w ws)
    with join have "length entry > length (k @ ''='' @ v)" by (cases ws) auto
    then have "env_copy entry \<noteq> entry" using 3 by (auto simp: env_copy_def env_key_def env_value_def nullish_def)
    with 3 count show ?thesis by simp
  qed
qed

lemma all_or_none_None: "all_or_none xs = None \<longleftrightarrow> None \<in> set xs"
  by (induction xs) (auto split: option.splits)

lemma networks_table_None: "networks_table ns = None \<longleftrightarrow> None \<in> ne_dns ` set ns"
  by (force simp: networks_table_def all_or_none_None network_row_def)

lemma networks_table_Some: "networks_table ns = Some t \<Longrightarrow> None \<notin> ne_dns ` set ns"
  by (simp flip: networks_table_None)

text \<open>
  Rendering the inspection of a container throws exactly when a reply without an error has arrived in
  which the environment is null, or the name servers of some network are.
\<close>

theorem inspection_throws_on_null_lists:
  "ContainerInspectDrawer date show_date relative now revealed q c busyKey canManage has_onAction has_onViewLogs = None \<longleftrightarrow>
   \<not> iq_isLoading q \<and> \<not> truthy_str (iq_message q) \<and>
   (\<exists>d. iq_details q = Some d \<and> (in_env d = None \<or> None \<in> ne_dns ` set (in_networks d)))"
  by (auto simp: ContainerInspectDrawer_def details_view_def Let_def networks_table_None
      dest: networks_table_Some split: option.splits)

text \<open>
  What can be done from the drawer: nothing while a command runs on the container or without the right to
  manage it, otherwise what the state of the container allows, and deleting always.
\<close>

theorem drawer_actions:
  "{a. \<exists>b\<in>set (drawer_buttons details c busyKey canManage has_onAction has_onViewLogs). db_action b = Some a \<and> \<not> db_disabled b} =
   (if row_busy busyKey c \<or> \<not> has_onAction \<or> \<not> canManage then {}
    else {Remove} \<union> (if drawer_running details c then {Stop, Restart} else {})
      \<union> (if drawer_paused details c then {Unpause} else if drawer_running details c then {Pause} else {Start}))"
  by (auto simp: drawer_buttons_def lifecycle_button_def Let_def split: if_splits)

end
