(* ===== verification/WebHostDetails.thy ===== *)
theory WebHostDetails
  imports WebDetails
begin

section \<open>The page of a host\<close>

text \<open>
  \<open>features/hosts/HostDetailsPage.tsx\<close>: the tabs of a host, the overview with its resources, the log and
  metrics tabs with their choice of a container, and the drawers. Dashes are written in ASCII; \<open>Skeleton n\<close> has
  \<open>n\<close> rows.
\<close>

subsection \<open>Numbers with two decimals\<close>

text \<open>
  \<open>n.toFixed(2)\<close> (ECMA-262): the larger of two nearest hundredths of the absolute value, and from
  \<open>1e21\<close> on the plain text of the number.
\<close>

definition hundredths :: "rat \<Rightarrow> string" where
  "hundredths x =
     (let k = nat \<lfloor>100 * x + 1 / 2\<rfloor>
      in show_nat (k div 100) @ ''.'' @ show_nat (k div 10 mod 10) @ show_nat (k mod 10))"

definition toFixed2 :: "js_number \<Rightarrow> string" where
  "toFixed2 n =
     (case js_rat n of
        None \<Rightarrow> number_to_string n
      | Some x \<Rightarrow>
          if \<bar>x\<bar> \<ge> 10 ^ 21 then number_to_string n
          else if x < 0 then ''-'' @ hundredths (- x) else hundredths x)"

fun json_toFixed2 :: "json \<Rightarrow> string option" where
  "json_toFixed2 (JNum n) = Some (toFixed2 n)"
| "json_toFixed2 v = None"

text \<open>
  The load average of the sample, a list of numbers. \<open>None\<close> is an exception: something that is not a list
  has no \<open>map\<close>, something that is not a number no \<open>toFixed\<close>.
\<close>

definition load_average :: "json option \<Rightarrow> string option" where
  "load_average v =
     (if json_truthy v
      then (case v of
              Some (JArr xs) \<Rightarrow> map_option (\<lambda>ts. ''Load average '' @ js_join dot ts @ '' - '') (all_or_none (map json_toFixed2 xs))
            | _ \<Rightarrow> None)
      else Some [])"

subsection \<open>Titles\<close>

text \<open>\<open>hooks/useDocumentTitle.ts\<close>: the title of the window.\<close>

definition PRODUCT :: string where
  "PRODUCT = ''DockSight''"

definition document_title :: "string \<Rightarrow> string" where
  "document_title title = (if title = [] then PRODUCT else title @ dot @ PRODUCT)"

subsection \<open>Tabs\<close>

datatype TabKey = OverviewKey | ContainersKey | ImagesKey | NetworksKey | VolumesKey | LogsKey | MetricsKey

fun tab_name :: "TabKey \<Rightarrow> string" where
  "tab_name OverviewKey = ''overview''"
| "tab_name ContainersKey = ''containers''"
| "tab_name ImagesKey = ''images''"
| "tab_name NetworksKey = ''networks''"
| "tab_name VolumesKey = ''volumes''"
| "tab_name LogsKey = ''logs''"
| "tab_name MetricsKey = ''metrics''"

definition TAB_KEYS :: "TabKey list" where
  "TAB_KEYS = [OverviewKey, ContainersKey, ImagesKey, NetworksKey, VolumesKey, LogsKey, MetricsKey]"

text \<open>The tab of \<open>?tab=\<close>; anything else is the overview.\<close>

definition current_tab :: "string option \<Rightarrow> TabKey" where
  "current_tab param =
     (case param of
        None \<Rightarrow> OverviewKey
      | Some p \<Rightarrow> (case find (\<lambda>k. tab_name k = p) TAB_KEYS of None \<Rightarrow> OverviewKey | Some k \<Rightarrow> k))"

text \<open>A tab: its key, its label, its count, whether it carries the badge of sample data.\<close>

definition host_tabs :: "nat \<Rightarrow> (TabKey \<times> string \<times> nat option \<times> bool) list" where
  "host_tabs n =
     [(OverviewKey, ''Overview'', None, False), (ContainersKey, ''Containers'', Some n, False),
      (ImagesKey, ''Images'', None, True), (NetworksKey, ''Networks'', None, True), (VolumesKey, ''Volumes'', None, True),
      (LogsKey, ''Logs'', None, False), (MetricsKey, ''Metrics'', None, True)]"

subsection \<open>Overview\<close>

type_synonym spark = "(path_command list \<times> path_command list) option"

definition running_count :: "ContainerSummary list \<Rightarrow> nat" where
  "running_count cs = length (filter (\<lambda>c. js_toLowerCase (c_state c) = ''running'') cs)"

text \<open>A tile: label, value, hint, and its sparkline where it has one.\<close>

definition overview_tiles :: "HostResources \<Rightarrow> nat \<Rightarrow> nat \<Rightarrow> (string \<times> string \<times> string \<times> spark option) list" where
  "overview_tiles r containerCount runningCount =
     [(''Containers'', show_nat containerCount, show_nat runningCount @ '' running'', None),
      (''Running'', show_nat runningCount, show_int (int containerCount - int runningCount) @ '' stopped or exited'', None),
      (''CPU'', if hr_hasData r then show_rounded (json_num (hr_cpuPercent r)) @ ''%'' else ''-'',
       if hr_hasData r then js_String_opt (hr_cpuCores r) @ '' cores'' else ''Awaiting agent sample'',
       Some (field_sparkline (hr_cpuSeries r))),
      (''Memory'', if hr_hasData r then formatBytes_field (hr_memoryUsedBytes r) else ''-'',
       if hr_hasData r then ''of '' @ formatBytes_field (hr_memoryTotalBytes r) else ''Awaiting agent sample'',
       Some (field_sparkline (hr_memorySeries r)))]"

definition overview_items ::
  "(string \<Rightarrow> int option) \<Rightarrow> (int \<Rightarrow> string) \<Rightarrow> (int \<times> string \<Rightarrow> string) \<Rightarrow> int \<Rightarrow> Host \<Rightarrow> string option \<Rightarrow> data_item list"
where
  "overview_items date show_date relative now h updatedAt =
     [data_item ''Display name'' (hostDisplayName h) None,
      data_item ''Hostname'' (ho_hostname h) None,
      data_item ''Agent UUID'' (ho_uuid h) (Some (ho_uuid h)),
      data_item ''Operating system'' (osLabel (ho_os h)) None,
      data_item ''Architecture'' (ho_architecture h) None,
      data_item ''Docker version'' (ho_version h) None,
      data_item ''Connection'' (snd (snd (StatusBadge (ho_status h) True None))) None,
      data_item ''Last seen'' (formatDateTime date show_date (ho_lastSeen h)) None,
      data_item ''Inventory updated''
        (if truthy_str updatedAt then formatRelativeTime date relative now updatedAt else ''Not yet'') None]"

text \<open>The meters with the line on memory and the sentence below, or the notice that there is no sample.\<close>

datatype resources_view =
    NoSample
  | ResourceMeters meter_view string meter_view string

definition overview_resources :: "(string \<Rightarrow> int option) \<Rightarrow> (int \<times> string \<Rightarrow> string) \<Rightarrow> int \<Rightarrow> HostResources \<Rightarrow> resources_view option" where
  "overview_resources date relative now r =
     (if hr_hasData r
      then map_option (\<lambda>load.
             ResourceMeters
               (Meter (json_num (hr_cpuPercent r)) 100 (Some (''CPU'' @ dot @ js_String_opt (hr_cpuCores r) @ '' cores'')) False)
               (formatBytes_field (hr_memoryUsedBytes r) @ '' / '' @ formatBytes_field (hr_memoryTotalBytes r))
               (Meter (json_num (hr_memoryPercent r)) 100 None False)
               (load @ ''sampled '' @ formatRelativeTime date relative now (hr_collectedAt r) @ ''.''))
             (load_average (hr_loadAvg r))
      else Some NoSample)"

record overview_tab =
  ov_tiles :: "(string \<times> string \<times> string \<times> spark option) list"
  ov_items :: "data_item list"
  ov_resources :: resources_view

definition OverviewTab ::
  "(string \<Rightarrow> int option) \<Rightarrow> (int \<Rightarrow> string) \<Rightarrow> (int \<times> string \<Rightarrow> string) \<Rightarrow> int \<Rightarrow> Host \<Rightarrow> nat \<Rightarrow> nat \<Rightarrow> HostResources \<Rightarrow>
     string option \<Rightarrow> overview_tab option"
where
  "OverviewTab date show_date relative now h containerCount runningCount r updatedAt =
     map_option (\<lambda>res. \<lparr>ov_tiles = overview_tiles r containerCount runningCount,
                        ov_items = overview_items date show_date relative now h updatedAt, ov_resources = res\<rparr>)
       (overview_resources date relative now r)"

subsection \<open>Logs\<close>

text \<open>The effect of the log tab: a choice that is not in the list gives way to the first running container.\<close>

definition logs_select :: "ContainerSummary list \<Rightarrow> string option \<Rightarrow> string option" where
  "logs_select cs selectedId =
     (if cs = [] then None
      else if \<not> truthy_str selectedId \<or> \<not> list_ex (\<lambda>c. Some (c_id c) = selectedId) cs
      then Some (c_id (nullish (find (\<lambda>c. js_toLowerCase (c_state c) = ''running'') cs) (hd cs)))
      else selectedId)"

definition selected_container :: "ContainerSummary list \<Rightarrow> string option \<Rightarrow> ContainerSummary option" where
  "selected_container cs selectedId = find (\<lambda>c. Some (c_id c) = selectedId) cs"

definition picker_label :: "ContainerSummary option \<Rightarrow> string" where
  "picker_label c = (case c of None \<Rightarrow> ''Select container'' | Some x \<Rightarrow> strip_slash (c_name x))"

text \<open>The label of the list, its entries, and the host, the id and the name the viewer streams.\<close>

definition LogsTab ::
  "string \<Rightarrow> ContainerSummary list \<Rightarrow> string option \<Rightarrow>
     (string \<times> (string \<times> string) list \<times> (string \<times> string \<times> string) option) option"
where
  "LogsTab hostId cs selectedId =
     (if cs = [] then None
      else Some (picker_label (selected_container cs selectedId), map (\<lambda>c. (c_id c, strip_slash (c_name c))) cs,
                 map_option (\<lambda>c. (hostId, c_id c, c_name c)) (selected_container cs selectedId)))"

subsection \<open>Metrics\<close>

definition metrics_host_cards ::
  "(string \<Rightarrow> int option) \<Rightarrow> (int \<times> string \<Rightarrow> string) \<Rightarrow> int \<Rightarrow> HostResources \<Rightarrow> (string \<times> string \<times> spark \<times> string) list"
where
  "metrics_host_cards date relative now r =
     [(''Host CPU'', if hr_hasData r then show_rounded (json_num (hr_cpuPercent r)) @ ''%'' else ''-'',
       case all_or_none (map json_num (hr_cpuSeries r)) of None \<Rightarrow> None | Some xs \<Rightarrow> Sparkline xs 56,
       if hr_hasData r
       then js_String_opt (hr_cpuCores r) @ '' cores'' @ dot @ ''sampled '' @ formatRelativeTime date relative now (hr_collectedAt r)
       else ''Awaiting the first agent sample''),
      (''Host memory'', if hr_hasData r then show_rounded (json_num (hr_memoryPercent r)) @ ''%'' else ''-'',
       case all_or_none (map json_num (hr_memorySeries r)) of None \<Rightarrow> None | Some xs \<Rightarrow> Sparkline xs 56,
       if hr_hasData r then formatBytes_field (hr_memoryUsedBytes r) @ '' of '' @ formatBytes_field (hr_memoryTotalBytes r)
       else ''Awaiting the first agent sample'')]"

record metrics_tab =
  mt_cards :: "(string \<times> string \<times> spark \<times> string) list"
  mt_picker :: "(string \<times> (string \<times> string) list) option"
  mt_chart :: "(string \<times> tile list \<times> chart_card list) option"

definition MetricsTab ::
  "(string \<Rightarrow> int option) \<Rightarrow> (int \<times> string \<Rightarrow> string) \<Rightarrow> int \<Rightarrow> ContainerSummary list \<Rightarrow> HostResources \<Rightarrow> string option \<Rightarrow>
     (nat \<Rightarrow> bool) \<Rightarrow> (nat \<Rightarrow> nat option) \<Rightarrow> metrics_tab"
where
  "MetricsTab date relative now cs r selectedId showTable hover =
     (let selected = select_container cs selectedId
      in \<lparr>mt_cards = metrics_host_cards date relative now r,
          mt_picker = (if cs = [] then None
                       else Some (picker_label selected, map (\<lambda>c. (c_id c, strip_slash (c_name c))) cs)),
          mt_chart = (if cs = [] then None
                      else map_option (\<lambda>c. ContainerMetrics (c_id c) (Some (strip_slash (c_name c))) showTable hover) selected)\<rparr>)"

subsection \<open>The page\<close>

record containers_query =
  kq_data :: "(ContainerSummary list \<times> string option) option"
  kq_isLoading :: bool
  kq_isFetching :: bool
  kq_error :: "string option option"

definition kq_containers :: "containers_query \<Rightarrow> ContainerSummary list" where
  "kq_containers k = (case kq_data k of None \<Rightarrow> [] | Some (cs, t) \<Rightarrow> cs)"

definition kq_updatedAt :: "containers_query \<Rightarrow> string option" where
  "kq_updatedAt k = (case kq_data k of None \<Rightarrow> None | Some (cs, t) \<Rightarrow> t)"

text \<open>
  The state of the page: the address parameter, the drawers, and what the shown tab keeps. A tab that is
  not shown is not mounted, so another tab starts afresh.
\<close>

record host_page_state =
  hs_tab :: "string option"
  hs_drawers :: page_drawers
  hs_table :: table_state
  hs_imageQuery :: string
  hs_logs :: "string option"
  hs_metrics :: "string option"
  hs_showTable :: "nat \<Rightarrow> bool"
  hs_hover :: "nat \<Rightarrow> nat option"

datatype host_page_event =
    ChooseTab TabKey
  | OpenContainers
  | LogsEffect "ContainerSummary list"
  | ChooseLogs string
  | ChooseMetrics string
  | HostDrawer drawer_event

definition show_tab :: "TabKey \<Rightarrow> host_page_state \<Rightarrow> host_page_state" where
  "show_tab k s =
     (if k = current_tab (hs_tab s) then s\<lparr>hs_tab := Some (tab_name k)\<rparr>
      else \<lparr>hs_tab = Some (tab_name k), hs_drawers = hs_drawers s, hs_table = table_init, hs_imageQuery = [],
            hs_logs = None, hs_metrics = None, hs_showTable = (\<lambda>i. False), hs_hover = (\<lambda>i. None)\<rparr>)"

fun host_page_step :: "host_page_event \<Rightarrow> host_page_state \<Rightarrow> host_page_state" where
  "host_page_step (ChooseTab k) s = show_tab k s"
| "host_page_step OpenContainers s = show_tab ContainersKey s"
| "host_page_step (LogsEffect cs) s = s\<lparr>hs_logs := logs_select cs (hs_logs s)\<rparr>"
| "host_page_step (ChooseLogs i) s = s\<lparr>hs_logs := Some i\<rparr>"
| "host_page_step (ChooseMetrics i) s = s\<lparr>hs_metrics := Some i\<rparr>"
| "host_page_step (HostDrawer e) s = s\<lparr>hs_drawers := drawer_step e (hs_drawers s)\<rparr>"

datatype tab_body =
    ShowOverview overview_tab
  | ShowContainers "table_view page_body"
  | ShowImages "(string list \<times> string list list) option"
  | ShowNetworks "string list \<times> string list list"
  | ShowVolumes "string list \<times> string list list"
  | ShowLogs "(string \<times> (string \<times> string) list \<times> (string \<times> string \<times> string) option) option"
  | ShowMetrics metrics_tab

definition containers_tab ::
  "(string \<Rightarrow> int option) \<Rightarrow> (int \<Rightarrow> string) \<Rightarrow> bool \<Rightarrow> string \<Rightarrow> containers_query \<Rightarrow> string option \<Rightarrow> table_state \<Rightarrow> table_view page_body option"
where
  "containers_tab date show_date isAdmin label k busyKey ts =
     (if kq_isLoading k then Some (Skeleton 6)
      else (case kq_error k of
              Some e \<Rightarrow> Some (LoadError (ErrorNotice e ''containers''))
            | None \<Rightarrow>
                map_option Body
                  (ContainerTable date show_date busyKey False isAdmin True ''No containers running''
                     (label @ '' has no containers. Anything the Docker daemon reports will appear here within 20 seconds.'')
                     (map (\<lambda>c. container_row c None None) (kq_containers k)) ts)))"

definition host_tab_body ::
  "(string \<Rightarrow> int option) \<Rightarrow> (int \<Rightarrow> string) \<Rightarrow> (int \<times> string \<Rightarrow> string) \<Rightarrow> int \<Rightarrow> bool \<Rightarrow> Host \<Rightarrow> containers_query \<Rightarrow>
     HostResources \<Rightarrow> string option \<Rightarrow> host_page_state \<Rightarrow> tab_body option"
where
  "host_tab_body date show_date relative now isAdmin h k r busyKey s =
     (let cs = kq_containers k
      in case current_tab (hs_tab s) of
           OverviewKey \<Rightarrow>
             map_option ShowOverview
               (OverviewTab date show_date relative now h (length cs) (running_count cs) r (kq_updatedAt k))
         | ContainersKey \<Rightarrow>
             map_option ShowContainers (containers_tab date show_date isAdmin (hostDisplayName h) k busyKey (hs_table s))
         | ImagesKey \<Rightarrow> Some (ShowImages (ImagesTable date relative now (ho_id h) (hs_imageQuery s)))
         | NetworksKey \<Rightarrow> Some (ShowNetworks (NetworksTable (ho_id h)))
         | VolumesKey \<Rightarrow> Some (ShowVolumes (VolumesTable date relative now (ho_id h)))
         | LogsKey \<Rightarrow> Some (ShowLogs (LogsTab (ho_id h) cs (hs_logs s)))
         | MetricsKey \<Rightarrow> Some (ShowMetrics (MetricsTab date relative now cs r (hs_metrics s) (hs_showTable s) (hs_hover s))))"

record host_header =
  hh_label :: string
  hh_badge :: "StatusTone \<times> bool \<times> string"
  hh_description :: "string list"
  hh_seenTitle :: string
  hh_refreshing :: bool

definition host_header ::
  "(string \<Rightarrow> int option) \<Rightarrow> (int \<Rightarrow> string) \<Rightarrow> (int \<times> string \<Rightarrow> string) \<Rightarrow> int \<Rightarrow> Host \<Rightarrow> bool \<Rightarrow> host_header"
where
  "host_header date show_date relative now h refreshing =
     \<lparr>hh_label = hostDisplayName h, hh_badge = StatusBadge (ho_status h) True None,
      hh_description = [ho_hostname h, osLabel (ho_os h), ho_architecture h, ''Docker '' @ ho_version h,
                        ''Last seen '' @ formatRelativeTime date relative now (ho_lastSeen h)],
      hh_seenTitle = formatDateTime date show_date (ho_lastSeen h), hh_refreshing = refreshing\<rparr>"

datatype host_body =
    HostSkeleton
  | HostLoadError "string \<times> string"
  | HostNotFound string string
  | HostBody host_header "(TabKey \<times> string \<times> nat option \<times> bool) list" TabKey tab_body
      "(string \<times> ContainerRow) option" "(string \<times> ContainerRow) option"

definition find_host :: "hosts_query \<Rightarrow> string \<Rightarrow> Host option" where
  "find_host q hostId = find (\<lambda>h. ho_id h = hostId) (hq_hosts q)"

definition host_title :: "hosts_query \<Rightarrow> string \<Rightarrow> string" where
  "host_title q hostId =
     document_title (nullish (map_option hostDisplayName (find_host q hostId)) (if hq_isLoading q then ''Host'' else ''Host not found''))"

text \<open>The body of the page of \<open>/hosts/:hostId\<close>; \<open>None\<close> when rendering throws.\<close>

definition HostDetailsPage ::
  "(string \<Rightarrow> int option) \<Rightarrow> (int \<Rightarrow> string) \<Rightarrow> (int \<times> string \<Rightarrow> string) \<Rightarrow> int \<Rightarrow> bool \<Rightarrow> string \<Rightarrow> hosts_query \<Rightarrow>
     containers_query \<Rightarrow> HostResources \<Rightarrow> string option \<Rightarrow> host_page_state \<Rightarrow> host_body option"
where
  "HostDetailsPage date show_date relative now isAdmin hostId q k r busyKey s =
     (if hq_isLoading q then Some HostSkeleton
      else (case hq_error q of
              Some e \<Rightarrow> Some (HostLoadError (ErrorNotice e ''hosts''))
            | None \<Rightarrow>
                (case find_host q hostId of
                   None \<Rightarrow> Some (HostNotFound ''Host not found'' ''This host is no longer registered with the DockSight server.'')
                 | Some h \<Rightarrow>
                     map_option (\<lambda>b.
                       HostBody (host_header date show_date relative now h (hq_isFetching q \<or> kq_isFetching k))
                         (host_tabs (length (kq_containers k))) (current_tab (hs_tab s)) b
                         (map_option (\<lambda>c. (ho_id h, c)) (dr_inspecting (hs_drawers s)))
                         (map_option (\<lambda>c. (ho_id h, c)) (dr_viewingLogs (hs_drawers s))))
                       (host_tab_body date show_date relative now isAdmin h k r busyKey s))))"

subsection \<open>Properties\<close>

lemma tab_name_inject [simp]: "tab_name a = tab_name b \<longleftrightarrow> a = b"
  by (cases a; cases b) simp_all

lemma current_tab_name [simp]: "current_tab (Some (tab_name k)) = k"
  by (cases k) (simp_all add: current_tab_def TAB_KEYS_def)

lemma find_distinct:
  "distinct (map f xs) \<Longrightarrow> x \<in> set xs \<Longrightarrow> find (\<lambda>y. f y = f x) xs = Some x"
  by (induction xs) auto

lemma logs_select_cases:
  assumes "cs \<noteq> []"
  obtains (kept) x where "x \<in> set cs" "c = Some (c_id x)" "logs_select cs c = c"
  | (running) x where "x \<in> set cs" "js_toLowerCase (c_state x) = ''running''" "logs_select cs c = Some (c_id x)"
  | (first) x where "x \<in> set cs" "\<forall>y\<in>set cs. js_toLowerCase (c_state y) \<noteq> ''running''" "logs_select cs c = Some (c_id x)"
proof (cases "\<not> truthy_str c \<or> \<not> list_ex (\<lambda>x. Some (c_id x) = c) cs")
  case True
  note choice = this
  show ?thesis
  proof (cases "find (\<lambda>c. js_toLowerCase (c_state c) = ''running'') cs")
    case None
    then have "logs_select cs c = Some (c_id (hd cs))" using choice assms by (auto simp: logs_select_def nullish_def)
    with None assms show ?thesis by (intro first [of "hd cs"]) (auto simp: find_None_iff)
  next
    case (Some x)
    then have "logs_select cs c = Some (c_id x)" using choice assms by (auto simp: logs_select_def nullish_def)
    with Some show ?thesis by (intro running [of x]) (auto simp: find_Some_iff)
  qed
next
  case False
  then obtain x where "x \<in> set cs" "c = Some (c_id x)" by (auto simp: list_ex_iff)
  moreover have "logs_select cs c = c" using assms False by (auto simp: logs_select_def)
  ultimately show ?thesis by (rule kept)
qed

text \<open>
  C26. The log tab of a host settles on a container: one run of its effect leaves a choice that further runs
  keep, nothing exactly without containers. Otherwise the viewer streams a container of the host, the one
  that was chosen if it is still there, and else a running one if any runs.
\<close>

theorem log_tab_settles:
  assumes "distinct (map c_id cs)" "\<forall>x\<in>set cs. c_id x \<noteq> []"
  shows "logs_select cs (logs_select cs c) = logs_select cs c \<and>
    (LogsTab h cs (logs_select cs c) = None) = (cs = []) \<and>
    (cs \<noteq> [] \<longrightarrow> (\<exists>x\<in>set cs.
       LogsTab h cs (logs_select cs c) =
         Some (strip_slash (c_name x), map (\<lambda>c. (c_id c, strip_slash (c_name c))) cs, Some (h, c_id x, c_name x)) \<and>
       (c = Some (c_id x) \<or>
        c \<notin> Some ` c_id ` set cs \<and>
        ((\<exists>y\<in>set cs. js_toLowerCase (c_state y) = ''running'') \<longrightarrow> js_toLowerCase (c_state x) = ''running''))))"
proof (cases "cs = []")
  case True
  then show ?thesis by (simp add: logs_select_def LogsTab_def)
next
  case nonempty: False
  have again: "logs_select cs (Some (c_id x)) = Some (c_id x)" if "x \<in> set cs" for x
    using that assms(2) by (auto simp: logs_select_def list_ex_iff)
  have tab: "LogsTab h cs (Some (c_id x)) =
      Some (strip_slash (c_name x), map (\<lambda>c. (c_id c, strip_slash (c_name c))) cs, Some (h, c_id x, c_name x))"
    if "x \<in> set cs" for x
    using that nonempty find_distinct [OF assms(1) that] by (simp add: LogsTab_def selected_container_def picker_label_def)
  have stays: "logs_select cs c = c" if "c \<in> Some ` c_id ` set cs" using that again by auto
  obtain x where x: "x \<in> set cs" "logs_select cs c = Some (c_id x)"
    "c = Some (c_id x) \<or> c \<notin> Some ` c_id ` set cs \<and>
        ((\<exists>y\<in>set cs. js_toLowerCase (c_state y) = ''running'') \<longrightarrow> js_toLowerCase (c_state x) = ''running'')"
    by (rule logs_select_cases [OF nonempty, of c]) (use stays in fastforce)+
  then show ?thesis using nonempty again tab by auto
qed

definition demo_summary :: "string \<Rightarrow> string \<Rightarrow> ContainerSummary" where
  "demo_summary i st = \<lparr>c_id = i, c_name = ''/'' @ i, c_image = ''img'', c_status = [], c_state = st, c_ports = [], c_created = js_int 0\<rparr>"

theorem log_tab_settles_witness:
  "logs_select [demo_summary ''a'' ''exited'', demo_summary ''b'' ''running''] (Some ''gone'') = Some ''b'' \<and>
   LogsTab ''h'' [demo_summary ''a'' ''exited'', demo_summary ''b'' ''running''] (Some ''b'') \<noteq> None"
proof -
  have "logs_select [demo_summary ''a'' ''exited'', demo_summary ''b'' ''running''] (Some ''gone'') = Some ''b''" by code_simp
  then show ?thesis
    using log_tab_settles [of "[demo_summary ''a'' ''exited'', demo_summary ''b'' ''running'']" "Some ''gone''" "''h''"]
    by (simp add: demo_summary_def)
qed

lemma running_count_rows [simp]:
  "length (filter ((\<lambda>c. row_state c = ''running'') \<circ> (\<lambda>c. container_row c None None)) cs) = running_count cs"
  by (simp add: running_count_def row_state_def comp_def)

lemma running_count_le [simp]: "running_count cs \<le> length cs"
  by (simp add: running_count_def)

lemma ContainerTable_chips:
  "ContainerTable date show_date busyKey host manage act title description cs ts = Some t \<Longrightarrow>
   tv_chips t = filter_chips (ts_filter ts) cs"
  by (auto simp: ContainerTable_def Let_def split: if_splits option.splits)


definition demo_containers_reply :: query_result where
  "demo_containers_reply = \<lparr>qr_containers = Some [demo_summary ''a'' ''Running'', demo_summary ''b'' ''exited''],
     qr_isLoading = False, qr_isFetching = False, qr_isError = False\<rparr>"


text \<open>
  Opening a host on its overview throws in one case only: the host is there, and its metrics carry a load
  average that is not a list of numbers (and is not \<open>null\<close>, \<open>0\<close> or the like). No other content of the
  metrics throws.
\<close>

theorem overview_throws_on_malformed_load:
  "HostDetailsPage date show_date relative now isAdmin hostId q k r busyKey (s\<lparr>hs_tab := None\<rparr>) = None \<longleftrightarrow>
   \<not> hq_isLoading q \<and> hq_error q = None \<and> hostId \<in> ho_id ` set (hq_hosts q) \<and>
   hr_hasData r \<and> json_truthy (hr_loadAvg r) \<and> hr_loadAvg r \<notin> range (\<lambda>ns. Some (JArr (map JNum ns)))"
proof -
  have "None \<in> json_toFixed2 ` set xs \<longleftrightarrow> xs \<notin> range (map JNum)" for xs
  proof (induction xs)
    case (Cons x xs)
    then show ?case by (cases x) (auto simp: image_iff Cons_eq_map_conv)
  qed (auto simp: image_iff)
  then have "load_average v = None \<longleftrightarrow> json_truthy v \<and> v \<notin> range (\<lambda>ns. Some (JArr (map JNum ns)))" for v
    by (auto simp: load_average_def all_or_none_None split: option.splits json.splits)
  moreover have "find_host q hostId = None \<longleftrightarrow> hostId \<notin> ho_id ` set (hq_hosts q)"
    by (auto simp: find_host_def find_None_iff)
  ultimately show ?thesis
    by (auto simp: HostDetailsPage_def host_tab_body_def current_tab_def OverviewTab_def overview_resources_def Let_def
        split: option.splits)
qed

end
