(* ===== verification/WebLayout.thy ===== *)
theory WebLayout
  imports WebHostDetails
begin

section \<open>The frame around the pages\<close>

text \<open>
  \<open>components/layout/Topbar.tsx\<close>, \<open>Sidebar.tsx\<close>, \<open>AppShell.tsx\<close>, \<open>components/ErrorBoundary.tsx\<close>,
  \<open>features/settings/SettingsPage.tsx\<close>, \<open>features/not-found/NotFoundPage.tsx\<close>, \<open>hooks/useDocumentTitle.ts\<close>
  and the primitives with a state of their own (\<open>ui/dropdown.tsx\<close>, \<open>ui/drawer.tsx\<close>, \<open>ui/copy-button.tsx\<close>,
  \<open>ui/tabs.tsx\<close>). Style classes and icons are left out.
\<close>

subsection \<open>Effects that restore what they change\<close>

text \<open>
  An effect with a cleanup: \<open>enter\<close> changes the world and keeps what \<open>leave\<close> needs to undo it. When a
  dependency changes, the cleanup runs and then the effect again. \<open>effect_life\<close> is the life of one
  mounted component, with one entry per run of the effect.
\<close>

definition rerun :: "('a \<Rightarrow> 'w \<Rightarrow> 'p \<times> 'w) \<Rightarrow> ('p \<Rightarrow> 'w \<Rightarrow> 'w) \<Rightarrow> 'p \<times> 'w \<Rightarrow> 'a \<Rightarrow> 'p \<times> 'w" where
  "rerun enter leave pw a = enter a (leave (fst pw) (snd pw))"

fun effect_life :: "('a \<Rightarrow> 'w \<Rightarrow> 'p \<times> 'w) \<Rightarrow> ('p \<Rightarrow> 'w \<Rightarrow> 'w) \<Rightarrow> 'a list \<Rightarrow> 'w \<Rightarrow> 'w" where
  "effect_life enter leave [] w = w"
| "effect_life enter leave (a # as) w =
     (let pw = foldl (rerun enter leave) (enter a w) as in leave (fst pw) (snd pw))"

text \<open>What \<open>seen\<close> shows of the world is restored by a cleanup right after its effect.\<close>

locale restoring_effect =
  fixes enter :: "'a \<Rightarrow> 'w \<Rightarrow> 'p \<times> 'w" and leave :: "'p \<Rightarrow> 'w \<Rightarrow> 'w" and seen :: "'w \<Rightarrow> 's"
  assumes restores: "seen (leave (fst (enter a w)) (snd (enter a w))) = seen w"
begin

lemma reruns_restore:
  "seen (leave (fst pw) (snd pw)) = seen w \<Longrightarrow>
   seen (leave (fst (foldl (rerun enter leave) pw as)) (snd (foldl (rerun enter leave) pw as))) = seen w"
  by (induction as arbitrary: pw) (simp_all add: rerun_def restores)

lemma life_restores: "seen (effect_life enter leave as w) = seen w"
  by (cases as) (simp_all add: Let_def reruns_restore restores)

end

text \<open>The effect of \<open>useDocumentTitle\<close>; the world is \<open>document.title\<close>.\<close>

definition title_enter :: "string \<Rightarrow> string \<Rightarrow> string \<times> string" where
  "title_enter title document = (document, document_title title)"

definition title_leave :: "string \<Rightarrow> string \<Rightarrow> string" where
  "title_leave previous document = previous"

interpretation title: restoring_effect title_enter title_leave id
  by unfold_locales (simp add: title_enter_def title_leave_def)

text \<open>
  The effect of an open \<open>Drawer\<close>: the page behind stops scrolling, Escape is listened to (\<open>dw_escape\<close>
  counts the listeners), and the panel takes the focus.
\<close>

record drawer_world =
  dw_overflow :: string
  dw_escape :: nat
  dw_focus :: string

definition drawer_enter :: "string \<Rightarrow> drawer_world \<Rightarrow> string \<times> drawer_world" where
  "drawer_enter panel w =
     (dw_overflow w, w\<lparr>dw_overflow := ''hidden'', dw_escape := Suc (dw_escape w), dw_focus := panel\<rparr>)"

definition drawer_leave :: "string \<Rightarrow> drawer_world \<Rightarrow> drawer_world" where
  "drawer_leave previous w = w\<lparr>dw_overflow := previous, dw_escape := dw_escape w - 1\<rparr>"

interpretation drawer: restoring_effect drawer_enter drawer_leave "\<lambda>w. (dw_overflow w, dw_escape w)"
  by unfold_locales (simp add: drawer_enter_def drawer_leave_def)

text \<open>
  A render of the page that owns the drawer: \<open>onClose\<close> is a new function, so the effect runs again.
  \<open>focused\<close> is where the user has moved the focus since.
\<close>

definition drawer_rerender :: "string \<Rightarrow> string \<Rightarrow> string \<times> drawer_world \<Rightarrow> string \<times> drawer_world" where
  "drawer_rerender panel focused pw =
     rerun drawer_enter drawer_leave (fst pw, (snd pw)\<lparr>dw_focus := focused\<rparr>) panel"

subsection \<open>Menus and tabs\<close>

datatype dropdown_event = DropdownToggle | DropdownOutside | DropdownInside | DropdownKey string | DropdownClose

text \<open>The listeners for clicks and keys exist only while the menu is open.\<close>

fun dropdown_step :: "dropdown_event \<Rightarrow> bool \<Rightarrow> bool" where
  "dropdown_step DropdownToggle open' = (\<not> open')"
| "dropdown_step DropdownOutside open' = (if open' then False else open')"
| "dropdown_step DropdownInside open' = open'"
| "dropdown_step (DropdownKey k) open' = (if open' \<and> k = ''Escape'' then False else open')"
| "dropdown_step DropdownClose open' = False"

text \<open>A tab or chip: label and count, and whether it is the active one.\<close>

definition Tabs :: "('k \<times> string \<times> nat option) list \<Rightarrow> 'k \<Rightarrow> (string \<times> nat option \<times> bool) list" where
  "Tabs items v = map (\<lambda>(k, label, n). (label, n, k = v)) items"

subsection \<open>Copying\<close>

text \<open>
  The copy button: whether it says so, and how many timers will take that back. \<open>write\<close> is what
  \<open>copyToClipboard\<close> ended with: whether the clipboard took the text.
\<close>

record copy_button =
  cb_copied :: bool
  cb_timers :: nat

definition copy_finished :: "bool \<Rightarrow> copy_button \<Rightarrow> copy_button" where
  "copy_finished write b =
     (if write then b\<lparr>cb_copied := True, cb_timers := Suc (cb_timers b)\<rparr> else b)"

definition copy_timer :: "copy_button \<Rightarrow> copy_button" where
  "copy_timer b = (if cb_timers b = 0 then b else b\<lparr>cb_copied := False, cb_timers := cb_timers b - 1\<rparr>)"

definition copy_text :: "string \<Rightarrow> copy_button \<Rightarrow> string" where
  "copy_text label b = (if cb_copied b then ''Copied'' else label)"

subsection \<open>The search of the top bar\<close>

record search =
  se_query :: string
  se_open :: bool

datatype search_event = SearchFocus | SearchTyped string | SearchKey bool string | SearchOutside | SearchPick Host

text \<open>A step of the search, with the address it navigates to.\<close>

fun search_step :: "search_event \<Rightarrow> search \<Rightarrow> search \<times> string option" where
  "search_step SearchFocus s = (s\<lparr>se_open := True\<rparr>, None)"
| "search_step (SearchTyped v) s = (\<lparr>se_query = v, se_open = True\<rparr>, None)"
| "search_step (SearchKey meta k) s =
     (let s' = (if meta \<and> js_toLowerCase k = ''k'' then s\<lparr>se_open := True\<rparr> else s)
      in (if k = ''Escape'' then s'\<lparr>se_open := False\<rparr> else s', None))"
| "search_step SearchOutside s = (s\<lparr>se_open := False\<rparr>, None)"
| "search_step (SearchPick h) s = (\<lparr>se_query = [], se_open = False\<rparr>, Some (''/hosts/'' @ ho_id h))"

definition search_hit :: "string \<Rightarrow> Host \<Rightarrow> bool" where
  "search_hit v h =
     (js_includes (js_toLowerCase (hostDisplayName h)) v \<or> js_includes (js_toLowerCase (ho_hostname h)) v \<or>
      js_includes (js_toLowerCase (ho_os h)) v \<or> js_includes (js_toLowerCase (ho_uuid h)) v)"

definition search_results :: "hosts_query \<Rightarrow> string \<Rightarrow> Host list" where
  "search_results q query =
     (let v = js_toLowerCase (js_trim query)
      in if v = [] then [] else take 6 (filter (search_hit v) (hq_hosts q)))"

text \<open>The list under the field: a notice with the query, or name, details and tone of each host.\<close>

definition search_view :: "hosts_query \<Rightarrow> search \<Rightarrow> (string + (string \<times> string \<times> StatusTone) list) option" where
  "search_view q s =
     (if se_open s \<and> js_trim (se_query s) \<noteq> []
      then Some (if search_results q (se_query s) = [] then Inl (se_query s)
                 else Inr (map (\<lambda>h. (hostDisplayName h, ho_hostname h @ dot @ ho_os h @ dot @ ho_architecture h,
                                     statusTone (Some (ho_status h)))) (search_results q (se_query s))))
      else None)"

subsection \<open>The menus of the top bar\<close>

definition workspaces :: "string list" where
  "workspaces = [''Acme Platform'', ''Staging'', ''Personal'']"

text \<open>The switcher: the first letter and the name of the current workspace, and the entries.\<close>

definition WorkspaceSwitcher :: "string \<Rightarrow> string \<times> string \<times> (string \<times> bool) list" where
  "WorkspaceSwitcher current = (js_slice 1 current, current, map (\<lambda>w. (w, w = current)) workspaces)"

definition MOCK_NOTIFICATIONS :: "(StatusTone \<times> string \<times> string \<times> string) list" where
  "MOCK_NOTIFICATIONS =
     [(Danger, ''Agent disconnected'', ''build-runner-02 stopped sending heartbeats.'', ''12 min ago''),
      (Warning, ''Container restarting'', ''api-gateway has restarted 3 times in 10 minutes.'', ''48 min ago''),
      (Success, ''Agent connected'', ''edge-eu-west registered with Docker 27.3.1.'', ''2 h ago'')]"

definition APP_VERSION :: string where
  "APP_VERSION = ''v0.0.1''"

text \<open>A member of the signed-in user; what the server sends there are strings.\<close>

definition user_field :: "web \<Rightarrow> string \<Rightarrow> string option" where
  "user_field w k =
     (case wb_user w of
        None \<Rightarrow> None
      | Some u \<Rightarrow> (case field u k of Some (JStr s) \<Rightarrow> Some s | _ \<Rightarrow> None))"

text \<open>The menu of the user: initials, address, whether the badge is the highlighted one, and the role.\<close>

definition UserMenu :: "web \<Rightarrow> string \<times> string option \<times> bool \<times> string" where
  "UserMenu w =
     (initialsFor (user_field w ''email''), user_field w ''email'', user_field w ''role'' = Some ''ADMIN'',
      nullish (user_field w ''role'') ''UNKNOWN'')"

datatype user_item = ItemProfile | ItemSettings | ItemSignOut

fun user_menu_select :: "user_item \<Rightarrow> web \<Rightarrow> web \<times> string option" where
  "user_menu_select ItemProfile w = (w, None)"
| "user_menu_select ItemSettings w = (w, Some ''/settings'')"
| "user_menu_select ItemSignOut w = (signOut w, Some ''/login'')"

subsection \<open>The side bar and the shell\<close>

record nav_item =
  ni_to :: string
  ni_label :: string
  ni_mock :: bool

definition PRIMARY_NAV :: "nav_item list" where
  "PRIMARY_NAV =
     [\<lparr>ni_to = ''/dashboard'', ni_label = ''Dashboard'', ni_mock = False\<rparr>,
      \<lparr>ni_to = ''/hosts'', ni_label = ''Hosts'', ni_mock = False\<rparr>,
      \<lparr>ni_to = ''/containers'', ni_label = ''Containers'', ni_mock = False\<rparr>,
      \<lparr>ni_to = ''/images'', ni_label = ''Images'', ni_mock = True\<rparr>,
      \<lparr>ni_to = ''/networks'', ni_label = ''Networks'', ni_mock = True\<rparr>,
      \<lparr>ni_to = ''/volumes'', ni_label = ''Volumes'', ni_mock = True\<rparr>,
      \<lparr>ni_to = ''/metrics'', ni_label = ''Metrics'', ni_mock = True\<rparr>,
      \<lparr>ni_to = ''/settings'', ni_label = ''Settings'', ni_mock = False\<rparr>]"

text \<open>The foot of the side bar: initials, address, role, whether the theme switch is on, and the version.\<close>

definition SidebarFooter :: "web \<Rightarrow> theme_world \<Rightarrow> string \<times> string \<times> string \<times> bool \<times> string" where
  "SidebarFooter w t =
     (initialsFor (user_field w ''email''), nullish (user_field w ''email'') ''Signed out'',
      if user_field w ''role'' = Some ''ADMIN'' then ''Administrator'' else ''Viewer'', th_theme t = Dark, APP_VERSION)"

text \<open>\<open>mobileNavOpen\<close>: the overlay is there while the side bar is open; a new path closes it.\<close>

datatype shell_event = OpenNav | CloseNav | PathChanged

fun shell_step :: "shell_event \<Rightarrow> bool \<Rightarrow> bool" where
  "shell_step OpenNav mobileOpen = True"
| "shell_step CloseNav mobileOpen = False"
| "shell_step PathChanged mobileOpen = False"

subsection \<open>The error boundary\<close>

text \<open>The error caught, by its message, and the \<open>resetKey\<close> of the last render.\<close>

record boundary =
  bo_error :: "string option"
  bo_key :: string

definition reset_key :: "string \<Rightarrow> string \<Rightarrow> string \<Rightarrow> string" where
  "reset_key pathname search fragment = pathname @ search @ fragment"

text \<open>
  A render and its commit: \<open>thrown\<close> is what the children throw when rendered now. A caught error keeps
  them from being rendered; \<open>componentDidUpdate\<close> clears it when the key has changed, and they are rendered
  (again).
\<close>

definition boundary_render :: "string \<times> string option \<Rightarrow> boundary \<Rightarrow> boundary" where
  "boundary_render r b =
     (let (key, thrown) = r;
          caught = (case bo_error b of None \<Rightarrow> thrown | Some m \<Rightarrow> Some m)
      in \<lparr>bo_error = (if caught \<noteq> None \<and> bo_key b \<noteq> key then thrown else caught), bo_key = key\<rparr>)"

definition handleRetry :: "string option \<Rightarrow> boundary \<Rightarrow> boundary" where
  "handleRetry thrown b = b\<lparr>bo_error := thrown\<rparr>"

definition boundary_view :: "boundary \<Rightarrow> (string \<times> string) option" where
  "boundary_view b = map_option (\<lambda>m. ErrorNotice (Some m) ''this page'') (bo_error b)"

subsection \<open>Settings and unknown addresses\<close>

definition apiBaseUrl :: "string option \<Rightarrow> string" where
  "apiBaseUrl raw =
     (if truthy_str (map_option js_trim raw) then drop_slash (nullish raw []) else ''http://localhost:3000/api'')"

record settings_page =
  sg_themes :: "(Theme \<times> bool) list"
  sg_connection :: "data_item list"
  sg_account :: "data_item list"
  sg_note :: string

definition SettingsPage :: "string option \<Rightarrow> web \<Rightarrow> theme_world \<Rightarrow> settings_page" where
  "SettingsPage raw w t =
     \<lparr>sg_themes = map (\<lambda>option. (option, th_theme t = option)) [Light, Dark],
      sg_connection = [data_item ''API base URL'' (apiBaseUrl raw) (Some (apiBaseUrl raw)),
                       data_item ''Console version'' APP_VERSION None,
                       data_item ''Host polling'' (''Every 15s (hosts)'' @ dot @ ''20s (containers)'') None,
                       data_item ''Log transport'' ''Server-sent events'' None],
      sg_account = [data_item ''Email'' (nullish (user_field w ''email'') ''-'') None,
                    data_item ''Role'' (nullish (user_field w ''role'') ''UNKNOWN'') None,
                    data_item ''User ID'' (nullish (user_field w ''id'') ''-'') None],
      sg_note = (if user_field w ''role'' = Some ''ADMIN'' then ''Administrators can start, stop and restart containers.''
                 else ''Viewers have read-only access; container actions require the ADMIN role.'')\<rparr>"

definition settings_sign_out :: "web \<Rightarrow> web \<times> string" where
  "settings_sign_out w = (signOut w, ''/login'')"

definition NotFoundPage :: "string \<Rightarrow> string \<Rightarrow> string \<Rightarrow> string" where
  "NotFoundPage pathname search fragment =
     ''No page matches '' @ pathname @ search @ fragment @ ''. Check the URL or return to the dashboard.''"

text \<open>\<open>OsIcon\<close>: which of the three marks stands for a system.\<close>

datatype os_mark = WindowsMark | AppleMark | PenguinMark

definition OsIcon :: "string \<Rightarrow> os_mark" where
  "OsIcon os =
     (let v = js_toLowerCase os
      in if js_startsWith v ''win'' then WindowsMark
         else if js_includes v ''darwin'' \<or> js_includes v ''mac'' then AppleMark else PenguinMark)"

subsection \<open>Properties\<close>

text \<open>
  Whatever titles a page has shown, leaving it brings back the title from before; and however often the
  page behind an open drawer was rendered, closing the drawer gives the page its scrolling back and leaves
  no listener behind.
\<close>

theorem page_effects_are_undone:
  "effect_life title_enter title_leave titles document = document \<and>
   dw_overflow (effect_life drawer_enter drawer_leave panels w) = dw_overflow w \<and>
   dw_escape (effect_life drawer_enter drawer_leave panels w) = dw_escape w"
  using title.life_restores [of titles document] drawer.life_restores [of panels w] by simp

text \<open>Every render of the page behind takes the focus out of the field the user types in.\<close>

theorem rerender_steals_focus:
  "dw_focus (snd (drawer_rerender panel focused (drawer_enter panel w))) = panel"
  by (simp add: drawer_rerender_def rerun_def drawer_enter_def drawer_leave_def)

text \<open>The renders since the address last changed.\<close>

definition renders_here :: "(string \<times> string option) list \<Rightarrow> (string \<times> string option) list" where
  "renders_here rs = rev (takeWhile (\<lambda>r. fst r = fst (last rs)) (rev rs))"

fun first_thrown :: "(string \<times> string option) list \<Rightarrow> string option" where
  "first_thrown [] = None"
| "first_thrown ((key, thrown) # rs) = (case thrown of None \<Rightarrow> first_thrown rs | Some m \<Rightarrow> Some m)"

lemma first_thrown_append:
  "first_thrown (rs @ [(key, thrown)]) = (case first_thrown rs of None \<Rightarrow> thrown | Some m \<Rightarrow> Some m)"
  by (induction rs rule: first_thrown.induct) (simp_all split: option.splits)

lemma renders_here_snoc:
  "renders_here (rs @ [(key, thrown)]) = (if rs \<noteq> [] \<and> fst (last rs) = key then renders_here rs else []) @ [(key, thrown)]"
proof (cases rs rule: rev_cases)
  case (snoc qs q)
  then show ?thesis by (auto simp: renders_here_def)
qed (simp add: renders_here_def)

lemma boundary_run:
  "rs \<noteq> [] \<Longrightarrow>
   foldl (\<lambda>b r. boundary_render r b) \<lparr>bo_error = None, bo_key = k0\<rparr> rs = \<lparr>bo_error = first_thrown (renders_here rs), bo_key = fst (last rs)\<rparr>"
proof (induction rs rule: rev_induct)
  case (snoc r rs)
  obtain key thrown where r: "r = (key, thrown)" by (cases r)
  show ?case
  proof (cases "rs = []")
    case True
    then show ?thesis using r
      by (cases thrown) (simp_all add: boundary_render_def renders_here_def)
  next
    case False
    then show ?thesis using r snoc.IH
      by (cases thrown)
        (auto simp: boundary_render_def renders_here_snoc first_thrown_append split: option.splits)
  qed
qed simp

text \<open>
  C27. A page that breaks takes down only itself: after any sequence of renders the boundary shows its
  notice exactly when a render of the page at the present address has thrown since the user came to it,
  with the first thing thrown there. What other addresses did plays no part.
\<close>

theorem broken_page_does_not_trap:
  assumes "rs \<noteq> []"
  shows "boundary_view (foldl (\<lambda>b r. boundary_render r b) \<lparr>bo_error = None, bo_key = k0\<rparr> rs) =
    map_option (\<lambda>m. (''Could not load this page'', m)) (first_thrown (renders_here rs))"
  by (cases "first_thrown (renders_here rs)")
    (simp_all add: boundary_run [OF assms] boundary_view_def ErrorNotice_def nullish_def)

theorem broken_page_does_not_trap_witness:
  "boundary_view (foldl (\<lambda>b r. boundary_render r b) \<lparr>bo_error = None, bo_key = ''/''\<rparr>
     [(''/hosts/h'', Some ''bad''), (''/hosts/h'', None), (''/dashboard'', None)]) = None"
  using broken_page_does_not_trap [of "[(''/hosts/h'', Some ''bad''), (''/hosts/h'', None), (''/dashboard'', None)]" "''/''"]
  by (simp add: renders_here_def)

lemma search_results_hosts:
  "h \<in> set (search_results q query) \<Longrightarrow> h \<in> set (hq_hosts q) \<and> search_hit (js_toLowerCase (js_trim query)) h"
  by (auto simp: search_results_def Let_def split: if_splits dest: in_set_takeD)

lemma find_host_here:
  "distinct (map ho_id (hq_hosts q)) \<Longrightarrow> h \<in> set (hq_hosts q) \<Longrightarrow> find_host q (ho_id h) = Some h"
  by (simp add: find_host_def find_distinct)


definition demo_hosts_query :: hosts_query where
  "demo_hosts_query = \<lparr>hq_data = Some [demo_host], hq_isLoading = False, hq_isFetching = False, hq_error = None\<rparr>"


text \<open>
  The settings show the base of the API that requests really go to: the address of any request is that
  base followed by its path.
\<close>

theorem settings_show_request_base:
  "fc_url (fst (request_send raw m path body anonymous w)) =
     apiBaseUrl raw @ (if js_startsWith path ''/'' then path else ''/'' @ path) \<and>
   map_of (map (\<lambda>(label, v, copy). (label, v)) (sg_connection (SettingsPage raw w t))) ''API base URL'' = Some (apiBaseUrl raw)"
proof -
  have "apiBaseUrl raw = resolveBaseUrl raw"
    by (cases raw) (simp_all add: apiBaseUrl_def resolveBaseUrl_def nullish_def)
  then show ?thesis
    by (simp add: request_send_def SettingsPage_def data_item_def split_beta Let_def)
qed

text \<open>
  Signing out from the menu or from the settings forgets the user and the token, and every page but the
  log-in and set-up pages is closed at once: whatever the address, the log-in page is next.
\<close>

theorem sign_out_closes_every_page:
  assumes "path \<noteq> [''login'']" "path \<noteq> [''setup'']"
  shows "user_menu_select ItemSignOut w = (fst (settings_sign_out w), Some (snd (settings_sign_out w))) \<and>
    App path here (signOut w) = Inl (Redirect ''/login'' (Some here)) \<and>
    UserMenu (signOut w) = (''??'', None, False, ''UNKNOWN'') \<and>
    fst (getToken (signOut w)) = JNull"
proof -
  have "App path here (signOut w) = Inl (Redirect ''/login'' (Some here))"
    using assms by (simp add: App_def AuthGate_def RequireAuth_def signOut_def set_store_def)
  moreover have "UserMenu (signOut w) = (''??'', None, False, ''UNKNOWN'')"
    by (simp add: UserMenu_def user_field_def signOut_def set_store_def initialsFor_def nullish_def)
  moreover have "cachedToken (signOut w) = Some JNull"
    by (simp add: signOut_def set_store_def clearToken_def Let_def)
  ultimately show ?thesis by (simp add: settings_sign_out_def getToken_def)
qed

theorem sign_out_closes_every_page_witness:
  "App [''hosts'', ''h''] ''/hosts/h'' (signOut (web_init (Some ''t''))) = Inl (Redirect ''/login'' (Some ''/hosts/h''))"
proof -
  have "[''hosts'', ''h''] \<noteq> [''login'']" "[''hosts'', ''h''] \<noteq> [''setup'']" by simp_all
  then show ?thesis
    using sign_out_closes_every_page [of "[''hosts'', ''h'']" "web_init (Some ''t'')" "''/hosts/h''"] by blast
qed

text \<open>Every entry of the side bar leads to a page of its own.\<close>

theorem navigation_reaches_pages:
  "distinct (map (\<lambda>i. AppRoutes [tl (ni_to i)]) PRIMARY_NAV) \<and>
   PageNotFound \<notin> set (map (\<lambda>i. AppRoutes [tl (ni_to i)]) PRIMARY_NAV)"
  by (simp add: PRIMARY_NAV_def)

end
