(* ===== verification/ServerModules.thy ===== *)
theory ServerModules
  imports ServerConfig
begin

section \<open>Modules, start-up and routes of the server\<close>

text \<open>
  The \<open>*.module.ts\<close> files, \<open>app.module.ts\<close>, \<open>main.ts\<close>, \<open>prisma.service.ts\<close> and
  \<open>redis.service.ts\<close>: which module provides and exports which class, what each constructor asks for,
  the order of the global guards, what start-up needs, and the paths the controllers' decorators
  give the routes.

  The framework is not in the repository. Of it the model uses what its documentation says: a
  constructor parameter is looked up among the providers of its own module, the exports of the modules it
  imports and of the global modules; an exported module passes its exports on. What the modules of
  \<open>@nestjs/config\<close> and \<open>@nestjs/jwt\<close> export and what every module sees are the parameter \<open>library\<close>.
\<close>

subsection \<open>Classes and their constructors\<close>

datatype injectable =
    ConfigService | JwtService | Reflector
  | PrismaService | RedisService
  | AgentsService | AgentsGateway | ContainerInventoryService | HostMetricsService
  | HostsService | HostsController
  | ContainersService | ContainersController
  | UsersService
  | AuthService | AuthController | JwtAuthGuard | RolesGuard
  | SetupService | SetupController
  | HealthController

text \<open>The parameter types of the constructors, class by class; the other classes have none.\<close>

definition PrismaService_constructor :: "injectable list" where
  "PrismaService_constructor = [ConfigService]"

definition RedisService_constructor :: "injectable list" where
  "RedisService_constructor = [ConfigService]"

definition AgentsService_constructor :: "injectable list" where
  "AgentsService_constructor = [PrismaService]"

definition AgentsGateway_constructor :: "injectable list" where
  "AgentsGateway_constructor = [AgentsService, ContainerInventoryService, HostMetricsService]"

definition HostsService_constructor :: "injectable list" where
  "HostsService_constructor = [AgentsService, ContainerInventoryService, HostMetricsService]"

definition HostsController_constructor :: "injectable list" where
  "HostsController_constructor = [HostsService]"

definition ContainersService_constructor :: "injectable list" where
  "ContainersService_constructor = [AgentsService, AgentsGateway]"

definition ContainersController_constructor :: "injectable list" where
  "ContainersController_constructor = [ContainersService]"

definition UsersService_constructor :: "injectable list" where
  "UsersService_constructor = [PrismaService]"

definition AuthService_constructor :: "injectable list" where
  "AuthService_constructor = [UsersService, JwtService]"

definition AuthController_constructor :: "injectable list" where
  "AuthController_constructor = [AuthService]"

definition JwtAuthGuard_constructor :: "injectable list" where
  "JwtAuthGuard_constructor = [JwtService, Reflector]"

definition RolesGuard_constructor :: "injectable list" where
  "RolesGuard_constructor = [Reflector]"

definition SetupService_constructor :: "injectable list" where
  "SetupService_constructor = [UsersService]"

definition SetupController_constructor :: "injectable list" where
  "SetupController_constructor = [SetupService]"

definition HealthController_constructor :: "injectable list" where
  "HealthController_constructor = [PrismaService]"

lemmas constructor_defs =
  PrismaService_constructor_def RedisService_constructor_def AgentsService_constructor_def
  AgentsGateway_constructor_def HostsService_constructor_def HostsController_constructor_def
  ContainersService_constructor_def ContainersController_constructor_def UsersService_constructor_def
  AuthService_constructor_def AuthController_constructor_def JwtAuthGuard_constructor_def
  RolesGuard_constructor_def SetupService_constructor_def SetupController_constructor_def
  HealthController_constructor_def

fun constructor_params :: "injectable \<Rightarrow> injectable list" where
  "constructor_params PrismaService = PrismaService_constructor"
| "constructor_params RedisService = RedisService_constructor"
| "constructor_params AgentsService = AgentsService_constructor"
| "constructor_params AgentsGateway = AgentsGateway_constructor"
| "constructor_params HostsService = HostsService_constructor"
| "constructor_params HostsController = HostsController_constructor"
| "constructor_params ContainersService = ContainersService_constructor"
| "constructor_params ContainersController = ContainersController_constructor"
| "constructor_params UsersService = UsersService_constructor"
| "constructor_params AuthService = AuthService_constructor"
| "constructor_params AuthController = AuthController_constructor"
| "constructor_params JwtAuthGuard = JwtAuthGuard_constructor"
| "constructor_params RolesGuard = RolesGuard_constructor"
| "constructor_params SetupService = SetupService_constructor"
| "constructor_params SetupController = SetupController_constructor"
| "constructor_params HealthController = HealthController_constructor"
| "constructor_params c = []"

subsection \<open>Modules\<close>

datatype app_module =
    AppModule | ConfigModule | JwtModule | PrismaModule | RedisModule | AgentsModule | MetricsModule
  | HostsModule | ContainersModule | UsersModule | AuthModule | SetupModule | HealthModule

text \<open>
  The argument of \<open>@Module\<close>; \<open>md_reexports\<close> are the modules among the exports, \<open>md_guards\<close> the
  classes provided under \<open>APP_GUARD\<close>, and \<open>md_global\<close> is \<open>@Global\<close>.
\<close>

record module_metadata =
  md_imports :: "app_module list"
  md_controllers :: "injectable list"
  md_providers :: "injectable list"
  md_guards :: "injectable list"
  md_exports :: "injectable list"
  md_reexports :: "app_module list"
  md_global :: bool

definition no_metadata :: module_metadata where
  "no_metadata =
     \<lparr>md_imports = [], md_controllers = [], md_providers = [], md_guards = [], md_exports = [], md_reexports = [],
      md_global = False\<rparr>"

definition AppModule_metadata :: module_metadata where
  "AppModule_metadata =
     no_metadata\<lparr>md_imports := [ConfigModule, PrismaModule, RedisModule, AgentsModule, HostsModule, ContainersModule,
                               UsersModule, AuthModule, SetupModule, HealthModule],
                 md_guards := [JwtAuthGuard, RolesGuard]\<rparr>"

definition PrismaModule_metadata :: module_metadata where
  "PrismaModule_metadata =
     no_metadata\<lparr>md_providers := [PrismaService], md_exports := [PrismaService], md_global := True\<rparr>"

definition RedisModule_metadata :: module_metadata where
  "RedisModule_metadata =
     no_metadata\<lparr>md_providers := [RedisService], md_exports := [RedisService], md_global := True\<rparr>"

definition AgentsModule_metadata :: module_metadata where
  "AgentsModule_metadata =
     no_metadata\<lparr>md_imports := [MetricsModule],
                 md_providers := [AgentsService, AgentsGateway, ContainerInventoryService],
                 md_exports := [AgentsService, AgentsGateway, ContainerInventoryService]\<rparr>"

definition MetricsModule_metadata :: module_metadata where
  "MetricsModule_metadata =
     no_metadata\<lparr>md_providers := [HostMetricsService], md_exports := [HostMetricsService]\<rparr>"

definition HostsModule_metadata :: module_metadata where
  "HostsModule_metadata =
     no_metadata\<lparr>md_imports := [AgentsModule, MetricsModule], md_controllers := [HostsController],
                 md_providers := [HostsService]\<rparr>"

definition ContainersModule_metadata :: module_metadata where
  "ContainersModule_metadata =
     no_metadata\<lparr>md_imports := [AgentsModule], md_controllers := [ContainersController],
                 md_providers := [ContainersService]\<rparr>"

definition UsersModule_metadata :: module_metadata where
  "UsersModule_metadata = no_metadata\<lparr>md_providers := [UsersService], md_exports := [UsersService]\<rparr>"

definition AuthModule_metadata :: module_metadata where
  "AuthModule_metadata =
     no_metadata\<lparr>md_imports := [ConfigModule, UsersModule, JwtModule], md_controllers := [AuthController],
                 md_providers := [AuthService, JwtAuthGuard, RolesGuard],
                 md_exports := [AuthService, JwtAuthGuard, RolesGuard], md_reexports := [JwtModule]\<rparr>"

definition SetupModule_metadata :: module_metadata where
  "SetupModule_metadata =
     no_metadata\<lparr>md_imports := [UsersModule], md_controllers := [SetupController], md_providers := [SetupService]\<rparr>"

definition HealthModule_metadata :: module_metadata where
  "HealthModule_metadata = no_metadata\<lparr>md_imports := [PrismaModule], md_controllers := [HealthController]\<rparr>"

text \<open>\<open>ConfigModule.forRoot\<close> is called with \<open>isGlobal: true\<close>.\<close>

record library =
  lib_config :: "injectable list"
  lib_jwt :: "injectable list"
  lib_core :: "injectable list"

fun metadata :: "library \<Rightarrow> app_module \<Rightarrow> module_metadata" where
  "metadata L AppModule = AppModule_metadata"
| "metadata L ConfigModule = no_metadata\<lparr>md_exports := lib_config L, md_global := True\<rparr>"
| "metadata L JwtModule = no_metadata\<lparr>md_imports := [ConfigModule], md_exports := lib_jwt L\<rparr>"
| "metadata L PrismaModule = PrismaModule_metadata"
| "metadata L RedisModule = RedisModule_metadata"
| "metadata L AgentsModule = AgentsModule_metadata"
| "metadata L MetricsModule = MetricsModule_metadata"
| "metadata L HostsModule = HostsModule_metadata"
| "metadata L ContainersModule = ContainersModule_metadata"
| "metadata L UsersModule = UsersModule_metadata"
| "metadata L AuthModule = AuthModule_metadata"
| "metadata L SetupModule = SetupModule_metadata"
| "metadata L HealthModule = HealthModule_metadata"

definition all_modules :: "app_module list" where
  "all_modules =
     [AppModule, ConfigModule, JwtModule, PrismaModule, RedisModule, AgentsModule, MetricsModule, HostsModule,
      ContainersModule, UsersModule, AuthModule, SetupModule, HealthModule]"

lemmas metadata_defs =
  no_metadata_def AppModule_metadata_def PrismaModule_metadata_def RedisModule_metadata_def
  AgentsModule_metadata_def MetricsModule_metadata_def HostsModule_metadata_def
  ContainersModule_metadata_def UsersModule_metadata_def AuthModule_metadata_def
  SetupModule_metadata_def HealthModule_metadata_def

subsection \<open>Looking up a constructor parameter\<close>

text \<open>The exports of a module, through chains of at most \<open>n\<close> exported modules.\<close>

fun exported :: "nat \<Rightarrow> library \<Rightarrow> app_module \<Rightarrow> injectable list" where
  "exported 0 L m = md_exports (metadata L m)"
| "exported (Suc n) L m = md_exports (metadata L m) @ concat (map (exported n L) (md_reexports (metadata L m)))"

definition global_modules :: "library \<Rightarrow> app_module list" where
  "global_modules L = filter (\<lambda>m. md_global (metadata L m)) all_modules"

definition sees :: "library \<Rightarrow> app_module \<Rightarrow> injectable list" where
  "sees L m =
     md_providers (metadata L m) @
     concat (map (exported (length all_modules) L) (md_imports (metadata L m) @ global_modules L)) @ lib_core L"

definition constructed :: "library \<Rightarrow> app_module \<Rightarrow> injectable list" where
  "constructed L m =
     md_providers (metadata L m) @ md_controllers (metadata L m) @ md_guards (metadata L m)"

definition providers_of :: "library \<Rightarrow> injectable \<Rightarrow> app_module list" where
  "providers_of L c = filter (\<lambda>m. c \<in> set (md_providers (metadata L m))) all_modules"

text \<open>What the two modules of the framework and its core are documented to export.\<close>

definition library_ok :: "library \<Rightarrow> bool" where
  "library_ok L \<longleftrightarrow>
     ConfigService \<in> set (lib_config L) \<and> JwtService \<in> set (lib_jwt L) \<and> Reflector \<in> set (lib_core L)"

definition from_library :: "injectable \<Rightarrow> bool" where
  "from_library c \<longleftrightarrow> c \<in> {ConfigService, JwtService, Reflector}"

fun constructor_rank :: "injectable \<Rightarrow> nat" where
  "constructor_rank c =
     (if from_library c then 0
      else if c \<in> {PrismaService, RedisService, ContainerInventoryService, HostMetricsService, RolesGuard, JwtAuthGuard} then 1
      else if c \<in> {AgentsService, UsersService, HealthController} then 2
      else if c \<in> {AgentsGateway, HostsService, AuthService, SetupService} then 3
      else if c \<in> {ContainersService, HostsController, AuthController, SetupController} then 4
      else 5)"

lemma constructor_rank_decreases: "d \<in> set (constructor_params c) \<Longrightarrow> constructor_rank d < constructor_rank c"
  by (cases c) (auto simp: from_library_def constructor_defs)

text \<open>
  C21. The modules fit together: every parameter of every constructor the modules ask for can be looked
  up where it is asked for, and unless the framework provides it exactly one module does, so that the
  agents' gateway, the container inventory and the metrics cache are the same objects for the WebSocket
  side and for the HTTP side; and no two classes need each other to be constructed.
\<close>

theorem modules_fit_together:
  assumes "library_ok L" "c \<in> set (constructed L m)" "d \<in> set (constructor_params c)"
  shows "d \<in> set (sees L m) \<and> (from_library d \<or> length (providers_of L d) = 1)
         \<and> wfP (\<lambda>x y. x \<in> set (constructor_params y))"
proof (intro conjI)
  have sees: "\<forall>c\<in>set (constructed L m). \<forall>d\<in>set (constructor_params c). d \<in> set (sees L m)"
    using assms(1)
    by (cases m) (simp_all add: constructed_def sees_def global_modules_def all_modules_def metadata_defs library_ok_def
        constructor_defs)
  then show "d \<in> set (sees L m)" using assms(2,3) by blast
  show "from_library d \<or> length (providers_of L d) = 1"
    using assms(3) by (cases c) (auto simp: from_library_def providers_of_def all_modules_def metadata_defs constructor_defs)
  show "wfP (\<lambda>x y. x \<in> set (constructor_params y))"
    unfolding wfp_def
    by (rule wf_subset [OF wf_measure [of constructor_rank]]) (auto dest: constructor_rank_decreases)
qed

definition nest_library :: library where
  "nest_library = \<lparr>lib_config = [ConfigService], lib_jwt = [JwtService], lib_core = [Reflector]\<rparr>"

theorem modules_fit_together_witness: "JwtService \<in> set (sees nest_library AppModule)"
  using modules_fit_together [of nest_library JwtAuthGuard AppModule JwtService]
  by (simp add: nest_library_def library_ok_def constructed_def metadata_defs constructor_defs)

subsection \<open>The global guards\<close>

text \<open>The guards run in the order in which they are provided; the first one attaches the user.\<close>

fun run_guards ::
  "jwt \<Rightarrow> int \<Rightarrow> route_meta \<Rightarrow> RequestWithUser \<Rightarrow> injectable list \<Rightarrow> AuthenticatedUser option \<Rightarrow>
     http_exception + AuthenticatedUser option"
where
  "run_guards J now meta request [] u = Inr u"
| "run_guards J now meta request (c # cs) u =
     (if c = JwtAuthGuard then
        (case jwt_canActivate J now meta request of
           Inl e \<Rightarrow> Inl e
         | Inr None \<Rightarrow> run_guards J now meta request cs u
         | Inr (Some u') \<Rightarrow> run_guards J now meta request cs (Some u'))
      else if c = RolesGuard then
        (case roles_canActivate meta u of
           Inl e \<Rightarrow> Inl e
         | Inr x \<Rightarrow> run_guards J now meta request cs u)
      else run_guards J now meta request cs u)"

lemma registered_guards_are_app_guards:
  "run_guards J now meta request (md_guards AppModule_metadata) None = app_guards J now meta request"
  by (simp add: AppModule_metadata_def app_guards_def split: sum.split option.split)

text \<open>In the other order no administrator gets through to a route that names a role.\<close>

lemma guards_in_the_other_order:
  "run_guards J now (route_metadata HostsDelete) request [RolesGuard, JwtAuthGuard] None =
     Inl (ForbiddenException ''Authentication required'')"
  by (simp add: protected_route_def roles_canActivate_def override_meta_def)

subsection \<open>Start-up and shutdown\<close>

text \<open>
  \<open>ConfigService.get\<close>: the two namespaces loaded by \<open>AppModule\<close>, then the environment. The
  configuration factories run before anything is constructed and abort the start when they throw.
\<close>

definition config_get :: "env \<Rightarrow> env" where
  "config_get env k = (if k = ''database.url'' then Some (de_url (databaseConfig env)) else env k)"

text \<open>\<open>PrismaService.onModuleInit\<close>: whether it is connected afterwards, and the log line.\<close>

definition prisma_onModuleInit :: "(string + unit) \<Rightarrow> bool \<times> string" where
  "prisma_onModuleInit result =
     (case result of
        Inr u \<Rightarrow> (True, ''PostgreSQL connected via Prisma'')
      | Inl message \<Rightarrow>
          (False, ''PostgreSQL unavailable ('' @ message @
                  ''). Set DATABASE_URL and ensure PostgreSQL is running.''))"

text \<open>\<open>RedisService.onModuleDestroy\<close>: whether \<open>quit\<close> is called.\<close>

definition redis_onModuleDestroy :: "string \<Rightarrow> bool" where
  "redis_onModuleDestroy client_status \<longleftrightarrow> client_status \<noteq> ''end''"

record server =
  sv_jwt :: AuthEnv
  sv_database :: string
  sv_connected :: bool
  sv_redis :: redis_options
  sv_origin :: cors_origin
  sv_port :: json
  sv_log :: "string list"

text \<open>\<open>connect\<close> is \<open>$connect\<close> of the client for an address: it resolves or rejects with a message.\<close>

definition bootstrap :: "env \<Rightarrow> (string \<Rightarrow> string + unit) \<Rightarrow> string + server" where
  "bootstrap env connect =
     (case authConfig env of
        Inl e \<Rightarrow> Inl e
      | Inr auth \<Rightarrow>
          (case resolveDatabaseUrl (config_get env) of
             Inl e \<Rightarrow> Inl e
           | Inr url \<Rightarrow>
               (let (connected, line) = prisma_onModuleInit (connect url)
                in Inr \<lparr>sv_jwt = auth, sv_database = url, sv_connected = connected,
                        sv_redis = redis_client_options (config_get env),
                        sv_origin = resolveCorsOrigin (config_get env ''CORS_ORIGINS'') (env ''NODE_ENV''),
                        sv_port = (case config_get env ''PORT'' of Some p \<Rightarrow> JStr p | None \<Rightarrow> JNum (js_int 3000)),
                        sv_log = [line]\<rparr>)))"

lemma database_url_never_empty: "de_url (databaseConfig env) \<noteq> []"
  by (simp add: databaseConfig_def buildDatabaseUrl_def Let_def split: option.split)


subsection \<open>Paths\<close>

text \<open>
  The verb and path of every route, controller by controller: the argument of \<open>@Controller\<close>, then that
  of the method's decorator. \<open>main.ts\<close> puts the global prefix \<open>api\<close> before every path but \<open>health\<close>. An
  action is numbered by its place in the controller.
\<close>

datatype verb = Get | Post | Patch | Delete

datatype segment = Fixed string | Param string

type_synonym route_entry = "route \<times> verb \<times> segment list"

definition HostsController_routes :: "route_entry list" where
  "HostsController_routes =
     [(HostsList, Get, [Fixed ''hosts'']),
      (HostsRename, Patch, [Fixed ''hosts'', Param ''id'']),
      (HostsMetrics, Get, [Fixed ''hosts'', Param ''id'', Fixed ''metrics'']),
      (HostsContainers, Get, [Fixed ''hosts'', Param ''id'', Fixed ''containers'']),
      (HostsDelete, Delete, [Fixed ''hosts'', Param ''id''])]"

definition ContainersController_routes :: "route_entry list" where
  "ContainersController_routes =
     [(ContainerInspectRoute, Get, [Fixed ''containers'', Param ''id'', Fixed ''inspect'']),
      (ContainerActionRoute 0, Post, [Fixed ''containers'', Param ''id'', Fixed ''start'']),
      (ContainerActionRoute 1, Post, [Fixed ''containers'', Param ''id'', Fixed ''stop'']),
      (ContainerActionRoute 2, Post, [Fixed ''containers'', Param ''id'', Fixed ''restart'']),
      (ContainerActionRoute 3, Post, [Fixed ''containers'', Param ''id'', Fixed ''pause'']),
      (ContainerActionRoute 4, Post, [Fixed ''containers'', Param ''id'', Fixed ''unpause'']),
      (ContainerActionRoute 5, Post, [Fixed ''containers'', Param ''id'', Fixed ''remove'']),
      (ContainerLogs, Get, [Fixed ''containers'', Param ''id'', Fixed ''logs''])]"

definition AuthController_routes :: "route_entry list" where
  "AuthController_routes =
     [(AuthLogin, Post, [Fixed ''auth'', Fixed ''login'']), (AuthMe, Get, [Fixed ''auth'', Fixed ''me''])]"

definition SetupController_routes :: "route_entry list" where
  "SetupController_routes =
     [(SetupStatusRoute, Get, [Fixed ''setup'', Fixed ''status'']),
      (SetupCreateAdmin, Post, [Fixed ''setup'', Fixed ''create-admin''])]"

definition HealthController_routes :: "route_entry list" where
  "HealthController_routes = [(Health, Get, [Fixed ''health''])]"

definition all_routes :: "route_entry list" where
  "all_routes =
     HostsController_routes @ ContainersController_routes @ AuthController_routes @ SetupController_routes @
     HealthController_routes"

lemmas route_tables = all_routes_def HostsController_routes_def ContainersController_routes_def
  AuthController_routes_def SetupController_routes_def HealthController_routes_def

definition global_prefix :: "verb \<Rightarrow> segment list \<Rightarrow> segment list" where
  "global_prefix v path = (if v = Get \<and> path = [Fixed ''health''] then path else Fixed ''api'' # path)"

definition action_order :: "ContainerAction list" where
  "action_order = [Start, Stop, Restart, Pause, Unpause, Remove]"

text \<open>
  Matching a path: a fixed segment is itself, a parameter is any segment that is not empty, decoded. The
  comparison is exact; the router of the framework also accepts other case and a trailing slash, which
  no client here uses. A path with a segment \<open>.\<close> or \<open>..\<close> never arrives: clients resolve them away.
\<close>

fun match_segments :: "segment list \<Rightarrow> string list \<Rightarrow> (string \<times> string) list option" where
  "match_segments [] [] = Some []"
| "match_segments (Fixed l # ps) (s # ss) = (if l = s then match_segments ps ss else None)"
| "match_segments (Param p # ps) (s # ss) =
     (if s = [] then None
      else (case match_segments ps ss of None \<Rightarrow> None | Some m \<Rightarrow> Some ((p, decodeURIComponent s) # m)))"
| "match_segments ps ss = None"

fun first_match :: "verb \<Rightarrow> string list \<Rightarrow> route_entry list \<Rightarrow> (route \<times> (string \<times> string) list) option" where
  "first_match v ss [] = None"
| "first_match v ss ((r, v', path) # rs) =
     (case (if v' = v then match_segments (global_prefix v' path) ss else None) of
        Some m \<Rightarrow> Some (r, m)
      | None \<Rightarrow> first_match v ss rs)"

text \<open>The query string: pairs separated by \<open>&\<close>, a name and a value separated by the first \<open>=\<close>.\<close>

definition parse_pair :: "string \<Rightarrow> string \<times> string" where
  "parse_pair p =
     (decodeURIComponent (takeWhile (\<lambda>c. c \<noteq> CHR ''='') p),
      decodeURIComponent (drop 1 (dropWhile (\<lambda>c. c \<noteq> CHR ''='') p)))"

definition parse_query :: "string \<Rightarrow> (string \<times> string) list" where
  "parse_query q = (if q = [] then [] else map parse_pair (js_split CHR ''&'' q))"

text \<open>The route a request target (a path that starts with a slash, and a query) arrives at.\<close>

definition route_request ::
  "verb \<Rightarrow> string \<Rightarrow> (route \<times> (string \<times> string) list \<times> (string \<times> string) list) option"
where
  "route_request v target =
     (let path = takeWhile (\<lambda>c. c \<noteq> CHR ''?'') target;
          query = drop 1 (dropWhile (\<lambda>c. c \<noteq> CHR ''?'') target);
          segments = drop 1 (js_split CHR ''/'' path)
      in if CHR ''#'' \<in> set target \<or> ''.'' \<in> set segments \<or> ''..'' \<in> set segments then None
         else (case first_match v segments all_routes of
                 None \<Rightarrow> None
               | Some (r, params) \<Rightarrow> Some (r, params, parse_query query)))"

text \<open>No two routes share a verb and a path.\<close>

lemma paths_distinct: "distinct (map snd all_routes)" "distinct (map fst all_routes)"
  by code_simp+

lemma route_request_health: "route_request Get ''/health'' = Some (Health, [], [])"
  by code_simp

end
