(* ===== verification/WebRoutes.thy ===== *)
theory WebRoutes
  imports WebCommands ServerModules
begin

section \<open>The browser's calls arrive at the server's routes\<close>

text \<open>
  \<open>services/hosts.ts\<close>, \<open>services/auth.service.ts\<close> and \<open>hooks/useContainerLogs.ts\<close> build addresses; the
  controllers' decorators say which handler an address belongs to. This theory joins the two: every call
  of the browser arrives at the handler it is meant for, with the ids it was built from, whatever
  characters they contain.
\<close>

fun verb_of :: "http_method \<Rightarrow> verb" where
  "verb_of GET = Get"
| "verb_of POST = Post"
| "verb_of PATCH = Patch"

text \<open>Where a call arrives at the server with the given origin.\<close>

definition arrives :: "string \<Rightarrow> fetch_call \<Rightarrow> (route \<times> (string \<times> string) list \<times> (string \<times> string) list) option" where
  "arrives origin call = route_request (verb_of (fc_method call)) (drop (length origin) (fc_url call))"

definition action_route :: "ContainerAction \<Rightarrow> route" where
  "action_route a = ContainerActionRoute (length (takeWhile (\<lambda>b. b \<noteq> a) action_order))"

text \<open>An id that stands in an address as it is.\<close>

definition plain_id :: "string \<Rightarrow> bool" where
  "plain_id s \<longleftrightarrow> s \<noteq> [] \<and> s \<noteq> ''.'' \<and> s \<noteq> ''..'' \<and> set s \<inter> set ''/?#%'' = {}"

definition named_id :: "string \<Rightarrow> bool" where
  "named_id s \<longleftrightarrow> s \<noteq> [] \<and> s \<noteq> ''.'' \<and> s \<noteq> ''..''"

subsection \<open>Segments\<close>

definition path_segment :: "string \<Rightarrow> bool" where
  "path_segment s \<longleftrightarrow> s \<noteq> ''.'' \<and> s \<noteq> ''..'' \<and> set s \<inter> set ''/?#'' = {}"

lemma set_join: "set (js_join sep ws) \<subseteq> set sep \<union> \<Union> (set ` set ws)"
  by (induction sep ws rule: js_join.induct) auto

lemma route_segments:
  assumes "segs \<noteq> []" "\<forall>s\<in>set segs. path_segment s" "CHR ''#'' \<notin> set q"
  shows "route_request v (js_join ''/'' ([] # segs) @ (if q = [] then [] else CHR ''?'' # q)) =
    (case first_match v segs all_routes of None \<Rightarrow> None | Some (r, params) \<Rightarrow> Some (r, params, parse_query q))"
proof -
  let ?p = "js_join ''/'' ([] # segs)"
  have chars: "CHR ''?'' \<notin> set ?p" "CHR ''#'' \<notin> set ?p"
    using set_join [of "''/''" "[] # segs"] assms(2) by (auto simp: path_segment_def)
  have path: "takeWhile (\<lambda>c. c \<noteq> CHR ''?'') (?p @ t) = ?p @ takeWhile (\<lambda>c. c \<noteq> CHR ''?'') t"
    "dropWhile (\<lambda>c. c \<noteq> CHR ''?'') (?p @ t) = dropWhile (\<lambda>c. c \<noteq> CHR ''?'') t" for t
    using chars(1) by (auto intro!: takeWhile_append2 dropWhile_append2)
  have "js_split CHR ''/'' ?p = [] # segs"
    using assms(2) by (intro js_split_join) (auto simp: path_segment_def)
  then show ?thesis
    using assms chars path
    by (auto simp: route_request_def Let_def path_segment_def split: option.split)
qed

subsection \<open>Ids\<close>

lemma unreserved_not_query: "uri_unreserved c \<Longrightarrow> c \<notin> set ''&=/?#''"
  by (auto simp: uri_unreserved_def Let_def)

lemma hex_digit_not_query: "d < 16 \<Longrightarrow> hex_digit d \<notin> set ''&=/?#''"
proof -
  assume "d < 16"
  then have "d \<in> set [0..<16]" by simp
  moreover have "\<forall>d\<in>set [0..<16]. hex_digit d \<notin> set ''&=/?#''" by code_simp
  ultimately show ?thesis by blast
qed

lemma percent_byte_not_query: "b < 256 \<Longrightarrow> set (percent_byte b) \<inter> set ''&=/?#'' = {}"
  using hex_digit_not_query [of "b div 16"] hex_digit_not_query [of "b mod 16"] by (auto simp: percent_byte_def)

lemma encoded_not_query: "set (encodeURIComponent s) \<inter> set ''&=/?#'' = {}"
proof -
  have "set (encode_char c) \<inter> set ''&=/?#'' = {}" for c
  proof -
    define n where "n = (of_char c :: nat)"
    have n: "n < 256" by (simp add: n_def)
    then have b: "192 + n div 64 < 256" "128 + n mod 64 < 256" by auto
    show ?thesis
      using unreserved_not_query [of c] percent_byte_not_query [OF n] percent_byte_not_query [OF b(1)]
        percent_byte_not_query [OF b(2)]
      by (auto simp: encode_char_def Let_def n_def)
  qed
  then show ?thesis by (auto simp: encodeURIComponent_def)
qed

lemma encoded_segment:
  assumes "named_id s"
  shows "path_segment (encodeURIComponent s)" "encodeURIComponent s \<noteq> []"
proof -
  have dots: "decodeURIComponent ''.'' = ''.''" "decodeURIComponent ''..'' = ''..''" "decodeURIComponent [] = []"
    by code_simp+
  have "encodeURIComponent s \<noteq> t" if "t \<in> {[], ''.'', ''..''}" for t
    using that dots decode_encode [of s] assms unfolding named_id_def by (metis empty_iff insert_iff)
  then show "path_segment (encodeURIComponent s)" "encodeURIComponent s \<noteq> []"
    using encoded_not_query [of s] by (auto simp: path_segment_def)
qed

lemma decode_plain: "set s \<inter> set ''%'' = {} \<Longrightarrow> decodeURIComponent s = s"
  by (induction s) auto

lemma plain_segment:
  assumes "plain_id s"
  shows "path_segment s" "s \<noteq> []" "decodeURIComponent s = s"
  using assms decode_plain [of s] by (auto simp: plain_id_def path_segment_def)

lemma parse_pair_encoded:
  assumes "CHR ''='' \<notin> set k" "CHR ''%'' \<notin> set k"
  shows "parse_pair (k @ CHR ''='' # encodeURIComponent v) = (k, v)"
proof -
  have "takeWhile (\<lambda>c. c \<noteq> CHR ''='') (k @ CHR ''='' # encodeURIComponent v) = k"
    "dropWhile (\<lambda>c. c \<noteq> CHR ''='') (k @ CHR ''='' # encodeURIComponent v) = CHR ''='' # encodeURIComponent v"
    using assms(1) by (auto simp: takeWhile_tail intro: dropWhile_append2 [THEN trans])
  then show ?thesis using assms(2) by (simp add: parse_pair_def decode_plain)
qed

subsection \<open>Routes\<close>

lemmas matching = route_tables global_prefix_def

lemma match_hosts:
  "first_match Get [''api'', ''hosts''] all_routes = Some (HostsList, [])"
  "e \<noteq> [] \<Longrightarrow> first_match Patch [''api'', ''hosts'', e] all_routes = Some (HostsRename, [(''id'', decodeURIComponent e)])"
  "e \<noteq> [] \<Longrightarrow> first_match Get [''api'', ''hosts'', e, ''metrics''] all_routes =
     Some (HostsMetrics, [(''id'', decodeURIComponent e)])"
  "e \<noteq> [] \<Longrightarrow> first_match Get [''api'', ''hosts'', e, ''containers''] all_routes =
     Some (HostsContainers, [(''id'', decodeURIComponent e)])"
  by (simp_all add: matching)

lemma match_containers:
  "e \<noteq> [] \<Longrightarrow> first_match Get [''api'', ''containers'', e, ''inspect''] all_routes =
     Some (ContainerInspectRoute, [(''id'', decodeURIComponent e)])"
  "e \<noteq> [] \<Longrightarrow> first_match Get [''api'', ''containers'', e, ''logs''] all_routes =
     Some (ContainerLogs, [(''id'', decodeURIComponent e)])"
  by (simp_all add: matching)

lemma match_action:
  "e \<noteq> [] \<Longrightarrow> first_match Post [''api'', ''containers'', e, action_name a] all_routes =
     Some (action_route a, [(''id'', decodeURIComponent e)])"
  by (cases a) (simp_all add: matching action_route_def action_order_def)

text \<open>The literal segments of the addresses.\<close>

lemma fixed_segments:
  "s \<in> {''api'', ''hosts'', ''containers'', ''metrics'', ''inspect'', ''logs''} \<union> range action_name \<Longrightarrow> path_segment s"
proof -
  have "path_segment (action_name a)" for a by (cases a) (simp_all add: path_segment_def)
  then show "s \<in> {''api'', ''hosts'', ''containers'', ''metrics'', ''inspect'', ''logs''} \<union> range action_name \<Longrightarrow> path_segment s"
    by (auto simp: path_segment_def)
qed

lemma arrivesI:
  assumes "fc_url call = origin @ js_join ''/'' ([] # segs) @ (if q = [] then [] else CHR ''?'' # q)"
    and "segs \<noteq> []" "\<forall>s\<in>set segs. path_segment s" "CHR ''#'' \<notin> set q"
    and "first_match (verb_of (fc_method call)) segs all_routes = Some (r, params)"
  shows "arrives origin call = Some (r, params, parse_query q)"
  using route_segments [OF assms(2-4), of "verb_of (fc_method call)"] assms(1,5) by (simp add: arrives_def)

subsection \<open>The calls\<close>

lemmas call_defs = fetchHosts_def fetchHostMetrics_def fetchHostContainers_def runContainerAction_def
  web_inspectContainer_def renameHost_def apiGet_def apiPost_def apiPatch_def request_send_def

lemma host_calls:
  assumes "resolveBaseUrl base = origin @ ''/api''"
  shows "arrives origin (fst (fetchHosts base w)) = Some (HostsList, [], [])"
    and "named_id h \<Longrightarrow> arrives origin (fst (renameHost base h n w)) = Some (HostsRename, [(''id'', h)], [])"
    and "plain_id h \<Longrightarrow> arrives origin (fst (fetchHostMetrics base h w)) = Some (HostsMetrics, [(''id'', h)], [])"
    and "plain_id h \<Longrightarrow> arrives origin (fst (fetchHostContainers base h w)) = Some (HostsContainers, [(''id'', h)], [])"
proof -
  have q: "parse_query [] = []" by (simp add: parse_query_def)
  show "arrives origin (fst (fetchHosts base w)) = Some (HostsList, [], [])"
    by (rule arrivesI [where segs = "[''api'', ''hosts'']" and q = "[]", unfolded q])
      (simp_all add: call_defs assms match_hosts fixed_segments Let_def js_startsWith_def split_beta)
  show "arrives origin (fst (renameHost base h n w)) = Some (HostsRename, [(''id'', h)], [])" if "named_id h"
    by (rule arrivesI [where segs = "[''api'', ''hosts'', encodeURIComponent h]" and q = "[]", unfolded q])
      (simp_all add: call_defs assms match_hosts encoded_segment [OF that] fixed_segments Let_def js_startsWith_def split_beta)
  show "arrives origin (fst (fetchHostMetrics base h w)) = Some (HostsMetrics, [(''id'', h)], [])" if "plain_id h"
    by (rule arrivesI [where segs = "[''api'', ''hosts'', h, ''metrics'']" and q = "[]", unfolded q])
      (simp_all add: call_defs assms match_hosts plain_segment [OF that] fixed_segments Let_def js_startsWith_def split_beta)
  show "arrives origin (fst (fetchHostContainers base h w)) = Some (HostsContainers, [(''id'', h)], [])" if "plain_id h"
    by (rule arrivesI [where segs = "[''api'', ''hosts'', h, ''containers'']" and q = "[]", unfolded q])
      (simp_all add: call_defs assms match_hosts plain_segment [OF that] fixed_segments Let_def js_startsWith_def split_beta)
qed

lemma query_host: "parse_query (''hostId='' @ encodeURIComponent h) = [(''hostId'', h)]"
proof -
  have "CHR ''&'' \<notin> set (''hostId='' @ encodeURIComponent h)" using encoded_not_query [of h] by auto
  then have "js_split CHR ''&'' (''hostId='' @ encodeURIComponent h) = [''hostId='' @ encodeURIComponent h]"
    by (rule js_split_word)
  moreover have "parse_pair (''hostId='' @ encodeURIComponent h) = (''hostId'', h)"
    using parse_pair_encoded [of "''hostId''" h] by simp
  ultimately show ?thesis by (simp add: parse_query_def)
qed

lemma container_calls:
  assumes "resolveBaseUrl base = origin @ ''/api''" "named_id c"
  shows "arrives origin (fst (runContainerAction base c h a f w)) = Some (action_route a, [(''id'', c)], [])"
    and "arrives origin (fst (web_inspectContainer base c h w)) =
           Some (ContainerInspectRoute, [(''id'', c)], [(''hostId'', h)])"
proof -
  have q: "parse_query [] = []" by (simp add: parse_query_def)
  show "arrives origin (fst (runContainerAction base c h a f w)) = Some (action_route a, [(''id'', c)], [])"
    by (rule arrivesI [where segs = "[''api'', ''containers'', encodeURIComponent c, action_name a]" and q = "[]", unfolded q])
      (simp_all add: call_defs assms match_action encoded_segment [OF assms(2)] fixed_segments Let_def js_startsWith_def
        split_beta)
  have "CHR ''#'' \<notin> set (''hostId='' @ encodeURIComponent h)" using encoded_not_query [of h] by auto
  then show "arrives origin (fst (web_inspectContainer base c h w)) =
           Some (ContainerInspectRoute, [(''id'', c)], [(''hostId'', h)])"
    by (intro arrivesI [where segs = "[''api'', ''containers'', encodeURIComponent c, ''inspect'']" and
          q = "''hostId='' @ encodeURIComponent h", unfolded query_host])
      (simp_all add: call_defs assms match_containers encoded_segment [OF assms(2)] fixed_segments Let_def
        js_startsWith_def split_beta)
qed

lemma query_logs:
  "parse_query (''hostId='' @ encodeURIComponent h @ ''&tail='' @ show_nat n @ ''&follow=true'') =
     [(''hostId'', h), (''tail'', show_nat n), (''follow'', ''true'')]"
proof -
  have digits: "set (show_nat n) \<inter> set ''&=/?#%'' = {}"
  proof -
    have "digit_value c = None" if "c \<in> set ''&=/?#%''" for c
      using that by (auto simp: digit_value_def)
    then show ?thesis using show_nat_digit_values [of n] by blast
  qed
  let ?ps = "[''hostId='' @ encodeURIComponent h, ''tail='' @ show_nat n, ''follow=true'']"
  have "js_split CHR ''&'' (js_join ''&'' ?ps) = ?ps"
    using digits encoded_not_query [of h] by (intro js_split_join) auto
  moreover have "parse_pair (''hostId='' @ encodeURIComponent h) = (''hostId'', h)"
    using parse_pair_encoded [of "''hostId''" h] by simp
  moreover have "encodeURIComponent (show_nat n) = show_nat n"
  proof -
    have "uri_unreserved c" if "digit_value c \<noteq> None" for c
      using that by (auto simp: digit_value_def uri_unreserved_def Let_def split: if_splits)
    then have "concat (map encode_char s) = s" if "\<forall>c\<in>set s. digit_value c \<noteq> None" for s
      using that by (induction s) (auto simp: encode_char_def)
    then show ?thesis using show_nat_digit_values [of n] by (simp add: encodeURIComponent_def)
  qed
  then have "parse_pair (''tail='' @ show_nat n) = (''tail'', show_nat n)"
    using parse_pair_encoded [of "''tail''" "show_nat n"] by simp
  moreover have "parse_pair ''follow=true'' = (''follow'', ''true'')" by code_simp
  ultimately show ?thesis by (simp add: parse_query_def)
qed

lemma log_call:
  assumes "resolveBaseUrl base = origin @ ''/api''" "named_id c"
    and "fst (open_stream base (Some h) (Some c) n w hook) = Some call"
  shows "arrives origin call = Some (ContainerLogs, [(''id'', c)],
           [(''hostId'', h), (''tail'', show_nat n), (''follow'', ''true'')])"
proof -
  have call: "fc_method call = GET" "fc_url call = logs_url base h c n"
    using assms(3) by (auto simp: open_stream_def Let_def split: if_splits prod.splits)
  have "CHR ''#'' \<notin> set (show_nat n)"
    using show_nat_digit_values [of n] by (auto simp: digit_value_def)
  then have "CHR ''#'' \<notin> set (''hostId='' @ encodeURIComponent h @ ''&tail='' @ show_nat n @ ''&follow=true'')"
    using encoded_not_query [of h] by auto
  then show ?thesis
    by (intro arrivesI [where segs = "[''api'', ''containers'', encodeURIComponent c, ''logs'']" and
          q = "''hostId='' @ encodeURIComponent h @ ''&tail='' @ show_nat n @ ''&follow=true''", unfolded query_logs])
      (simp_all add: call logs_url_def assms(1) match_containers encoded_segment [OF assms(2)] fixed_segments)
qed



text \<open>
  The two calls that put the id of a host into the address unencoded arrive as meant when it contains no
  character that an address reserves; the ids the server gives out do not.
\<close>

lemma unencoded_ids_arrive:
  assumes "resolveBaseUrl base = origin @ ''/api''" "plain_id h"
  shows "arrives origin (fst (fetchHostMetrics base h w)) = Some (HostsMetrics, [(''id'', h)], [])"
    and "arrives origin (fst (fetchHostContainers base h w)) = Some (HostsContainers, [(''id'', h)], [])"
  using host_calls(3,4) [OF assms(1)] assms(2) by blast+

lemma unencoded_slash_misses:
  "arrives ''http://localhost:3000'' (fst (fetchHostContainers None ''a/b'' (web_init None))) = None"
  by code_simp

end
