(* ===== verification/WebAuthForms.thy ===== *)
theory WebAuthForms
  imports WebSession
begin

section \<open>The forms before a session: signing in and first-run setup\<close>

text \<open>
  \<open>features/auth/AuthLayout.tsx\<close>, \<open>LoginPage.tsx\<close> and \<open>SetupPage.tsx\<close>: what the two screens show and the
  life of their forms. The requests themselves and the gates of the pages are in \<open>WebSession\<close>; here a
  form types, sends, and is told how its request ended. A form is sent by its button or by the Enter
  key, which browsers ignore while the submit button is disabled.
\<close>

subsection \<open>The shell\<close>

definition MAINTAINER_ATTRIBUTION :: string where
  "MAINTAINER_ATTRIBUTION = ''Maintained by Open Source Kigali''"

text \<open>
  \<open>AuthLayout\<close> as the texts visible at a width: \<open>lg\<close> says whether the window is at least as wide as the
  breakpoint at which the introduction stands beside the form.
\<close>

definition brand_panel :: "string list" where
  "brand_panel =
     [''DockSight'', ''Container monitoring platform'', ''Every Docker host you run, in one dashboard.'',
      ''Agents connect outbound - no inbound ports to open'', ''Live container logs and lifecycle control'',
      ''One install command per host'', MAINTAINER_ATTRIBUTION]"

definition AuthLayout :: "bool \<Rightarrow> string \<Rightarrow> string \<Rightarrow> string list \<Rightarrow> string list" where
  "AuthLayout lg title_text description children =
     (if lg then brand_panel else []) @
     (if lg then [] else [''DockSight'']) @ [title_text, description] @ children @
     (if lg then [] else [MAINTAINER_ATTRIBUTION])"

text \<open>\<open>FormField\<close> around an \<open>Input\<close>, and \<open>FormError\<close>; a hint carries whether it is a warning.\<close>

record form_field =
  ff_label :: string
  ff_id :: string
  ff_type :: string
  ff_autoComplete :: string
  ff_value :: string
  ff_hint :: "(bool \<times> string) option"

definition FormField :: "string \<Rightarrow> string \<Rightarrow> string \<Rightarrow> string \<Rightarrow> string \<Rightarrow> (bool \<times> string) option \<Rightarrow> form_field" where
  "FormField label html_for type auto_complete v hint =
     \<lparr>ff_label = label, ff_id = html_for, ff_type = type, ff_autoComplete = auto_complete, ff_value = v,
      ff_hint = (case hint of None \<Rightarrow> None | Some (warn, t) \<Rightarrow> if t = [] then None else hint)\<rparr>"

definition FormError :: "string option \<Rightarrow> string option" where
  "FormError message = (if truthy_str message then message else None)"

subsection \<open>The state of a form\<close>

text \<open>
  The hooks of the two pages (\<open>fo_confirm\<close> is used by setup only), with the credentials of the requests
  sent, how many of them have ended, and where the page has navigated.
\<close>

record auth_form =
  fo_email :: string
  fo_password :: string
  fo_confirm :: string
  fo_error :: "string option"
  fo_submitting :: bool
  fo_sent :: "(string \<times> string) list"
  fo_ended :: nat
  fo_target :: "string option"

definition form_init :: auth_form where
  "form_init =
     \<lparr>fo_email = '''', fo_password = '''', fo_confirm = '''', fo_error = None, fo_submitting = False, fo_sent = [],
      fo_ended = 0, fo_target = None\<rparr>"

definition outstanding :: "auth_form \<Rightarrow> nat" where
  "outstanding f = length (fo_sent f) - fo_ended f"

datatype form_event =
    TypeEmail string
  | TypePassword string
  | TypeConfirm string
  | Submit
  | Ended "thrown + bool"

fun typed :: "form_event \<Rightarrow> auth_form \<Rightarrow> auth_form" where
  "typed (TypeEmail v) f = f\<lparr>fo_email := v\<rparr>"
| "typed (TypePassword v) f = f\<lparr>fo_password := v\<rparr>"
| "typed (TypeConfirm v) f = f\<lparr>fo_confirm := v\<rparr>"
| "typed e f = f"

definition send_form :: "auth_form \<Rightarrow> auth_form" where
  "send_form f =
     f\<lparr>fo_error := None, fo_submitting := True, fo_sent := fo_sent f @ [(fo_email f, fo_password f)]\<rparr>"

text \<open>The end of \<open>handleSubmit\<close>: the error or the navigation, then \<open>finally\<close>.\<close>

definition end_form :: "string + string \<Rightarrow> auth_form \<Rightarrow> auth_form" where
  "end_form r f =
     (let f' = (case r of Inl m \<Rightarrow> f\<lparr>fo_error := Some m\<rparr> | Inr path \<Rightarrow> f\<lparr>fo_target := Some path\<rparr>)
      in f'\<lparr>fo_submitting := False, fo_ended := Suc (fo_ended f')\<rparr>)"

subsection \<open>Signing in\<close>

definition login_disabled :: "auth_form \<Rightarrow> bool" where
  "login_disabled f = login_button_disabled (fo_submitting f) (fo_email f) (fo_password f)"

fun login_step :: "string option \<Rightarrow> form_event \<Rightarrow> auth_form \<Rightarrow> auth_form" where
  "login_step dest Submit f = (if login_disabled f then f else send_form f)"
| "login_step dest (Ended r) f = (if outstanding f = 0 then f else end_form (login_submitted dest r) f)"
| "login_step dest e f = typed e f"

record form_view =
  fv_error :: "string option"
  fv_fields :: "form_field list"
  fv_disabled :: bool
  fv_button :: string

definition login_view :: "auth_form \<Rightarrow> form_view" where
  "login_view f =
     \<lparr>fv_error = FormError (fo_error f),
      fv_fields =
        [FormField ''Email'' ''email'' ''email'' ''username'' (fo_email f) None,
         FormField ''Password'' ''password'' ''password'' ''current-password'' (fo_password f) None],
      fv_disabled = login_disabled f,
      fv_button = (if fo_submitting f then ''Signing in...'' else ''Sign in'')\<rparr>"

subsection \<open>First-run setup\<close>

definition MIN_PASSWORD_LENGTH :: nat where
  "MIN_PASSWORD_LENGTH = 8"

definition setup_disabled :: "auth_form \<Rightarrow> bool" where
  "setup_disabled f = setup_button_disabled (fo_submitting f) (fo_email f) (fo_password f) (fo_confirm f)"

fun setup_step :: "form_event \<Rightarrow> auth_form \<Rightarrow> auth_form" where
  "setup_step Submit f =
     (if setup_disabled f then f
      else if fo_password f \<noteq> fo_confirm f then f\<lparr>fo_error := Some ''Passwords do not match''\<rparr>
      else send_form f)"
| "setup_step (Ended r) f = (if outstanding f = 0 then f else end_form (setup_submitted r) f)"
| "setup_step e f = typed e f"

definition setup_view :: "auth_form \<Rightarrow> form_view" where
  "setup_view f =
     \<lparr>fv_error = FormError (fo_error f),
      fv_fields =
        [FormField ''Email'' ''email'' ''email'' ''username'' (fo_email f) None,
         FormField ''Password'' ''password'' ''password'' ''new-password'' (fo_password f)
           (Some (if setup_tooShort (fo_password f)
                  then (True, ''Must be at least '' @ show_nat MIN_PASSWORD_LENGTH @ '' characters'')
                  else (False, ''At least '' @ show_nat MIN_PASSWORD_LENGTH @ '' characters.''))),
         FormField ''Confirm password'' ''confirm'' ''password'' ''new-password'' (fo_confirm f)
           (if setup_mismatch (fo_password f) (fo_confirm f) then Some (True, ''Passwords do not match'') else None)],
      fv_disabled = setup_disabled f,
      fv_button = (if fo_submitting f then ''Creating account...'' else ''Create administrator'')\<rparr>"

subsection \<open>What both forms promise\<close>

locale submit_form =
  fixes step :: "form_event \<Rightarrow> auth_form \<Rightarrow> auth_form"
    and disabled :: "auth_form \<Rightarrow> bool"
    and acceptable :: "string \<Rightarrow> string \<Rightarrow> bool"
    and finish :: "thrown + bool \<Rightarrow> string + string"
  assumes busy: "fo_submitting f \<Longrightarrow> disabled f"
    and ignored: "disabled f \<Longrightarrow> step Submit f = f"
    and sends: "\<not> disabled f \<Longrightarrow> step Submit f = send_form f \<and> acceptable (fo_email f) (fo_password f)"
    and ends: "step (Ended r) f = (if outstanding f = 0 then f else end_form (finish r) f)"
    and typing: "e \<noteq> Submit \<Longrightarrow> (\<And>r. e \<noteq> Ended r) \<Longrightarrow> step e f = typed e f"
begin

definition form_inv :: "auth_form \<Rightarrow> bool" where
  "form_inv f \<longleftrightarrow>
     length (fo_sent f) = fo_ended f + (if fo_submitting f then 1 else 0) \<and>
     (\<forall>(e, p)\<in>set (fo_sent f). acceptable e p)"

lemma form_inv_init: "form_inv form_init"
  by (simp add: form_inv_def form_init_def)

lemma form_inv_step:
  assumes "form_inv f"
  shows "form_inv (step e f)"
proof (cases e)
  case Submit
  then show ?thesis
    using assms ignored [of f] sends [of f] busy [of f]
    by (cases "disabled f") (auto simp: form_inv_def send_form_def)
next
  case (Ended r)
  then show ?thesis
    using assms by (auto simp: ends form_inv_def end_form_def outstanding_def Let_def split: sum.split if_splits)
qed (use assms in \<open>simp_all add: typing form_inv_def\<close>)

lemma form_inv_run: "form_inv (fold step es form_init)"
proof -
  have "form_inv f \<Longrightarrow> form_inv (fold step es f)" for f
    by (induction es arbitrary: f) (auto intro: form_inv_step)
  then show ?thesis using form_inv_init by blast
qed

lemma one_request:
  "outstanding (fold step es form_init) = (if fo_submitting (fold step es form_init) then 1 else 0)"
  using form_inv_run [of es] by (simp add: form_inv_def outstanding_def)

lemma sent_acceptable: "(e, p) \<in> set (fo_sent (fold step es form_init)) \<Longrightarrow> acceptable e p"
  using form_inv_run [of es] by (auto simp: form_inv_def)

lemma end_frees: "\<not> fo_submitting (step (Ended r) (fold step es form_init))"
  using one_request [of es] by (auto simp: ends end_form_def Let_def split: sum.split if_splits)

end

definition login_acceptable :: "string \<Rightarrow> string \<Rightarrow> bool" where
  "login_acceptable e p \<longleftrightarrow> e \<noteq> [] \<and> p \<noteq> []"

definition setup_acceptable :: "string \<Rightarrow> string \<Rightarrow> bool" where
  "setup_acceptable e p \<longleftrightarrow> e \<noteq> [] \<and> 8 \<le> length p"

interpretation login_form: submit_form "login_step dest" login_disabled login_acceptable "login_submitted dest" for dest
proof (unfold_locales, goal_cases)
  case (5 e f)
  then show ?case by (cases e) auto
qed (auto simp: login_disabled_def login_button_disabled_def login_acceptable_def)

interpretation setup_form: submit_form setup_step setup_disabled setup_acceptable setup_submitted
proof (unfold_locales, goal_cases)
  case (5 e f)
  then show ?case by (cases e) auto
qed (auto simp: setup_disabled_def setup_button_disabled_def setup_acceptable_def)

text \<open>
  C17. Whatever is typed and pressed, and however the requests end, the form of the login screen and the
  form of first-run setup each have at most one request under way, exactly while they show that they
  are busy; what they send has an address and a password, of at least eight characters for setup; and
  when a request ends the form can be used again.
\<close>

theorem one_request_per_form:
  "(\<forall>f e p. f = fold (login_step dest) es form_init \<longrightarrow>
      outstanding f \<le> 1 \<and> (outstanding f = 1 \<longleftrightarrow> fv_button (login_view f) = ''Signing in...'') \<and>
      ((e, p) \<in> set (fo_sent f) \<longrightarrow> e \<noteq> [] \<and> p \<noteq> []) \<and> \<not> fo_submitting (login_step dest (Ended r) f)) \<and>
   (\<forall>f e p. f = fold setup_step es form_init \<longrightarrow>
      outstanding f \<le> 1 \<and> (outstanding f = 1 \<longleftrightarrow> fv_button (setup_view f) = ''Creating account...'') \<and>
      ((e, p) \<in> set (fo_sent f) \<longrightarrow> e \<noteq> [] \<and> 8 \<le> length p) \<and> \<not> fo_submitting (setup_step (Ended r) f))"
  using login_form.one_request login_form.sent_acceptable login_form.end_frees
    setup_form.one_request setup_form.sent_acceptable setup_form.end_frees
  by (auto simp: login_view_def setup_view_def login_acceptable_def setup_acceptable_def simp del: login_step.simps setup_step.simps)

theorem one_request_per_form_witness:
  "outstanding (fold (login_step None) [TypeEmail ''a@x'', TypePassword ''pw'', Submit, Submit] form_init) \<le> 1"
  using one_request_per_form [of None "[TypeEmail ''a@x'', TypePassword ''pw'', Submit, Submit]"] by blast

text \<open>At every width the product is named and its maintainer credited exactly once around the form.\<close>

lemma attribution_once:
  assumes "MAINTAINER_ATTRIBUTION \<notin> set ([t, d] @ children)" "''DockSight'' \<notin> set ([t, d] @ children)"
  shows "count_list (AuthLayout lg t d children) MAINTAINER_ATTRIBUTION = 1 \<and>
         count_list (AuthLayout lg t d children) ''DockSight'' = 1"
  using assms by (cases lg) (auto simp: AuthLayout_def brand_panel_def MAINTAINER_ATTRIBUTION_def)

end
