(* ===== verification/WebFrame.thy ===== *)
theory WebFrame
  imports WebLayout WebAuthForms
begin

section \<open>Navigation, menus and overlays together\<close>

text \<open>
  \<open>components/layout/Sidebar.tsx\<close>, \<open>Topbar.tsx\<close>, \<open>AppShell.tsx\<close>, \<open>ui/drawer.tsx\<close>, \<open>ui/dropdown.tsx\<close> and
  \<open>ui/empty-state.tsx\<close> as far as several of them act on the same events: the links of the side bar against the
  routes of \<open>App.tsx\<close>, the three menus of the top bar against one pointer and one keyboard, and a drawer
  under a confirmation dialog. A slot of a component that holds a text is an option; an empty text is
  falsy and leaves its element out.
\<close>

subsection \<open>Slots\<close>

definition slot :: "string option \<Rightarrow> string option" where
  "slot v = (if truthy_str v then v else None)"

record page_header =
  pg_breadcrumb :: "string option"
  pg_title :: string
  pg_description :: "string option"
  pg_actions :: "string option"

definition PageHeader :: "string \<Rightarrow> string option \<Rightarrow> string option \<Rightarrow> string option \<Rightarrow> page_header" where
  "PageHeader heading description actions breadcrumb =
     \<lparr>pg_breadcrumb = slot breadcrumb, pg_title = heading, pg_description = slot description,
      pg_actions = slot actions\<rparr>"

definition SectionHeader :: "string \<Rightarrow> string option \<Rightarrow> string option \<Rightarrow> string \<times> string option \<times> string option" where
  "SectionHeader heading description actions = (heading, slot description, slot actions)"

definition EmptyState :: "string \<Rightarrow> string option \<Rightarrow> string option \<Rightarrow> string \<times> string option \<times> string option" where
  "EmptyState heading description action = (heading, slot description, action)"

text \<open>The panel of a drawer: nothing while it is closed.\<close>

record drawer_panel =
  dp_wide :: bool
  dp_title :: string
  dp_subtitle :: "string option"
  dp_header :: "string option"
  dp_children :: "string list"
  dp_footer :: "string option"

definition Drawer ::
  "bool \<Rightarrow> bool \<Rightarrow> string \<Rightarrow> string option \<Rightarrow> string option \<Rightarrow> string option \<Rightarrow> string list \<Rightarrow> drawer_panel option"
where
  "Drawer is_open large heading subtitle header_extra footer children =
     (if \<not> is_open then None
      else Some \<lparr>dp_wide = large, dp_title = heading, dp_subtitle = slot subtitle, dp_header = header_extra,
                 dp_children = children, dp_footer = slot footer\<rparr>)"

subsection \<open>The links of the side bar\<close>

text \<open>
  \<open>NavLink\<close> is active on its own address and below it, compared without case. A link is
  its address, label, whether it is marked as a mock, and whether it is active.
\<close>

definition isActive :: "string \<Rightarrow> string \<Rightarrow> bool" where
  "isActive pathname to =
     (let p = js_toLowerCase pathname; t = js_toLowerCase to
      in p = t \<or> js_startsWith p (t @ ''/''))"

record sidebar =
  sb_overlay :: bool
  sb_shown :: bool
  sb_links :: "(string \<times> string \<times> bool \<times> bool) list"
  sb_footer :: "string \<times> string \<times> string \<times> bool \<times> string"

definition Sidebar :: "bool \<Rightarrow> string \<Rightarrow> web \<Rightarrow> theme_world \<Rightarrow> sidebar" where
  "Sidebar mobileOpen pathname w t =
     \<lparr>sb_overlay = mobileOpen, sb_shown = mobileOpen,
      sb_links = map (\<lambda>item. (ni_to item, ni_label item, ni_mock item, isActive pathname (ni_to item))) PRIMARY_NAV,
      sb_footer = SidebarFooter w t\<rparr>"

definition pathname_of :: "string list \<Rightarrow> string" where
  "pathname_of path = concat (map (\<lambda>s. CHR ''/'' # s) path)"

definition active_links :: "sidebar \<Rightarrow> string list" where
  "active_links s = map (\<lambda>(to, label, m, a). label) (filter (\<lambda>(to, label, m, a). a) (sb_links s))"

text \<open>The label of the link under which a page belongs.\<close>

fun page_section :: "page \<Rightarrow> string option" where
  "page_section PageDashboard = Some ''Dashboard''"
| "page_section PageHosts = Some ''Hosts''"
| "page_section (PageHostDetails h) = Some ''Hosts''"
| "page_section PageContainers = Some ''Containers''"
| "page_section PageImages = Some ''Images''"
| "page_section PageNetworks = Some ''Networks''"
| "page_section PageVolumes = Some ''Volumes''"
| "page_section PageMetrics = Some ''Metrics''"
| "page_section PageSettings = Some ''Settings''"
| "page_section p = None"

text \<open>
  On every page of the application exactly one link of the side bar is marked as the current one, the
  one the page belongs to (the details of a host, whatever its id, are under Hosts), and every link leads
  to a page.
\<close>

theorem navigation_marks_the_page:
  "(case page_section (AppRoutes path) of
      Some label \<Rightarrow> active_links (Sidebar mobileOpen (pathname_of path) w t) = [label]
    | None \<Rightarrow> True) \<and>
   (\<forall>item\<in>set PRIMARY_NAV. page_section (AppRoutes [drop 1 (ni_to item)]) = Some (ni_label item))"
proof
  show "\<forall>item\<in>set PRIMARY_NAV. page_section (AppRoutes [drop 1 (ni_to item)]) = Some (ni_label item)"
    by (simp add: PRIMARY_NAV_def)
  show "case page_section (AppRoutes path) of
      Some label \<Rightarrow> active_links (Sidebar mobileOpen (pathname_of path) w t) = [label]
    | None \<Rightarrow> True"
    by (cases path rule: AppRoutes.cases)
      (auto simp: active_links_def Sidebar_def PRIMARY_NAV_def isActive_def pathname_of_def js_toLowerCase_def
        js_startsWith_def js_lower_char_def Let_def)
qed

theorem navigation_marks_the_page_witness:
  "\<forall>t. active_links (Sidebar False ''/hosts/h1'' (web_init None) t) = [''Hosts'']"
proof
  fix t
  show "active_links (Sidebar False ''/hosts/h1'' (web_init None) t) = [''Hosts'']"
    using navigation_marks_the_page [where path = "[''hosts'', ''h1'']" and mobileOpen = False and w = "web_init None" and t = t]
    by (simp add: pathname_of_def)
qed

subsection \<open>The menus of the top bar\<close>

text \<open>
  The three menus (workspaces, notifications, account), each a \<open>Dropdown\<close> with its own state. A click is
  a pointer press, which every open menu hears, and then the click itself; a trigger that has the focus
  can also be worked with a key, without a pointer.
\<close>

datatype top_menu = WorkspaceMenu | NotificationsMenu | AccountMenu

datatype gesture = ClickTrigger top_menu | KeyTrigger top_menu | ClickItem top_menu | ClickElsewhere | PressKey string

definition pointer_down :: "top_menu option \<Rightarrow> (top_menu \<Rightarrow> bool) \<Rightarrow> top_menu \<Rightarrow> bool" where
  "pointer_down target m = (\<lambda>k. dropdown_step (if target = Some k then DropdownInside else DropdownOutside) (m k))"

fun menus_step :: "gesture \<Rightarrow> (top_menu \<Rightarrow> bool) \<Rightarrow> top_menu \<Rightarrow> bool" where
  "menus_step (ClickTrigger k) m =
     (let m' = pointer_down (Some k) m in m'(k := dropdown_step DropdownToggle (m' k)))"
| "menus_step (KeyTrigger k) m = m(k := dropdown_step DropdownToggle (m k))"
| "menus_step (ClickItem k) m =
     (let m' = pointer_down (Some k) m in if m' k then m'(k := dropdown_step DropdownClose (m' k)) else m')"
| "menus_step ClickElsewhere m = pointer_down None m"
| "menus_step (PressKey key) m = (\<lambda>k. dropdown_step (DropdownKey key) (m k))"

text \<open>What the notifications menu lists while it is open: the mark of each entry and its three texts.\<close>

definition notifications_view :: "(top_menu \<Rightarrow> bool) \<Rightarrow> (StatusTone \<times> string \<times> string \<times> string) list option" where
  "notifications_view m = (if m NotificationsMenu then Some MOCK_NOTIFICATIONS else None)"

definition menus_exclusive :: "(top_menu \<Rightarrow> bool) \<Rightarrow> bool" where
  "menus_exclusive m \<longleftrightarrow> (\<forall>k l. m k \<longrightarrow> m l \<longrightarrow> k = l)"

fun by_pointer :: "gesture \<Rightarrow> bool" where
  "by_pointer (KeyTrigger k) = False"
| "by_pointer g = True"

lemma menus_exclusive_step:
  "by_pointer g \<Longrightarrow> menus_exclusive m \<Longrightarrow> menus_exclusive (menus_step g m)"
  by (cases g) (auto simp: menus_exclusive_def pointer_down_def Let_def split: if_splits)

lemma menus_exclusive_run:
  "\<forall>g\<in>set gs. by_pointer g \<Longrightarrow> menus_exclusive m \<Longrightarrow> menus_exclusive (fold menus_step gs m)"
  by (induction gs arbitrary: m) (simp_all add: menus_exclusive_step)

text \<open>
  With a pointer at most one menu of the top bar is open at any time: whatever is clicked, in whatever
  order, opening one closes the others, and Escape closes it.
\<close>

theorem one_menu_at_a_time:
  assumes "\<forall>g\<in>set gs. by_pointer g"
  shows "menus_exclusive (fold menus_step gs (\<lambda>k. False)) \<and>
         (\<forall>k. \<not> menus_step (PressKey ''Escape'') (fold menus_step gs (\<lambda>k. False)) k)"
  using menus_exclusive_run [OF assms, of "\<lambda>k. False"] by (simp add: menus_exclusive_def)

theorem one_menu_at_a_time_witness:
  "menus_exclusive (fold menus_step [ClickTrigger WorkspaceMenu, ClickTrigger AccountMenu] (\<lambda>k. False))"
  using one_menu_at_a_time [of "[ClickTrigger WorkspaceMenu, ClickTrigger AccountMenu]"] by simp

text \<open>With the keyboard two menus can be open over each other.\<close>

lemma two_menus_by_keyboard:
  "\<not> menus_exclusive (fold menus_step [KeyTrigger WorkspaceMenu, KeyTrigger AccountMenu] (\<lambda>k. False))"
  by (auto simp: menus_exclusive_def intro!: exI [of _ WorkspaceMenu] exI [of _ AccountMenu])

subsection \<open>A confirmation over a drawer\<close>

text \<open>
  Escape reaches every listener there is: that of the open drawer (on the document) and that of the
  dialog (on the window), neither of which stops the event.
\<close>

record overlays =
  ov_drawers :: page_drawers
  ov_dialog :: confirm_provider

definition escape_pressed :: "overlays \<Rightarrow> overlays" where
  "escape_pressed o' =
     (let d = ov_drawers o';
          d1 = (if shown_drawer (dr_inspecting d) \<noteq> None then drawer_step CloseInspect d else d);
          d2 = (if shown_drawer (dr_viewingLogs d) \<noteq> None then drawer_step CloseLogs d1 else d1)
      in \<lparr>ov_drawers = d2, ov_dialog = dialog_step PressEscape (ov_dialog o')\<rparr>)"

lemma escape_closes_drawer_with_dialog:
  assumes "shown_drawer (dr_inspecting (ov_drawers o')) \<noteq> None" "cp_request (ov_dialog o') \<noteq> None"
  shows "cp_request (ov_dialog (escape_pressed o')) = None \<and> dr_inspecting (ov_drawers (escape_pressed o')) = None"
  using assms by (auto simp: escape_pressed_def Let_def confirm_settle_def)

subsection \<open>Clicks on the card of a host\<close>

text \<open>
  React hands a click to the handlers of the element clicked and of those around it, from the inside
  out, until one stops it; an element rendered through a portal counts as inside the component that
  renders it, wherever it is on the page. Each entry of a path is what its handler does, and whether it stops
  the click. A disabled button or menu item of the kit has the style \<open>pointer-events-none\<close>: the
  click goes to what is behind it, as if the button were not there.
\<close>

datatype click_effect = Navigate string | RefreshHost string | BeginRename | ToggleMenu | CloseMenu | CloseDialog

fun bubble :: "('e list \<times> bool) list \<Rightarrow> 'e list" where
  "bubble [] = []"
| "bubble ((es, stops) # hs) = es @ (if stops then [] else bubble hs)"

datatype card_target =
    CardItself | MenuTrigger | MenuArea | MenuOpen | MenuRefresh | MenuRename
  | MenuDisconnect | ButtonOpen | ButtonRefresh | ButtonDisconnect | DialogForm | DialogBackdrop

definition card_handler :: "Host \<Rightarrow> click_effect list \<times> bool" where
  "card_handler h = ([Navigate (''/hosts/'' @ ho_id h)], False)"

definition menu_path :: "Host \<Rightarrow> click_effect list \<Rightarrow> (click_effect list \<times> bool) list" where
  "menu_path h es = [(es, False), ([], True), card_handler h]"

definition button_path :: "Host \<Rightarrow> click_effect \<Rightarrow> (click_effect list \<times> bool) list" where
  "button_path h e = [([e], True), card_handler h]"

definition backdrop_handler :: "bool \<Rightarrow> click_effect list \<times> bool" where
  "backdrop_handler pending = (if pending then [] else [CloseDialog], False)"

fun card_path :: "Host \<Rightarrow> bool \<Rightarrow> card_target \<Rightarrow> (click_effect list \<times> bool) list" where
  "card_path h pending CardItself = [card_handler h]"
| "card_path h pending MenuTrigger = button_path h ToggleMenu"
| "card_path h pending MenuArea = menu_path h []"
| "card_path h pending MenuOpen = menu_path h [Navigate (''/hosts/'' @ ho_id h), CloseMenu]"
| "card_path h pending MenuRefresh = menu_path h [RefreshHost (ho_id h), CloseMenu]"
| "card_path h pending MenuRename = menu_path h [BeginRename, CloseMenu]"
| "card_path h pending MenuDisconnect = menu_path h []"
| "card_path h pending ButtonOpen = button_path h (Navigate (''/hosts/'' @ ho_id h))"
| "card_path h pending ButtonRefresh = button_path h (RefreshHost (ho_id h))"
| "card_path h pending ButtonDisconnect = [card_handler h]"
| "card_path h pending DialogForm = [([], True), card_handler h]"
| "card_path h pending DialogBackdrop = [backdrop_handler pending, card_handler h]"

definition card_click :: "Host \<Rightarrow> bool \<Rightarrow> card_target \<Rightarrow> click_effect list" where
  "card_click h pending target = bubble (card_path h pending target)"

text \<open>
  A click on a control of a host card does what the control says and nothing else: it opens the host,
  once, for the card itself and the two controls named so, and otherwise stays on the page. The two
  exceptions open the host as well: the backdrop of the rename dialog, whose click cancels the dialog, and
  the button Disconnect, which is always disabled and lets the click through to the card.
\<close>

theorem card_controls_do_what_they_say:
  "(target \<notin> {DialogBackdrop, ButtonDisconnect} \<longrightarrow>
      filter (\<lambda>e. \<exists>p. e = Navigate p) (card_click h pending target) =
        (if target \<in> {CardItself, MenuOpen, ButtonOpen} then [Navigate (''/hosts/'' @ ho_id h)] else [])) \<and>
   (target \<in> {MenuRefresh, ButtonRefresh} \<longleftrightarrow> RefreshHost (ho_id h) \<in> set (card_click h pending target)) \<and>
   (target = MenuRename \<longleftrightarrow> BeginRename \<in> set (card_click h pending target)) \<and>
   card_click h False DialogBackdrop = [CloseDialog, Navigate (''/hosts/'' @ ho_id h)] \<and>
   card_click h pending ButtonDisconnect = [Navigate (''/hosts/'' @ ho_id h)]"
  by (cases target) (simp_all add: card_click_def menu_path_def button_path_def card_handler_def backdrop_handler_def)

theorem card_controls_do_what_they_say_witness:
  "filter (\<lambda>e. \<exists>p. e = Navigate p) (card_click demo_host False ButtonRefresh) = []"
  using card_controls_do_what_they_say [of ButtonRefresh demo_host False] by simp

subsection \<open>Clicks on the row of a container\<close>

text \<open>
  The same for a row of the container table: the row opens the details of its container, the buttons, the
  menu and the copy icon stop the click, and the link on the ports does not.
\<close>

datatype row_effect = Inspect | Act ContainerAction | CopyId string | FollowLink string | ToggleRowMenu

datatype row_target = RowItself | CopyButton | PortsLink | ActionButton ContainerAction | RowMenuTrigger

definition row_handler :: "bool \<Rightarrow> row_effect list \<times> bool" where
  "row_handler has_onInspect = (if has_onInspect then [Inspect] else [], False)"

definition action_path :: "bool \<Rightarrow> icon_action \<Rightarrow> (row_effect list \<times> bool) list" where
  "action_path has_onInspect a =
     (if ia_disabled a then [] else [([Act (ia_action a)], True)]) @ [row_handler has_onInspect]"

fun row_path ::
  "string option \<Rightarrow> bool \<Rightarrow> bool \<Rightarrow> bool \<Rightarrow> ContainerRow \<Rightarrow> row_target \<Rightarrow> (row_effect list \<times> bool) list"
where
  "row_path busyKey canManage has_onAction has_onInspect c RowItself = [row_handler has_onInspect]"
| "row_path busyKey canManage has_onAction has_onInspect c CopyButton =
     [([CopyId (c_id c)], True), row_handler has_onInspect]"
| "row_path busyKey canManage has_onAction has_onInspect c PortsLink =
     (case ports_link c of
        Some href \<Rightarrow> [([FollowLink href], False), row_handler has_onInspect]
      | None \<Rightarrow> [row_handler has_onInspect])"
| "row_path busyKey canManage has_onAction has_onInspect c (ActionButton action) =
     (case find (\<lambda>a. ia_action a = action) (row_actions busyKey canManage has_onAction c) of
        Some a \<Rightarrow> action_path has_onInspect a
      | None \<Rightarrow> [])"
| "row_path busyKey canManage has_onAction has_onInspect c RowMenuTrigger =
     [([ToggleRowMenu], True), row_handler has_onInspect]"

definition row_click ::
  "string option \<Rightarrow> bool \<Rightarrow> bool \<Rightarrow> bool \<Rightarrow> ContainerRow \<Rightarrow> row_target \<Rightarrow> row_effect list"
where
  "row_click busyKey canManage has_onAction has_onInspect c target =
     bubble (row_path busyKey canManage has_onAction has_onInspect c target)"

definition can_press :: "string option \<Rightarrow> bool \<Rightarrow> bool \<Rightarrow> ContainerRow \<Rightarrow> ContainerAction \<Rightarrow> bool" where
  "can_press busyKey canManage has_onAction c action =
     (canManage \<and> has_onAction \<and> \<not> row_busy busyKey c \<and>
      (if action = Start then row_state c \<notin> {''running'', ''paused''}
       else action \<in> {Stop, Restart} \<and> row_state c = ''running''))"

lemma click_action:
  assumes "action \<in> {Start, Stop, Restart}"
  shows "row_click busyKey canManage has_onAction has_onInspect c (ActionButton action) =
    (if can_press busyKey canManage has_onAction c action then [Act action]
     else if has_onInspect then [Inspect] else [])"
  using assms
  by (auto simp: row_click_def row_actions_def IconAction_def action_path_def row_handler_def can_press_def Let_def)

lemma click_no_action:
  assumes "action \<notin> {Start, Stop, Restart}"
  shows "row_click busyKey canManage has_onAction has_onInspect c (ActionButton action) = []"
  using assms by (auto simp: row_click_def row_actions_def IconAction_def Let_def)

lemma second_press_opens_details:
  "row_click (Some (c_id c @ '':'' @ rest)) canManage has_onAction True c (ActionButton Stop) = [Inspect]"
  by (simp add: click_action can_press_def row_busy_def js_startsWith_def)

text \<open>
  C30. A click anywhere in a row issues a command exactly when it is on the button of that command, by an
  administrator, in a state the command applies to, with no command of the container shown as under way.
  The click opens the container's details on the row itself, but also on the ports link and on every button that is
  disabled: a second press of Stop while the first is under way opens the details.
\<close>

theorem row_clicks_act_or_inspect:
  "(Act action \<in> set (row_click busyKey canManage has_onAction True c target) \<longleftrightarrow>
      target = ActionButton action \<and> can_press busyKey canManage has_onAction c action) \<and>
   (Inspect \<in> set (row_click busyKey canManage has_onAction True c target) \<longleftrightarrow>
      target \<in> {RowItself, PortsLink} \<or>
      (\<exists>a. a \<in> {Start, Stop, Restart} \<and> target = ActionButton a \<and>
           \<not> can_press busyKey canManage has_onAction c a))"
proof (cases target)
  case (ActionButton a)
  then show ?thesis
    by (cases "a \<in> {Start, Stop, Restart}")
      (auto simp: click_action click_no_action can_press_def split: if_splits)
next
  case PortsLink
  then show ?thesis by (auto simp: row_click_def row_handler_def split: option.splits)
qed (simp_all add: row_click_def row_handler_def)

end
