(* ===== verification/WebRowMenu.thy ===== *)
theory WebRowMenu
  imports WebFrame
begin

text \<open>
  The two menus of a container row (\<open>components/ContainerTable.tsx\<close>): the \<open>Dropdown\<close> behind the button at
  the end of the row and the \<open>ContextMenu\<close> of a right click. Both show the entries of \<open>RowMenuItems\<close>; they
  differ in what closes them. The locale \<open>popup_menu\<close> is what they have in common.
\<close>

subsection \<open>Choosing an entry\<close>

text \<open>The calls an entry makes; \<open>close\<close> is the last of them. The callbacks of the table are optional.\<close>

datatype menu_call = CallInspect | CallViewLogs | CallAction ContainerAction | WriteClipboard string | CloseRowMenu

record row_callbacks =
  has_onInspect :: bool
  has_onViewLogs :: bool
  has_onAction :: bool

fun menu_select :: "row_callbacks \<Rightarrow> menu_effect \<Rightarrow> menu_call list" where
  "menu_select cb DoInspect = (if has_onInspect cb then [CallInspect] else []) @ [CloseRowMenu]"
| "menu_select cb DoViewLogs = (if has_onViewLogs cb then [CallViewLogs] else []) @ [CloseRowMenu]"
| "menu_select cb (DoAction a) = (if has_onAction cb then [CallAction a] else []) @ [CloseRowMenu]"
| "menu_select cb (DoCopy s) = [WriteClipboard s, CloseRowMenu]"

definition DropdownItem :: "bool \<Rightarrow> 'e list \<Rightarrow> ('e list \<times> bool) list" where
  "DropdownItem disabled onSelect = (if disabled then [] else [(onSelect, False)])"

text \<open>A click on the entry at a position of the menu: around it is the menu, which stops the click.\<close>

definition entry_click :: "row_callbacks \<Rightarrow> menu_entry list \<Rightarrow> nat \<Rightarrow> menu_call list" where
  "entry_click cb entries i =
     (if i < length entries
      then (case entries ! i of
              MenuItem label disabled e \<Rightarrow> bubble (DropdownItem disabled (menu_select cb e) @ [([], True)])
            | MenuSeparator \<Rightarrow> [] | MenuNote s \<Rightarrow> [])
      else [])"

subsection \<open>Opening and closing\<close>

datatype popup_event = PressInside | PressOutside | KeyDown string | WindowResized

fun dropdown_react :: "popup_event \<Rightarrow> bool \<Rightarrow> bool" where
  "dropdown_react PressInside s = dropdown_step DropdownInside s"
| "dropdown_react PressOutside s = dropdown_step DropdownOutside s"
| "dropdown_react (KeyDown k) s = dropdown_step (DropdownKey k) s"
| "dropdown_react WindowResized s = s"

text \<open>The context menu is placed where the row was clicked; every press of the pointer dismisses it, inside or outside.\<close>

record context_menu =
  cx_container :: ContainerRow
  cx_x :: int
  cx_y :: int

fun context_react :: "popup_event \<Rightarrow> context_menu option \<Rightarrow> context_menu option" where
  "context_react (KeyDown k) m = (if k = ''Escape'' then None else m)"
| "context_react PressInside m = None"
| "context_react PressOutside m = None"
| "context_react WindowResized m = None"

locale popup_menu =
  fixes react :: "popup_event \<Rightarrow> 's \<Rightarrow> 's" and shown :: "'s \<Rightarrow> bool"
  assumes outside_closes: "\<not> shown (react PressOutside s)"
    and escape_closes: "\<not> shown (react (KeyDown ''Escape'') s)"
    and never_opens: "shown (react e s) \<Longrightarrow> shown s"
begin

lemma stays_closed: "\<not> shown s \<Longrightarrow> \<not> shown (fold react es s)"
  by (induction es arbitrary: s) (auto dest: never_opens)

lemma dismissed:
  assumes "PressOutside \<in> set es \<or> KeyDown ''Escape'' \<in> set es"
  shows "\<not> shown (fold react es s)"
  using assms
proof (induction es arbitrary: s)
  case (Cons e es)
  then show ?case
    using stays_closed [OF outside_closes] stays_closed [OF escape_closes] by auto
qed simp

end

interpretation row_dropdown: popup_menu dropdown_react "\<lambda>s. s"
proof
  fix e s
  assume "dropdown_react e s"
  then show "s" by (cases e) (simp_all split: if_splits)
qed simp_all

interpretation row_context: popup_menu context_react "\<lambda>m. m \<noteq> None"
proof
  fix e m
  assume "context_react e m \<noteq> None"
  then show "m \<noteq> None" by (cases e) (simp_all split: if_splits)
qed simp_all

subsection \<open>Using a menu\<close>

text \<open>
  What a user does with an open menu. A click by pointer is a press, which the listeners hear and which
  may remove the menu from the page, and then the click on what is still there; an entry that has the focus can
  also be chosen with a key, which makes no press.
\<close>

datatype menu_gesture = PressEntry nat | KeyEntry nat | Dismiss popup_event

definition dropdown_entries :: "bool \<Rightarrow> row_callbacks \<Rightarrow> ContainerRow \<Rightarrow> bool \<Rightarrow> menu_entry list" where
  "dropdown_entries canManage cb c s = (if s then RowMenuItems canManage (has_onAction cb) c else [])"

definition context_entries :: "bool \<Rightarrow> row_callbacks \<Rightarrow> context_menu option \<Rightarrow> menu_entry list" where
  "context_entries canManage cb m =
     (case m of None \<Rightarrow> [] | Some m \<Rightarrow> RowMenuItems canManage (has_onAction cb) (cx_container m))"

definition pick_entry :: "row_callbacks \<Rightarrow> ('s \<Rightarrow> menu_entry list) \<Rightarrow> 's \<Rightarrow> nat \<Rightarrow> 's \<Rightarrow> menu_call list \<times> 's" where
  "pick_entry cb entries shut i s =
     (let calls = entry_click cb (entries s) i in (calls, if CloseRowMenu \<in> set calls then shut else s))"

fun use_menu ::
  "row_callbacks \<Rightarrow> (popup_event \<Rightarrow> 's \<Rightarrow> 's) \<Rightarrow> ('s \<Rightarrow> menu_entry list) \<Rightarrow> 's \<Rightarrow> menu_gesture \<Rightarrow> 's \<Rightarrow> menu_call list \<times> 's"
where
  "use_menu cb react entries shut (PressEntry i) s = pick_entry cb entries shut i (react PressInside s)"
| "use_menu cb react entries shut (KeyEntry i) s = pick_entry cb entries shut i (react (KeyDown ''Enter'') s)"
| "use_menu cb react entries shut (Dismiss e) s = ([], react e s)"

definition use_dropdown :: "bool \<Rightarrow> row_callbacks \<Rightarrow> ContainerRow \<Rightarrow> menu_gesture \<Rightarrow> bool \<Rightarrow> menu_call list \<times> bool" where
  "use_dropdown canManage cb c = use_menu cb dropdown_react (dropdown_entries canManage cb c) False"

text \<open>On the table: opening the context menu of a row, or using the one that is open.\<close>

datatype table_gesture = RightClick ContainerRow int int | MenuKey ContainerRow int int | OnMenu menu_gesture

definition onContextMenu :: "ContainerRow \<Rightarrow> int \<Rightarrow> int \<Rightarrow> context_menu option" where
  "onContextMenu c x y = Some \<lparr>cx_container = c, cx_x = x, cx_y = y\<rparr>"

fun context_step ::
  "bool \<Rightarrow> row_callbacks \<Rightarrow> table_gesture \<Rightarrow> context_menu option \<Rightarrow> menu_call list \<times> context_menu option"
where
  "context_step canManage cb (RightClick c x y) m = ([], onContextMenu c x y)"
| "context_step canManage cb (MenuKey c x y) m = ([], onContextMenu c x y)"
| "context_step canManage cb (OnMenu g) m = use_menu cb context_react (context_entries canManage cb) None g m"

fun context_run ::
  "bool \<Rightarrow> row_callbacks \<Rightarrow> table_gesture list \<Rightarrow> context_menu option \<Rightarrow> menu_call list \<times> context_menu option"
where
  "context_run canManage cb [] m = ([], m)"
| "context_run canManage cb (g # gs) m =
     (let (calls, m1) = context_step canManage cb g m; (rest, m2) = context_run canManage cb gs m1
      in (calls @ rest, m2))"

subsection \<open>What the menus do\<close>

lemma entry_click_item:
  assumes "i < length entries" "entries ! i = MenuItem label disabled e"
  shows "entry_click cb entries i = (if disabled then [] else menu_select cb e)"
  using assms by (simp add: entry_click_def DropdownItem_def)

lemma entry_click_none: "entry_click cb [] i = []"
  by (simp add: entry_click_def)

lemma menu_select_closes: "CloseRowMenu \<in> set (menu_select cb e)"
  by (cases e) simp_all

text \<open>
  An enabled entry of the row's menu does what it says and closes the menu, with the pointer and with a
  key. In the context menu a key does the same, and the pointer does nothing but close the menu.
\<close>

theorem menu_entries_by_pointer_and_key:
  assumes "i < length (RowMenuItems canManage (has_onAction cb) c)"
    and "RowMenuItems canManage (has_onAction cb) c ! i = MenuItem label False e"
  shows "use_dropdown canManage cb c (PressEntry i) True = (menu_select cb e, False)"
    and "use_dropdown canManage cb c (KeyEntry i) True = (menu_select cb e, False)"
    and "context_step canManage cb (OnMenu (KeyEntry i)) (onContextMenu c x y) = (menu_select cb e, None)"
    and "context_step canManage cb (OnMenu (PressEntry i)) (onContextMenu c x y) = ([], None)"
  using entry_click_item [OF assms, of cb]
  by (simp_all add: use_dropdown_def pick_entry_def dropdown_entries_def context_entries_def onContextMenu_def
      menu_select_closes entry_click_none)

fun with_pointer :: "table_gesture \<Rightarrow> bool" where
  "with_pointer (RightClick c x y) = True"
| "with_pointer (MenuKey c x y) = True"
| "with_pointer (OnMenu (KeyEntry i)) = False"
| "with_pointer (OnMenu g) = True"

lemma context_pointer_step: "with_pointer g \<Longrightarrow> fst (context_step canManage cb g m) = []"
  by (cases g rule: with_pointer.cases) (simp_all add: pick_entry_def context_entries_def entry_click_none)

text \<open>
  However often it is opened and clicked, the context menu makes no call as long as its entries are
  clicked and not chosen with a key.
\<close>

theorem context_menu_dead_to_pointer:
  assumes "\<forall>g\<in>set gs. with_pointer g"
  shows "fst (context_run canManage cb gs m) = []"
  using assms
proof (induction gs arbitrary: m)
  case (Cons g gs)
  then show ?case
    using context_pointer_step [of g canManage cb m]
    by (auto simp: split_beta Let_def)
qed simp

theorem context_menu_dead_to_pointer_witness:
  "fst (context_run True \<lparr>has_onInspect = True, has_onViewLogs = True, has_onAction = True\<rparr>
     [RightClick demo_row_c 10 10, OnMenu (PressEntry 0)] None) = []"
  using context_menu_dead_to_pointer
    [of "[RightClick demo_row_c 10 10, OnMenu (PressEntry 0)]" True
        "\<lparr>has_onInspect = True, has_onViewLogs = True, has_onAction = True\<rparr>" None]
  by simp

lemma viewer_entry:
  "CallAction a \<notin> set (entry_click cb (RowMenuItems False (has_onAction cb) c) i)"
proof (cases "i < length (RowMenuItems False (has_onAction cb) c)")
  case True
  then have i: "RowMenuItems False (has_onAction cb) c ! i \<in> set (RowMenuItems False (has_onAction cb) c)" by simp
  show ?thesis
  proof (cases "RowMenuItems False (has_onAction cb) c ! i")
    case (MenuItem label disabled e)
    have "disabled" if "e = DoAction b" for b
      using viewers_cannot_act [of _ "has_onAction cb" c] i MenuItem that by metis
    then show ?thesis using entry_click_item [OF True MenuItem, of cb] by (cases e) auto
  qed (simp_all add: entry_click_def True)
qed (simp add: entry_click_def)

lemma viewer_context_step: "CallAction a \<notin> set (fst (context_step False cb g m))"
  by (cases g rule: with_pointer.cases)
    (auto simp: pick_entry_def Let_def context_entries_def entry_click_none viewer_entry split: option.splits)

text \<open>
  C31. Whatever somebody without the role of an administrator does with the rows of the table and their
  menus, by pointer or by key, in whatever order, no command is issued.
\<close>

theorem viewers_issue_no_command:
  "CallAction a \<notin> set (fst (context_run False cb gs m)) \<and>
   CallAction a \<notin> set (fst (use_dropdown False cb c g s)) \<and>
   Act a \<notin> set (row_click busyKey False onAction onInspect c target)"
proof (intro conjI)
  show "CallAction a \<notin> set (fst (context_run False cb gs m))"
    by (induction gs arbitrary: m) (simp_all add: split_beta Let_def viewer_context_step)
  show "CallAction a \<notin> set (fst (use_dropdown False cb c g s))"
    by (cases g) (auto simp: use_dropdown_def pick_entry_def Let_def dropdown_entries_def entry_click_none viewer_entry)
  show "Act a \<notin> set (row_click busyKey False onAction onInspect c target)"
    by (cases target) (auto simp: row_click_def row_handler_def action_path_def row_actions_def IconAction_def Let_def
      split: option.splits)
qed

end
