(* ===== verification/Spec2Isabelle.thy ===== *)
theory Spec2Isabelle
  imports GatewayTheorems ContainersApi AuthApi ServerConfig WebSession WebLogs WebLayout WebRoutes WebAuthForms WebRowMenu
begin

text \<open>
  DockSight shows and controls the containers of many hosts. An agent on every host keeps a WebSocket to
  the server (\<open>src/apps/server\<close>), which keeps the last report of each host in memory, a row per host in a
  database, and offers an HTTP API; the browser application (\<open>src/apps/web\<close>) polls that API, streams
  container logs from it, and sends lifecycle commands through it. This library models the TypeScript of
  the server and of the browser application.

  Base. \<open>Prelude\<close> holds the part of the language and its library the code uses: strings, JSON values,
  numbers, insertion-ordered maps, numerals. A number is an exact decimal, \<open>Infinity\<close> or \<open>NaN\<close>; rounding of
  binary floating point is not modelled. Strings are 8-bit characters; the few typographic characters of
  the interface outside that range are written in ASCII. \<open>Protocol\<close> has the envelope of the messages of
  \<open>packages/protocol/src\<close>, \<open>ProtocolTypes\<close> their declared types as shapes of JSON values, for both
  directions, with the copies the browser keeps in \<open>types/api.ts\<close>.

  The agents gateway, \<open>agents.gateway.ts\<close> and its services.
  \<open>ListedParser\<close> (\<open>container-listed.parser.ts\<close>), \<open>Inventory\<close> (\<open>container-inventory.service.ts\<close>) and
  \<open>HostMetrics\<close> (\<open>host-metrics.service.ts\<close>), both interpretations of the locale of \<open>HostDirectory\<close>;
  \<open>AgentStore\<close> (\<open>agents.service.ts\<close>), over the database client as a parameter whose documented behaviour is the
  locale \<open>prisma_agents\<close>, interpreted on a table in memory. \<open>Gateway\<close> has the gateway's five maps, timers and
  requests, \<open>GatewayMessages\<close> the handlers of frames and the step relation. \<open>GatewayInv\<close> and \<open>GatewayPreserve\<close>
  hold the invariant that promises, pending entries and timers come and go together; \<open>GatewayPromises\<close> the
  abstract automaton of a promise (absent, waiting, settled) which the gateway refines; \<open>GatewayRequests\<close>,
  \<open>GatewayTheorems\<close> and \<open>GatewayAgents\<close> what follows: exactly one settlement per request, a timeout for every
  request that waits, the reply to a command, registration, disconnection, log streams, malformed frames.
  \<open>GatewayExample\<close> is the run the witnesses use. Waiting ends: every waiting promise has a running timer.
  \<open>GatewayTyping\<close> shows that the frames sent have the protocol's types (its locale \<open>effect_policy\<close> says what
  it takes for a property to hold of every effect); \<open>TypedAgents\<close> restricts the step relation to agents that
  keep to the protocol and shows that then everything the server passes on is typed as declared.

  The HTTP API. \<open>HttpErrors\<close> has the exceptions and their statuses, \<open>HostsApi\<close> the hosts service and
  controller, \<open>ContainersApi\<close> lifecycle commands, inspection and the log stream with its teardown, \<open>UserStore\<close>
  users, passwords and first-run setup, \<open>AuthApi\<close> login and the two guards every request passes, with the
  metadata of every route, \<open>ServerConfig\<close> the configuration that is checked or assembled at start.
  \<open>ServerModules\<close> has the modules as declared (constructors, providers, imports, exports), the start of the
  program, and the router with the routes of every controller; dependency injection is modelled as the
  framework documents it.
  Parameters: the user table client and bcrypt (locales \<open>prisma_users\<close>, \<open>password_hasher\<close>, extended by
  \<open>account_store\<close>), signing tokens (\<open>jwt_signer\<close>); each is interpreted on a concrete function.

  The browser application. \<open>WebSession\<close>: token storage, the request client, the auth store whose operations
  are split at every \<open>await\<close>, the gates and forms. \<open>WebLogs\<close>: the log stream hook and its viewer; the loop that
  cuts frames is shown to end with nothing complete left. \<open>WebFormat\<close>: formatting, validation of names, the
  history of metrics. \<open>WebTables\<close>: the inventory over all hosts and the container table with its pages and row
  actions. \<open>WebCommands\<close>: notifications, the confirmation dialog, and the command hook as a step relation in
  which the dialog, the continuations and the replies interleave freely. A view is a function from the state
  to the texts it shows and the controls it enables; style classes and icons are left out.

  The pages. \<open>WebCharts\<close>: scales and paths of the charts, the pointer, sparklines and meters, on rational
  coordinates. \<open>WebSamples\<close>: the sample data of \<open>lib/mock.ts\<close>, with its hash and generator on 32-bit words, and
  the charts of a container. \<open>WebPages\<close>: host cards, the rename dialog as a state machine, and the pages of
  hosts, dashboard and containers. \<open>WebInventory\<close>: the metrics page and the tables of images, networks and
  volumes. \<open>WebDetails\<close>: the drawers of a container. \<open>WebHostDetails\<close>: the page of a host with its tabs.
  \<open>WebLayout\<close>: the error boundary, the search, menus, navigation, settings, and the effects that change the
  document; the locale \<open>restoring_effect\<close> says what such an effect owes, and is interpreted on titles and on
  drawers. \<open>WebRoutes\<close>: the addresses the browser calls, decoded and matched by the server's router.
  \<open>WebAuthForms\<close>: the login and the setup form, two interpretations of the locale \<open>submit_form\<close>. \<open>WebFrame\<close>: the
  side bar, the menus of the top bar, Escape with several layers open, and where a click on a host card or
  a container row ends. \<open>WebRowMenu\<close>: the two menus of a row, by pointer and by key. A page takes
  the state of its queries as arguments; a view is an option where rendering throws.

  End to end. Several properties join the parts: what the log viewer shows is what the server sent; the
  token of a login passes the guards; the body of a command and the name of a rename pass the server's
  validation; what the dashboard reads is the agent's last report; the tiles, cards, chips and tabs count
  the same containers; a host found by the search is the host of the page that opens.

  Asynchronous code is a list of what is in flight, and any entry may be delivered next. Time is a parameter
  of each step. Loops are total functions, by structural recursion or a measure; no fuel is used.

  Not modelled: log lines of the server; the pages generated by Swagger and the annotations that only they
  read; the connections to the database and to Redis beyond their failing at start; the query library of the
  browser beyond the cache entries written by hand (when it fetches, retries and renders again is left
  open: flags and data of a query are arguments); style classes, icons and the markup that only carries
  them (skeletons, badges, cards, inputs), except the one class that makes a disabled button transparent to
  the pointer; the error codes and re-exports of the protocol package, which nothing uses or which are the
  modelled types under another path; the agent and the command line tool, which are written in Go; the
  build script \<open>api.js\<close>, which is obfuscated.
\<close>

end
